(* ===== verification/Prelude.thy ===== *)
theory Prelude
  imports Main "HOL-Library.Word" "HOL-Library.Monad_Syntax" "HOL-Library.Sublist"
begin

text \<open>
  Shared vocabulary of the development: the machine types of the Go code as words and
  word lists, slices with Go's bounds, nullable slices, and generic lemmas on lists,
  options and bytes that the component theories use.

  A Go panic (index out of range, an explicit \<^verbatim>\<open>panic\<close>) is the value \<open>None\<close> of
  an option-valued function, or a constructor of the component's error datatype where the
  function also returns errors. A \<^verbatim>\<open>[]byte\<close> is a list of bytes; where the code tells a
  nil slice from an empty one the model uses \<open>bytes option\<close> (a nullable slice).
\<close>

unbundle bit_operations_syntax

type_synonym byte = "8 word"
type_synonym bytes = "8 word list"
type_synonym u16 = "16 word"
type_synonym u32 = "32 word"
type_synonym u64 = "64 word"
type_synonym u256 = "256 word"

text \<open>
  \<^verbatim>\<open>common.Hash\<close> is \<^verbatim>\<open>[32]byte\<close> and \<^verbatim>\<open>common.Address\<close> is \<^verbatim>\<open>[20]byte\<close>:
  byte lists whose length the conversion functions establish.
\<close>

type_synonym hash = bytes
type_synonym address = bytes

named_theorems go_defs \<open>definitions that component proofs unfold together\<close>
named_theorems go_simps \<open>rewrite rules shared by the component proofs\<close>

section \<open>Slices\<close>

text \<open>\<^verbatim>\<open>s[i:j]\<close> panics unless \<open>i \<le> j \<le> len s\<close>.\<close>

definition go_slice :: "'a list \<Rightarrow> nat \<Rightarrow> nat \<Rightarrow> 'a list option" where
  "go_slice s i j = (if i \<le> j \<and> j \<le> length s then Some (take (j - i) (drop i s)) else None)"

text \<open>\<^verbatim>\<open>s[i]\<close> panics unless \<open>i < len s\<close>.\<close>

definition go_index :: "'a list \<Rightarrow> nat \<Rightarrow> 'a option" where
  "go_index s i = (if i < length s then Some (s ! i) else None)"

text \<open>\<^verbatim>\<open>copy(dst, src)\<close> overwrites a prefix of the destination.\<close>

definition go_copy :: "'a list \<Rightarrow> 'a list \<Rightarrow> 'a list" where
  "go_copy dst src = take (length dst) src @ drop (length src) dst"

text \<open>\<^verbatim>\<open>len(s)\<close> and the comparisons of the code do not tell nil from empty.\<close>

definition slice_of :: "bytes option \<Rightarrow> bytes" where
  "slice_of v = (case v of None \<Rightarrow> [] | Some b \<Rightarrow> b)"

lemma slice_of_simps [simp]: "slice_of None = []" "slice_of (Some b) = b"
  by (simp_all add: slice_of_def)

lemma go_slice_Some [simp]:
  "i \<le> j \<Longrightarrow> j \<le> length s \<Longrightarrow> go_slice s i j = Some (take (j - i) (drop i s))"
  by (simp add: go_slice_def)

lemma go_index_Some [simp]: "i < length s \<Longrightarrow> go_index s i = Some (s ! i)"
  by (simp add: go_index_def)

lemma length_go_copy [simp]: "length (go_copy dst src) = length dst"
  by (simp add: go_copy_def)

lemma go_copy_same_length: "length dst = length src \<Longrightarrow> go_copy dst src = src"
  by (simp add: go_copy_def)

section \<open>Decimal strings\<close>

text \<open>\<^verbatim>\<open>strconv.FormatUint(n, 10)\<close> and the verb \<^verbatim>\<open>%d\<close>.\<close>

fun itoa :: "nat \<Rightarrow> string" where
  "itoa n = (if n < 10 then [char_of (48 + n)] else itoa (n div 10) @ [char_of (48 + n mod 10)])"

declare itoa.simps [simp del]

section \<open>Lists\<close>

lemma butlast_snoc_last: "xs \<noteq> [] \<Longrightarrow> last xs = x \<Longrightarrow> butlast xs @ [x] = xs"
  by (metis append_butlast_last_id)

lemma even_length_induct [consumes 1, case_names Nil Cons2]:
  assumes "even (length xs)" and "P []"
    and "\<And>a b ys. even (length ys) \<Longrightarrow> P ys \<Longrightarrow> P (a # b # ys)"
  shows "P xs"
  using assms(1)
proof (induction xs rule: length_induct)
  case (1 xs)
  show ?case
  proof (cases xs)
    case Nil
    with assms(2) show ?thesis by simp
  next
    case (Cons a as)
    with "1.prems" obtain b bs where "as = b # bs" by (cases as) auto
    with Cons "1.prems" "1.IH" assms(3)[of bs a b] show ?thesis by simp
  qed
qed

section \<open>Nibbles of a byte\<close>

lemma byte_div_16: "(b::byte) div 16 = drop_bit 4 b"
  by (simp add: drop_bit_eq_div)

lemma byte_mod_16: "(b::byte) mod 16 = take_bit 4 b"
  by (simp add: take_bit_eq_mod)

lemma byte_nibbles_join: "push_bit 4 ((b::byte) div 16) OR (b mod 16) = b"
  unfolding byte_div_16 byte_mod_16
  by (rule bit_eqI) (auto simp: bit_simps)

lemma nibble_high: "(a::byte) < 16 \<Longrightarrow> b < 16 \<Longrightarrow> (push_bit 4 a OR b) div 16 = a"
proof -
  assume "a < 16" "b < 16"
  then have "take_bit 4 a = a" "take_bit 4 b = b"
    by (simp_all add: take_bit_eq_mod word_mod_less_divisor mod_word_less)
  then have "a = take_bit 4 a" "drop_bit 4 b = 0"
    by (simp, metis drop_bit_take_bit take_bit_0 diff_self_eq_0)
  then show "(push_bit 4 a OR b) div 16 = a"
    unfolding byte_div_16
    by (intro bit_eqI) (auto simp: bit_simps drop_bit_or bit_eq_iff)
qed

lemma nibble_low: "(a::byte) < 16 \<Longrightarrow> b < 16 \<Longrightarrow> (push_bit 4 a OR b) mod 16 = b"
proof -
  assume "a < 16" "b < 16"
  then have "take_bit 4 b = b"
    by (simp add: take_bit_eq_mod mod_word_less)
  then show ?thesis
    unfolding byte_mod_16 by (simp add: take_bit_or take_bit_push_bit)
qed

lemma byte_div_16_less: "(b::byte) div 16 < 16"
proof -
  have "unat (b div 16) = unat b div 16" by (simp add: unat_div)
  moreover have "unat b < 256" using unsigned_less[of b] by simp
  ultimately have "unat (b div 16) < 16" by simp
  then show ?thesis by (simp add: word_less_nat_alt)
qed

lemma byte_mod_16_less: "(b::byte) mod 16 < 16"
  by (simp add: word_mod_less_divisor)


section \<open>Words\<close>

lemma unat_2p: "n < LENGTH('a) \<Longrightarrow> unat ((2::'a::len word) ^ n) = 2 ^ n"
proof -
  assume "n < LENGTH('a)"
  then have "(0::'a word) < 2 ^ n" by (simp add: word_gt_0)
  then have "uint ((2::'a word) ^ n) = 2 ^ n" by (rule uint_2p)
  then show ?thesis by (metis nat_power_eq nat_numeral unat_eq_nat_uint zero_le_numeral)
qed

lemma word_less_iff_drop_bit:
  assumes "n < LENGTH('a)"
  shows "(i::'a::len word) < 2 ^ n \<longleftrightarrow> drop_bit n i = 0"
proof -
  have "drop_bit n i = 0 \<longleftrightarrow> unat (drop_bit n i) = 0" by (rule unat_eq_zero [symmetric])
  also have "\<dots> \<longleftrightarrow> drop_bit n (unat i) = 0" by (simp only: unat_drop_bit_eq)
  also have "\<dots> \<longleftrightarrow> unat i div 2 ^ n = 0" by (simp only: drop_bit_eq_div)
  also have "\<dots> \<longleftrightarrow> unat i < 2 ^ n" by (simp add: div_eq_0_iff)
  finally show ?thesis using unat_2p[OF assms] by (simp add: word_less_nat_alt)
qed

lemma unat_of_nat_small: "n < 2 ^ LENGTH('a) \<Longrightarrow> unat (of_nat n :: 'a::len word) = n"
  by (simp add: unat_of_nat take_bit_nat_eq_self)

lemma unat_drop_bit_8: "unat (drop_bit 8 (i::u64)) = unat i div 256"
proof -
  have "unat (drop_bit 8 i) = drop_bit 8 (unat i)" by (rule unat_drop_bit_eq)
  then show ?thesis by (simp only: drop_bit_eq_div) simp
qed

lemma word_byte_join: "push_bit 8 (drop_bit 8 i) OR ucast (ucast i :: byte) = (i::u64)"
  by (rule bit_eqI) (auto simp: bit_simps)

end
