(* ===== verification/Go_Big.thy ===== *)
theory Go_Big
  imports Prelude
begin

text \<open>
  The parts of Go's \<^verbatim>\<open>math/big\<close> the code uses: \<^verbatim>\<open>Int.Bytes\<close> (the absolute value,
  big endian, no leading zero) and \<^verbatim>\<open>Int.SetBytes\<close>; and the fixed-width big-endian bytes
  of a \<^verbatim>\<open>uint64\<close>.
\<close>

fun nat_be :: "nat \<Rightarrow> bytes" where
  "nat_be n = (if n = 0 then [] else nat_be (n div 256) @ [of_nat (n mod 256)])"

declare nat_be.simps [simp del]

definition be_nat :: "bytes \<Rightarrow> nat" where
  "be_nat bs = foldl (\<lambda>s b. 256 * s + unat b) 0 bs"

text \<open>\<^verbatim>\<open>x.Bytes()\<close> and \<^verbatim>\<open>new(big.Int).SetBytes(b)\<close>.\<close>

definition big_Bytes :: "int \<Rightarrow> bytes" where
  "big_Bytes x = nat_be (nat \<bar>x\<bar>)"

definition big_SetBytes :: "bytes \<Rightarrow> int" where
  "big_SetBytes b = int (be_nat b)"

lemma nat_be_0 [simp]: "nat_be 0 = []"
  by (subst nat_be.simps) simp

lemma nat_be_pos: "n > 0 \<Longrightarrow> nat_be n = nat_be (n div 256) @ [of_nat (n mod 256)]"
  by (subst nat_be.simps) simp

lemma be_nat_Nil [simp]: "be_nat [] = 0"
  by (simp add: be_nat_def)

lemma be_nat_snoc [simp]: "be_nat (bs @ [b]) = 256 * be_nat bs + unat b"
  by (simp add: be_nat_def)

lemma be_nat_nat_be [simp]: "be_nat (nat_be n) = n"
proof (induction n rule: nat_be.induct)
  case (1 n)
  show ?case
  proof (cases "n = 0")
    case False
    moreover have "unat (of_nat (n mod 256) :: byte) = n mod 256"
      by (rule unat_of_nat_small) simp
    ultimately show ?thesis using 1 by (simp add: nat_be_pos)
  qed simp
qed

lemma nat_be_inject [simp]: "nat_be a = nat_be b \<longleftrightarrow> a = b"
  by (metis be_nat_nat_be)

lemma nat_be_eq_Nil [simp]: "nat_be n = [] \<longleftrightarrow> n = 0"
  using nat_be_inject[of n 0] by (simp del: nat_be_inject)

lemma be_nat_bound: "be_nat bs < 256 ^ length bs"
proof (induction bs rule: rev_induct)
  case (snoc b bs)
  have "unat b < 256" using unsigned_less[of b] by simp
  with snoc show ?case by simp
qed simp

lemma length_nat_be_le: "n < 256 ^ k \<Longrightarrow> length (nat_be n) \<le> k"
proof (induction k arbitrary: n)
  case (Suc k)
  then have "n div 256 < 256 ^ k" by (simp add: div_less_iff_less_mult mult.commute)
  with Suc.IH have "length (nat_be (n div 256)) \<le> k" .
  then show ?case by (cases "n = 0") (simp_all add: nat_be_pos)
qed simp

lemma nat_be_hd: "n > 0 \<Longrightarrow> hd (nat_be n) \<noteq> 0"
proof (induction n rule: nat_be.induct)
  case (1 n)
  show ?case
  proof (cases "n div 256 = 0")
    case True
    with 1 have "nat_be n = [of_nat n]" by (simp add: nat_be_pos mod_less)
    moreover have "unat (of_nat n :: byte) = n" using True by (intro unat_of_nat_small) simp
    ultimately show ?thesis using 1 by (metis list.sel(1) unat_0 less_numeral_extra(3))
  next
    case False
    with 1 show ?thesis by (simp add: nat_be_pos[of n] hd_append)
  qed
qed

text \<open>Leading-zero-free byte strings are exactly the images of \<^verbatim>\<open>Bytes\<close>.\<close>

lemma be_nat_zeros [simp]: "be_nat (replicate n 0 @ b) = be_nat b"
  by (induction b rule: rev_induct) (simp_all flip: append_assoc, induction n, simp_all add: be_nat_def)

lemma be_nat_all_zeros [simp]: "be_nat (replicate n 0) = 0"
  using be_nat_zeros[of n "[]"] by simp

lemma be_nat_inject: "length a = length b \<Longrightarrow> be_nat a = be_nat b \<Longrightarrow> a = b"
proof (induction a arbitrary: b rule: rev_induct)
  case (snoc x xs)
  obtain ys y where b: "b = ys @ [y]" using snoc.prems(1) by (cases b rule: rev_cases) auto
  have e: "256 * be_nat xs + unat x = 256 * be_nat ys + unat y" using snoc.prems(2) b by simp
  have u: "unat x < 256" "unat y < 256" using unsigned_less[of x] unsigned_less[of y] by simp_all
  have "(256 * be_nat xs + unat x) div 256 = be_nat xs" "(256 * be_nat ys + unat y) div 256 = be_nat ys"
    using u by simp_all
  with e have "be_nat xs = be_nat ys" by simp
  with e have "x = y" by (simp add: word_unat_eq_iff)
  with \<open>be_nat xs = be_nat ys\<close> show ?case using snoc b by simp
qed simp

lemma nat_be_be_nat: "(bs = [] \<or> hd bs \<noteq> 0) \<Longrightarrow> nat_be (be_nat bs) = bs"
proof (induction bs rule: rev_induct)
  case (snoc b bs)
  have b: "unat b < 256" using unsigned_less[of b] by simp
  have "be_nat (bs @ [b]) > 0"
  proof (cases "bs = []")
    case True
    with snoc.prems show ?thesis by (simp add: be_nat_def word_gt_0 flip: unat_gt_0)
  next
    case False
    with snoc.prems have "nat_be (be_nat bs) = bs" by (intro snoc.IH) auto
    with False have "be_nat bs \<noteq> 0" by (metis nat_be_0)
    then show ?thesis by simp
  qed
  moreover have "nat_be (be_nat bs) = bs"
    using snoc by (cases "bs = []") auto
  ultimately show ?case using b by (simp add: nat_be_pos)
qed simp

lemma big_SetBytes_Bytes [simp]: "0 \<le> x \<Longrightarrow> big_SetBytes (big_Bytes x) = x"
  by (simp add: big_SetBytes_def big_Bytes_def)

lemma big_SetBytes_nonneg [simp]: "0 \<le> big_SetBytes b"
  by (simp add: big_SetBytes_def)

section \<open>Fixed-width big endian\<close>

primrec be_bytes :: "nat \<Rightarrow> u64 \<Rightarrow> bytes" where
  "be_bytes 0 i = []"
| "be_bytes (Suc n) i = be_bytes n (drop_bit 8 i) @ [ucast i]"

definition be_word :: "bytes \<Rightarrow> u64" where
  "be_word = foldl (\<lambda>s b. push_bit 8 s OR ucast b) 0"

lemma length_be_bytes [simp]: "length (be_bytes n i) = n"
  by (induction n arbitrary: i) auto

lemma be_word_snoc: "be_word (xs @ [b]) = push_bit 8 (be_word xs) OR ucast b"
  by (simp add: be_word_def)

lemma be_word_be_bytes: "drop_bit (8 * n) i = 0 \<Longrightarrow> be_word (be_bytes n i) = i"
proof (induction n arbitrary: i)
  case (Suc n)
  from Suc.prems have "drop_bit (8 * n) (drop_bit 8 i) = 0"
    by (simp add: drop_bit_drop_bit add.commute)
  with Suc.IH show ?case by (simp add: be_word_snoc word_byte_join)
qed (simp add: be_word_def)

lemma nat_be_be_bytes:
  "drop_bit (8 * n) i = 0 \<Longrightarrow> (n > 0 \<longrightarrow> drop_bit (8 * (n - 1)) i \<noteq> 0) \<Longrightarrow> nat_be (unat i) = be_bytes n i"
proof (induction n arbitrary: i)
  case (Suc n)
  have div: "unat (drop_bit 8 i) = unat i div 256"
    by (rule unat_drop_bit_8)
  have low: "of_nat (unat i mod 256) = (ucast i :: byte)"
    by (rule word_unat_eq_iff [THEN iffD2]) (simp add: unat_of_nat unsigned_ucast_eq take_bit_eq_mod)
  from Suc.prems have nz: "unat i > 0" by (auto simp: unat_gt_0 intro!: gr0I)
  from Suc.prems have "nat_be (unat (drop_bit 8 i)) = be_bytes n (drop_bit 8 i)"
    by (intro Suc.IH) (auto simp: drop_bit_drop_bit add.commute gr0_conv_Suc)
  with div low nz show ?case by (simp add: nat_be_pos)
qed simp

lemma unat_be_word: "length bs \<le> 8 \<Longrightarrow> unat (be_word bs) = be_nat bs"
proof (induction bs rule: rev_induct)
  case (snoc b bs)
  then have IH: "unat (be_word bs) = be_nat bs" by simp
  have "be_nat bs < 256 ^ length bs" by (rule be_nat_bound)
  also have "(256::nat) ^ length bs \<le> 256 ^ 7" using snoc.prems by (intro power_increasing) auto
  finally have bd: "unat (be_word bs) < 256 ^ 7" using IH by simp
  have b: "unat b < 256" using unsigned_less[of b] by simp
  have "be_word (bs @ [b]) = push_bit 8 (be_word bs) + ucast b"
    unfolding be_word_snoc
    by (rule disjunctive_add [symmetric]) (auto simp: bit_simps dest: bit_imp_le_length)
  also have "unat \<dots> = 256 * unat (be_word bs) + unat b"
    using bd b
    by (simp add: push_bit_eq_mult unat_word_ariths unsigned_ucast_eq take_bit_nat_eq_self)
  finally show ?case using IH by simp
qed (simp add: be_word_def)

end
