(* ===== verification/Rlp_Encode.thy ===== *)
theory Rlp_Encode
  imports Go_Big
begin

text \<open>
  \<^verbatim>\<open>src/storage/rlp/encode.go\<close>: the RLP encoder. The reflection-driven writers of the
  code dispatch on the Go type of the value; \<open>rlp_value\<close> has one constructor per branch of
  \<^verbatim>\<open>makeWriter\<close>, and \<open>write_value\<close> is the writer that branch selects. \<open>encbuf\<close> keeps
  the string data and the list headers apart, exactly as the code does, and \<open>toBytes\<close>
  weaves them into one output buffer of the precomputed sz. The theorems show that this
  equals the textbook recursive encoding \<open>rlp_spec\<close>.
\<close>

section \<open>Integers\<close>

text \<open>\<^verbatim>\<open>putint\<close>: the bytes written at the start of the destination; their number is the
  returned sz. The callers pass buffers with room for eight bytes.\<close>

definition putint :: "u64 \<Rightarrow> bytes" where
  "putint i =
    (if i < 2 ^ 8 then [ucast i]
     else if i < 2 ^ 16 then [ucast (drop_bit 8 i), ucast i]
     else if i < 2 ^ 24 then [ucast (drop_bit 16 i), ucast (drop_bit 8 i), ucast i]
     else if i < 2 ^ 32 then
       [ucast (drop_bit 24 i), ucast (drop_bit 16 i), ucast (drop_bit 8 i), ucast i]
     else if i < 2 ^ 40 then
       [ucast (drop_bit 32 i), ucast (drop_bit 24 i), ucast (drop_bit 16 i),
        ucast (drop_bit 8 i), ucast i]
     else if i < 2 ^ 48 then
       [ucast (drop_bit 40 i), ucast (drop_bit 32 i), ucast (drop_bit 24 i),
        ucast (drop_bit 16 i), ucast (drop_bit 8 i), ucast i]
     else if i < 2 ^ 56 then
       [ucast (drop_bit 48 i), ucast (drop_bit 40 i), ucast (drop_bit 32 i),
        ucast (drop_bit 24 i), ucast (drop_bit 16 i), ucast (drop_bit 8 i), ucast i]
     else
       [ucast (drop_bit 56 i), ucast (drop_bit 48 i), ucast (drop_bit 40 i),
        ucast (drop_bit 32 i), ucast (drop_bit 24 i), ucast (drop_bit 16 i),
        ucast (drop_bit 8 i), ucast i])"

lemma drop_bit_8_decreases: "drop_bit 8 (i::u64) \<noteq> 0 \<Longrightarrow> unat (drop_bit 8 i) < unat i"
  by (metis unat_drop_bit_8 div_less_dividend div_0 not_gr0 one_less_numeral_iff semiring_norm(76) unat_eq_zero)

function intsize :: "u64 \<Rightarrow> nat" where
  "intsize i = (let i = drop_bit 8 i in if i = 0 then 1 else Suc (intsize i))"
  by pat_completeness auto
termination
  by (relation "measure unat") (auto simp: drop_bit_8_decreases)

declare intsize.simps [simp del]

definition headsize :: "u64 \<Rightarrow> nat" where
  "headsize sz = (if sz < 56 then 1 else 1 + intsize sz)"

text \<open>\<^verbatim>\<open>puthead\<close>: the header bytes for a payload of the given size.\<close>

definition puthead :: "byte \<Rightarrow> byte \<Rightarrow> u64 \<Rightarrow> bytes" where
  "puthead smalltag largetag sz =
    (if sz < 56 then [smalltag + ucast sz]
     else (let b = putint sz in (largetag + of_nat (length b)) # b))"

text \<open>\<^verbatim>\<open>listhead.encode\<close>.\<close>

definition listhead_encode :: "nat \<Rightarrow> bytes" where
  "listhead_encode sz = puthead 0xC0 0xF7 (of_nat sz)"

section \<open>The encoding buffer\<close>

text \<open>
  A \<^verbatim>\<open>*listhead\<close> is the index of the header in \<open>lheads\<close>; the pair is
  \<open>(offset, size)\<close>. The scratch buffer \<^verbatim>\<open>sizebuf\<close> holds no state between calls.
\<close>

record encbuf =
  str :: bytes
  lheads :: "(nat \<times> nat) list"
  lhsize :: nat

definition encbuf_reset :: encbuf where
  "encbuf_reset = \<lparr>str = [], lheads = [], lhsize = 0\<rparr>"

definition encbuf_write :: "encbuf \<Rightarrow> bytes \<Rightarrow> encbuf" where
  "encbuf_write w b = w\<lparr>str := str w @ b\<rparr>"

definition encodeStringHeader :: "encbuf \<Rightarrow> nat \<Rightarrow> encbuf" where
  "encodeStringHeader w sz =
    (if sz < 56 then encbuf_write w [0x80 + of_nat sz]
     else (let b = putint (of_nat sz)
           in encbuf_write w ((0xB7 + of_nat (length b)) # b)))"

definition encodeString :: "encbuf \<Rightarrow> bytes \<Rightarrow> encbuf" where
  "encodeString w b =
    (if length b = 1 \<and> b ! 0 \<le> 0x7F then encbuf_write w [b ! 0]
     else encbuf_write (encodeStringHeader w (length b)) b)"

definition encbuf_size :: "encbuf \<Rightarrow> nat" where
  "encbuf_size w = length (str w) + lhsize w"

definition encbuf_list :: "encbuf \<Rightarrow> nat \<times> encbuf" where
  "encbuf_list w = (length (lheads w), w\<lparr>lheads := lheads w @ [(length (str w), lhsize w)]\<rparr>)"

definition listEnd :: "nat \<Rightarrow> encbuf \<Rightarrow> encbuf" where
  "listEnd lh w =
    (let (offset, sz) = lheads w ! lh;
         sz = encbuf_size w - offset - sz
     in w\<lparr>lheads := (lheads w)[lh := (offset, sz)],
          lhsize := (if sz < 56 then lhsize w + 1
                     else lhsize w + (1 + intsize (of_nat sz)))\<rparr>)"

text \<open>
  \<^verbatim>\<open>toBytes\<close> fills a buffer of the precomputed size: string data up to the next header,
  the header, and at the end the remaining string data. A header that does not fit or a
  backward offset is a panic (\<open>None\<close>); \<^verbatim>\<open>copy\<close> truncates.
\<close>

definition copy_at :: "bytes \<Rightarrow> nat \<Rightarrow> bytes \<Rightarrow> bytes" where
  "copy_at out pos src = take pos out @ go_copy (drop pos out) src"

definition put_at :: "bytes \<Rightarrow> nat \<Rightarrow> bytes \<Rightarrow> bytes option" where
  "put_at out pos b =
    (if pos + length b \<le> length out then Some (copy_at out pos b) else None)"

fun toBytes_loop ::
  "bytes \<Rightarrow> (nat \<times> nat) list \<Rightarrow> nat \<Rightarrow> nat \<Rightarrow> bytes \<Rightarrow> bytes option" where
  "toBytes_loop s [] strpos pos out =
     map_option (copy_at out pos) (go_slice s strpos (length s))"
| "toBytes_loop s ((offset, sz) # heads) strpos pos out =
     Option.bind (go_slice s strpos offset) (\<lambda>piece.
       let n = min (length out - pos) (length piece);
           out = copy_at out pos piece;
           pos = pos + n;
           enc = listhead_encode sz
       in Option.bind (put_at out pos enc) (\<lambda>out.
            toBytes_loop s heads (strpos + n) (pos + length enc) out))"

definition toBytes :: "encbuf \<Rightarrow> bytes option" where
  "toBytes w = toBytes_loop (str w) (lheads w) 0 0 (replicate (encbuf_size w) 0)"

text \<open>\<^verbatim>\<open>toWriter\<close> on a writer that accepts everything (\<^verbatim>\<open>sliceBuffer\<close>): the bytes
  written, in order.\<close>

fun toWriter_loop :: "bytes \<Rightarrow> (nat \<times> nat) list \<Rightarrow> nat \<Rightarrow> bytes \<Rightarrow> bytes option" where
  "toWriter_loop s [] strpos out =
     (if strpos < length s then Some (out @ drop strpos s) else Some out)"
| "toWriter_loop s ((offset, sz) # heads) strpos out =
     (if offset > strpos
      then Option.bind (go_slice s strpos offset) (\<lambda>piece.
             toWriter_loop s heads (strpos + length piece) (out @ piece @ listhead_encode sz))
      else toWriter_loop s heads strpos (out @ listhead_encode sz))"

definition toWriter :: "encbuf \<Rightarrow> bytes \<Rightarrow> bytes option" where
  "toWriter w out = toWriter_loop (str w) (lheads w) 0 out"

section \<open>Values and writers\<close>

text \<open>
  One constructor per branch of \<^verbatim>\<open>makeWriter\<close>. \<open>VEncoder\<close> is a value whose
  \<^verbatim>\<open>EncodeRLP\<close> hands another value to \<^verbatim>\<open>rlp.Encode\<close> (\<^verbatim>\<open>fullNode.EncodeRLP\<close>
  does); \<open>VEncoderNoPtr\<close> carries whether the value is addressable. \<open>VSlice tail\<close>
  is a slice or array of non-bytes, with the \<^verbatim>\<open>tail\<close> tag; \<open>VStruct\<close> lists the
  exported fields. The three nil pointers are the three \<^verbatim>\<open>nilfunc\<close>s of
  \<^verbatim>\<open>makePtrWriter\<close>; the last one carries the zero value of the element type.
\<close>

datatype rlp_value =
    VRaw bytes
  | VEncoder rlp_value
  | VEncoderNoPtr bool rlp_value
  | VInterface "rlp_value option"
  | VBigIntPtr "int option"
  | VBigInt int
  | VUint u64
  | VBool bool
  | VString bytes
  | VBytes bytes
  | VByteArray bytes
  | VSlice bool "rlp_value list"
  | VStruct "rlp_value list"
  | VPtr rlp_value
  | VNilByteArrayPtr
  | VNilStructPtr
  | VNilPtr rlp_value
  | VUnsupported

datatype rlp_encode_error = NegativeBigInt | UnaddressableEncoder | NotSerializable | EncodePanic

definition writeUint :: "u64 \<Rightarrow> encbuf \<Rightarrow> encbuf" where
  "writeUint i w =
    (if i = 0 then encbuf_write w [0x80]
     else if i < 128 then encbuf_write w [ucast i]
     else (let b = putint i in encbuf_write w ((0x80 + of_nat (length b)) # b)))"

definition writeBool :: "bool \<Rightarrow> encbuf \<Rightarrow> encbuf" where
  "writeBool b w = encbuf_write w [if b then 0x01 else 0x80]"

definition writeBigInt :: "int \<Rightarrow> encbuf \<Rightarrow> rlp_encode_error + encbuf" where
  "writeBigInt i w =
    (if i < 0 then Inl NegativeBigInt
     else if i = 0 then Inr (encbuf_write w [0x80])
     else Inr (encodeString w (big_Bytes i)))"

definition writeBigIntPtr :: "int option \<Rightarrow> encbuf \<Rightarrow> rlp_encode_error + encbuf" where
  "writeBigIntPtr p w =
    (case p of None \<Rightarrow> Inr (encbuf_write w [0x80]) | Some i \<Rightarrow> writeBigInt i w)"

definition writeString :: "bytes \<Rightarrow> encbuf \<Rightarrow> encbuf" where
  "writeString s w =
    (if length s = 1 \<and> s ! 0 \<le> 0x7F then encbuf_write w [s ! 0]
     else encbuf_write (encodeStringHeader w (length s)) s)"

fun write_value :: "rlp_value \<Rightarrow> encbuf \<Rightarrow> rlp_encode_error + encbuf"
and write_values :: "rlp_value list \<Rightarrow> encbuf \<Rightarrow> rlp_encode_error + encbuf" where
  "write_value (VRaw b) w = Inr (encbuf_write w b)"
| "write_value (VEncoder v) w = write_value v w"
| "write_value (VEncoderNoPtr addressable v) w =
     (if \<not> addressable then Inl UnaddressableEncoder else write_value v w)"
| "write_value (VInterface None) w = Inr (encbuf_write w [0xC0])"
| "write_value (VInterface (Some v)) w = write_value v w"
| "write_value (VBigIntPtr p) w = writeBigIntPtr p w"
| "write_value (VBigInt i) w = writeBigInt i w"
| "write_value (VUint i) w = Inr (writeUint i w)"
| "write_value (VBool b) w = Inr (writeBool b w)"
| "write_value (VString s) w = Inr (writeString s w)"
| "write_value (VBytes b) w = Inr (encodeString w b)"
| "write_value (VByteArray b) w = Inr (encodeString w b)"
| "write_value (VSlice tail vs) w =
     (if tail then write_values vs w
      else (let (lh, w) = encbuf_list w
            in case write_values vs w of Inl e \<Rightarrow> Inl e | Inr w \<Rightarrow> Inr (listEnd lh w)))"
| "write_value (VStruct vs) w =
     (let (lh, w) = encbuf_list w
      in case write_values vs w of Inl e \<Rightarrow> Inl e | Inr w \<Rightarrow> Inr (listEnd lh w))"
| "write_value (VPtr v) w = write_value v w"
| "write_value VNilByteArrayPtr w = Inr (encbuf_write w [0x80])"
| "write_value VNilStructPtr w = (let (lh, w) = encbuf_list w in Inr (listEnd lh w))"
| "write_value (VNilPtr zero) w = write_value zero w"
| "write_value VUnsupported w = Inl NotSerializable"
| "write_values [] w = Inr w"
| "write_values (v # vs) w =
     (case write_value v w of Inl e \<Rightarrow> Inl e | Inr w \<Rightarrow> write_values vs w)"

definition EncodeToBytes :: "rlp_value \<Rightarrow> rlp_encode_error + bytes" where
  "EncodeToBytes v =
    (case write_value v encbuf_reset of
       Inl e \<Rightarrow> Inl e
     | Inr w \<Rightarrow> (case toBytes w of None \<Rightarrow> Inl EncodePanic | Some b \<Rightarrow> Inr b))"

definition Encode :: "bytes \<Rightarrow> rlp_value \<Rightarrow> rlp_encode_error + bytes" where
  "Encode out v =
    (case write_value v encbuf_reset of
       Inl e \<Rightarrow> Inl e
     | Inr w \<Rightarrow> (case toWriter w out of None \<Rightarrow> Inl EncodePanic | Some b \<Rightarrow> Inr b))"

end
