(* ===== verification/Rlp_Encode_Correct.thy ===== *)
theory Rlp_Encode_Correct
  imports Rlp_Encode
begin

text \<open>
  The recursive RLP specification and the proof that the buffered encoder of
  \<open>Rlp_Encode\<close> computes it. The proof describes the buffer after a write by a list of
  tokens (string pieces and list headers in output order).
\<close>

section \<open>Specification\<close>

definition head_spec :: "byte \<Rightarrow> nat \<Rightarrow> bytes" where
  "head_spec tag n =
    (if n < 56 then [tag + of_nat n]
     else (tag + 55 + of_nat (length (nat_be n))) # nat_be n)"

definition str_spec :: "bytes \<Rightarrow> bytes" where
  "str_spec b =
    (if length b = 1 \<and> b ! 0 \<le> 0x7F then b else head_spec 0x80 (length b) @ b)"

definition list_spec :: "bytes \<Rightarrow> bytes" where
  "list_spec payload = head_spec 0xC0 (length payload) @ payload"

fun rlp_spec :: "rlp_value \<Rightarrow> bytes" and rlp_specs :: "rlp_value list \<Rightarrow> bytes" where
  "rlp_spec (VRaw b) = b"
| "rlp_spec (VEncoder v) = rlp_spec v"
| "rlp_spec (VEncoderNoPtr a v) = rlp_spec v"
| "rlp_spec (VInterface None) = list_spec []"
| "rlp_spec (VInterface (Some v)) = rlp_spec v"
| "rlp_spec (VBigIntPtr None) = str_spec []"
| "rlp_spec (VBigIntPtr (Some i)) = str_spec (nat_be (nat i))"
| "rlp_spec (VBigInt i) = str_spec (nat_be (nat i))"
| "rlp_spec (VUint i) = str_spec (nat_be (unat i))"
| "rlp_spec (VBool b) = str_spec (if b then [1] else [])"
| "rlp_spec (VString s) = str_spec s"
| "rlp_spec (VBytes b) = str_spec b"
| "rlp_spec (VByteArray b) = str_spec b"
| "rlp_spec (VSlice tail vs) = (if tail then rlp_specs vs else list_spec (rlp_specs vs))"
| "rlp_spec (VStruct vs) = list_spec (rlp_specs vs)"
| "rlp_spec (VPtr v) = rlp_spec v"
| "rlp_spec VNilByteArrayPtr = str_spec []"
| "rlp_spec VNilStructPtr = list_spec []"
| "rlp_spec (VNilPtr zero) = rlp_spec zero"
| "rlp_spec VUnsupported = []"
| "rlp_specs [] = []"
| "rlp_specs (v # vs) = rlp_spec v @ rlp_specs vs"

text \<open>The values the encoder accepts.\<close>

fun rlp_ok :: "rlp_value \<Rightarrow> bool" and rlp_oks :: "rlp_value list \<Rightarrow> bool" where
  "rlp_ok (VEncoder v) = rlp_ok v"
| "rlp_ok (VEncoderNoPtr a v) = (a \<and> rlp_ok v)"
| "rlp_ok (VInterface p) = (case p of None \<Rightarrow> True | Some v \<Rightarrow> rlp_ok v)"
| "rlp_ok (VBigIntPtr p) = (case p of None \<Rightarrow> True | Some i \<Rightarrow> 0 \<le> i)"
| "rlp_ok (VBigInt i) = (0 \<le> i)"
| "rlp_ok (VSlice tail vs) = rlp_oks vs"
| "rlp_ok (VStruct vs) = rlp_oks vs"
| "rlp_ok (VPtr v) = rlp_ok v"
| "rlp_ok (VNilPtr v) = rlp_ok v"
| "rlp_ok VUnsupported = False"
| "rlp_ok _ = True"
| "rlp_oks [] = True"
| "rlp_oks (v # vs) = (rlp_ok v \<and> rlp_oks vs)"

section \<open>Headers\<close>

lemma intsize_nat_be: "intsize i = max 1 (length (nat_be (unat i)))"
proof (induction i rule: intsize.induct)
  case (1 i)
  have d: "unat (drop_bit 8 i) = unat i div 256" by (rule unat_drop_bit_8)
  show ?case
  proof (cases "drop_bit 8 i = 0")
    case True
    with d have "unat i div 256 = 0" by (metis unat_0)
    then have "length (nat_be (unat i)) \<le> 1" by (intro length_nat_be_le) simp
    with True show ?thesis by (subst intsize.simps) simp
  next
    case False
    with d have nz: "unat i div 256 > 0" by (metis bot_nat_0.not_eq_extremum unat_eq_zero)
    then have "unat i > 0" by (cases "unat i") auto
    with nz have "length (nat_be (unat i)) = Suc (length (nat_be (unat i div 256)))"
      "length (nat_be (unat i div 256)) \<ge> 1"
      by (simp_all add: nat_be_pos[of "unat i"] Suc_le_eq)
    with 1 False d show ?thesis by (subst intsize.simps) (simp add: Let_def)
  qed
qed

lemma be_bytes_unroll:
  "be_bytes (Suc 0) i = [ucast i]"
  "be_bytes 2 i = [ucast (drop_bit 8 i), ucast i]"
  "be_bytes 3 i = [ucast (drop_bit 16 i), ucast (drop_bit 8 i), ucast i]"
  "be_bytes 4 i = [ucast (drop_bit 24 i), ucast (drop_bit 16 i), ucast (drop_bit 8 i), ucast i]"
  "be_bytes 5 i = [ucast (drop_bit 32 i), ucast (drop_bit 24 i), ucast (drop_bit 16 i),
     ucast (drop_bit 8 i), ucast i]"
  "be_bytes 6 i = [ucast (drop_bit 40 i), ucast (drop_bit 32 i), ucast (drop_bit 24 i),
     ucast (drop_bit 16 i), ucast (drop_bit 8 i), ucast i]"
  "be_bytes 7 i = [ucast (drop_bit 48 i), ucast (drop_bit 40 i), ucast (drop_bit 32 i),
     ucast (drop_bit 24 i), ucast (drop_bit 16 i), ucast (drop_bit 8 i), ucast i]"
  "be_bytes 8 i = [ucast (drop_bit 56 i), ucast (drop_bit 48 i), ucast (drop_bit 40 i),
     ucast (drop_bit 32 i), ucast (drop_bit 24 i), ucast (drop_bit 16 i),
     ucast (drop_bit 8 i), ucast i]"
  by (simp_all add: numeral_eq_Suc)

lemma nat_be_range:
  fixes i :: u64
  assumes "k < 8" "i \<noteq> 0" "\<not> i < 2 ^ (8 * k)" "k = 7 \<or> i < 2 ^ (8 * Suc k)"
  shows "nat_be (unat i) = be_bytes (Suc k) i"
proof (rule nat_be_be_bytes)
  have "drop_bit 64 i = 0" by (rule bit_eqI) (simp add: bit_simps)
  with assms show "drop_bit (8 * Suc k) i = 0"
    using word_less_iff_drop_bit[of "8 * Suc k" i] by (cases "k = 7") auto
  from assms show "Suc k > 0 \<longrightarrow> drop_bit (8 * (Suc k - 1)) i \<noteq> 0"
    using word_less_iff_drop_bit[of "8 * k" i] by auto
qed

lemma putint_nat_be: "i \<noteq> 0 \<Longrightarrow> putint i = nat_be (unat i)"
  using nat_be_range[of 0 i] nat_be_range[of 1 i] nat_be_range[of 2 i] nat_be_range[of 3 i]
    nat_be_range[of 4 i] nat_be_range[of 5 i] nat_be_range[of 6 i] nat_be_range[of 7 i]
  by (simp add: putint_def be_bytes_unroll)

lemma unat_of_nat_u64: "n < 2 ^ 64 \<Longrightarrow> unat (of_nat n :: u64) = n"
  by (rule unat_of_nat_small) simp

lemma of_nat_u64_less_56: "n < 2 ^ 64 \<Longrightarrow> (of_nat n :: u64) < 56 \<longleftrightarrow> n < 56"
  by (simp add: word_less_nat_alt unat_of_nat_u64)

lemma putint_of_nat: "0 < n \<Longrightarrow> n < 2 ^ 64 \<Longrightarrow> putint (of_nat n) = nat_be n"
  using putint_nat_be[of "of_nat n"] unat_of_nat_u64[of n] by (metis less_numeral_extra(3) unat_0)

lemma ucast_of_nat_byte: "ucast (of_nat n :: u64) = (of_nat n :: byte)"
  by (rule word_unat_eq_iff [THEN iffD2]) (simp add: unsigned_ucast_eq unat_of_nat take_bit_eq_mod mod_mod_cancel)

lemma puthead_spec:
  "n < 2 ^ 64 \<Longrightarrow> puthead tag (tag + 55) (of_nat n) = head_spec tag n"
  by (auto simp: puthead_def head_spec_def of_nat_u64_less_56 putint_of_nat Let_def ucast_of_nat_byte)

lemma listhead_encode_spec: "n < 2 ^ 64 \<Longrightarrow> listhead_encode n = head_spec 0xC0 n"
  using puthead_spec[of n "0xC0"] by (simp add: listhead_encode_def)

lemma headsize_spec: "n < 2 ^ 64 \<Longrightarrow> headsize (of_nat n) = length (head_spec tag n)"
  by (auto simp: headsize_def head_spec_def of_nat_u64_less_56 intsize_nat_be unat_of_nat_u64 Suc_le_eq max_def)

section \<open>Writers append encodings\<close>

lemma encodeStringHeader_spec:
  "n < 2 ^ 64 \<Longrightarrow> encodeStringHeader w n = encbuf_write w (head_spec 0x80 n)"
  by (simp add: encodeStringHeader_def head_spec_def putint_of_nat Let_def)

lemma encbuf_write_write [simp]: "encbuf_write (encbuf_write w a) b = encbuf_write w (a @ b)"
  by (simp add: encbuf_write_def)

lemma singleton_list: "length b = 1 \<Longrightarrow> [b ! 0] = b"
  by (cases b) auto

lemma encodeString_spec: "length b < 2 ^ 64 \<Longrightarrow> encodeString w b = encbuf_write w (str_spec b)"
  by (auto simp: encodeString_def str_spec_def encodeStringHeader_spec singleton_list)

lemma writeString_spec: "length b < 2 ^ 64 \<Longrightarrow> writeString b w = encbuf_write w (str_spec b)"
  using encodeString_spec[of b w] by (simp add: encodeString_def writeString_def)

lemma str_spec_Nil: "str_spec [] = [0x80]"
  by (simp add: str_spec_def head_spec_def)

lemma str_spec_one: "str_spec [1] = [1]"
  by (simp add: str_spec_def)

lemma list_spec_Nil: "list_spec [] = [0xC0]"
  by (simp add: list_spec_def head_spec_def)

lemma length_nat_be_unat: "length (nat_be (unat (i::u64))) \<le> 8"
  using unsigned_less[of i] by (intro length_nat_be_le) simp

lemma writeUint_spec: "writeUint i w = encbuf_write w (str_spec (nat_be (unat i)))"
proof -
  consider "i = 0" | "i \<noteq> 0" "i < 128" | "\<not> i < 128" by blast
  then show ?thesis
  proof cases
    case 2
    then have u: "unat i < 128" "unat i > 0" by (auto simp: word_less_nat_alt unat_gt_0)
    then have "nat_be (unat i) = [of_nat (unat i)]" by (simp add: nat_be_pos)
    moreover have "(of_nat (unat i) :: byte) = ucast i" by simp
    moreover have "(ucast i :: byte) \<le> 0x7F"
      using u by (simp add: word_le_nat_alt unsigned_ucast_eq take_bit_nat_eq_self)
    ultimately show ?thesis using 2 by (simp add: writeUint_def str_spec_def)
  next
    case 3
    then have u: "unat i \<ge> 128" "i \<noteq> 0" by (auto simp: word_less_nat_alt)
    have "\<not> (length (nat_be (unat i)) = 1 \<and> nat_be (unat i) ! 0 \<le> 0x7F)"
    proof
      assume a: "length (nat_be (unat i)) = 1 \<and> nat_be (unat i) ! 0 \<le> 0x7F"
      then obtain b where "nat_be (unat i) = [b]" "b \<le> 0x7F" by (auto simp: length_Suc_conv)
      then have "unat i = unat b" "unat b \<le> 127"
        using be_nat_nat_be[of "unat i"] by (auto simp: be_nat_def word_le_nat_alt)
      with u show False by simp
    qed
    with 3 u length_nat_be_unat[of i] show ?thesis
      by (auto simp: writeUint_def str_spec_def putint_nat_be head_spec_def Let_def)
  qed (simp add: writeUint_def str_spec_Nil)
qed


section \<open>Tokens\<close>

datatype tok = TStr bytes | THead nat

fun tok_str :: "tok list \<Rightarrow> bytes" where
  "tok_str [] = []"
| "tok_str (TStr b # ts) = b @ tok_str ts"
| "tok_str (THead n # ts) = tok_str ts"

fun tok_heads :: "nat \<Rightarrow> tok list \<Rightarrow> (nat \<times> nat) list" where
  "tok_heads off [] = []"
| "tok_heads off (TStr b # ts) = tok_heads (off + length b) ts"
| "tok_heads off (THead n # ts) = (off, n) # tok_heads off ts"

fun tok_render :: "tok list \<Rightarrow> bytes" where
  "tok_render [] = []"
| "tok_render (TStr b # ts) = b @ tok_render ts"
| "tok_render (THead n # ts) = head_spec 0xC0 n @ tok_render ts"

fun tok_hsize :: "tok list \<Rightarrow> nat" where
  "tok_hsize [] = 0"
| "tok_hsize (TStr b # ts) = tok_hsize ts"
| "tok_hsize (THead n # ts) = length (head_spec 0xC0 n) + tok_hsize ts"

lemma tok_append [simp]:
  "tok_str (as @ bs) = tok_str as @ tok_str bs"
  "tok_heads off (as @ bs) = tok_heads off as @ tok_heads (off + length (tok_str as)) bs"
  "tok_render (as @ bs) = tok_render as @ tok_render bs"
  "tok_hsize (as @ bs) = tok_hsize as + tok_hsize bs"
proof (induction as arbitrary: off)
  case (Cons t as)
  { case 1 with Cons show ?case by (cases t) auto
  next case 2 with Cons show ?case by (cases t) (auto simp: add.assoc)
  next case 3 with Cons show ?case by (cases t) auto
  next case 4 with Cons show ?case by (cases t) auto }
qed auto

lemma length_tok_render: "length (tok_render ts) = length (tok_str ts) + tok_hsize ts"
  by (induction ts rule: tok_render.induct) auto

text \<open>The buffer after the tokens have been written.\<close>

definition tok_apply :: "encbuf \<Rightarrow> tok list \<Rightarrow> encbuf" where
  "tok_apply w ts =
    \<lparr>str = str w @ tok_str ts, lheads = lheads w @ tok_heads (length (str w)) ts,
     lhsize = lhsize w + tok_hsize ts\<rparr>"

lemma tok_apply_append: "tok_apply (tok_apply w as) bs = tok_apply w (as @ bs)"
  by (simp add: tok_apply_def)

lemma tok_apply_str: "encbuf_write w b = tok_apply w [TStr b]"
  by (simp add: encbuf_write_def tok_apply_def)

lemma tok_apply_Nil [simp]: "tok_apply w [] = w"
  by (simp add: tok_apply_def)

lemma listEnd_tok:
  assumes "encbuf_list w = (lh, w1)" "length (tok_render ts) < 2 ^ 64"
  shows "listEnd lh (tok_apply w1 ts) = tok_apply w (THead (length (tok_render ts)) # ts)"
proof -
  from assms(1) have w1: "lh = length (lheads w)"
    "w1 = w\<lparr>lheads := lheads w @ [(length (str w), lhsize w)]\<rparr>"
    by (simp_all add: encbuf_list_def)
  have sz: "encbuf_size (tok_apply w1 ts) - length (str w) - lhsize w = length (tok_render ts)"
    by (simp add: encbuf_size_def tok_apply_def w1 length_tok_render)
  have hs: "(if length (tok_render ts) < 56 then 1 else 1 + intsize (of_nat (length (tok_render ts))))
      = length (head_spec 0xC0 (length (tok_render ts)))"
    using headsize_spec[OF assms(2), of "0xC0"] assms(2)
    by (simp add: headsize_def of_nat_u64_less_56)
  have "lheads (tok_apply w1 ts) ! lh = (length (str w), lhsize w)"
    by (simp add: tok_apply_def w1 nth_append)
  with sz hs show ?thesis
    by (auto simp: listEnd_def Let_def tok_apply_def w1 list_update_append)
qed


fun toks :: "rlp_value \<Rightarrow> tok list" and tokss :: "rlp_value list \<Rightarrow> tok list" where
  "toks (VEncoder v) = toks v"
| "toks (VEncoderNoPtr a v) = toks v"
| "toks (VInterface (Some v)) = toks v"
| "toks (VSlice tail vs) =
     (if tail then tokss vs else THead (length (tok_render (tokss vs))) # tokss vs)"
| "toks (VStruct vs) = THead (length (tok_render (tokss vs))) # tokss vs"
| "toks (VPtr v) = toks v"
| "toks VNilStructPtr = [THead 0]"
| "toks (VNilPtr v) = toks v"
| "toks v = [TStr (rlp_spec v)]"
| "tokss [] = []"
| "tokss (v # vs) = toks v @ tokss vs"

lemma tok_render_toks:
  "tok_render (toks v) = rlp_spec v" "tok_render (tokss vs) = rlp_specs vs"
  by (induction v and vs rule: toks_tokss.induct) (auto simp: list_spec_def)

lemma length_rlp_specs_le:
  "length (list_spec p) < n \<Longrightarrow> length p < (n::nat)" "length (str_spec b) < n \<Longrightarrow> length b < (n::nat)"
  by (auto simp: list_spec_def str_spec_def split: if_splits)

lemma write_value_toks:
  "rlp_ok v \<Longrightarrow> length (rlp_spec v) < 2 ^ 64 \<Longrightarrow> write_value v w = Inr (tok_apply w (toks v))"
  "rlp_oks vs \<Longrightarrow> length (rlp_specs vs) < 2 ^ 64 \<Longrightarrow> write_values vs w = Inr (tok_apply w (tokss vs))"
proof (induction v w and vs w rule: write_value_write_values.induct)
  case (13 tail vs w)
  then show ?case
  proof (cases tail)
    case False
    obtain lh w1 where w1: "encbuf_list w = (lh, w1)" by (cases "encbuf_list w")
    from 13(4) False have len: "length (rlp_specs vs) < 2 ^ 64"
      using length_rlp_specs_le(1)[of "rlp_specs vs" "2 ^ 64"] by simp
    with 13 False w1 have "write_values vs w1 = Inr (tok_apply w1 (tokss vs))" by simp
    with w1 False listEnd_tok[OF w1, of "tokss vs"] len show ?thesis
      by (simp add: tok_render_toks)
  qed simp
next
  case (14 vs w)
  obtain lh w1 where w1: "encbuf_list w = (lh, w1)" by (cases "encbuf_list w")
  from 14(3) have len: "length (rlp_specs vs) < 2 ^ 64"
    using length_rlp_specs_le(1)[of "rlp_specs vs" "2 ^ 64"] by simp
  with 14 w1 have "write_values vs w1 = Inr (tok_apply w1 (tokss vs))" by simp
  with w1 listEnd_tok[OF w1, of "tokss vs"] len show ?case
    by (simp add: tok_render_toks)
next
  case (17 w)
  obtain lh w1 where w1: "encbuf_list w = (lh, w1)" by (cases "encbuf_list w")
  with listEnd_tok[OF w1, of "[]"] show ?case by simp
qed (auto simp: tok_apply_append writeBigInt_def writeBigIntPtr_def big_Bytes_def writeBool_def
    writeUint_spec encodeString_spec writeString_spec str_spec_Nil str_spec_one list_spec_Nil tok_apply_str
    dest: length_rlp_specs_le split: option.splits)


section \<open>Output\<close>

lemma copy_at_append:
  "pos = length d \<Longrightarrow> length b \<le> length r \<Longrightarrow> copy_at (d @ r) pos b = d @ b @ drop (length b) r"
  by (simp add: copy_at_def go_copy_def)

lemma toBytes_loop_toks:
  assumes "\<And>n. THead n \<in> set ts \<Longrightarrow> n < 2 ^ 64"
    and "length r = length q + length (tok_render ts)"
  shows "toBytes_loop (p @ q @ tok_str ts) (tok_heads (length p + length q) ts) (length p)
      (length d) (d @ r) = Some (d @ q @ tok_render ts)"
  using assms
proof (induction ts arbitrary: p q d r rule: tok_render.induct)
  case 1
  then show ?case by (simp add: copy_at_append)
next
  case (2 b ts)
  from "2.IH"[of r "q @ b" p d] "2.prems" show ?case by (simp add: add.assoc)
next
  case (3 n ts)
  let ?h = "head_spec 0xC0 n"
  from "3.prems" have n: "n < 2 ^ 64" and ts: "\<And>m. THead m \<in> set ts \<Longrightarrow> m < 2 ^ 64" by auto
  from "3.prems"(2) have r: "length q \<le> length r"
    "length r - length q = length ?h + length (tok_render ts)" by auto
  let ?r = "drop (length q) r"
  have put: "put_at ((d @ q) @ ?r) (length (d @ q)) ?h = Some ((d @ q) @ ?h @ drop (length ?h) ?r)"
    unfolding put_at_def using r by (subst copy_at_append) auto
  have len: "length (drop (length ?h) ?r) = length ([] :: bytes) + length (tok_render ts)"
    using r by simp
  from "3.IH"[OF ts len, where p = "p @ q" and d = "d @ q @ ?h"]
  n r put show ?case
    by (simp add: Let_def copy_at_append listhead_encode_spec add.assoc)
qed

lemma toWriter_loop_toks:
  assumes "\<And>n. THead n \<in> set ts \<Longrightarrow> n < 2 ^ 64"
  shows "toWriter_loop (p @ q @ tok_str ts) (tok_heads (length p + length q) ts) (length p) out
      = Some (out @ q @ tok_render ts)"
  using assms
proof (induction ts arbitrary: p q out rule: tok_render.induct)
  case 1
  then show ?case by simp
next
  case (2 b ts)
  from "2.IH"[where p = p and q = "q @ b"] "2.prems" show ?case by (simp add: add.assoc)
next
  case (3 n ts)
  from "3.prems" have n: "n < 2 ^ 64" and ts: "\<And>m. THead m \<in> set ts \<Longrightarrow> m < 2 ^ 64" by auto
  from "3.IH"[OF ts, where p = "p @ q" and q = "[]" and out = "out @ q @ head_spec 0xC0 n"] n
  show ?case by (cases "q = []") (simp_all add: listhead_encode_spec)
qed

lemma toks_heads_small:
  "length (rlp_spec v) < 2 ^ 64 \<Longrightarrow> THead n \<in> set (toks v) \<Longrightarrow> n < 2 ^ 64"
  "length (rlp_specs vs) < 2 ^ 64 \<Longrightarrow> THead n \<in> set (tokss vs) \<Longrightarrow> n < 2 ^ 64"
  by (induction v and vs rule: toks_tokss.induct)
    (auto simp: tok_render_toks dest: length_rlp_specs_le split: if_splits)

lemma EncodeToBytes_spec:
  assumes "rlp_ok v" "length (rlp_spec v) < 2 ^ 63"
  shows "EncodeToBytes v = Inr (rlp_spec v)"
proof -
  from assms(2) have len: "length (rlp_spec v) < 2 ^ 64" by simp
  let ?r = "replicate (length (rlp_spec v)) 0"
  have "length ?r = length ([] :: bytes) + length (tok_render (toks v))"
    by (simp add: tok_render_toks)
  from toBytes_loop_toks[OF toks_heads_small(1)[OF len] this, where p = "[]" and d = "[]"]
  have "toBytes (tok_apply encbuf_reset (toks v)) = Some (rlp_spec v)"
    using length_tok_render[of "toks v"]
    by (simp add: toBytes_def tok_apply_def encbuf_reset_def encbuf_size_def tok_render_toks)
  with write_value_toks(1)[OF assms(1) len] show ?thesis by (simp add: EncodeToBytes_def)
qed



text \<open>\<^verbatim>\<open>Encode\<close> appends the same bytes to its writer.\<close>

theorem Encode_correct:
  assumes "rlp_ok v" "length (rlp_spec v) < 2 ^ 63"
  shows "Encode out v = Inr (out @ rlp_spec v)"
proof -
  from assms(2) have len: "length (rlp_spec v) < 2 ^ 64" by simp
  have "toWriter (tok_apply encbuf_reset (toks v)) out = Some (out @ rlp_spec v)"
    using toWriter_loop_toks[OF toks_heads_small(1)[OF len], where p = "[]" and q = "[]" and out = out]
    by (simp add: toWriter_def tok_apply_def encbuf_reset_def tok_render_toks)
  with write_value_toks(1)[OF assms(1) len] show ?thesis by (simp add: Encode_def)
qed

end
