(* ===== verification/Rlp_Raw.thy ===== *)
theory Rlp_Raw
  imports Rlp_Encode_Correct
begin

text \<open>
  \<^verbatim>\<open>src/storage/rlp/raw.go\<close>: splitting encoded values. Sizes are \<^verbatim>\<open>uint64\<close> in the
  code; \<open>readSize\<close> computes with words, and the tag and content sizes it returns are the
  numbers those words denote (the sums and differences formed from them stay below the
  length of the input, so none of them wraps).
\<close>

datatype Kind = KByte | KString | KList

datatype rlp_error = ErrUnexpectedEOF | ErrCanonSize | ErrValueTooLarge
  | ErrExpectedString | ErrExpectedList | RlpPanic

section \<open>Operations\<close>

definition readSize :: "bytes \<Rightarrow> byte \<Rightarrow> rlp_error + nat" where
  "readSize b slen =
    (if unat slen > length b then Inl ErrUnexpectedEOF
     else
       let u = (\<lambda>k. ucast (b ! k) :: u64);
           s = (if slen = 1 then u 0
                else if slen = 2 then push_bit 8 (u 0) OR u 1
                else if slen = 3 then push_bit 16 (u 0) OR push_bit 8 (u 1) OR u 2
                else if slen = 4 then
                  push_bit 24 (u 0) OR push_bit 16 (u 1) OR push_bit 8 (u 2) OR u 3
                else if slen = 5 then
                  push_bit 32 (u 0) OR push_bit 24 (u 1) OR push_bit 16 (u 2) OR push_bit 8 (u 3) OR u 4
                else if slen = 6 then
                  push_bit 40 (u 0) OR push_bit 32 (u 1) OR push_bit 24 (u 2) OR push_bit 16 (u 3)
                  OR push_bit 8 (u 4) OR u 5
                else if slen = 7 then
                  push_bit 48 (u 0) OR push_bit 40 (u 1) OR push_bit 32 (u 2) OR push_bit 24 (u 3)
                  OR push_bit 16 (u 4) OR push_bit 8 (u 5) OR u 6
                else if slen = 8 then
                  push_bit 56 (u 0) OR push_bit 48 (u 1) OR push_bit 40 (u 2) OR push_bit 32 (u 3)
                  OR push_bit 24 (u 4) OR push_bit 16 (u 5) OR push_bit 8 (u 6) OR u 7
                else 0)
       in if s < 56 then Inl ErrCanonSize
          else if length b = 0 then Inl RlpPanic
          else if b ! 0 = 0 then Inl ErrCanonSize
          else Inr (unat s))"

definition checkContent :: "bytes \<Rightarrow> Kind \<Rightarrow> nat \<Rightarrow> nat \<Rightarrow> rlp_error + Kind \<times> nat \<times> nat" where
  "checkContent buf k tagsize contentsize =
    (if contentsize > length buf - tagsize then Inl ErrValueTooLarge
     else Inr (k, tagsize, contentsize))"

definition readKind :: "bytes \<Rightarrow> rlp_error + Kind \<times> nat \<times> nat" where
  "readKind buf =
    (if length buf = 0 then Inl ErrUnexpectedEOF
     else
       let b = buf ! 0 in
       if b < 0x80 then checkContent buf KByte 0 1
       else if b < 0xB8 then
         (let contentsize = unat (b - 0x80)
          in if contentsize = 1 \<and> length buf > 1 \<and> buf ! 1 < 128 then Inl ErrCanonSize
             else checkContent buf KString 1 contentsize)
       else if b < 0xC0 then
         (case readSize (drop 1 buf) (b - 0xB7) of
            Inl e \<Rightarrow> Inl e
          | Inr contentsize \<Rightarrow> checkContent buf KString (unat (b - 0xB7) + 1) contentsize)
       else if b < 0xF8 then checkContent buf KList 1 (unat (b - 0xC0))
       else
         (case readSize (drop 1 buf) (b - 0xF7) of
            Inl e \<Rightarrow> Inl e
          | Inr contentsize \<Rightarrow> checkContent buf KList (unat (b - 0xF7) + 1) contentsize))"

definition Split :: "bytes \<Rightarrow> rlp_error + Kind \<times> bytes \<times> bytes" where
  "Split b =
    (case readKind b of
       Inl e \<Rightarrow> Inl e
     | Inr (k, ts, cs) \<Rightarrow>
         (case (go_slice b ts (ts + cs), go_slice b (ts + cs) (length b)) of
            (Some content, Some rest) \<Rightarrow> Inr (k, content, rest)
          | _ \<Rightarrow> Inl RlpPanic))"

definition SplitString :: "bytes \<Rightarrow> rlp_error + bytes \<times> bytes" where
  "SplitString b =
    (case Split b of
       Inl e \<Rightarrow> Inl e
     | Inr (k, content, rest) \<Rightarrow>
         if k = KList then Inl ErrExpectedString else Inr (content, rest))"

definition SplitList :: "bytes \<Rightarrow> rlp_error + bytes \<times> bytes" where
  "SplitList b =
    (case Split b of
       Inl e \<Rightarrow> Inl e
     | Inr (k, content, rest) \<Rightarrow>
         if k \<noteq> KList then Inl ErrExpectedList else Inr (content, rest))"

definition ListSize :: "u64 \<Rightarrow> u64" where
  "ListSize contentSize = of_nat (headsize contentSize) + contentSize"

section \<open>Progress of the splitter\<close>

lemma checkContent_Inr:
  "checkContent buf k t c = Inr (k', t', c') \<longleftrightarrow> k' = k \<and> t' = t \<and> c' = c \<and> c \<le> length buf - t"
  by (auto simp: checkContent_def)

lemma readSize_Inr: "readSize b slen = Inr n \<Longrightarrow> unat slen \<le> length b \<and> n \<ge> 56"
  by (auto simp: readSize_def Let_def word_less_nat_alt not_less split: if_splits)

lemma readKind_bounds:
  assumes "readKind b = Inr (k, ts, cs)"
  shows "0 < ts + cs \<and> ts + cs \<le> length b"
proof -
  from assms obtain x xs where "b = x # xs" by (cases b) (auto simp: readKind_def)
  with assms show ?thesis
    by (auto simp: readKind_def Let_def checkContent_Inr split: if_splits sum.splits
        dest!: readSize_Inr)
qed

function CountValues_loop :: "nat \<Rightarrow> bytes \<Rightarrow> rlp_error + nat" where
  "CountValues_loop i b =
    (if length b > 0 then
       (case readKind b of
          Inl e \<Rightarrow> Inl e
        | Inr (k, tagsize, sz) \<Rightarrow> CountValues_loop (i + 1) (drop (tagsize + sz) b))
     else Inr i)"
  by pat_completeness auto
termination
  by (relation "measure (\<lambda>(i, b). length b)") (auto dest!: readKind_bounds)

declare CountValues_loop.simps [simp del]

definition CountValues :: "bytes \<Rightarrow> rlp_error + nat" where
  "CountValues b = CountValues_loop 0 b"

section \<open>The splitter inverts the encoder\<close>

lemma take_eq_map_nth: "k \<le> length b \<Longrightarrow> take k b = map ((!) b) [0..<k]"
  by (rule nth_equalityI) auto

lemma upt_small:
  "[0..<2] = [0, 1]" "[0..<3] = [0, 1, 2]" "[0..<4] = [0, 1, 2, 3]" "[0..<5] = [0, 1, 2, 3, 4]"
  "[0..<6] = [0, 1, 2, 3, 4, 5]" "[0..<7] = [0, 1, 2, 3, 4, 5, 6]"
  "[0..<8] = [0, 1, 2, 3, 4, 5, 6, 7]"
  by code_simp+

lemma readSize_be:
  assumes "unat slen \<le> length b" "1 \<le> unat slen" "unat slen \<le> 8"
  shows "readSize b slen =
    (let s = be_word (take (unat slen) b)
     in if s < 56 then Inl ErrCanonSize else if b ! 0 = 0 then Inl ErrCanonSize else Inr (unat s))"
proof -
  have "slen = 1 \<or> slen = 2 \<or> slen = 3 \<or> slen = 4 \<or> slen = 5 \<or> slen = 6 \<or> slen = 7 \<or> slen = 8"
    using assms(2,3) unfolding word_unat_eq_iff by (simp, presburger)
  moreover have "length b \<noteq> 0" using assms by auto
  ultimately show ?thesis
    unfolding take_eq_map_nth[OF assms(1)] be_word_def readSize_def Let_def
    using assms(1)
    by (elim disjE) (simp_all add: upt_small push_bit_or or.assoc)
qed
text \<open>The same reads on natural numbers.\<close>

definition len_nat :: "bytes \<Rightarrow> nat \<Rightarrow> rlp_error + nat" where
  "len_nat xs l =
    (if l > length xs then Inl ErrUnexpectedEOF
     else let s = be_nat (take l xs) in if s < 56 \<or> xs ! 0 = 0 then Inl ErrCanonSize else Inr s)"

lemma readSize_len_nat:
  "1 \<le> unat slen \<Longrightarrow> unat slen \<le> 8 \<Longrightarrow> readSize xs slen = len_nat xs (unat slen)"
  by (cases "unat slen \<le> length xs")
    (auto simp: len_nat_def readSize_be Let_def word_less_nat_alt unat_be_word, simp add: readSize_def)

lemma unat_byte_sub: "c \<le> unat b \<Longrightarrow> c < 256 \<Longrightarrow> unat (b - of_nat c) = unat (b::byte) - c"
  by (subst unat_sub) (auto simp: word_le_nat_alt unat_of_nat_small)

lemma readKind_Cons:
  "readKind (x # xs) =
    (let n = unat x in
     if n < 128 then Inr (KByte, 0, 1)
     else if n < 184 then
       (if n = 129 \<and> xs \<noteq> [] \<and> xs ! 0 < 128 then Inl ErrCanonSize
        else checkContent (x # xs) KString 1 (n - 128))
     else if n < 192 then
       (case len_nat xs (n - 183) of Inl e \<Rightarrow> Inl e
        | Inr c \<Rightarrow> checkContent (x # xs) KString (Suc (n - 183)) c)
     else if n < 248 then checkContent (x # xs) KList 1 (n - 192)
     else (case len_nat xs (n - 247) of Inl e \<Rightarrow> Inl e
           | Inr c \<Rightarrow> checkContent (x # xs) KList (Suc (n - 247)) c))"
proof -
  have x: "unat x < 256" using unsigned_less[of x] by simp
  note sub = unat_byte_sub[of 128 x] unat_byte_sub[of 183 x] unat_byte_sub[of 192 x] unat_byte_sub[of 247 x]
  consider "unat x < 128" | "128 \<le> unat x" "unat x < 184" | "184 \<le> unat x" "unat x < 192"
    | "192 \<le> unat x" "unat x < 248" | "248 \<le> unat x" by linarith
  then show ?thesis
  proof cases
    case 1
    then show ?thesis by (simp add: readKind_def word_less_nat_alt checkContent_def)
  next
    case 2
    with sub show ?thesis by (auto simp: readKind_def word_less_nat_alt Let_def)
  next
    case 3
    with sub have "readSize xs (x - 183) = len_nat xs (unat x - 183)"
      by (subst readSize_len_nat) auto
    with 3 sub show ?thesis
      by (auto simp: readKind_def word_less_nat_alt Let_def Suc_diff_le split: sum.splits)
  next
    case 4
    with sub show ?thesis by (auto simp: readKind_def word_less_nat_alt Let_def)
  next
    case 5
    with sub x have "readSize xs (x - 247) = len_nat xs (unat x - 247)"
      by (subst readSize_len_nat) auto
    with 5 sub x show ?thesis
      by (auto simp: readKind_def word_less_nat_alt Let_def Suc_diff_le split: sum.splits)
  qed
qed


definition item_spec :: "Kind \<Rightarrow> bytes \<Rightarrow> bytes" where
  "item_spec k c = (if k = KList then list_spec c else str_spec c)"

definition kind_ok :: "Kind \<Rightarrow> bytes \<Rightarrow> bool" where
  "kind_ok k c \<longleftrightarrow> k = KList \<or> (k = KByte \<longleftrightarrow> length c = 1 \<and> c ! 0 \<le> 0x7F)"

lemma unat_tag:
  "n < 56 \<Longrightarrow> unat (0x80 + of_nat n :: byte) = 128 + n"
  "n < 56 \<Longrightarrow> unat (0xC0 + of_nat n :: byte) = 192 + n"
  "l \<le> 8 \<Longrightarrow> unat (0x80 + 55 + of_nat l :: byte) = 183 + l"
  "l \<le> 8 \<Longrightarrow> unat (0xC0 + 55 + of_nat l :: byte) = 247 + l"
  by (simp_all add: unat_word_ariths unat_of_nat_small)

lemma len_nat_spec:
  assumes "56 \<le> n"
  shows "len_nat (nat_be n @ rest) (length (nat_be n)) = Inr n"
proof -
  have "nat_be n \<noteq> []" using assms by simp
  then have "(nat_be n @ rest) ! 0 \<noteq> 0" using nat_be_hd[of n] assms by (simp add: nth_append hd_conv_nth)
  with assms show ?thesis by (simp add: len_nat_def)
qed

lemma len_nat_Inr:
  assumes "len_nat xs l = Inr n"
  shows "take l xs = nat_be n" "56 \<le> n" "length (nat_be n) = l"
proof -
  from assms have *: "l \<le> length xs" "n = be_nat (take l xs)" "56 \<le> n" "xs ! 0 \<noteq> 0"
    by (auto simp: len_nat_def Let_def split: if_splits)
  then have "l \<noteq> 0" by (cases l) auto
  with * have "hd (take l xs) \<noteq> 0" by (cases xs) auto
  with * nat_be_be_nat[of "take l xs"] show "take l xs = nat_be n" "56 \<le> n" by auto
  with *(1) show "length (nat_be n) = l" by (metis length_take min.absorb2)
qed

lemma length_nat_be_8: "n < 2 ^ 64 \<Longrightarrow> length (nat_be n) \<le> 8"
  by (rule length_nat_be_le) simp

lemma Split_readKind:
  "readKind b = Inr (k, ts, cs) \<Longrightarrow> Split b = Inr (k, take cs (drop ts b), drop (ts + cs) b)"
  using readKind_bounds[of b k ts cs] by (auto simp: Split_def)

lemma readKind_head:
  assumes "length c < 2 ^ 64"
  shows "\<not> (length c = 1 \<and> c ! 0 \<le> 0x7F) \<Longrightarrow>
      readKind (head_spec 0x80 (length c) @ c @ rest) =
        Inr (KString, length (head_spec 0x80 (length c)), length c)" (is "?A \<Longrightarrow> ?B")
    and "readKind (head_spec 0xC0 (length c) @ c @ rest) =
        Inr (KList, length (head_spec 0xC0 (length c)), length c)" (is ?C)
proof -
  have l: "length (nat_be (length c)) \<le> 8" using assms by (rule length_nat_be_8)
  have l0: "56 \<le> length c \<Longrightarrow> length (nat_be (length c)) \<ge> 1"
    by (cases "nat_be (length c)") auto
  note tags = unat_tag(1,2)[of "length c"] unat_tag(3,4)[OF l]
  show ?C
    using tags l l0 len_nat_spec[of "length c" "c @ rest"]
    by (auto simp: head_spec_def readKind_Cons Let_def checkContent_def)
  assume ?A
  then have "\<not> (length c = 1 \<and> c ! 0 < 128)" by (auto simp: word_less_nat_alt word_le_nat_alt)
  then show ?B
    using tags l l0 len_nat_spec[of "length c" "c @ rest"]
    by (auto simp: head_spec_def readKind_Cons Let_def checkContent_def nth_append)
qed

lemma Split_item:
  assumes "length c < 2 ^ 64" "kind_ok k c"
  shows "Split (item_spec k c @ rest) = Inr (k, c, rest)"
proof (cases k)
  case KByte
  with assms obtain x where c: "c = [x]" "x \<le> 0x7F" by (auto simp: kind_ok_def length_Suc_conv)
  then have "readKind (c @ rest) = Inr (KByte, 0, 1)"
    by (simp add: readKind_Cons Let_def word_le_nat_alt)
  with c KByte show ?thesis by (simp add: Split_readKind item_spec_def str_spec_def)
next
  case KString
  with assms have n: "\<not> (length c = 1 \<and> c ! 0 \<le> 0x7F)" by (auto simp: kind_ok_def)
  with readKind_head(1)[OF assms(1) n, of rest] KString show ?thesis
    by (auto simp: Split_readKind item_spec_def str_spec_def)
next
  case KList
  with readKind_head(2)[OF assms(1), of rest] show ?thesis
    by (simp add: Split_readKind item_spec_def list_spec_def)
qed

lemma byte_of_unat: "unat (x::byte) = t + n \<Longrightarrow> x = of_nat t + of_nat n"
proof -
  assume "unat x = t + n"
  moreover have "x = of_nat (unat x)" by simp
  ultimately show ?thesis by (metis of_nat_add)
qed

lemma drop_take_split: "ts + cs \<le> length b \<Longrightarrow> b = take ts b @ take cs (drop ts b) @ drop (ts + cs) b"
  by (metis add.commute append_take_drop_id drop_drop)

lemma readKind_item:
  assumes "readKind b = Inr (k, ts, cs)"
  shows "take ts b @ take cs (drop ts b) = item_spec k (take cs (drop ts b)) \<and> kind_ok k (take cs (drop ts b))"
proof -
  from assms obtain x xs where b: "b = x # xs" by (cases b) (auto simp: readKind_def)
  have bd: "ts + cs \<le> length b" using readKind_bounds[OF assms] by simp
  then have len: "length (take cs (drop ts b)) = cs" by simp
  have x: "unat x < 256" using unsigned_less[of x] by simp
  consider "unat x < 128" | "128 \<le> unat x" "unat x < 184" | "184 \<le> unat x" "unat x < 192"
    | "192 \<le> unat x" "unat x < 248" | "248 \<le> unat x" by linarith
  then show ?thesis
  proof cases
    case 1
    with assms b have "k = KByte" "ts = 0" "cs = 1" by (auto simp: readKind_Cons)
    moreover have "x \<le> 0x7F" using 1 by (simp add: word_le_nat_alt)
    ultimately show ?thesis using b by (simp add: item_spec_def str_spec_def kind_ok_def)
  next
    case 2
    with assms b have k: "k = KString" "ts = 1" "cs = unat x - 128"
      and one: "\<not> (cs = 1 \<and> xs \<noteq> [] \<and> xs ! 0 < 128)"
      by (auto simp: readKind_Cons Let_def checkContent_def split: if_splits)
    have "x = 0x80 + of_nat cs" using byte_of_unat[of x 128 cs] 2 k by simp
    moreover have "\<not> (cs = 1 \<and> take cs xs ! 0 \<le> 0x7F)"
      using one bd b k by (cases xs) (auto simp: word_less_nat_alt word_le_nat_alt)
    ultimately show ?thesis using 2 k b len
      by (auto simp: item_spec_def str_spec_def head_spec_def kind_ok_def)
  next
    case 3
    with assms b have k: "k = KString" "ts = Suc (unat x - 183)" and n: "len_nat xs (unat x - 183) = Inr cs"
      by (auto simp: readKind_Cons Let_def checkContent_def split: if_splits sum.splits)
    have "x = 0x80 + 55 + of_nat (unat x - 183)" using byte_of_unat[of x 183 "unat x - 183"] 3 by simp
    with len_nat_Inr[OF n] k b len show ?thesis
      by (auto simp: item_spec_def str_spec_def head_spec_def kind_ok_def)
  next
    case 4
    with assms b have k: "k = KList" "ts = 1" "cs = unat x - 192"
      by (auto simp: readKind_Cons Let_def checkContent_def split: if_splits)
    have "x = 0xC0 + of_nat cs" "cs < 56" using byte_of_unat[of x 192 cs] 4 k by auto
    then have "head_spec 0xC0 cs = [x]" by (simp add: head_spec_def)
    with k(1,2) b len show ?thesis by (simp add: item_spec_def list_spec_def kind_ok_def)
  next
    case 5
    with assms b have k: "k = KList" "ts = Suc (unat x - 247)" and n: "len_nat xs (unat x - 247) = Inr cs"
      by (auto simp: readKind_Cons Let_def checkContent_def split: if_splits sum.splits)
    have "x = 0xC0 + 55 + of_nat (unat x - 247)" using byte_of_unat[of x 247 "unat x - 247"] 5 by simp
    with len_nat_Inr[OF n] k b len show ?thesis
      by (auto simp: item_spec_def list_spec_def head_spec_def kind_ok_def)
  qed
qed

lemma Split_Inr:
  assumes "Split b = Inr (k, c, rest)"
  shows "b = item_spec k c @ rest" "kind_ok k c"
proof -
  from assms obtain ts cs where r: "readKind b = Inr (k, ts, cs)" by (auto simp: Split_def split: sum.splits option.splits)
  with assms have c: "c = take cs (drop ts b)" "rest = drop (ts + cs) b"
    by (simp_all add: Split_readKind)
  from readKind_bounds[OF r] have "b = take ts b @ c @ rest"
    unfolding c by (intro drop_take_split) simp
  with readKind_item[OF r] show "b = item_spec k c @ rest" "kind_ok k c"
    unfolding c by (metis append.assoc, simp)
qed

lemma length_item_spec: "length c \<le> length (item_spec k c)"
  by (simp add: item_spec_def list_spec_def str_spec_def)

text \<open>
  C13: \<^verbatim>\<open>Split\<close> is exact. On inputs below \<open>2 ^ 63\<close> bytes it accepts precisely the
  canonical encodings: it returns kind, content and rest if and only if the input is the
  canonical encoding of that content followed by the rest. In particular a non-canonical
  size, a padded single byte or a truncated value is rejected.
\<close>

theorem Split_exact:
  assumes "length b < 2 ^ 63"
  shows "Split b = Inr (k, c, rest) \<longleftrightarrow> b = item_spec k c @ rest \<and> kind_ok k c"
proof
  assume "b = item_spec k c @ rest \<and> kind_ok k c"
  moreover from this assms have "length c < 2 ^ 64"
    using length_item_spec[of c k] by auto
  ultimately show "Split b = Inr (k, c, rest)" using Split_item by blast
qed (auto dest: Split_Inr)

theorem Split_exact_witness:
  "Split [0x82, 7, 9, 1] = Inr (KString, [7, 9], [1]) \<longleftrightarrow>
     [0x82, 7, 9, 1] = item_spec KString [7, 9] @ [1] \<and> kind_ok KString [7, 9]"
  by (rule Split_exact) simp

text \<open>
  C14: \<^verbatim>\<open>Split\<close> never reaches a slice out of range: whatever the input bytes, it returns
  an error value or a result, never a panic.
\<close>

theorem Split_no_panic: "Split b \<noteq> Inl RlpPanic"
proof (cases "readKind b")
  case (Inl e)
  moreover have "e \<noteq> RlpPanic"
  proof (cases b)
    case Nil with Inl show ?thesis by (auto simp: readKind_def)
  next
    case (Cons x xs)
    have "len_nat xs l \<noteq> Inl RlpPanic" for l by (simp add: len_nat_def Let_def)
    with Inl Cons show ?thesis
      by (auto simp: readKind_Cons Let_def checkContent_def split: if_splits sum.splits)
  qed
  ultimately show ?thesis by (simp add: Split_def)
next
  case (Inr r)
  then show ?thesis by (cases r) (simp add: Split_readKind)
qed

lemma item_spec_ne: "kind_ok k c \<Longrightarrow> item_spec k c \<noteq> []"
  by (auto simp: item_spec_def list_spec_def str_spec_def head_spec_def)

lemma readKind_item_spec:
  assumes "length c < 2 ^ 64" "kind_ok k c"
  shows "\<exists>ts cs. readKind (item_spec k c @ rest) = Inr (k, ts, cs) \<and> ts + cs = length (item_spec k c)"
proof -
  from Split_item[OF assms, of rest] obtain ts cs where r: "readKind (item_spec k c @ rest) = Inr (k, ts, cs)"
    by (auto simp: Split_def split: sum.splits option.splits)
  with Split_item[OF assms, of rest] have "drop (ts + cs) (item_spec k c @ rest) = rest"
    by (simp add: Split_readKind)
  then have "length (item_spec k c @ rest) - (ts + cs) = length rest" by (metis length_drop)
  with readKind_bounds[OF r] r show ?thesis by auto
qed

lemma CountValues_items:
  assumes "\<forall>(k, c) \<in> set items. length c < 2 ^ 64 \<and> kind_ok k c"
  shows "CountValues_loop i (concat (map (\<lambda>(k, c). item_spec k c) items)) = Inr (i + length items)"
  using assms
proof (induction items arbitrary: i)
  case (Cons it items)
  obtain k c where it: "it = (k, c)" by (cases it)
  with Cons.prems have c: "length c < 2 ^ 64" "kind_ok k c" by auto
  let ?rest = "concat (map (\<lambda>(k, c). item_spec k c) items)"
  obtain ts cs where r: "readKind (item_spec k c @ ?rest) = Inr (k, ts, cs)" "ts + cs = length (item_spec k c)"
    using readKind_item_spec[OF c] by blast
  have "CountValues_loop i (item_spec k c @ ?rest) = CountValues_loop (i + 1) ?rest"
    by (subst CountValues_loop.simps) (use r item_spec_ne[OF c(2)] in simp)
  with Cons it show ?case by simp
qed (simp add: CountValues_loop.simps)

end
