(* ===== verification/Trie_Encoding.thy ===== *)
theory Trie_Encoding
  imports Prelude
begin

text \<open>
  \<^verbatim>\<open>src/storage/trie/encoding.go\<close>: the three key encodings of the Merkle trie (key
  bytes, hex nibbles with an optional terminator 16, compact). \<open>None\<close> is a Go panic.
\<close>

section \<open>Operations\<close>

definition hasTerm :: "bytes \<Rightarrow> bool" where
  "hasTerm s \<longleftrightarrow> length s > 0 \<and> s ! (length s - 1) = 16"

text \<open>\<^verbatim>\<open>decodeNibbles(nibbles, bytes)\<close> overwrites \<open>bytes\<close> in place; the model returns
  the new contents, or \<open>None\<close> for an index out of range.\<close>

fun decodeNibbles :: "bytes \<Rightarrow> bytes \<Rightarrow> bytes option" where
  "decodeNibbles [] bs = Some bs"
| "decodeNibbles [n] bs = None"
| "decodeNibbles (n # m # ns) [] = None"
| "decodeNibbles (n # m # ns) (b # bs) =
     map_option (\<lambda>r. (push_bit 4 n OR m) # r) (decodeNibbles ns bs)"

fun nibbles_of :: "bytes \<Rightarrow> bytes" where
  "nibbles_of [] = []"
| "nibbles_of (b # bs) = b div 16 # b mod 16 # nibbles_of bs"

definition keybytesToHex :: "bytes \<Rightarrow> bytes" where
  "keybytesToHex str = nibbles_of str @ [16]"

definition hexToKeybytes :: "bytes \<Rightarrow> bytes option" where
  "hexToKeybytes hex =
     (let hex = (if hasTerm hex then take (length hex - 1) hex else hex)
      in if odd (length hex) then None
         else decodeNibbles hex (replicate (length hex div 2) 0))"

definition hexToCompact :: "bytes \<Rightarrow> bytes option" where
  "hexToCompact hex =
     (let terminator = (if hasTerm hex then 1 else 0 :: byte);
          hex = (if hasTerm hex then take (length hex - 1) hex else hex);
          flag = push_bit 5 terminator;
          (flag, rest) = (if odd (length hex)
                          then ((flag OR push_bit 4 1) OR hex ! 0, drop 1 hex)
                          else (flag, hex))
      in map_option (\<lambda>tl. flag # tl) (decodeNibbles rest (replicate (length hex div 2) 0)))"

definition compactToHex :: "bytes \<Rightarrow> bytes option" where
  "compactToHex compact =
     (let base = keybytesToHex compact;
          base = (if base ! 0 < 2 then take (length base - 1) base else base);
          chop = unat (2 - (base ! 0 AND 1))
      in go_slice base chop (length base))"

fun prefixLen :: "bytes \<Rightarrow> bytes \<Rightarrow> nat" where
  "prefixLen (a # as) (b # bs) = (if a \<noteq> b then 0 else Suc (prefixLen as bs))"
| "prefixLen _ _ = 0"

section \<open>Nibble keys\<close>

text \<open>The hex keys of the trie: nibbles, with the terminator 16 only at the end.\<close>

definition nibbles :: "bytes \<Rightarrow> bool" where
  "nibbles k \<longleftrightarrow> (\<forall>n \<in> set k. n < 16)"

definition hexkey :: "bytes \<Rightarrow> bool" where
  "hexkey k \<longleftrightarrow> (\<exists>ns. nibbles ns \<and> k = ns @ [16])"

lemma nibbles_simps [simp]:
  "nibbles []" "nibbles (n # ns) \<longleftrightarrow> n < 16 \<and> nibbles ns"
  "nibbles (as @ bs) \<longleftrightarrow> nibbles as \<and> nibbles bs"
  by (auto simp: nibbles_def)

lemma nibbles_nibbles_of [simp]: "nibbles (nibbles_of bs)"
  by (induction bs) (auto simp: byte_div_16_less byte_mod_16_less)

lemma hexkey_keybytesToHex [simp]: "hexkey (keybytesToHex k)"
  unfolding hexkey_def keybytesToHex_def by (intro exI conjI) auto

lemma length_nibbles_of [simp]: "length (nibbles_of bs) = 2 * length bs"
  by (induction bs) auto

lemma hasTerm_snoc [simp]: "hasTerm (ns @ [x]) \<longleftrightarrow> x = 16"
  by (auto simp: hasTerm_def nth_append)

lemma nibbles_not_hasTerm: "nibbles ns \<Longrightarrow> \<not> hasTerm ns"
  by (cases ns rule: rev_cases) (auto simp: hasTerm_def)

lemma hexkey_hasTerm: "hexkey k \<Longrightarrow> hasTerm k"
  by (auto simp: hexkey_def)

section \<open>Round trips\<close>

lemma decodeNibbles_nibbles_of:
  "length bs = length str \<Longrightarrow> decodeNibbles (nibbles_of str) bs = Some str"
proof (induction str arbitrary: bs)
  case (Cons b str)
  then obtain c cs where "bs = c # cs" "length cs = length str" by (cases bs) auto
  with Cons.IH[of cs] show ?case by (simp add: byte_nibbles_join)
qed simp

lemma decodeNibbles_even:
  assumes "even (length ns)" "nibbles ns" "length bs = length ns div 2"
  shows "\<exists>r. decodeNibbles ns bs = Some r \<and> nibbles_of r = ns \<and> length r = length ns div 2"
  using assms
proof (induction ns arbitrary: bs rule: even_length_induct)
  case (Cons2 a b ys)
  then obtain c cs where bs: "bs = c # cs" "length cs = length ys div 2" by (cases bs) auto
  with Cons2 obtain r where "decodeNibbles ys cs = Some r" "nibbles_of r = ys" "length r = length ys div 2"
    by auto
  with Cons2.prems bs show ?case by (simp add: nibble_high nibble_low)
qed simp

lemma hexToKeybytes_total:
  "nibbles ns \<Longrightarrow> even (length ns) \<Longrightarrow>
   \<exists>k. hexToKeybytes (ns @ [16]) = Some k \<and> keybytesToHex k = ns @ [16]"
  using decodeNibbles_even[of ns "replicate (length ns div 2) 0"]
  by (auto simp: hexToKeybytes_def keybytesToHex_def)


lemma hexToCompact_even:
  assumes "nibbles ns" "even (length ns)"
  obtains r where "hexToCompact (ns @ (if t then [16] else [])) = Some ((if t then 32 else 0) # r)"
    "nibbles_of r = ns"
proof -
  obtain r where "decodeNibbles ns (replicate (length ns div 2) 0) = Some r" "nibbles_of r = ns"
    using decodeNibbles_even[of ns "replicate (length ns div 2) 0"] assms by auto
  then show thesis
    using that assms nibbles_not_hasTerm[of ns] by (cases t) (auto simp: hexToCompact_def)
qed

lemma hexToCompact_odd:
  assumes "nibbles (n # ns)" "even (length ns)"
  obtains r where "hexToCompact (n # ns @ (if t then [16] else [])) =
      Some (((if t then 48 else 16) OR n) # r)" "nibbles_of r = ns"
proof -
  obtain r where r: "decodeNibbles ns (replicate (length ns div 2) 0) = Some r" "nibbles_of r = ns"
    using decodeNibbles_even[of ns "replicate (length ns div 2) 0"] assms by auto
  have "hasTerm (n # ns @ [16])" using hasTerm_snoc[of "n # ns" 16] by simp
  with r show thesis
    using that assms nibbles_not_hasTerm[of "n # ns"] by (cases t) (auto simp: hexToCompact_def)
qed

lemma flag_nibble:
  assumes "(n::byte) < 16"
  shows "(16 OR n) div 16 = 1" "(16 OR n) mod 16 = n" "(48 OR n) div 16 = 3" "(48 OR n) mod 16 = n"
  using assms nibble_high[of 1 n] nibble_low[of 1 n] nibble_high[of 3 n] nibble_low[of 3 n]
  by simp_all

lemma compactToHex_flag:
  "compactToHex (f # r) =
     (let base = f div 16 # f mod 16 # nibbles_of r @ (if f div 16 < 2 then [] else [16])
      in go_slice base (unat (2 - (f div 16 AND 1))) (length base))"
  by (simp add: compactToHex_def keybytesToHex_def)

text \<open>
  C15: the compact encoding is lossless. For every nibble key, with or without the
  terminator, \<^verbatim>\<open>hexToCompact\<close> returns (no index panics) and \<^verbatim>\<open>compactToHex\<close> maps the
  result back to the key.
\<close>

theorem compact_roundtrip:
  assumes "nibbles ns"
  shows "\<exists>c. hexToCompact (ns @ (if t then [16] else [])) = Some c \<and>
             compactToHex c = Some (ns @ (if t then [16] else []))"
proof (cases "even (length ns)")
  case True
  with assms obtain r where "hexToCompact (ns @ (if t then [16] else [])) = Some ((if t then 32 else 0) # r)"
    "nibbles_of r = ns" by (rule hexToCompact_even)
  then show ?thesis by (auto simp: compactToHex_flag)
next
  case False
  then obtain m ms where ns: "ns = m # ms" "even (length ms)" by (cases ns) auto
  with assms obtain r where "hexToCompact (m # ms @ (if t then [16] else [])) =
      Some (((if t then 48 else 16) OR m) # r)" "nibbles_of r = ms"
    using hexToCompact_odd[of m ms] by metis
  with ns assms show ?thesis by (auto simp: compactToHex_flag flag_nibble)
qed

theorem compact_roundtrip_witness:
  "\<exists>c. hexToCompact ([1, 2, 3] @ (if True then [16] else [])) = Some c \<and>
       compactToHex c = Some ([1, 2, 3] @ (if True then [16] else []))"
  by (rule compact_roundtrip) simp

text \<open>
  C16: key bytes survive the hex encoding. \<^verbatim>\<open>hexToKeybytes\<close> inverts \<^verbatim>\<open>keybytesToHex\<close>
  on every key, and every key it produces is a nibble string closed by the terminator.
\<close>

theorem keybytes_roundtrip:
  "hexToKeybytes (keybytesToHex k) = Some k \<and> hexkey (keybytesToHex k)"
proof
  show "hexToKeybytes (keybytesToHex k) = Some k"
    by (simp add: hexToKeybytes_def keybytesToHex_def decodeNibbles_nibbles_of)
qed simp

section \<open>Common prefixes\<close>

lemma prefixLen_le: "prefixLen a b \<le> length a" "prefixLen a b \<le> length b"
  by (induction a b rule: prefixLen.induct) auto

lemma prefixLen_take: "take (prefixLen a b) a = take (prefixLen a b) b"
  by (induction a b rule: prefixLen.induct) auto

lemma prefixLen_differ:
  "prefixLen a b < length a \<Longrightarrow> prefixLen a b < length b \<Longrightarrow> a ! prefixLen a b \<noteq> b ! prefixLen a b"
  by (induction a b rule: prefixLen.induct) auto

lemma prefixLen_full: "prefixLen a b = length b \<longleftrightarrow> (\<exists>c. a = b @ c)"
  by (induction a b rule: prefixLen.induct) auto

lemma prefixLen_append [simp]: "prefixLen (b @ c) b = length b"
  using prefixLen_full by blast

lemma keybytesToHex_inj: "keybytesToHex a = keybytesToHex b \<Longrightarrow> a = b"
  using decodeNibbles_nibbles_of[of "replicate (length a) 0" a]
    decodeNibbles_nibbles_of[of "replicate (length b) 0" b]
  by (auto simp: keybytesToHex_def) (metis length_nibbles_of mult_left_cancel option.inject zero_neq_numeral)

end
