(* ===== verification/Trie_Node.thy ===== *)
theory Trie_Node
  imports Trie_Encoding Rlp_Raw
begin

text \<open>
  \<^verbatim>\<open>src/storage/trie/node.go\<close> and the node conversions of
  \<^verbatim>\<open>src/storage/trie/database.go\<close>: the node types of the trie, their cache flags, the
  decoder of stored nodes, and the collapsed (raw) form of the node database.
\<close>

section \<open>Nodes\<close>

record nodeFlag =
  flag_hash :: "bytes option"
  gen :: u16
  dirty :: bool

text \<open>
  The node interface: \<open>NilNode\<close> is the nil interface value, \<open>FullNode\<close> carries the
  seventeen children of \<^verbatim>\<open>fullNode\<close> in order.
\<close>

datatype node =
    NilNode
  | FullNode "node list" nodeFlag
  | ShortNode bytes node nodeFlag
  | HashNode bytes
  | ValueNode bytes

fun cache :: "node \<Rightarrow> bytes option \<times> bool" where
  "cache (FullNode cs fl) = (flag_hash fl, dirty fl)"
| "cache (ShortNode k v fl) = (flag_hash fl, dirty fl)"
| "cache (HashNode h) = (None, True)"
| "cache (ValueNode v) = (None, True)"
| "cache NilNode = (None, True)"

definition flag_canUnload :: "nodeFlag \<Rightarrow> u16 \<Rightarrow> u16 \<Rightarrow> bool" where
  "flag_canUnload fl cachegen cachelimit \<longleftrightarrow> \<not> dirty fl \<and> cachegen - gen fl \<ge> cachelimit"

fun canUnload :: "node \<Rightarrow> u16 \<Rightarrow> u16 \<Rightarrow> bool" where
  "canUnload (FullNode cs fl) g l = flag_canUnload fl g l"
| "canUnload (ShortNode k v fl) g l = flag_canUnload fl g l"
| "canUnload _ g l = False"

section \<open>Decoding\<close>

text \<open>
  A decoding error carries the path \<^verbatim>\<open>wrapError\<close> collects; a plain error has the empty
  path. \<open>DecPanic\<close> is an index panic below the decoder, \<open>DecFuel\<close> marks exhausted
  fuel of the model and never occurs with the fuel \<open>decodeNode\<close> uses.
\<close>

datatype decode_cause =
    DecUnexpectedEOF
  | DecList rlp_error
  | DecCount nat
  | DecRlp rlp_error
  | DecValueNode rlp_error
  | DecOversized nat
  | DecSize nat
  | DecPanic
  | DecFuel

datatype decode_error = DecodeError decode_cause "string list"

fun wrapError :: "decode_error \<Rightarrow> string \<Rightarrow> decode_error" where
  "wrapError (DecodeError e st) ctx = DecodeError e (st @ [ctx])"

text \<open>The three decoders call each other; the model passes the recursive call of
  \<^verbatim>\<open>decodeNode\<close> as an argument.\<close>

type_synonym decoder = "bytes option \<Rightarrow> bytes \<Rightarrow> u16 \<Rightarrow> decode_error + node"

definition decodeRef :: "decoder \<Rightarrow> bytes \<Rightarrow> u16 \<Rightarrow> decode_error + node \<times> bytes" where
  "decodeRef dn buf cachegen =
    (case Split buf of
       Inl e \<Rightarrow> Inl (DecodeError (DecRlp e) [])
     | Inr (kind, val, rest) \<Rightarrow>
         if kind = KList then
           (let sz = length buf - length rest
            in if sz > 32 then Inl (DecodeError (DecOversized sz) [])
               else (case dn None buf cachegen of Inl e \<Rightarrow> Inl e | Inr n \<Rightarrow> Inr (n, rest)))
         else if kind = KString \<and> length val = 0 then Inr (NilNode, rest)
         else if kind = KString \<and> length val = 32 then Inr (HashNode val, rest)
         else Inl (DecodeError (DecSize (length val)) []))"

definition decodeShort :: "decoder \<Rightarrow> bytes option \<Rightarrow> bytes \<Rightarrow> u16 \<Rightarrow> decode_error + node" where
  "decodeShort dn hash elems cachegen =
    (case SplitString elems of
       Inl e \<Rightarrow> Inl (DecodeError (DecRlp e) [])
     | Inr (kbuf, rest) \<Rightarrow>
         let flag = \<lparr>flag_hash = hash, gen = cachegen, dirty = False\<rparr> in
         (case compactToHex kbuf of
            None \<Rightarrow> Inl (DecodeError DecPanic [])
          | Some key \<Rightarrow>
              if hasTerm key then
                (case SplitString rest of
                   Inl e \<Rightarrow> Inl (DecodeError (DecValueNode e) [])
                 | Inr (val, _) \<Rightarrow> Inr (ShortNode key (ValueNode val) flag))
              else
                (case decodeRef dn rest cachegen of
                   Inl e \<Rightarrow> Inl (wrapError e ''val'')
                 | Inr (r, _) \<Rightarrow> Inr (ShortNode key r flag))))"

fun decodeFull_loop ::
  "decoder \<Rightarrow> u16 \<Rightarrow> nat \<Rightarrow> bytes \<Rightarrow> node list \<Rightarrow> decode_error + node list \<times> bytes" where
  "decodeFull_loop dn cachegen 0 elems acc = Inr (acc, elems)"
| "decodeFull_loop dn cachegen (Suc n) elems acc =
     (case decodeRef dn elems cachegen of
        Inl e \<Rightarrow> Inl (wrapError e (''['' @ itoa (length acc) @ '']''))
      | Inr (cld, rest) \<Rightarrow> decodeFull_loop dn cachegen n rest (acc @ [cld]))"

definition decodeFull :: "decoder \<Rightarrow> bytes option \<Rightarrow> bytes \<Rightarrow> u16 \<Rightarrow> decode_error + node" where
  "decodeFull dn hash elems cachegen =
    (case decodeFull_loop dn cachegen 16 elems [] of
       Inl e \<Rightarrow> Inl e
     | Inr (cs, elems) \<Rightarrow>
         (case SplitString elems of
            Inl e \<Rightarrow> Inl (DecodeError (DecRlp e) [])
          | Inr (val, _) \<Rightarrow>
              Inr (FullNode (cs @ [if length val > 0 then ValueNode val else NilNode])
                     \<lparr>flag_hash = hash, gen = cachegen, dirty = False\<rparr>)))"

fun decodeNode_fuel :: "nat \<Rightarrow> decoder" where
  "decodeNode_fuel 0 hash buf cachegen = Inl (DecodeError DecFuel [])"
| "decodeNode_fuel (Suc fuel) hash buf cachegen =
     (if length buf = 0 then Inl (DecodeError DecUnexpectedEOF [])
      else
        (case SplitList buf of
           Inl e \<Rightarrow> Inl (DecodeError (DecList e) [])
         | Inr (elems, _) \<Rightarrow>
             (let c = (case CountValues elems of Inl _ \<Rightarrow> 0 | Inr c \<Rightarrow> c) in
              if c = 2 then
                (case decodeShort (decodeNode_fuel fuel) hash elems cachegen of
                   Inl e \<Rightarrow> Inl (wrapError e ''short'') | Inr n \<Rightarrow> Inr n)
              else if c = 17 then
                (case decodeFull (decodeNode_fuel fuel) hash elems cachegen of
                   Inl e \<Rightarrow> Inl (wrapError e ''full'') | Inr n \<Rightarrow> Inr n)
              else Inl (DecodeError (DecCount c) []))))"

text \<open>Every nested call decodes a strictly shorter input, so the length is enough fuel.\<close>

definition decodeNode :: decoder where
  "decodeNode hash buf cachegen = decodeNode_fuel (Suc (length buf)) hash buf cachegen"


lemma Split_shorter:
  assumes "Split b = Inr (k, c, rest)"
  shows "length rest < length b" "length c \<le> length b" "k = KList \<Longrightarrow> length c < length b"
  using Split_Inr[OF assms] item_spec_ne[of k c] length_item_spec[of c k]
  by (auto simp: item_spec_def list_spec_def head_spec_def)

lemma decodeRef_cong:
  assumes "\<And>h b. length b \<le> length buf \<Longrightarrow> dn h b g = dn' h b g"
  shows "decodeRef dn buf g = decodeRef dn' buf g"
  using assms by (auto simp: decodeRef_def Let_def split: sum.splits)

lemma decodeRef_rest: "decodeRef dn buf g = Inr (n, rest) \<Longrightarrow> length rest < length buf"
  by (auto simp: decodeRef_def Let_def split: sum.splits if_splits dest: Split_shorter)

lemma decodeShort_cong:
  assumes "\<And>h b. length b \<le> length elems \<Longrightarrow> dn h b g = dn' h b g"
  shows "decodeShort dn hash elems g = decodeShort dn' hash elems g"
proof (cases "SplitString elems")
  case (Inr r)
  then obtain kbuf rest where r: "r = (kbuf, rest)" "length rest < length elems"
    by (cases r) (auto simp: SplitString_def split: sum.splits if_splits dest: Split_shorter)
  have "decodeRef dn rest g = decodeRef dn' rest g"
    using assms r by (intro decodeRef_cong) simp
  with Inr r show ?thesis by (simp add: decodeShort_def Let_def split: option.split)
qed (simp add: decodeShort_def)

lemma decodeFull_loop_cong:
  assumes "\<And>h b. length b \<le> length elems \<Longrightarrow> dn h b g = dn' h b g"
  shows "decodeFull_loop dn g n elems acc = decodeFull_loop dn' g n elems acc"
  using assms
proof (induction n arbitrary: elems acc)
  case (Suc n)
  have r: "decodeRef dn elems g = decodeRef dn' elems g" using Suc.prems by (rule decodeRef_cong)
  have "decodeRef dn' elems g = Inr (cld, rest) \<Longrightarrow>
      decodeFull_loop dn g n rest acc' = decodeFull_loop dn' g n rest acc'" for cld rest acc'
    by (rule Suc.IH) (use Suc.prems decodeRef_rest[of dn' elems g cld rest] in auto)
  with r show ?case by (auto split: sum.split)
qed simp

lemma decodeFull_cong:
  "(\<And>h b. length b \<le> length elems \<Longrightarrow> dn h b g = dn' h b g) \<Longrightarrow>
   decodeFull dn hash elems g = decodeFull dn' hash elems g"
  using decodeFull_loop_cong[of elems dn g dn'] by (simp add: decodeFull_def)

lemma SplitList_shorter: "SplitList b = Inr (c, rest) \<Longrightarrow> length c < length b"
  by (auto simp: SplitList_def split: sum.splits if_splits dest: Split_shorter)

lemma decodeNode_fuel_enough:
  "length buf < f \<Longrightarrow> length buf < f' \<Longrightarrow> decodeNode_fuel f h buf g = decodeNode_fuel f' h buf g"
proof (induction f arbitrary: f' h buf)
  case (Suc f)
  then obtain e where f': "f' = Suc e" by (cases f') auto
  show ?case
  proof (cases "SplitList buf")
    case (Inr r)
    obtain elems rest where r: "r = (elems, rest)" by (cases r)
    with Inr have len: "length elems < length buf" using SplitList_shorter by blast
    have agree: "length b \<le> length elems \<Longrightarrow> decodeNode_fuel f h' b g = decodeNode_fuel e h' b g" for h' b
      using Suc.IH[of b e h'] len Suc.prems f' by simp
    show ?thesis
      using Inr r f' decodeShort_cong[of elems "decodeNode_fuel f" g "decodeNode_fuel e", OF agree]
        decodeFull_cong[of elems "decodeNode_fuel f" g "decodeNode_fuel e", OF agree]
      by (simp add: Let_def)
  qed (simp add: f')
qed simp


end
