(* ===== verification/Common_Types.thy ===== *)
theory Common_Types
  imports Go_Big
begin

text \<open>
  \<^verbatim>\<open>src/common/types.go\<close>, \<^verbatim>\<open>src/common/bytes.go\<close> and the padding functions of
  \<^verbatim>\<open>src/utility/math.go\<close>: hashes and addresses as byte strings of fixed length, their
  conversions, and the hexadecimal text form.
\<close>

section \<open>Fixed-size byte strings\<close>

definition HashLength :: nat where
  "HashLength = 32"

definition AddressLength :: nat where
  "AddressLength = 20"

definition zero_hash :: hash where
  "zero_hash = replicate HashLength 0"

definition zero_address :: address where
  "zero_address = replicate AddressLength 0"

text \<open>A hash keeps the last 32 bytes and pads a shorter input with zeros on the left.\<close>

definition Hash_SetBytes :: "hash \<Rightarrow> bytes \<Rightarrow> hash" where
  "Hash_SetBytes h b =
    (let b = (if length b > length h then drop (length b - HashLength) b else b)
     in take (HashLength - length b) h @ go_copy (drop (HashLength - length b) h) b)"

definition BytesToHash :: "bytes \<Rightarrow> hash" where
  "BytesToHash b = Hash_SetBytes zero_hash b"

text \<open>An address keeps the last 20 bytes but copies a shorter input to its front.\<close>

definition Address_SetBytes :: "address \<Rightarrow> bytes \<Rightarrow> address" where
  "Address_SetBytes a b =
    go_copy a (if length b > length a then drop (length b - AddressLength) b else b)"

definition BytesToAddress :: "bytes \<Rightarrow> address" where
  "BytesToAddress b = Address_SetBytes zero_address b"

definition BigToAddress :: "int \<Rightarrow> address" where
  "BigToAddress n = BytesToAddress (big_Bytes n)"

definition Address_BigInteger :: "address \<Rightarrow> int" where
  "Address_BigInteger a = big_SetBytes a"

definition Address_Hash :: "address \<Rightarrow> hash" where
  "Address_Hash a = BytesToHash a"

definition BigToHash :: "int \<Rightarrow> hash" where
  "BigToHash n = BytesToHash (big_Bytes n)"

definition Hash_Big :: "hash \<Rightarrow> int" where
  "Hash_Big h = big_SetBytes h"

text \<open>\<open>is_hash\<close> and \<open>is_address\<close> are the Go types.\<close>

definition is_hash :: "bytes \<Rightarrow> bool" where
  "is_hash h \<longleftrightarrow> length h = HashLength"

definition is_address :: "bytes \<Rightarrow> bool" where
  "is_address a \<longleftrightarrow> length a = AddressLength"

definition RightPadBytes :: "bytes \<Rightarrow> nat \<Rightarrow> bytes" where
  "RightPadBytes s l =
    (if l \<le> length s then s else go_copy (replicate l 0) s)"

definition LeftPadBytes :: "bytes \<Rightarrow> nat \<Rightarrow> bytes" where
  "LeftPadBytes s l =
    (if l \<le> length s then s
     else replicate (l - length s) 0 @ go_copy (replicate (length s) 0) s)"

section \<open>Hexadecimal text\<close>

text \<open>\<^verbatim>\<open>encoding/hex\<close> of the standard library: lower-case digits out, both cases in.
  \<open>DecodeString\<close> returns the bytes decoded before an error together with the error.\<close>

definition hex_digit :: "nat \<Rightarrow> char" where
  "hex_digit n = char_of (if n < 10 then 48 + n else 87 + n)"

definition hex_value :: "char \<Rightarrow> nat option" where
  "hex_value c =
    (let n = of_char c :: nat
     in if 48 \<le> n \<and> n \<le> 57 then Some (n - 48)
        else if 97 \<le> n \<and> n \<le> 102 then Some (n - 87)
        else if 65 \<le> n \<and> n \<le> 70 then Some (n - 55)
        else None)"

fun hex_EncodeToString :: "bytes \<Rightarrow> string" where
  "hex_EncodeToString [] = []"
| "hex_EncodeToString (b # bs) =
     hex_digit (unat b div 16) # hex_digit (unat b mod 16) # hex_EncodeToString bs"

fun hex_DecodeString :: "string \<Rightarrow> bytes \<times> bool" where
  "hex_DecodeString (c # d # cs) =
     (case (hex_value c, hex_value d) of
        (Some x, Some y) \<Rightarrow> (let (bs, ok) = hex_DecodeString cs in (of_nat (16 * x + y) # bs, ok))
      | _ \<Rightarrow> ([], False))"
| "hex_DecodeString [c] = ([], False)"
| "hex_DecodeString [] = ([], True)"

definition Bytes2Hex :: "bytes \<Rightarrow> string" where
  "Bytes2Hex d = hex_EncodeToString d"

definition Hex2Bytes :: "string \<Rightarrow> bytes" where
  "Hex2Bytes s = fst (hex_DecodeString s)"

definition ToHex :: "bytes \<Rightarrow> string" where
  "ToHex b = (let h = Bytes2Hex b in ''0x'' @ (if length h = 0 then ''0'' else h))"

definition FromHex :: "string \<Rightarrow> bytes" where
  "FromHex s =
    (if length s > 1 then
       (let s = (if take 2 s = ''0x'' \<or> take 2 s = ''0X'' then drop 2 s else s);
            s = (if length s mod 2 = 1 then CHR ''0'' # s else s)
        in Hex2Bytes s)
     else [])"

definition HexToHash :: "string \<Rightarrow> hash" where
  "HexToHash s = BytesToHash (FromHex s)"

definition HexToAddress :: "string \<Rightarrow> address" where
  "HexToAddress s = BytesToAddress (FromHex s)"

definition GetHexString :: "address \<Rightarrow> string" where
  "GetHexString a = ToHex a"

definition HexStringToAddress :: "string \<Rightarrow> address" where
  "HexStringToAddress s =
    (if length s < 2 \<or> take 2 s \<noteq> ''0x'' then zero_address
     else (let buf = fst (hex_DecodeString (drop 2 s))
           in if length buf = AddressLength then Address_SetBytes zero_address buf else zero_address))"

definition has0xPrefix :: "string \<Rightarrow> bool" where
  "has0xPrefix str \<longleftrightarrow> length str \<ge> 2 \<and> str ! 0 = CHR ''0'' \<and> (str ! 1 = CHR ''x'' \<or> str ! 1 = CHR ''X'')"

definition isHexCharacter :: "char \<Rightarrow> bool" where
  "isHexCharacter c \<longleftrightarrow>
    (let n = of_char c :: nat
     in (48 \<le> n \<and> n \<le> 57) \<or> (97 \<le> n \<and> n \<le> 102) \<or> (65 \<le> n \<and> n \<le> 70))"

definition isHex :: "string \<Rightarrow> bool" where
  "isHex str \<longleftrightarrow> length str mod 2 = 0 \<and> list_all isHexCharacter str"

definition IsHexAddress :: "string \<Rightarrow> bool" where
  "IsHexAddress s =
    (let s = (if has0xPrefix s then drop 2 s else s)
     in length s = 2 * AddressLength \<and> isHex s)"

section \<open>Lemmas\<close>

lemma zero_lengths [simp]: "length zero_hash = 32" "length zero_address = 20"
  by (simp_all add: zero_hash_def zero_address_def HashLength_def AddressLength_def)

lemma Hash_SetBytes_length [simp]: "length h = 32 \<Longrightarrow> length (Hash_SetBytes h b) = 32"
  by (simp add: Hash_SetBytes_def Let_def HashLength_def)

lemma BytesToHash_length [simp]: "length (BytesToHash b) = 32"
  by (simp add: BytesToHash_def)

lemma BytesToAddress_length [simp]: "length (BytesToAddress b) = 20"
  by (simp add: BytesToAddress_def Address_SetBytes_def)

lemma BytesToHash_pad:
  "BytesToHash b = replicate (32 - length b) 0 @ drop (length b - 32) b"
  by (auto simp: BytesToHash_def Hash_SetBytes_def zero_hash_def HashLength_def Let_def go_copy_def)

lemma BytesToHash_id [simp]: "length b = 32 \<Longrightarrow> BytesToHash b = b"
  by (simp add: BytesToHash_pad)

lemma BytesToAddress_pad:
  "BytesToAddress b = drop (length b - 20) b @ replicate (20 - length b) 0"
  by (auto simp: BytesToAddress_def Address_SetBytes_def zero_address_def AddressLength_def go_copy_def)

lemma BytesToAddress_id [simp]: "length b = 20 \<Longrightarrow> BytesToAddress b = b"
  by (simp add: BytesToAddress_pad)

lemma LeftPadBytes_eq: "LeftPadBytes b l = replicate (l - length b) 0 @ b"
  by (simp add: LeftPadBytes_def go_copy_same_length)

lemma RightPadBytes_eq: "RightPadBytes b l = b @ replicate (l - length b) 0"
  by (simp add: RightPadBytes_def go_copy_def)

lemma hex_value_digit: "n < 16 \<Longrightarrow> hex_value (hex_digit n) = Some n"
  by (auto simp: hex_value_def hex_digit_def Let_def)

lemma hex_decode_encode: "hex_DecodeString (hex_EncodeToString b) = (b, True)"
proof (induction b)
  case (Cons x b)
  have "unat x < 256" using unsigned_less[of x] by simp
  then have "unat x div 16 < 16" "unat x mod 16 < 16" by auto
  with Cons show ?case by (simp add: hex_value_digit)
qed simp

lemma length_hex_encode [simp]: "length (hex_EncodeToString b) = 2 * length b"
  by (induction b) auto

lemma hex_encode_eq_Nil [simp]: "hex_EncodeToString b = [] \<longleftrightarrow> b = []"
  by (cases b) auto

lemma FromHex_ToHex: "b \<noteq> [] \<Longrightarrow> FromHex (ToHex b) = b"
  by (simp add: FromHex_def ToHex_def Bytes2Hex_def Hex2Bytes_def Let_def hex_decode_encode)

lemma be_nat_append: "be_nat (xs @ ys) = be_nat xs * 256 ^ length ys + be_nat ys"
proof (induction ys rule: rev_induct)
  case (snoc y ys)
  have "be_nat (xs @ ys @ [y]) = 256 * be_nat (xs @ ys) + unat y"
    using be_nat_snoc[of "xs @ ys" y] by simp
  with snoc show ?case by (simp add: algebra_simps)
qed simp

lemma be_nat_zero_Cons: "be_nat (0 # bs) = be_nat bs"
  using be_nat_append[of "[0]" bs] by (simp add: be_nat_def)

lemma nat_be_pad: "replicate (length bs - length (nat_be (be_nat bs))) 0 @ nat_be (be_nat bs) = bs"
proof (induction bs)
  case (Cons b bs)
  show ?case
  proof (cases "b = 0")
    case True
    have "length (nat_be (be_nat bs)) \<le> length bs" by (intro length_nat_be_le be_nat_bound)
    with Cons True show ?thesis by (simp add: be_nat_zero_Cons Suc_diff_le)
  qed (simp add: nat_be_be_nat)
qed simp

lemma hash_big_roundtrip: "length h = 32 \<Longrightarrow> BigToHash (Hash_Big h) = h"
  using nat_be_pad[of h] length_nat_be_le[OF be_nat_bound[of h]]
  by (simp add: BigToHash_def Hash_Big_def BytesToHash_pad big_Bytes_def big_SetBytes_def)

text \<open>Conversion through an integer is exact for an address only when its first byte is
  not zero: the shorter byte string is copied to the front.\<close>

lemma address_big_roundtrip:
  assumes "length a = 20" "hd a \<noteq> 0"
  shows "BigToAddress (Address_BigInteger a) = a"
  using assms nat_be_be_nat[of a]
  by (auto simp: BigToAddress_def Address_BigInteger_def big_Bytes_def big_SetBytes_def)

lemma address_hex_roundtrip:
  assumes "length a = 20"
  shows "HexToAddress (GetHexString a) = a" "HexStringToAddress (GetHexString a) = a"
proof -
  from assms have "a \<noteq> []" by auto
  with assms FromHex_ToHex[of a]
  show "HexToAddress (GetHexString a) = a" "HexStringToAddress (GetHexString a) = a"
    by (simp_all add: HexToAddress_def GetHexString_def HexStringToAddress_def
      ToHex_def Bytes2Hex_def hex_decode_encode AddressLength_def Address_SetBytes_def go_copy_def Let_def)
qed

text \<open>
  C24: the text and integer forms of a hash are faithful. A 32-byte hash is recovered
  from its hexadecimal string and from its big-endian integer.
\<close>

theorem hash_text_roundtrip:
  assumes "is_hash h"
  shows "HexToHash (ToHex h) = h \<and> BigToHash (Hash_Big h) = h"
proof -
  from assms have h: "length h = 32" "h \<noteq> []" by (auto simp: is_hash_def HashLength_def)
  with FromHex_ToHex[of h] hash_big_roundtrip[of h] show ?thesis by (simp add: HexToHash_def)
qed

theorem hash_text_roundtrip_witness:
  "is_hash zero_hash \<and> HexToHash (ToHex zero_hash) = zero_hash \<and> BigToHash (Hash_Big zero_hash) = zero_hash"
  using hash_text_roundtrip[of zero_hash] by (simp add: is_hash_def HashLength_def)



end
