(* ===== verification/Trie_Database.thy ===== *)
theory Trie_Database
  imports Trie_Node Common_Types Rlp_Encode "HOL-Library.AList"
begin

text \<open>
  \<^verbatim>\<open>src/storage/trie/database.go\<close>: the in-memory node database between the tries and
  the disk: collapsed nodes, their expansion, the cached entries with their reference
  counts, and the flush list that orders them by age.

  A Go map is an association list with distinct keys, updated by \<open>AList.update\<close> and
  \<open>AList.delete\<close>; ranging over a map visits the entries in list order, one of the
  orders Go may choose. \<^verbatim>\<open>StorageSize\<close> is a float64 that only ever holds integers and is
  an \<open>int\<close> here. The disk is its readable content. Timers and the lock are left out.
\<close>

section \<open>Collapsed nodes\<close>

text \<open>The node kinds that live in the database: \<^verbatim>\<open>rawNode\<close>, \<^verbatim>\<open>rawFullNode\<close>,
  \<^verbatim>\<open>rawShortNode\<close> and the shared hash, value and nil nodes.\<close>

datatype raw_node =
    RawNil
  | RawBlob bytes
  | RawFull "raw_node list"
  | RawShort bytes raw_node
  | RawHash bytes
  | RawValue bytes

text \<open>\<open>None\<close> is the panic of the default case, which a nil node reaches.\<close>

fun simplifyNode :: "node \<Rightarrow> raw_node option" where
  "simplifyNode (ShortNode k v fl) = map_option (RawShort k) (simplifyNode v)"
| "simplifyNode (FullNode cs fl) =
     map_option RawFull (those (map (\<lambda>c. if c = NilNode then Some RawNil else simplifyNode c) cs))"
| "simplifyNode (ValueNode v) = Some (RawValue v)"
| "simplifyNode (HashNode h) = Some (RawHash h)"
| "simplifyNode NilNode = None"

fun expandNode :: "bytes option \<Rightarrow> raw_node \<Rightarrow> u16 \<Rightarrow> node option" where
  "expandNode hash (RawShort k v) cachegen =
     (case (compactToHex k, expandNode None v cachegen) of
        (Some key, Some val) \<Rightarrow>
          Some (ShortNode key val \<lparr>flag_hash = hash, gen = cachegen, dirty = False\<rparr>)
      | _ \<Rightarrow> None)"
| "expandNode hash (RawFull cs) cachegen =
     map_option (\<lambda>ns. FullNode ns \<lparr>flag_hash = hash, gen = cachegen, dirty = False\<rparr>)
       (those (map (\<lambda>c. if c = RawNil then Some NilNode else expandNode None c cachegen) cs))"
| "expandNode hash (RawValue v) cachegen = Some (ValueNode v)"
| "expandNode hash (RawHash h) cachegen = Some (HashNode h)"
| "expandNode hash (RawBlob b) cachegen = None"
| "expandNode hash RawNil cachegen = None"

fun gatherChildren :: "raw_node \<Rightarrow> hash list option" where
  "gatherChildren (RawShort k v) = gatherChildren v"
| "gatherChildren (RawFull cs) = map_option concat (those (take 16 (map gatherChildren cs)))"
| "gatherChildren (RawHash h) = Some [BytesToHash h]"
| "gatherChildren (RawValue v) = Some []"
| "gatherChildren RawNil = Some []"
| "gatherChildren (RawBlob b) = None"

text \<open>The RLP form of a collapsed node as the interface value \<^verbatim>\<open>rlp\<close> sees:
  \<^verbatim>\<open>rawFullNode.EncodeRLP\<close> writes seventeen values, an empty one for each nil child;
  \<^verbatim>\<open>*rawShortNode\<close> is a pointer to a struct of two fields.\<close>

fun raw_value :: "raw_node \<Rightarrow> rlp_value" where
  "raw_value (RawFull cs) =
     VEncoder (VSlice False
       (map (\<lambda>c. VInterface (Some (if c = RawNil then VBytes [] else raw_value c))) cs))"
| "raw_value (RawShort k v) =
     VPtr (VStruct [VBytes k, VInterface (if v = RawNil then None else Some (raw_value v))])"
| "raw_value (RawHash h) = VBytes h"
| "raw_value (RawValue v) = VBytes v"
| "raw_value (RawBlob b) = VBytes b"
| "raw_value RawNil = VUnsupported"

section \<open>The database\<close>

record cachedNode =
  cn_node :: raw_node
  cn_size :: u16
  parents :: u16
  children :: "(hash \<times> u16) list"
  flushPrev :: hash
  flushNext :: hash

record NodeDatabase =
  diskdb :: "bytes \<Rightarrow> bytes option"
  nodes :: "(hash \<times> cachedNode) list"
  oldest :: hash
  newest :: hash
  preimages :: "(hash \<times> bytes) list"
  gcnodes :: u64
  gcsize :: int
  flushnodes :: u64
  flushsize :: int
  nodesSize :: int
  preimagesSize :: int

definition empty_cachedNode :: cachedNode where
  "empty_cachedNode = \<lparr>cn_node = RawNil, cn_size = 0, parents = 0, children = [],
     flushPrev = zero_hash, flushNext = zero_hash\<rparr>"

definition NewDatabase :: "(bytes \<Rightarrow> bytes option) \<Rightarrow> NodeDatabase" where
  "NewDatabase disk = \<lparr>diskdb = disk, nodes = [(zero_hash, empty_cachedNode)],
     oldest = zero_hash, newest = zero_hash, preimages = [], gcnodes = 0, gcsize = 0,
     flushnodes = 0, flushsize = 0, nodesSize = 0, preimagesSize = 0\<rparr>"

text \<open>\<open>None\<close> is the panic on an encoding error.\<close>

definition cached_rlp :: "cachedNode \<Rightarrow> bytes option" where
  "cached_rlp n =
    (case cn_node n of
       RawBlob b \<Rightarrow> Some b
     | r \<Rightarrow> (case EncodeToBytes (raw_value r) of Inl _ \<Rightarrow> None | Inr b \<Rightarrow> Some b))"

definition mustDecodeNode :: "hash \<Rightarrow> bytes \<Rightarrow> u16 \<Rightarrow> node option" where
  "mustDecodeNode hash buf cachegen =
    (case decodeNode (Some hash) buf cachegen of Inl _ \<Rightarrow> None | Inr n \<Rightarrow> Some n)"

definition cached_obj :: "cachedNode \<Rightarrow> hash \<Rightarrow> u16 \<Rightarrow> node option" where
  "cached_obj n hash cachegen =
    (case cn_node n of
       RawBlob b \<Rightarrow> mustDecodeNode hash b cachegen
     | r \<Rightarrow> expandNode (Some hash) r cachegen)"

definition childs :: "cachedNode \<Rightarrow> hash list option" where
  "childs n =
    (case cn_node n of
       RawBlob b \<Rightarrow> Some (map fst (children n))
     | r \<Rightarrow> map_option (\<lambda>cs. map fst (children n) @ cs) (gatherChildren r))"

definition db_entry :: "NodeDatabase \<Rightarrow> hash \<Rightarrow> cachedNode option" where
  "db_entry db h = map_of (nodes db) h"

text \<open>Assignment through the pointer \<^verbatim>\<open>db.nodes[h]\<close>; a missing entry is a nil pointer.\<close>

definition db_modify :: "hash \<Rightarrow> (cachedNode \<Rightarrow> cachedNode) \<Rightarrow> NodeDatabase \<Rightarrow> NodeDatabase option" where
  "db_modify h upd db =
    (case db_entry db h of
       None \<Rightarrow> None
     | Some n \<Rightarrow> Some (db\<lparr>nodes := AList.update h (upd n) (nodes db)\<rparr>))"

text \<open>The node that \<^verbatim>\<open>NodeDatabase.insert\<close> takes is a trie node or a \<^verbatim>\<open>rawNode\<close> blob.\<close>

definition simplify_any :: "bytes + node \<Rightarrow> raw_node option" where
  "simplify_any n = (case n of Inl b \<Rightarrow> Some (RawBlob b) | Inr n \<Rightarrow> simplifyNode n)"

fun add_parents :: "hash list \<Rightarrow> NodeDatabase \<Rightarrow> NodeDatabase" where
  "add_parents [] db = db"
| "add_parents (c # cs) db =
     add_parents cs
       (case db_modify c (\<lambda>n. n\<lparr>parents := parents n + 1\<rparr>) db of None \<Rightarrow> db | Some db \<Rightarrow> db)"

definition db_insert :: "hash \<Rightarrow> bytes \<Rightarrow> bytes + node \<Rightarrow> NodeDatabase \<Rightarrow> NodeDatabase option" where
  "db_insert h blob n db =
    (if db_entry db h \<noteq> None then Some db
     else do {
       r \<leftarrow> simplify_any n;
       let entry = empty_cachedNode\<lparr>cn_node := r, cn_size := of_nat (length blob), flushPrev := newest db\<rparr>;
       cs \<leftarrow> childs entry;
       let db = add_parents cs db;
       let db = db\<lparr>nodes := AList.update h entry (nodes db)\<rparr>;
       db \<leftarrow> (if oldest db = zero_hash then Some (db\<lparr>oldest := h, newest := h\<rparr>)
             else map_option (\<lambda>db. db\<lparr>newest := h\<rparr>)
                    (db_modify (newest db) (\<lambda>n. n\<lparr>flushNext := h\<rparr>) db));
       Some (db\<lparr>nodesSize := nodesSize db + int (unat (of_nat HashLength + cn_size entry))\<rparr>)
     })"

definition InsertBlob :: "hash \<Rightarrow> bytes \<Rightarrow> NodeDatabase \<Rightarrow> NodeDatabase option" where
  "InsertBlob h blob db = db_insert h blob (Inl blob) db"

definition insertPreimage :: "hash \<Rightarrow> bytes \<Rightarrow> NodeDatabase \<Rightarrow> NodeDatabase" where
  "insertPreimage h preimage db =
    (if map_of (preimages db) h \<noteq> None then db
     else db\<lparr>preimages := AList.update h preimage (preimages db),
             preimagesSize := preimagesSize db + int (HashLength + length preimage)\<rparr>)"

text \<open>\<^verbatim>\<open>db.node\<close>: \<open>None\<close> is the panic of \<^verbatim>\<open>mustDecodeNode\<close> or \<^verbatim>\<open>expandNode\<close>,
  \<open>Some NilNode\<close> the nil result for a node that is neither cached nor on disk.\<close>

definition db_node :: "NodeDatabase \<Rightarrow> hash \<Rightarrow> u16 \<Rightarrow> node option" where
  "db_node db h cachegen =
    (case db_entry db h of
       Some n \<Rightarrow> cached_obj n h cachegen
     | None \<Rightarrow> (case diskdb db h of None \<Rightarrow> Some NilNode | Some enc \<Rightarrow> mustDecodeNode h enc cachegen))"

definition Node :: "NodeDatabase \<Rightarrow> hash \<Rightarrow> bytes option option" where
  "Node db h =
    (case db_entry db h of
       Some n \<Rightarrow> map_option Some (cached_rlp n)
     | None \<Rightarrow> Some (diskdb db h))"

definition reference :: "hash \<Rightarrow> hash \<Rightarrow> NodeDatabase \<Rightarrow> NodeDatabase option" where
  "reference child parent db =
    (if db_entry db child = None then Some db
     else
       (case db_entry db parent of
          None \<Rightarrow> None
        | Some p \<Rightarrow>
            if map_of (children p) child \<noteq> None \<and> parent \<noteq> zero_hash then Some db
            else do {
              db \<leftarrow> db_modify child (\<lambda>n. n\<lparr>parents := parents n + 1\<rparr>) db;
              db_modify parent (\<lambda>n. n\<lparr>children :=
                AList.update child
                  ((case map_of (children n) child of None \<Rightarrow> 0 | Some k \<Rightarrow> k) + 1) (children n)\<rparr>) db
            }))"

end
