(* ===== verification/Trie_Ops.thy ===== *)
theory Trie_Ops
  imports Trie_Database
begin

text \<open>
  \<^verbatim>\<open>src/storage/trie/trie.go\<close>: lookup, insertion and deletion in the Merkle Patricia
  trie. Subtries that are not loaded are hash nodes, resolved through the node database.

  The recursive operations are \<open>partial_function (option)\<close>: the outer \<open>None\<close> is a
  run that never returns (a database in which hashes refer to each other in a cycle), the
  inner sum carries the errors. Node updates copy the node in the code and are values here.
\<close>

section \<open>State and errors\<close>

datatype trie_error =
    MissingNodeError hash bytes
  | TriePanic

record Trie =
  trie_db :: NodeDatabase
  root :: node
  originalRoot :: hash
  cachegen :: u16
  cachelimit :: u16

definition newFlag :: "Trie \<Rightarrow> nodeFlag" where
  "newFlag t = \<lparr>flag_hash = None, gen = cachegen t, dirty = True\<rparr>"

definition SetCacheLimit :: "Trie \<Rightarrow> u16 \<Rightarrow> Trie" where
  "SetCacheLimit t l = t\<lparr>cachelimit := l\<rparr>"

definition emptyRoot :: hash where
  "emptyRoot = HexToHash ''56e81f171bcc55a6ff8345e692c0f86e5b48e01b996cadc001622fb5e363b421''"

definition resolveHash :: "Trie \<Rightarrow> bytes \<Rightarrow> bytes \<Rightarrow> trie_error + node" where
  "resolveHash t n pre =
    (let hash = BytesToHash n
     in case db_node (trie_db t) hash (cachegen t) of
          None \<Rightarrow> Inl TriePanic
        | Some nd \<Rightarrow> if nd = NilNode then Inl (MissingNodeError hash pre) else Inr nd)"

definition resolve :: "Trie \<Rightarrow> node \<Rightarrow> bytes \<Rightarrow> trie_error + node" where
  "resolve t n pre = (case n of HashNode h \<Rightarrow> resolveHash t h pre | _ \<Rightarrow> Inr n)"

definition NewTrie :: "hash \<Rightarrow> NodeDatabase \<Rightarrow> trie_error + Trie" where
  "NewTrie rt db =
    (let t = \<lparr>trie_db = db, root = NilNode, originalRoot = rt, cachegen = 0, cachelimit = 0\<rparr>
     in if rt \<noteq> zero_hash \<and> rt \<noteq> emptyRoot
        then (case resolveHash t rt [] of Inl e \<Rightarrow> Inl e | Inr n \<Rightarrow> Inr (t\<lparr>root := n\<rparr>))
        else Inr t)"

definition concat_key :: "bytes \<Rightarrow> bytes \<Rightarrow> bytes" where
  "concat_key s1 s2 =
    (let r = replicate (length s1 + length s2) 0;
         r = go_copy r s1
     in take (length s1) r @ go_copy (drop (length s1) r) s2)"

text \<open>Monadic glue: sequencing of a possibly non-returning, possibly failing call.\<close>

definition bindE :: "('e + 'a) option \<Rightarrow> ('a \<Rightarrow> ('e + 'b) option) \<Rightarrow> ('e + 'b) option" where
  "bindE m f = Option.bind m (\<lambda>r. case r of Inl e \<Rightarrow> Some (Inl e) | Inr x \<Rightarrow> f x)"

lemma bindE_simps [simp]:
  "bindE (Some (Inl e)) f = Some (Inl e)" "bindE (Some (Inr x)) f = f x" "bindE None f = None"
  by (simp_all add: bindE_def)

lemma bindE_mono [partial_function_mono]:
  assumes "mono_option B" "\<And>y. mono_option (\<lambda>f. C y f)"
  shows "mono_option (\<lambda>f. bindE (B f) (\<lambda>y. C y f))"
  unfolding bindE_def
proof (rule bind_mono[OF assms(1)])
  show "mono_option (\<lambda>f. case y of Inl e \<Rightarrow> Some (Inl e) | Inr x \<Rightarrow> C x f)" for y
    by (cases y) (simp_all add: assms(2) option.const_mono)
qed

section \<open>Lookup\<close>

partial_function (option) tryGet ::
  "Trie \<Rightarrow> node \<Rightarrow> bytes \<Rightarrow> nat \<Rightarrow> (trie_error + bytes option \<times> node \<times> bool) option" where
  "tryGet t origNode key pos =
    (case origNode of
       NilNode \<Rightarrow> Some (Inr (None, NilNode, False))
     | ValueNode v \<Rightarrow> Some (Inr (Some v, ValueNode v, False))
     | ShortNode nk nv fl \<Rightarrow>
         if length key < pos + length nk \<or> nk \<noteq> take (length nk) (drop pos key)
         then Some (Inr (None, origNode, False))
         else bindE (tryGet t nv key (pos + length nk)) (\<lambda>(value, newnode, didResolve).
           Some (Inr (value,
             (if didResolve then ShortNode nk newnode (fl\<lparr>gen := cachegen t\<rparr>) else origNode),
             didResolve)))
     | FullNode cs fl \<Rightarrow>
         (case go_index key pos of
            None \<Rightarrow> Some (Inl TriePanic)
          | Some b \<Rightarrow>
              (case go_index cs (unat b) of
                 None \<Rightarrow> Some (Inl TriePanic)
               | Some c \<Rightarrow>
                   bindE (tryGet t c key (pos + 1)) (\<lambda>(value, newnode, didResolve).
                     Some (Inr (value,
                       (if didResolve then FullNode (cs[unat b := newnode]) (fl\<lparr>gen := cachegen t\<rparr>)
                        else origNode),
                       didResolve)))))
     | HashNode h \<Rightarrow>
         (case resolveHash t h (take pos key) of
            Inl e \<Rightarrow> Some (Inl e)
          | Inr child \<Rightarrow>
              bindE (tryGet t child key pos) (\<lambda>(value, newnode, _).
                Some (Inr (value, newnode, True)))))"

section \<open>Insertion\<close>

partial_function (option) trie_insert ::
  "Trie \<Rightarrow> node \<Rightarrow> bytes \<Rightarrow> bytes \<Rightarrow> node \<Rightarrow> (trie_error + bool \<times> node) option" where
  "trie_insert t n pre key value =
    (if length key = 0 then
       (case n of
          ValueNode v \<Rightarrow>
            (case value of ValueNode v' \<Rightarrow> Some (Inr (v \<noteq> v', value)) | _ \<Rightarrow> Some (Inl TriePanic))
        | _ \<Rightarrow> Some (Inr (True, value)))
     else
       (case n of
          ShortNode nk nv fl \<Rightarrow>
            (let matchlen = prefixLen key nk in
             if matchlen = length nk then
               bindE (trie_insert t nv (pre @ take matchlen key) (drop matchlen key) value) (\<lambda>(dirty, nn).
                 Some (Inr (if \<not> dirty then (False, n) else (True, ShortNode nk nn (newFlag t)))))
             else if length key \<le> matchlen \<or> 17 \<le> unat (nk ! matchlen) \<or> 17 \<le> unat (key ! matchlen)
             then Some (Inl TriePanic)
             else
               bindE (trie_insert t NilNode (pre @ take (matchlen + 1) nk) (drop (matchlen + 1) nk) nv) (\<lambda>(_, c1).
               bindE (trie_insert t NilNode (pre @ take (matchlen + 1) key) (drop (matchlen + 1) key) value) (\<lambda>(_, c2).
                 (let branch = FullNode ((replicate 17 NilNode)
                        [unat (nk ! matchlen) := c1, unat (key ! matchlen) := c2]) (newFlag t)
                  in if matchlen = 0 then Some (Inr (True, branch))
                     else Some (Inr (True, ShortNode (take matchlen key) branch (newFlag t)))))))
        | FullNode cs fl \<Rightarrow>
            (case go_index cs (unat (key ! 0)) of
               None \<Rightarrow> Some (Inl TriePanic)
             | Some c \<Rightarrow>
                 bindE (trie_insert t c (pre @ [key ! 0]) (drop 1 key) value) (\<lambda>(dirty, nn).
                   Some (Inr (if \<not> dirty then (False, n)
                              else (True, FullNode (cs[unat (key ! 0) := nn]) (newFlag t))))))
        | NilNode \<Rightarrow> Some (Inr (True, ShortNode key value (newFlag t)))
        | HashNode h \<Rightarrow>
            (case resolveHash t h pre of
               Inl e \<Rightarrow> Some (Inl e)
             | Inr rn \<Rightarrow>
                 bindE (trie_insert t rn pre key value) (\<lambda>(dirty, nn).
                   Some (Inr (if \<not> dirty then (False, rn) else (True, nn)))))
        | ValueNode v \<Rightarrow> Some (Inl TriePanic)))"

section \<open>Deletion\<close>

text \<open>The loop that looks for the only child left: \<open>-1\<close> none yet, \<open>-2\<close> at least two.\<close>

fun only_child :: "nat \<Rightarrow> int \<Rightarrow> node list \<Rightarrow> int" where
  "only_child i pos [] = pos"
| "only_child i pos (c # cs) =
     (if c \<noteq> NilNode then (if pos = -1 then only_child (i + 1) (int i) cs else -2)
      else only_child (i + 1) pos cs)"

text \<open>The end of the full-node case, after the child has been replaced.\<close>

definition collapse :: "Trie \<Rightarrow> bytes \<Rightarrow> node list \<Rightarrow> trie_error + bool \<times> node" where
  "collapse t pre cs =
    (let pos = only_child 0 (-1) cs in
     if pos \<ge> 0 then
       (let p = nat pos;
            one = Inr (True, ShortNode [of_nat p] (cs ! p) (newFlag t)) in
        if p \<noteq> 16 then
          (case resolve t (cs ! p) pre of
             Inl e \<Rightarrow> Inl e
           | Inr (ShortNode ck cv fl) \<Rightarrow> Inr (True, ShortNode (of_nat p # ck) cv (newFlag t))
           | Inr _ \<Rightarrow> one)
        else one)
     else Inr (True, FullNode cs (newFlag t)))"

partial_function (option) trie_delete ::
  "Trie \<Rightarrow> node \<Rightarrow> bytes \<Rightarrow> bytes \<Rightarrow> (trie_error + bool \<times> node) option" where
  "trie_delete t n pre key =
    (case n of
       ShortNode nk nv fl \<Rightarrow>
         (let matchlen = prefixLen key nk in
          if matchlen < length nk then Some (Inr (False, n))
          else if matchlen = length key then Some (Inr (True, NilNode))
          else
            bindE (trie_delete t nv (pre @ take (length nk) key) (drop (length nk) key)) (\<lambda>(dirty, child).
              Some (Inr
                (if \<not> dirty then (False, n)
                 else (case child of
                         ShortNode ck cv cfl \<Rightarrow> (True, ShortNode (concat_key nk ck) cv (newFlag t))
                       | _ \<Rightarrow> (True, ShortNode nk child (newFlag t)))))))
     | FullNode cs fl \<Rightarrow>
         if length key = 0 then Some (Inl TriePanic)
         else
           (case go_index cs (unat (key ! 0)) of
              None \<Rightarrow> Some (Inl TriePanic)
            | Some c \<Rightarrow>
                bindE (trie_delete t c (pre @ [key ! 0]) (drop 1 key)) (\<lambda>(dirty, nn).
                  Some (if \<not> dirty then Inr (False, n)
                        else collapse t pre (cs[unat (key ! 0) := nn]))))
     | ValueNode v \<Rightarrow> Some (Inr (True, NilNode))
     | NilNode \<Rightarrow> Some (Inr (False, NilNode))
     | HashNode h \<Rightarrow>
         (case resolveHash t h pre of
            Inl e \<Rightarrow> Some (Inl e)
          | Inr rn \<Rightarrow>
              bindE (trie_delete t rn pre key) (\<lambda>(dirty, nn).
                Some (Inr (if \<not> dirty then (False, rn) else (True, nn))))))"

section \<open>The operations of the trie\<close>

text \<open>The outer \<open>None\<close> again means no return; the trie is returned updated.\<close>

definition TryGet :: "Trie \<Rightarrow> bytes \<Rightarrow> (trie_error + bytes option \<times> Trie) option" where
  "TryGet t key =
    bindE (tryGet t (root t) (keybytesToHex key) 0) (\<lambda>(value, newroot, didResolve).
      Some (Inr (value, if didResolve then t\<lparr>root := newroot\<rparr> else t)))"

definition TryDelete :: "Trie \<Rightarrow> bytes \<Rightarrow> (trie_error + Trie) option" where
  "TryDelete t key =
    bindE (trie_delete t (root t) [] (keybytesToHex key)) (\<lambda>(_, n). Some (Inr (t\<lparr>root := n\<rparr>)))"

definition TryUpdate :: "Trie \<Rightarrow> bytes \<Rightarrow> bytes \<Rightarrow> (trie_error + Trie) option" where
  "TryUpdate t key value =
    (if length value \<noteq> 0 then
       bindE (trie_insert t (root t) [] (keybytesToHex key) (ValueNode value)) (\<lambda>(_, n).
         Some (Inr (t\<lparr>root := n\<rparr>)))
     else
       bindE (trie_delete t (root t) [] (keybytesToHex key)) (\<lambda>(_, n). Some (Inr (t\<lparr>root := n\<rparr>))))"

text \<open>\<^verbatim>\<open>Get\<close>, \<^verbatim>\<open>Update\<close> and \<^verbatim>\<open>Delete\<close> panic on every error of their Try form.\<close>

definition trie_Get :: "Trie \<Rightarrow> bytes \<Rightarrow> (trie_error + bytes option \<times> Trie) option" where
  "trie_Get t key =
    (case TryGet t key of Some (Inl _) \<Rightarrow> Some (Inl TriePanic) | r \<Rightarrow> r)"

definition trie_Update :: "Trie \<Rightarrow> bytes \<Rightarrow> bytes \<Rightarrow> (trie_error + Trie) option" where
  "trie_Update t key value =
    (case TryUpdate t key value of Some (Inl _) \<Rightarrow> Some (Inl TriePanic) | r \<Rightarrow> r)"

definition trie_Delete :: "Trie \<Rightarrow> bytes \<Rightarrow> (trie_error + Trie) option" where
  "trie_Delete t key =
    (case TryDelete t key of Some (Inl _) \<Rightarrow> Some (Inl TriePanic) | r \<Rightarrow> r)"

end
