(* ===== verification/Trie_Map.thy ===== *)
theory Trie_Map
  imports Trie_Ops
begin

text \<open>
  What a trie means: the finite map from hex keys to values that a node represents, for
  nodes in canonical form, with unloaded subtries resolved through the database; and the
  proofs that lookup, insertion and deletion implement the map operations.
\<close>

section \<open>Maps of nodes\<close>

text \<open>The kind of a node after resolution.\<close>

datatype nsort = SNil | SVal | SShort | SFull

definition short_map :: "bytes \<Rightarrow> (bytes \<rightharpoonup> bytes) \<Rightarrow> bytes \<rightharpoonup> bytes" where
  "short_map k f x = (if prefix k x then f (drop (length k) x) else None)"

definition full_map :: "(bytes \<rightharpoonup> bytes) list \<Rightarrow> bytes \<rightharpoonup> bytes" where
  "full_map fs x = (case x of [] \<Rightarrow> None
     | b # r \<Rightarrow> if unat b < length fs then (fs ! unat b) r else None)"

definition child_sort :: "nat \<Rightarrow> nsort \<Rightarrow> bool" where
  "child_sort i s \<longleftrightarrow> (if i = 16 then s = SNil \<or> s = SVal else s \<noteq> SVal)"

definition short_key :: "bytes \<Rightarrow> nsort \<Rightarrow> bool" where
  "short_key k s \<longleftrightarrow> (s = SVal \<and> hexkey k) \<or> (s = SFull \<and> nibbles k \<and> k \<noteq> [])"

text \<open>
  \<open>rep R n s f\<close>: with hash nodes resolved by \<open>R\<close>, the node \<open>n\<close> is a canonical
  trie of kind \<open>s\<close> for the map \<open>f\<close> of remaining hex keys. A short node leads to
  a value or to a full node, a full node has at least two children.
\<close>

inductive rep :: "(bytes \<Rightarrow> node option) \<Rightarrow> node \<Rightarrow> nsort \<Rightarrow> (bytes \<rightharpoonup> bytes) \<Rightarrow> bool" for R where
  rep_nil: "rep R NilNode SNil Map.empty"
| rep_value: "v \<noteq> [] \<Longrightarrow> rep R (ValueNode v) SVal [[] \<mapsto> v]"
| rep_short: "rep R n s f \<Longrightarrow> short_key k s \<Longrightarrow> rep R (ShortNode k n fl) SShort (short_map k f)"
| rep_full: "length cs = 17 \<Longrightarrow> length ss = 17 \<Longrightarrow> length fs = 17 \<Longrightarrow>
    (\<And>i. i < 17 \<Longrightarrow> rep R (cs ! i) (ss ! i) (fs ! i) \<and> child_sort i (ss ! i)) \<Longrightarrow>
    i < j \<Longrightarrow> j < 17 \<Longrightarrow> cs ! i \<noteq> NilNode \<Longrightarrow> cs ! j \<noteq> NilNode \<Longrightarrow>
    rep R (FullNode cs fl) SFull (full_map fs)"
| rep_hash: "R h = Some n \<Longrightarrow> rep R n s f \<Longrightarrow> (s = SShort \<or> s = SFull) \<Longrightarrow>
    \<not> (\<exists>h'. n = HashNode h') \<Longrightarrow> rep R (HashNode h) s f"

inductive_cases rep_NilE: "rep R NilNode s f"
inductive_cases rep_ValueE: "rep R (ValueNode v) s f"
inductive_cases rep_ShortE: "rep R (ShortNode k n fl) s f"
inductive_cases rep_FullE: "rep R (FullNode cs fl) s f"
inductive_cases rep_HashE: "rep R (HashNode h) s f"

definition okkey :: "nsort \<Rightarrow> bytes \<Rightarrow> bool" where
  "okkey s key \<longleftrightarrow> (case s of SNil \<Rightarrow> key = [] \<or> hexkey key | SVal \<Rightarrow> key = [] | _ \<Rightarrow> hexkey key)"

lemma short_map_Nil [simp]: "short_map [] f = f"
  by (simp add: short_map_def fun_eq_iff)

lemma short_map_append: "short_map (a @ b) f = short_map a (short_map b f)"
  by (auto simp: short_map_def fun_eq_iff prefix_def)

lemma short_map_apply [simp]: "short_map k f (k @ r) = f r"
  by (simp add: short_map_def)

lemma short_map_upd: "(short_map k f)(k @ r := v) = short_map k (f(r := v))"
  by (auto simp: short_map_def fun_eq_iff prefix_def)

lemma short_map_empty [simp]: "short_map k Map.empty = Map.empty"
  by (simp add: short_map_def fun_eq_iff)

lemma full_map_Cons [simp]: "unat b < length fs \<Longrightarrow> full_map fs (b # r) = (fs ! unat b) r"
  by (simp add: full_map_def)

lemma full_map_upd:
  "unat b < length fs \<Longrightarrow>
   (full_map fs)(b # r := v) = full_map (fs[unat b := (fs ! unat b)(r := v)])"
  by (auto simp: full_map_def fun_eq_iff nth_list_update word_unat_eq_iff split: list.splits)

lemma short_map_single:
  "unat b < n \<Longrightarrow> short_map [b] f = full_map ((replicate n Map.empty)[unat b := f])"
  by (auto simp: short_map_def full_map_def fun_eq_iff prefix_def nth_list_update word_unat_eq_iff
      split: list.splits)

lemma full_map_eq_single:
  assumes "p < length fs" "\<And>i. i < length fs \<Longrightarrow> i \<noteq> p \<Longrightarrow> fs ! i = Map.empty" "unat b = p"
  shows "full_map fs = short_map [b] (fs ! p)"
  using assms by (auto simp: short_map_def full_map_def fun_eq_iff prefix_def word_unat_eq_iff
      split: list.splits)

lemma hexkey_simps [simp]:
  "\<not> hexkey []"
  "hexkey (b # r) \<longleftrightarrow> (b = 16 \<and> r = []) \<or> (b < 16 \<and> hexkey r)"
  by (auto simp: hexkey_def Cons_eq_append_conv)

lemma hexkey_append: "nibbles a \<Longrightarrow> hexkey (a @ r) \<longleftrightarrow> hexkey r"
  by (induction a) auto

lemma hexkey_no_proper_prefix: "hexkey k \<Longrightarrow> hexkey (k @ r) \<longleftrightarrow> r = []"
  by (induction k) auto

lemma rep_nil_iff: "rep R n SNil f \<longleftrightarrow> n = NilNode \<and> f = Map.empty"
  by (auto elim: rep.cases intro: rep_nil)

lemma rep_not_NilNode: "rep R n s f \<Longrightarrow> s \<noteq> SNil \<Longrightarrow> n \<noteq> NilNode"
  by (auto elim: rep.cases)

lemma rep_val_iff: "rep R n SVal f \<longleftrightarrow> (\<exists>v. v \<noteq> [] \<and> n = ValueNode v \<and> f = [[] \<mapsto> v])"
  by (auto elim: rep.cases intro: rep_value)

text \<open>The first step of a hex key selects a child of the right kind.\<close>

lemma okkey_child:
  assumes "okkey SFull (b # r)" "child_sort (unat b) s"
  shows "unat b < 17" "okkey s r"
proof -
  from assms have b: "(b = 16 \<and> r = []) \<or> (b < 16 \<and> hexkey r)" by (simp add: okkey_def)
  then show "unat b < 17" by (auto simp: word_less_nat_alt)
  from b show "okkey s r"
  proof
    assume "b = 16 \<and> r = []"
    with assms(2) show ?thesis by (auto simp: child_sort_def okkey_def)
  next
    assume "b < 16 \<and> hexkey r"
    moreover from this have "unat b \<noteq> 16" by (auto simp: word_less_nat_alt)
    ultimately show ?thesis using assms(2) by (cases s) (auto simp: child_sort_def okkey_def)
  qed
qed

lemma okkey_short:
  assumes "short_key k s" "okkey SShort (k @ r)"
  shows "okkey s r"
  using assms hexkey_append[of k r] hexkey_no_proper_prefix[of k r]
  by (auto simp: short_key_def okkey_def)

lemma drop_eq_ConsD:
  assumes "drop i xs = b # r"
  shows "i < length xs" "xs ! i = b" "drop (Suc i) xs = r"
proof -
  show "i < length xs" using assms by (metis drop_eq_Nil leI list.distinct(1))
  with assms Cons_nth_drop_Suc[of i xs] show "xs ! i = b" "drop (Suc i) xs = r" by auto
qed

text \<open>Replacing one child of a full node.\<close>

lemma rep_full_upd:
  assumes "length cs = 17" "length ss = 17" "length fs = 17"
    and "\<And>i. i < 17 \<Longrightarrow> rep R (cs ! i) (ss ! i) (fs ! i) \<and> child_sort i (ss ! i)"
    and "p < 17" "rep R n s f" "child_sort p s"
    and "i < j" "j < 17" "cs[p := n] ! i \<noteq> NilNode" "cs[p := n] ! j \<noteq> NilNode"
  shows "rep R (FullNode (cs[p := n]) fl) SFull (full_map (fs[p := f]))"
  using assms by (intro rep_full[where ss = "ss[p := s]" and i = i and j = j])
    (auto simp: nth_list_update)

section \<open>Lookup\<close>

definition resolver :: "Trie \<Rightarrow> bytes \<Rightarrow> node option" where
  "resolver t h = (case resolveHash t h [] of Inr n \<Rightarrow> Some n | Inl _ \<Rightarrow> None)"

lemma resolver_Some: "resolver t h = Some n \<longleftrightarrow> resolveHash t h pre = Inr n"
  by (auto simp: resolver_def resolveHash_def Let_def split: option.splits if_splits)

lemma tryGet_rep:
  assumes "rep (resolver t) n s f" "okkey s (drop pos key)" "pos \<le> length key"
  shows "\<exists>n' d. tryGet t n key pos = Some (Inr (f (drop pos key), n', d)) \<and> rep (resolver t) n' s f
    \<and> (\<not> d \<longrightarrow> n' = n)"
  using assms
proof (induction arbitrary: pos rule: rep.induct)
  case rep_nil
  then show ?case by (subst tryGet.simps) (auto intro: rep.rep_nil)
next
  case (rep_value v)
  then show ?case by (subst tryGet.simps) (auto simp: okkey_def intro: rep.rep_value)
next
  case (rep_short n s f k fl)
  show ?case
  proof (cases "prefix k (drop pos key)")
    case True
    then obtain r where r: "drop pos key = k @ r" by (auto elim: prefixE)
    then have dr: "drop (pos + length k) key = r"
      by (metis add.commute append_eq_conv_conj drop_drop)
    have len: "pos + length k \<le> length key"
      using r rep_short.prems(2) by (metis le_add1 length_append length_drop nat_add_left_cancel_le le_add_diff_inverse)
    have "okkey s r" using okkey_short rep_short.hyps(2) rep_short.prems(1) r by simp
    then obtain n' d where ih: "tryGet t n key (pos + length k) = Some (Inr (f r, n', d))"
        "rep (resolver t) n' s f" "\<not> d \<longrightarrow> n' = n"
      using rep_short.IH[of "pos + length k"] dr len by auto
    have "rep (resolver t) (ShortNode k n' fl') SShort (short_map k f)" for fl'
      using ih(2) rep_short.hyps(2) by (rule rep.rep_short)
    with ih len r show ?thesis
      by (subst tryGet.simps) (auto simp: not_less)
  next
    case False
    then have "length key < pos + length k \<or> k \<noteq> take (length k) (drop pos key)"
      by (metis take_is_prefix)
    moreover have "rep (resolver t) (ShortNode k n fl) SShort (short_map k f)"
      using rep_short.hyps by (rule rep.rep_short)
    ultimately show ?thesis using False
      by (subst tryGet.simps) (auto simp: short_map_def)
  qed
next
  case (rep_full cs ss fs i j fl)
  from rep_full.prems obtain b r where br: "drop pos key = b # r"
    by (cases "drop pos key") (auto simp: okkey_def)
  note pos = drop_eq_ConsD[OF br]
  have b: "unat b < 17"
    using rep_full.prems(1) br okkey_child(1)[of b r SNil] by (auto simp: child_sort_def)
  have "okkey (ss ! unat b) r"
    using okkey_child(2)[of b r] rep_full.prems(1) br rep_full.IH b by auto
  then obtain n' d where ih: "tryGet t (cs ! unat b) key (Suc pos) = Some (Inr ((fs ! unat b) r, n', d))"
      "rep (resolver t) n' (ss ! unat b) (fs ! unat b)" "\<not> d \<longrightarrow> n' = cs ! unat b"
    using rep_full.IH[of "unat b"] b pos by (metis Suc_leI)
  have "n' \<noteq> NilNode \<longleftrightarrow> cs ! unat b \<noteq> NilNode"
    using ih(2) rep_full.IH[of "unat b"] b by (metis rep_nil_iff rep_not_NilNode)
  then have "rep (resolver t) (FullNode (cs[unat b := n']) fl') SFull (full_map (fs[unat b := fs ! unat b]))" for fl'
    using rep_full.hyps rep_full.IH b ih(2) by (intro rep_full_upd[where i = i and j = j]) (auto simp: nth_list_update)
  then have "rep (resolver t) (FullNode (cs[unat b := n']) fl') SFull (full_map fs)" for fl'
    by simp
  with ih br pos b rep_full.hyps show ?case
    by (subst tryGet.simps) (auto simp: go_index_def)
next
  case (rep_hash h n s f)
  from rep_hash.IH[of pos] rep_hash.prems obtain n' d
    where "tryGet t n key pos = Some (Inr (f (drop pos key), n', d))" "rep (resolver t) n' s f" by auto
  moreover have "resolveHash t h (take pos key) = Inr n"
    using rep_hash.hyps(1) resolver_Some by blast
  ultimately show ?case by (subst tryGet.simps) auto
qed

section \<open>Insertion\<close>

lemma insert_nil:
  "trie_insert t NilNode pre key value =
    Some (Inr (True, if key = [] then value else ShortNode key value (newFlag t)))"
  by (subst trie_insert.simps) auto

lemma insert_nil_rep:
  assumes "short_key (b # r) s" "rep R n s f"
  shows "unat b < 17"
    "\<exists>s'. rep R (if r = [] then n else ShortNode r n fl) s' (short_map r f) \<and> child_sort (unat b) s' \<and> s' \<noteq> SNil"
proof -
  from assms(1) have b: "b < 16 \<or> b = 16 \<and> r = [] \<and> s = SVal" by (auto simp: short_key_def)
  then show "unat b < 17" by (auto simp: word_less_nat_alt)
  show "\<exists>s'. rep R (if r = [] then n else ShortNode r n fl) s' (short_map r f) \<and> child_sort (unat b) s' \<and> s' \<noteq> SNil"
  proof (cases "r = []")
    case True
    with assms b show ?thesis
      by (intro exI[of _ s]) (auto simp: short_key_def child_sort_def word_less_nat_alt)
  next
    case False
    with assms(1) b have "short_key r s" by (auto simp: short_key_def)
    from rep_short[OF assms(2) this] False b show ?thesis
      by (intro exI[of _ SShort]) (auto simp: child_sort_def word_less_nat_alt)
  qed
qed

text \<open>Two keys that part after the prefix \<open>p\<close>.\<close>

lemma branch_map:
  assumes "unat a < 17" "unat b < 17" "a \<noteq> b"
  shows "(short_map (p @ a # x) g)(p @ b # y := Some v) =
    short_map p (full_map ((replicate 17 Map.empty)[unat a := short_map x g, unat b := short_map y [[] \<mapsto> v]]))"
proof -
  have "short_map y [[] \<mapsto> v] = [y \<mapsto> v]" using short_map_upd[of y Map.empty "[]"] by simp
  moreover have "unat a \<noteq> unat b" using assms(3) by (simp add: word_unat_eq_iff)
  ultimately show ?thesis
    using assms short_map_append[of p "a # x" g] short_map_append[of "[a]" x g]
    by (simp add: short_map_upd short_map_single[of a 17] full_map_upd)
qed

lemma prefixLen_branch: "b \<noteq> a \<Longrightarrow> prefixLen (p @ b # y) (p @ a # x) = length p"
  by (induction p) auto

lemma prefixLen_split:
  assumes "prefixLen key nk \<noteq> length nk" "prefixLen key nk < length key"
  obtains p a x b y where "nk = p @ a # x" "key = p @ b # y" "a \<noteq> b" "length p = prefixLen key nk"
proof -
  let ?m = "prefixLen key nk"
  have m: "?m < length key" "?m < length nk" using assms prefixLen_le[of key nk] by auto
  have "nk = take ?m key @ nk ! ?m # drop (Suc ?m) nk"
    using m prefixLen_take[of key nk] by (metis id_take_nth_drop)
  moreover have "key = take ?m key @ key ! ?m # drop (Suc ?m) key"
    using m by (metis id_take_nth_drop)
  ultimately show thesis
    using that prefixLen_differ[of key nk] m by (metis length_take min.absorb4)
qed

lemma hexkey_nibbles_prefix: "hexkey (p @ b # y) \<Longrightarrow> nibbles p"
  by (induction p) auto

lemma short_key_append: "short_key k s \<Longrightarrow> k = p @ a # x \<Longrightarrow> short_key (a # x) s"
  using hexkey_nibbles_prefix[of p a x] hexkey_append[of p "a # x"] by (auto simp: short_key_def)

lemma prefixLen_hexkey:
  assumes "prefixLen key k \<noteq> length k" "short_key k s" "hexkey key"
  shows "prefixLen key k < length key"
proof (rule ccontr)
  assume "\<not> prefixLen key k < length key"
  then have m: "prefixLen key k = length key" using prefixLen_le(1)[of key k] by simp
  then obtain c where c: "k = key @ c" using prefixLen_take[of key k] by (metis append_take_drop_id take_all le_refl)
  from assms(3) obtain ns where "key = ns @ [16]" by (auto simp: hexkey_def)
  with assms(2) c have "hexkey (key @ c)" by (auto simp: short_key_def)
  with assms(3) have "c = []" by (simp add: hexkey_no_proper_prefix)
  with c m assms(1) show False by simp
qed

lemma branch_rep:
  assumes "short_key (a # x) s" "rep R n s f" "short_key (b # y) s'" "rep R n' s' f'" "a \<noteq> b"
  shows "rep R (FullNode ((replicate 17 NilNode)
      [unat a := if x = [] then n else ShortNode x n fl, unat b := if y = [] then n' else ShortNode y n' fl]) fl)
    SFull (full_map ((replicate 17 Map.empty)[unat a := short_map x f, unat b := short_map y f']))"
proof -
  obtain s1 where s1: "rep R (if x = [] then n else ShortNode x n fl) s1 (short_map x f)"
      "child_sort (unat a) s1" "s1 \<noteq> SNil" "unat a < 17"
    using insert_nil_rep[OF assms(1,2)] by blast
  obtain s2 where s2: "rep R (if y = [] then n' else ShortNode y n' fl) s2 (short_map y f')"
      "child_sort (unat b) s2" "s2 \<noteq> SNil" "unat b < 17"
    using insert_nil_rep[OF assms(3,4)] by blast
  note nonnil = rep_not_NilNode[OF s1(1,3)] rep_not_NilNode[OF s2(1,3)]
  have "unat a \<noteq> unat b" using assms(5) by (simp add: word_unat_eq_iff)
  then show ?thesis
    using s1 s2 nonnil
    by (intro rep_full[where ss = "(replicate 17 SNil)[unat a := s1, unat b := s2]"
          and i = "min (unat a) (unat b)" and j = "max (unat a) (unat b)"])
      (auto simp: nth_list_update child_sort_def rep_nil min_def max_def simp del: if_split)
qed

definition ins_sort :: "nsort \<Rightarrow> bytes \<Rightarrow> nsort \<Rightarrow> bool" where
  "ins_sort s key s' \<longleftrightarrow> (if key = [] then s' = SVal else s' = SFull \<or> (s' = SShort \<and> s \<noteq> SFull))"

lemma trie_insert_split:
  assumes "rep (resolver t) n s f" "short_key k s" "prefixLen key k \<noteq> length k" "hexkey key" "v \<noteq> []"
  shows "\<exists>d n' s'. trie_insert t (ShortNode k n fl) pre key (ValueNode v) = Some (Inr (d, n'))
    \<and> rep (resolver t) n' s' ((short_map k f)(key \<mapsto> v))
    \<and> (if d then ins_sort SShort key s' else s' = SShort \<and> short_map k f key = Some v)"
proof -
  have key: "key \<noteq> []" using assms(4) by auto
  have "prefixLen key k < length key"
    using assms(2,3,4) by (intro prefixLen_hexkey[where s = s])
  with assms(3) obtain p a x b y where ab: "k = p @ a # x" "key = p @ b # y" "a \<noteq> b" "length p = prefixLen key k"
    by (rule prefixLen_split)
  let ?c1 = "if x = [] then n else ShortNode x n (newFlag t)"
  let ?c2 = "if y = [] then ValueNode v else ShortNode y (ValueNode v) (newFlag t)"
  let ?b = "FullNode ((replicate 17 NilNode)[unat a := ?c1, unat b := ?c2]) (newFlag t)"
  have ax: "short_key (a # x) s" using assms(2) ab(1) by (rule short_key_append)
  from assms(4) have bky: "short_key (b # y) SVal" "nibbles p"
    using short_key_append[of key SVal p b y] ab(2) hexkey_nibbles_prefix[of p b y]
    by (auto simp: short_key_def)
  have ab17: "unat a < 17" "unat b < 17"
    using insert_nil_rep(1)[OF ax assms(1)] insert_nil_rep(1)[OF bky(1) rep_value[OF assms(5)]]
    by auto
  have branch: "rep (resolver t) ?b SFull (full_map ((replicate 17 Map.empty)
      [unat a := short_map x f, unat b := short_map y [[] \<mapsto> v]]))"
    using branch_rep[OF ax assms(1) bky(1) rep_value[OF assms(5)] ab(3)] .
  have ins: "trie_insert t (ShortNode k n fl) pre key (ValueNode v) =
      Some (Inr (True, if p = [] then ?b else ShortNode p ?b (newFlag t)))"
    using ab(3) ab17 prefixLen_branch[of b a p y x]
    unfolding ab(1,2) by (subst trie_insert.simps) (simp add: insert_nil nth_append Let_def)
  have "rep (resolver t) (if p = [] then ?b else ShortNode p ?b (newFlag t)) (if p = [] then SFull else SShort)
      ((short_map k f)(key \<mapsto> v))"
    using branch branch_map[OF ab17 ab(3), of p x f y v] ab rep_short[OF branch, of p] bky(2)
    by (auto simp: short_key_def)
  note r = this
  show ?thesis by (intro exI conjI, rule ins, rule r) (simp add: ins_sort_def key)
qed

lemma trie_insert_rep:
  assumes "rep (resolver t) n s f" "okkey s key" "v \<noteq> []"
  shows "\<exists>d n' s'. trie_insert t n pre key (ValueNode v) = Some (Inr (d, n'))
    \<and> rep (resolver t) n' s' (f(key \<mapsto> v)) \<and> (if d then ins_sort s key s' else s' = s \<and> f key = Some v)"
  using assms
proof (induction arbitrary: pre key rule: rep.induct)
  case rep_nil
  show ?case
  proof (cases "key = []")
    case True
    with rep_nil rep.rep_value[of v "resolver t"] show ?thesis
      by (intro exI[of _ True] exI[of _ "ValueNode v"] exI[of _ SVal]) (simp add: insert_nil ins_sort_def fun_upd_def)
  next
    case False
    with rep_nil have "short_key key SVal" by (auto simp: okkey_def short_key_def)
    from rep.rep_short[OF rep.rep_value[OF rep_nil(2)] this, of "resolver t" "newFlag t"]
    have "rep (resolver t) (ShortNode key (ValueNode v) (newFlag t)) SShort [key \<mapsto> v]"
      using short_map_upd[of key Map.empty "[]"] by simp
    with False show ?thesis
      by (intro exI[of _ True] exI[of _ "ShortNode key (ValueNode v) (newFlag t)"] exI[of _ SShort])
        (simp add: insert_nil ins_sort_def fun_upd_def)
  qed
next
  case (rep_value w)
  then show ?case using rep.rep_value[of v "resolver t"]
    by (intro exI[of _ "w \<noteq> v"] exI[of _ "ValueNode v"] exI[of _ SVal])
      (subst trie_insert.simps, auto simp: okkey_def ins_sort_def)
next
  case (rep_short n s f k fl)
  have key: "key \<noteq> []" using rep_short.prems by (auto simp: okkey_def)
  show ?case
  proof (cases "prefixLen key k = length k")
    case True
    then obtain r where r: "key = k @ r" using prefixLen_take[of key k] by (metis append_take_drop_id take_all le_refl)
    have "okkey s r" using okkey_short rep_short.hyps(2) rep_short.prems(1) r by simp
    then obtain d n' s' where ih: "trie_insert t n (pre @ k) r (ValueNode v) = Some (Inr (d, n'))"
        "rep (resolver t) n' s' (f(r \<mapsto> v))" "if d then ins_sort s r s' else s' = s \<and> f r = Some v"
      using rep_short.IH[of r "pre @ k"] rep_short.prems(2) by blast
    have ins: "trie_insert t (ShortNode k n fl) pre key (ValueNode v) =
        Some (Inr (if d then (True, ShortNode k n' (newFlag t)) else (False, ShortNode k n fl)))"
      using key True ih(1) r by (subst trie_insert.simps) simp
    have upd: "(short_map k f)(key \<mapsto> v) = short_map k (f(r \<mapsto> v))" using r by (simp add: short_map_upd)
    show ?thesis
    proof (cases d)
      case True
      have "short_key k s'" using ih(3) True rep_short.hyps(2) \<open>okkey s r\<close>
        by (auto simp: short_key_def ins_sort_def okkey_def split: if_splits)
      from rep.rep_short[OF ih(2) this] ins upd True key show ?thesis
        by (intro exI[of _ True] exI[of _ "ShortNode k n' (newFlag t)"] exI[of _ SShort]) (simp add: ins_sort_def)
    next
      case False
      with ih(3) have "f(r \<mapsto> v) = f" by (simp add: fun_upd_idem)
      with ins upd False rep.rep_short[OF rep_short.hyps] ih(3) r show ?thesis
        by (intro exI[of _ False] exI[of _ "ShortNode k n fl"] exI[of _ SShort]) simp
    qed
  next
    case False
    moreover have "hexkey key" using rep_short.prems(1) by (simp add: okkey_def)
    ultimately show ?thesis using rep_short.hyps rep_short.prems(2) by (intro trie_insert_split)
  qed
next
  case (rep_full cs ss fs i j fl)
  from rep_full.prems obtain b r where br: "key = b # r"
    by (cases key) (auto simp: okkey_def)
  have b: "unat b < 17"
    using rep_full.prems(1) br okkey_child(1)[of b r SNil] by (auto simp: child_sort_def)
  have "okkey (ss ! unat b) r"
    using okkey_child(2)[of b r] rep_full.prems(1) br rep_full.IH b by auto
  then obtain d n' s' where ih: "trie_insert t (cs ! unat b) (pre @ [b]) r (ValueNode v) = Some (Inr (d, n'))"
      "rep (resolver t) n' s' ((fs ! unat b)(r \<mapsto> v))" "if d then ins_sort (ss ! unat b) r s' else s' = ss ! unat b \<and> (fs ! unat b) r = Some v"
    using rep_full.IH[of "unat b"] rep_full.prems(2) b by blast
  have "n' \<noteq> NilNode" using ih(2) by (auto elim!: rep_NilE simp: fun_eq_iff split: if_splits)
  have child: "child_sort (unat b) s'"
    using ih(3) rep_full.IH[OF b] rep_full.prems(1) br
    by (auto simp: ins_sort_def okkey_def child_sort_def word_less_nat_alt split: if_splits)
  have ins: "trie_insert t (FullNode cs fl) pre key (ValueNode v) = Some (Inr
      (if d then (True, FullNode (cs[unat b := n']) (newFlag t)) else (False, FullNode cs fl)))"
    using ih(1) br b rep_full.hyps by (subst trie_insert.simps) (simp add: go_index_def)
  have upd: "(full_map fs)(key \<mapsto> v) = full_map (fs[unat b := (fs ! unat b)(r \<mapsto> v)])"
    using full_map_upd[of b fs r "Some v"] br b rep_full.hyps by simp
  show ?case
  proof (cases d)
    case True
    have "rep (resolver t) (FullNode (cs[unat b := n']) (newFlag t)) SFull (full_map (fs[unat b := (fs ! unat b)(r \<mapsto> v)]))"
      using rep_full.hyps rep_full.IH b ih(2) child \<open>n' \<noteq> NilNode\<close>
      by (intro rep_full_upd[where i = i and j = j]) (auto simp: nth_list_update)
    with True ins upd br show ?thesis
      by (intro exI[of _ True] exI[of _ "FullNode (cs[unat b := n']) (newFlag t)"] exI[of _ SFull])
        (simp add: ins_sort_def)
  next
    case False
    with ih(3) have "(fs ! unat b)(r \<mapsto> v) = fs ! unat b" by (simp add: fun_upd_idem)
    moreover have "rep (resolver t) (FullNode cs fl) SFull (full_map fs)"
      using rep_full.hyps rep_full.IH by (intro rep.rep_full[where i = i and j = j]) auto
    ultimately show ?thesis using False ins upd ih(3) br b rep_full.hyps
      by (intro exI[of _ False] exI[of _ "FullNode cs fl"] exI[of _ SFull]) simp
  qed
next
  case (rep_hash h n s f)
  from rep_hash.IH[of key pre] rep_hash.prems obtain d n' s' where ih:
      "trie_insert t n pre key (ValueNode v) = Some (Inr (d, n'))" "rep (resolver t) n' s' (f(key \<mapsto> v))"
      "if d then ins_sort s key s' else s' = s \<and> f key = Some v" by blast
  have res: "resolveHash t h pre = Inr n" using rep_hash.hyps(1) resolver_Some by blast
  have "key \<noteq> []" using rep_hash.prems rep_hash.hyps(3) by (auto simp: okkey_def)
  with ih(1) res have ins: "trie_insert t (HashNode h) pre key (ValueNode v) =
      Some (Inr (if d then (True, n') else (False, n)))"
    by (subst trie_insert.simps) simp
  show ?case
  proof (cases d)
    case True
    with ins have i: "trie_insert t (HashNode h) pre key (ValueNode v) = Some (Inr (d, n'))" by simp
    show ?thesis by (intro exI conjI, rule i, rule ih(2), rule ih(3))
  next
    case False
    with ih(3) have "f(key \<mapsto> v) = f" by (simp add: fun_upd_idem)
    with False ins ih(3) rep_hash.hyps(2) show ?thesis
      by (intro exI[of _ False] exI[of _ n] exI[of _ s]) simp
  qed
qed
end
