(* ===== verification/Trie_Correct.thy ===== *)
theory Trie_Correct
  imports Trie_Map
begin

text \<open>
  Deletion in the trie, and the trie as a whole: \<^verbatim>\<open>TryGet\<close>, \<^verbatim>\<open>TryUpdate\<close> and
  \<^verbatim>\<open>TryDelete\<close> refine lookup and update of a map from key bytes to values, they return
  on every trie that represents a map, and they keep the canonical form.
\<close>

section \<open>Deletion\<close>

lemma concat_key_append [simp]: "concat_key a b = a @ b"
  by (simp add: concat_key_def go_copy_def Let_def)

lemma only_child_found:
  "pos \<noteq> -1 \<Longrightarrow> only_child i pos cs = (if list_all (\<lambda>c. c = NilNode) cs then pos else -2)"
  by (induction cs arbitrary: i) auto

lemma only_child_spec:
  "only_child i (-1) cs =
    (if list_all (\<lambda>c. c = NilNode) cs then -1
     else let p = length (takeWhile (\<lambda>c. c = NilNode) cs)
          in if list_all (\<lambda>c. c = NilNode) (drop (Suc p) cs) then int (i + p) else -2)"
  by (induction cs arbitrary: i) (auto simp: only_child_found Let_def)

lemma length_takeWhile_eqI:
  "p < length xs \<Longrightarrow> \<not> P (xs ! p) \<Longrightarrow> (\<And>i. i < p \<Longrightarrow> P (xs ! i)) \<Longrightarrow> length (takeWhile P xs) = p"
  by (metis length_take min.absorb4 takeWhile_eq_take_P_nth)

lemma resolve_full:
  assumes "rep (resolver t) n SFull f"
  shows "\<exists>cs fl. resolve t n pre = Inr (FullNode cs fl)"
  using assms
proof (cases rule: rep.cases)
  case (rep_hash h n')
  then have "resolveHash t h pre = Inr n'" using resolver_Some by blast
  moreover have "\<exists>cs fl. n' = FullNode cs fl" using rep_hash(3,5) by (auto elim: rep.cases)
  ultimately show ?thesis using rep_hash(1) by (auto simp: resolve_def)
qed (simp add: resolve_def)

lemma resolve_short:
  assumes "rep (resolver t) n SShort f"
  shows "\<exists>k v fl s g. resolve t n pre = Inr (ShortNode k v fl) \<and> rep (resolver t) v s g
    \<and> short_key k s \<and> f = short_map k g"
  using assms
proof (cases rule: rep.cases)
  case (rep_short n' s g k fl)
  then show ?thesis by (auto simp: resolve_def)
next
  case (rep_hash h n')
  then have "resolveHash t h pre = Inr n'" using resolver_Some by blast
  moreover have "\<exists>k v fl s g. n' = ShortNode k v fl \<and> rep (resolver t) v s g
    \<and> short_key k s \<and> f = short_map k g"
    using rep_hash(3) by (cases rule: rep.cases) (use rep_hash(5) in auto)
  ultimately show ?thesis using rep_hash(1) by (auto simp: resolve_def)
qed

lemma only_child_single:
  assumes "p < length cs" "cs ! p \<noteq> NilNode" "\<And>i. i < length cs \<Longrightarrow> i \<noteq> p \<Longrightarrow> cs ! i = NilNode"
  shows "only_child 0 (-1) cs = int p"
proof -
  have tw: "length (takeWhile (\<lambda>c. c = NilNode) cs) = p"
    using assms by (intro length_takeWhile_eqI) auto
  moreover have "list_all (\<lambda>c. c = NilNode) (drop (Suc p) cs)"
    using assms(3) by (auto simp: list_all_length)
  moreover have "\<not> list_all (\<lambda>c. c = NilNode) cs" using assms(1,2) by (auto simp: list_all_length)
  ultimately show ?thesis by (simp add: only_child_spec)
qed

lemma only_child_two:
  assumes "i < j" "j < length cs" "cs ! i \<noteq> NilNode" "cs ! j \<noteq> NilNode"
  shows "only_child 0 (-1) cs = -2"
proof -
  let ?p = "length (takeWhile (\<lambda>c. c = NilNode) cs)"
  have "?p \<le> i"
  proof (rule ccontr)
    assume "\<not> ?p \<le> i"
    then have "i < ?p" by simp
    from set_takeWhileD[OF nth_mem[OF this]] takeWhile_nth[OF this] assms(3) show False by simp
  qed
  then have "drop (Suc ?p) cs ! (j - Suc ?p) \<noteq> NilNode" "j - Suc ?p < length (drop (Suc ?p) cs)"
    using assms by auto
  then have "\<not> list_all (\<lambda>c. c = NilNode) (drop (Suc ?p) cs)" unfolding list_all_length by blast
  moreover have "\<not> list_all (\<lambda>c. c = NilNode) cs" using assms by (auto simp: list_all_length)
  ultimately show ?thesis by (simp add: only_child_spec Let_def)
qed

definition del_sort :: "nsort \<Rightarrow> nsort \<Rightarrow> bool" where
  "del_sort s s' \<longleftrightarrow> (case s of SNil \<Rightarrow> False | SVal \<Rightarrow> s' = SNil
     | SShort \<Rightarrow> s' = SNil \<or> s' = SShort | SFull \<Rightarrow> s' = SShort \<or> s' = SFull)"

lemma collapse_rep:
  assumes "length cs = 17" "length ss = 17" "length fs = 17"
    and "\<And>i. i < 17 \<Longrightarrow> rep (resolver t) (cs ! i) (ss ! i) (fs ! i) \<and> child_sort i (ss ! i)"
    and "j < 17" "cs ! j \<noteq> NilNode"
  shows "\<exists>n' s'. collapse t pre cs = Inr (True, n') \<and> rep (resolver t) n' s' (full_map fs)
    \<and> del_sort SFull s' \<and> (\<forall>h. n' \<noteq> HashNode h)"
proof (cases "\<exists>i < 17. i \<noteq> j \<and> cs ! i \<noteq> NilNode")
  case True
  then obtain i where "i < 17" "i \<noteq> j" "cs ! i \<noteq> NilNode" by blast
  then obtain a b where ab: "a < b" "b < 17" "cs ! a \<noteq> NilNode" "cs ! b \<noteq> NilNode"
    using assms(5,6) by (metis linorder_less_linear)
  then have "collapse t pre cs = Inr (True, FullNode cs (newFlag t))"
    using only_child_two[of a b cs] assms(1) by (simp add: collapse_def)
  moreover have "rep (resolver t) (FullNode cs (newFlag t)) SFull (full_map fs)"
    using assms ab by (intro rep_full[where i = a and j = b])
  ultimately show ?thesis by (auto simp: del_sort_def)
next
  case False
  then have pos: "only_child 0 (-1) cs = int j"
    using only_child_single[of j cs] assms by auto
  have "full_map fs = short_map [of_nat j] (fs ! j)"
  proof (rule full_map_eq_single)
    show "fs ! i = Map.empty" if "i < length fs" "i \<noteq> j" for i
      using that False assms(3) assms(4)[of i] by (metis rep_NilE)
  qed (use assms in \<open>auto simp: unat_of_nat_small\<close>)
  note fm = this
  note cj = assms(4)[OF assms(5)]
  have j: "of_nat j < (16 :: byte)" if "j \<noteq> 16"
    using that assms(5) by (simp add: word_less_nat_alt unat_of_nat_small)
  have nn: "ss ! j \<noteq> SNil" using cj assms(6) by (metis rep_nil_iff)
  have one: "rep (resolver t) (ShortNode [of_nat j] (cs ! j) (newFlag t)) SShort (full_map fs)"
    if "ss ! j \<noteq> SShort"
    unfolding fm using cj
  proof (intro rep_short[where s = "ss ! j"])
    show "short_key [of_nat j] (ss ! j)"
      using that cj nn j by (cases "ss ! j") (auto simp: short_key_def child_sort_def split: if_splits)
  qed simp
  show ?thesis
  proof (cases "ss ! j")
    case SVal
    with cj have "j = 16" by (auto simp: child_sort_def split: if_splits)
    with pos one SVal show ?thesis by (auto simp: collapse_def del_sort_def)
  next
    case SFull
    then obtain cs' fl' where "resolve t (cs ! j) pre = Inr (FullNode cs' fl')"
      using cj resolve_full by metis
    with pos one SFull show ?thesis by (auto simp: collapse_def del_sort_def Let_def)
  next
    case SShort
    then obtain k v fl s g where k: "resolve t (cs ! j) pre = Inr (ShortNode k v fl)"
        "rep (resolver t) v s g" "short_key k s" "fs ! j = short_map k g"
      using cj resolve_short[of t "cs ! j" "fs ! j" pre] by auto
    from SShort cj have "j \<noteq> 16" by (auto simp: child_sort_def)
    with k(3) j have "short_key (of_nat j # k) s" by (auto simp: short_key_def)
    from rep_short[OF k(2) this] have "rep (resolver t) (ShortNode (of_nat j # k) v (newFlag t)) SShort (full_map fs)"
      using short_map_append[of "[of_nat j]" k g] fm k(4) by simp
    with k(1) pos \<open>j \<noteq> 16\<close> show ?thesis by (auto simp: collapse_def del_sort_def Let_def)
  qed (use nn in simp)
qed

text \<open>Deleting below a short node: the nodes are merged when the child becomes short.\<close>

lemma trie_delete_short:
  assumes "rep (resolver t) n SFull f" "short_key k SFull" "r \<noteq> []"
    and "trie_delete t n (pre @ k) r = Some (Inr (d, n'))" "rep (resolver t) n' s' (f(r := None))"
    and "if d then del_sort SFull s' \<and> (\<forall>h. n' \<noteq> HashNode h) else s' = SFull \<and> f r = None"
  shows "\<exists>d n' s'. trie_delete t (ShortNode k n fl) pre (k @ r) = Some (Inr (d, n'))
    \<and> rep (resolver t) n' s' ((short_map k f)(k @ r := None))
    \<and> (if d then del_sort SShort s' \<and> (\<forall>h. n' \<noteq> HashNode h) else s' = SShort \<and> short_map k f (k @ r) = None)"
proof -
  let ?m = "case n' of ShortNode ck cv cfl \<Rightarrow> ShortNode (k @ ck) cv (newFlag t) | _ \<Rightarrow> ShortNode k n' (newFlag t)"
  have del: "trie_delete t (ShortNode k n fl) pre (k @ r) =
      Some (Inr (if d then (True, ?m) else (False, ShortNode k n fl)))"
    using assms(3,4) by (subst trie_delete.simps) (simp split: node.split)
  have upd: "(short_map k f)(k @ r := None) = short_map k (f(r := None))" by (simp add: short_map_upd)
  show ?thesis
  proof (cases d)
    case True
    with assms(6) have s': "s' = SShort \<or> s' = SFull" "\<forall>h. n' \<noteq> HashNode h" by (auto simp: del_sort_def)
    have "rep (resolver t) ?m SShort (short_map k (f(r := None)))"
      using assms(5)
    proof (cases rule: rep.cases)
      case (rep_short n1 s1 g ck cfl)
      then have "short_key (k @ ck) s1" using assms(2) by (auto simp: short_key_def hexkey_append)
      from rep.rep_short[OF rep_short(4) this, of "newFlag t"] rep_short(1,3)
      show ?thesis by (simp add: short_map_append)
    qed (use assms s' in \<open>auto intro: rep.rep_short\<close>)
    then have rp: "rep (resolver t) ?m SShort ((short_map k f)(k @ r := None))" using upd by simp
    from del True have del': "trie_delete t (ShortNode k n fl) pre (k @ r) = Some (Inr (True, ?m))" by simp
    show ?thesis by (intro exI conjI, rule del', rule rp) (simp add: del_sort_def split: node.split)
  next
    case False
    with assms(6) upd have "(short_map k f)(k @ r := None) = short_map k f" by (simp add: fun_upd_idem)
    with rep_short[OF assms(1,2), of fl]
    have rp: "rep (resolver t) (ShortNode k n fl) SShort ((short_map k f)(k @ r := None))" by simp
    from del False have del': "trie_delete t (ShortNode k n fl) pre (k @ r) = Some (Inr (False, ShortNode k n fl))"
      by simp
    show ?thesis by (intro exI conjI, rule del', rule rp) (use assms(6) False in simp)
  qed
qed

lemma trie_delete_rep:
  assumes "rep (resolver t) n s f" "okkey s key"
  shows "\<exists>d n' s'. trie_delete t n pre key = Some (Inr (d, n'))
    \<and> rep (resolver t) n' s' (f(key := None))
    \<and> (if d then del_sort s s' \<and> (\<forall>h. n' \<noteq> HashNode h) else s' = s \<and> f key = None)"
  using assms
proof (induction arbitrary: pre key rule: rep.induct)
  case rep_nil
  have del: "trie_delete t NilNode pre key = Some (Inr (False, NilNode))" by (subst trie_delete.simps) simp
  show ?case by (intro exI conjI, rule del) (simp_all add: rep.rep_nil)
next
  case (rep_value w)
  have del: "trie_delete t (ValueNode w) pre key = Some (Inr (True, NilNode))"
    by (subst trie_delete.simps) simp
  have "rep (resolver t) NilNode SNil ([[] \<mapsto> w](key := None))"
    using rep_value.prems rep.rep_nil by (simp add: okkey_def)
  note r = this
  show ?case by (intro exI conjI, rule del, rule r) (simp add: del_sort_def)
next
  case (rep_short n s f k fl)
  show ?case
  proof (cases "prefixLen key k = length k")
    case True
    then obtain r where r: "key = k @ r" using prefixLen_full by blast
    have ok: "okkey s r" using okkey_short rep_short.hyps(2) rep_short.prems(1) r by simp
    show ?thesis
    proof (cases "r = []")
      case True
      with ok rep_short.hyps(2) have "s = SVal" by (auto simp: short_key_def okkey_def)
      with rep_short.hyps(1) have "f([] := None) = Map.empty" by (auto simp: rep_val_iff)
      then have rp: "rep (resolver t) NilNode SNil ((short_map k f)(key := None))"
        using short_map_upd[of k f "[]" None] rep.rep_nil r True by simp
      have del: "trie_delete t (ShortNode k n fl) pre key = Some (Inr (True, NilNode))"
        using r True prefixLen_append[of k "[]"] by (subst trie_delete.simps) simp
      show ?thesis by (intro exI conjI, rule del, rule rp) (simp add: del_sort_def)
    next
      case False
      with ok rep_short.hyps(2) have s: "s = SFull" by (auto simp: short_key_def okkey_def)
      from rep_short.IH[OF ok, of "pre @ k"] obtain d n' s'
        where ih: "trie_delete t n (pre @ k) r = Some (Inr (d, n'))" "rep (resolver t) n' s' (f(r := None))"
          "if d then del_sort s s' \<and> (\<forall>h. n' \<noteq> HashNode h) else s' = s \<and> f r = None"
        by blast
      show ?thesis unfolding r
        by (rule trie_delete_short[OF _ _ False ih(1,2)]) (use rep_short.hyps ih(3)[unfolded s] in \<open>simp_all add: s\<close>)
    qed
  next
    case False
    then have "prefixLen key k < length k" using prefixLen_le(2)[of key k] by simp
    then have del: "trie_delete t (ShortNode k n fl) pre key = Some (Inr (False, ShortNode k n fl))"
      by (subst trie_delete.simps) simp
    have "short_map k f key = None" using False by (auto simp: short_map_def prefixLen_full prefix_def)
    then have "(short_map k f)(key := None) = short_map k f" by (simp add: fun_upd_idem)
    with rep.rep_short[OF rep_short.hyps]
    have r: "rep (resolver t) (ShortNode k n fl) SShort ((short_map k f)(key := None))" by simp
    show ?thesis by (intro exI conjI, rule del, rule r) (simp add: \<open>short_map k f key = None\<close>)
  qed
next
  case (rep_full cs ss fs i j fl)
  from rep_full.prems obtain b r where br: "key = b # r"
    by (cases key) (auto simp: okkey_def)
  have b: "unat b < 17"
    using rep_full.prems(1) br okkey_child(1)[of b r SNil] by (auto simp: child_sort_def)
  have "okkey (ss ! unat b) r"
    using okkey_child(2)[of b r] rep_full.prems(1) br rep_full.IH b by auto
  then obtain d n' s' where ih: "trie_delete t (cs ! unat b) (pre @ [b]) r = Some (Inr (d, n'))"
      "rep (resolver t) n' s' ((fs ! unat b)(r := None))"
      "if d then del_sort (ss ! unat b) s' \<and> (\<forall>h. n' \<noteq> HashNode h) else s' = ss ! unat b \<and> (fs ! unat b) r = None"
    using rep_full.IH[of "unat b"] b by blast
  have del: "trie_delete t (FullNode cs fl) pre key =
      Some (if d then collapse t pre (cs[unat b := n']) else Inr (False, FullNode cs fl))"
    using ih(1) br b rep_full.hyps by (subst trie_delete.simps) (simp add: go_index_def)
  have upd: "(full_map fs)(key := None) = full_map (fs[unat b := (fs ! unat b)(r := None)])"
    using full_map_upd[of b fs r None] br b rep_full.hyps by simp
  show ?case
  proof (cases d)
    case True
    have "child_sort (unat b) s'"
      using ih(3) True rep_full.IH[OF b]
      by (cases "ss ! unat b") (auto simp: del_sort_def child_sort_def split: if_splits)
    moreover obtain q where "q < 17" "q \<noteq> unat b" "cs ! q \<noteq> NilNode"
      using rep_full.hyps by (metis less_trans nat_neq_iff)
    ultimately have "\<exists>m s2. collapse t pre (cs[unat b := n']) = Inr (True, m)
        \<and> rep (resolver t) m s2 (full_map (fs[unat b := (fs ! unat b)(r := None)])) \<and> del_sort SFull s2
        \<and> (\<forall>h. m \<noteq> HashNode h)"
      using rep_full.hyps rep_full.IH ih(2) b
      by (intro collapse_rep[where ss = "ss[unat b := s']" and j = q])
        (auto simp: nth_list_update simp del: fun_upd_apply)
    then obtain m s2 where m: "collapse t pre (cs[unat b := n']) = Inr (True, m)"
        "rep (resolver t) m s2 (full_map (fs[unat b := (fs ! unat b)(r := None)]))" "del_sort SFull s2"
        "\<forall>h. m \<noteq> HashNode h" by blast
    from del True m(1) have del': "trie_delete t (FullNode cs fl) pre key = Some (Inr (True, m))" by simp
    from m(2) upd have rp: "rep (resolver t) m s2 ((full_map fs)(key := None))" by simp
    show ?thesis by (intro exI conjI, rule del', rule rp) (use m in simp)
  next
    case False
    with ih(3) have "(fs ! unat b)(r := None) = fs ! unat b" by (simp add: fun_upd_idem)
    moreover have "rep (resolver t) (FullNode cs fl) SFull (full_map fs)"
      using rep_full.hyps rep_full.IH by (intro rep.rep_full[where i = i and j = j]) auto
    ultimately show ?thesis using False del upd ih(3) br b rep_full.hyps
      by (intro exI[of _ False] exI[of _ "FullNode cs fl"] exI[of _ SFull]) simp
  qed
next
  case (rep_hash h n s f)
  from rep_hash.IH[of key pre] rep_hash.prems obtain d n' s' where ih:
      "trie_delete t n pre key = Some (Inr (d, n'))" "rep (resolver t) n' s' (f(key := None))"
      "if d then del_sort s s' \<and> (\<forall>h. n' \<noteq> HashNode h) else s' = s \<and> f key = None" by blast
  have "resolveHash t h pre = Inr n" using rep_hash.hyps(1) resolver_Some by blast
  with ih(1) have del: "trie_delete t (HashNode h) pre key = Some (Inr (if d then (True, n') else (False, n)))"
    by (subst trie_delete.simps) simp
  show ?case
  proof (cases d)
    case True
    with del have i: "trie_delete t (HashNode h) pre key = Some (Inr (d, n'))" by simp
    show ?thesis by (intro exI conjI, rule i, rule ih(2), rule ih(3))
  next
    case False
    with ih(3) have "f(key := None) = f" by (simp add: fun_upd_idem)
    with False del ih(3) rep_hash.hyps(2) show ?thesis
      by (intro exI[of _ False] exI[of _ n] exI[of _ s]) simp
  qed
qed

section \<open>The trie as a map\<close>

text \<open>\<open>trie_rep t m\<close>: the trie \<open>t\<close> holds the map \<open>m\<close> from key bytes to values.\<close>

definition trie_rep :: "Trie \<Rightarrow> (bytes \<rightharpoonup> bytes) \<Rightarrow> bool" where
  "trie_rep t m \<longleftrightarrow> (\<exists>s f. rep (resolver t) (root t) s f \<and> s \<noteq> SVal \<and> m = f \<circ> keybytesToHex)"

lemma resolver_root [simp]: "resolver (t\<lparr>root := n\<rparr>) = resolver t"
  by (simp add: resolver_def resolveHash_def fun_eq_iff)

lemma comp_upd: "(f(keybytesToHex k := v)) \<circ> keybytesToHex = (f \<circ> keybytesToHex)(k := v)"
  by (auto simp: fun_eq_iff dest: keybytesToHex_inj)

lemma root_okkey: "s \<noteq> SVal \<Longrightarrow> okkey s (keybytesToHex k)"
  by (cases s) (auto simp: okkey_def)

lemma TryGet_rep:
  assumes "trie_rep t m"
  shows "\<exists>t'. TryGet t k = Some (Inr (m k, t')) \<and> trie_rep t' m"
proof -
  from assms obtain s f where f: "rep (resolver t) (root t) s f" "s \<noteq> SVal" "m = f \<circ> keybytesToHex"
    unfolding trie_rep_def by blast
  from tryGet_rep[OF f(1), of 0 "keybytesToHex k"] root_okkey[OF f(2)] obtain n' d where
    g: "tryGet t (root t) (keybytesToHex k) 0 = Some (Inr (f (keybytesToHex k), n', d))"
    "rep (resolver t) n' s f" by auto
  then have "TryGet t k = Some (Inr (m k, if d then t\<lparr>root := n'\<rparr> else t))" by (simp add: TryGet_def f(3))
  moreover have "trie_rep (if d then t\<lparr>root := n'\<rparr> else t) m" using g f by (auto simp: trie_rep_def)
  ultimately show ?thesis by blast
qed

lemma delete_rep:
  assumes "trie_rep t m"
  shows "\<exists>d n. trie_delete t (root t) [] (keybytesToHex k) = Some (Inr (d, n)) \<and> trie_rep (t\<lparr>root := n\<rparr>) (m(k := None))"
proof -
  from assms obtain s f where f: "rep (resolver t) (root t) s f" "s \<noteq> SVal" "m = f \<circ> keybytesToHex"
    unfolding trie_rep_def by blast
  from trie_delete_rep[OF f(1) root_okkey[OF f(2), of k], of "[]"] obtain d n s' where
    d: "trie_delete t (root t) [] (keybytesToHex k) = Some (Inr (d, n))"
      "rep (resolver t) n s' (f(keybytesToHex k := None))"
      "if d then del_sort s s' \<and> (\<forall>h. n \<noteq> HashNode h) else s' = s \<and> f (keybytesToHex k) = None" by blast
  have "s' \<noteq> SVal" using d(3) f(2) by (cases s) (auto simp: del_sort_def split: if_splits)
  with d(2) have "trie_rep (t\<lparr>root := n\<rparr>) (m(k := None))"
    unfolding trie_rep_def f(3) comp_upd[symmetric] by auto
  with d(1) show ?thesis by blast
qed

lemma TryUpdate_rep:
  assumes "trie_rep t m"
  shows "\<exists>t'. TryUpdate t k v = Some (Inr t') \<and> trie_rep t' (m(k := if v = [] then None else Some v))"
proof (cases "v = []")
  case True
  with delete_rep[OF assms, of k] show ?thesis by (auto simp: TryUpdate_def simp del: fun_upd_apply)
next
  case False
  from assms obtain s f where f: "rep (resolver t) (root t) s f" "s \<noteq> SVal" "m = f \<circ> keybytesToHex"
    unfolding trie_rep_def by blast
  from trie_insert_rep[OF f(1) root_okkey[OF f(2), of k] False, of "[]"] obtain d n s' where
    d: "trie_insert t (root t) [] (keybytesToHex k) (ValueNode v) = Some (Inr (d, n))"
      "rep (resolver t) n s' (f(keybytesToHex k \<mapsto> v))"
      "if d then ins_sort s (keybytesToHex k) s' else s' = s \<and> f (keybytesToHex k) = Some v" by blast
  have "s' \<noteq> SVal" using d(3) f(2) by (auto simp: ins_sort_def keybytesToHex_def split: if_splits)
  with d(2) have "trie_rep (t\<lparr>root := n\<rparr>) (m(k \<mapsto> v))"
    unfolding trie_rep_def f(3) comp_upd[symmetric] by auto
  with d(1) False show ?thesis by (auto simp: TryUpdate_def simp del: fun_upd_apply)
qed

lemma TryDelete_rep:
  "trie_rep t m \<Longrightarrow> \<exists>t'. TryDelete t k = Some (Inr t') \<and> trie_rep t' (m(k := None))"
  using delete_rep[of t m k] by (auto simp: TryDelete_def simp del: fun_upd_apply)

lemma trie_rep_empty: "trie_rep \<lparr>trie_db = db, root = NilNode, originalRoot = r, cachegen = g, cachelimit = l\<rparr> Map.empty"
  unfolding trie_rep_def by (intro exI[of _ SNil] exI[of _ Map.empty]) (auto simp: rep_nil)

lemma trie_rep_unique: "trie_rep t m \<Longrightarrow> trie_rep t m' \<Longrightarrow> m = m'"
proof
  fix k assume "trie_rep t m" "trie_rep t m'"
  from TryGet_rep[OF this(1), of k] TryGet_rep[OF this(2), of k] show "m k = m' k" by auto
qed


section \<open>Stores of values under keys\<close>

text \<open>
  The interface the account layer uses (\<^verbatim>\<open>account.Trie\<close>): a state that represents a
  map, with lookup, update and deletion that return. An empty value deletes.
\<close>

datatype ('k, 'v) store_op = StoreGet 'k | StoreUpdate 'k "'v list" | StoreDelete 'k

text \<open>A client's run of operations, collecting the values it reads, and the same run on
  the map.\<close>

fun store_run ::
  "('t \<Rightarrow> 'k \<Rightarrow> ('e + 'v list option \<times> 't) option) \<Rightarrow> ('t \<Rightarrow> 'k \<Rightarrow> 'v list \<Rightarrow> ('e + 't) option) \<Rightarrow>
   ('t \<Rightarrow> 'k \<Rightarrow> ('e + 't) option) \<Rightarrow> 't \<Rightarrow> ('k, 'v) store_op list \<Rightarrow>
   ('e + 'v list option list \<times> 't) option" where
  "store_run get upd del t [] = Some (Inr ([], t))"
| "store_run get upd del t (StoreGet k # ops) =
     bindE (get t k) (\<lambda>(v, t). bindE (store_run get upd del t ops) (\<lambda>(vs, t). Some (Inr (v # vs, t))))"
| "store_run get upd del t (StoreUpdate k v # ops) = bindE (upd t k v) (\<lambda>t. store_run get upd del t ops)"
| "store_run get upd del t (StoreDelete k # ops) = bindE (del t k) (\<lambda>t. store_run get upd del t ops)"

definition map_set :: "('k \<rightharpoonup> 'v list) \<Rightarrow> 'k \<Rightarrow> 'v list \<Rightarrow> 'k \<rightharpoonup> 'v list" where
  "map_set m k v = m(k := if v = [] then None else Some v)"

fun map_run :: "('k \<rightharpoonup> 'v list) \<Rightarrow> ('k, 'v) store_op list \<Rightarrow> 'v list option list \<times> ('k \<rightharpoonup> 'v list)" where
  "map_run m [] = ([], m)"
| "map_run m (StoreGet k # ops) = (let (vs, m') = map_run m ops in (m k # vs, m'))"
| "map_run m (StoreUpdate k v # ops) = map_run (map_set m k v) ops"
| "map_run m (StoreDelete k # ops) = map_run (map_set m k []) ops"

locale value_store =
  fixes holds :: "'t \<Rightarrow> ('k \<rightharpoonup> 'v list) \<Rightarrow> bool"
    and get :: "'t \<Rightarrow> 'k \<Rightarrow> ('e + 'v list option \<times> 't) option"
    and upd :: "'t \<Rightarrow> 'k \<Rightarrow> 'v list \<Rightarrow> ('e + 't) option"
    and del :: "'t \<Rightarrow> 'k \<Rightarrow> ('e + 't) option"
  assumes get_holds: "holds t m \<Longrightarrow> \<exists>t'. get t k = Some (Inr (m k, t')) \<and> holds t' m"
    and upd_holds: "holds t m \<Longrightarrow> \<exists>t'. upd t k v = Some (Inr t') \<and> holds t' (map_set m k v)"
    and del_holds: "holds t m \<Longrightarrow> \<exists>t'. del t k = Some (Inr t') \<and> holds t' (map_set m k [])"
begin

lemma run_refines:
  assumes "holds t m"
  shows "\<exists>t'. store_run get upd del t ops = Some (Inr (fst (map_run m ops), t')) \<and> holds t' (snd (map_run m ops))"
  using assms
proof (induction ops arbitrary: t m)
  case (Cons op ops)
  show ?case
  proof (cases op)
    case (StoreGet k)
    from get_holds[OF Cons.prems, of k] obtain t1 where t1: "get t k = Some (Inr (m k, t1))" "holds t1 m" by blast
    with Cons.IH[OF t1(2)] StoreGet show ?thesis by (auto split: prod.splits)
  next
    case (StoreUpdate k v)
    from upd_holds[OF Cons.prems, of k v] obtain t1 where
      t1: "upd t k v = Some (Inr t1)" "holds t1 (map_set m k v)" by blast
    from Cons.IH[OF t1(2)] t1(1) StoreUpdate show ?thesis by simp
  next
    case (StoreDelete k)
    from del_holds[OF Cons.prems, of k] obtain t1 where
      t1: "del t k = Some (Inr t1)" "holds t1 (map_set m k [])" by blast
    from Cons.IH[OF t1(2)] t1(1) StoreDelete show ?thesis by simp
  qed
qed auto

lemma holds_unique: "holds t m \<Longrightarrow> holds t m' \<Longrightarrow> m = m'"
  using get_holds[of t m] get_holds[of t m'] by (metis fst_conv option.inject sum.inject(2) ext)

end

lemma map_set_simps: "map_set m k [] = m(k := None)" "v \<noteq> [] \<Longrightarrow> map_set m k v = m(k \<mapsto> v)"
  by (simp_all add: map_set_def)

interpretation trie: value_store trie_rep TryGet TryUpdate TryDelete
proof
  show "\<exists>t'. TryGet t k = Some (Inr (m k, t')) \<and> trie_rep t' m" if "trie_rep t m" for t m k
    using that by (rule TryGet_rep)
  show "\<exists>t'. TryUpdate t k v = Some (Inr t') \<and> trie_rep t' (map_set m k v)" if "trie_rep t m" for t m k v
    using that unfolding map_set_def by (rule TryUpdate_rep)
  show "\<exists>t'. TryDelete t k = Some (Inr t') \<and> trie_rep t' (map_set m k [])" if "trie_rep t m" for t m k
    using that unfolding map_set_simps by (rule TryDelete_rep)
qed

section \<open>Properties\<close>

text \<open>
  C3: the trie refines a map. From a trie that represents \<open>m\<close>, every sequence of
  lookups, updates and deletions returns (no missing node, no panic, no divergence), reads
  exactly the values the same sequence reads from the map, and ends in a trie that
  represents the resulting map. Unloaded subtries are resolved on the way.
\<close>

theorem trie_refines_map:
  assumes "trie_rep t m"
  shows "\<exists>t'. store_run TryGet TryUpdate TryDelete t ops = Some (Inr (fst (map_run m ops), t'))
    \<and> trie_rep t' (snd (map_run m ops))"
  using assms by (rule trie.run_refines)

theorem trie_refines_map_witness:
  "\<exists>t t'. NewTrie zero_hash (NewDatabase (\<lambda>_. None)) = Inr t \<and>
     store_run TryGet TryUpdate TryDelete t
       [StoreUpdate [1] [5], StoreUpdate [2] [6], StoreDelete [1], StoreGet [1], StoreGet [2]] =
     Some (Inr ([None, Some [6]], t'))"
proof -
  let ?t = "\<lparr>trie_db = NewDatabase (\<lambda>_. None), root = NilNode, originalRoot = zero_hash, cachegen = 0, cachelimit = 0\<rparr>"
  have "NewTrie zero_hash (NewDatabase (\<lambda>_. None)) = Inr ?t" by (simp add: NewTrie_def)
  moreover have "map_run Map.empty [StoreUpdate [1] [5], StoreUpdate [2] [6], StoreDelete [1],
      StoreGet [1], StoreGet [2 :: byte]] = ([None, Some [6 :: byte]], [[2] \<mapsto> [6]])"
    by (simp add: map_set_def fun_eq_iff)
  moreover have "trie_rep ?t Map.empty" by (rule trie_rep_empty)
  ultimately show ?thesis
    using trie_refines_map[of ?t Map.empty "[StoreUpdate [1] [5], StoreUpdate [2] [6], StoreDelete [1],
      StoreGet [1], StoreGet [2]]"] by auto
qed

end
