(* ===== verification/Utility_Convert.thy ===== *)
theory Utility_Convert
  imports Common_Types Complex_Main
begin

text \<open>
  \<^verbatim>\<open>src/utility/data_convert.go\<close>: integers as byte strings, and token amounts as decimal
  strings. The decimal conversions go through \<^verbatim>\<open>big.Float\<close> with 512 bits of mantissa
  and rounding away from zero; a float is the rational number it denotes, and every
  operation rounds its exact result (\<open>bf_round\<close>).
\<close>

section \<open>Integers as bytes\<close>

definition UInt64ToByte :: "u64 \<Rightarrow> bytes" where
  "UInt64ToByte i = be_bytes 8 i"

text \<open>\<^verbatim>\<open>binary.Read\<close> needs eight bytes; on a shorter input it fails and leaves zero.\<close>

definition ByteToUInt64 :: "bytes \<Rightarrow> u64" where
  "ByteToUInt64 b = (if length b < 8 then 0 else be_word (take 8 b))"

section \<open>Floats of fixed precision\<close>

fun nbits :: "nat \<Rightarrow> nat" where
  "nbits n = (if n = 0 then 0 else Suc (nbits (n div 2)))"

declare nbits.simps [simp del]

text \<open>The exponent \<open>e\<close> with \<open>2 ^ e \<le> x < 2 ^ (e + 1)\<close>.\<close>

definition rat_log2 :: "rat \<Rightarrow> int" where
  "rat_log2 x =
    (let (a, b) = quotient_of x;
         e = int (nbits (nat a)) - int (nbits (nat b))
     in if 2 powi e \<le> x then e else e - 1)"

definition bf_round :: "nat \<Rightarrow> rat \<Rightarrow> rat" where
  "bf_round prec x =
    (if x = 0 then 0
     else (let ulp = 2 powi (rat_log2 \<bar>x\<bar> + 1 - int prec)
           in sgn x * of_int \<lceil>\<bar>x\<bar> / ulp\<rceil> * ulp))"

text \<open>\<^verbatim>\<open>Float.Int\<close> truncates towards zero.\<close>

definition bf_Int :: "rat \<Rightarrow> int" where
  "bf_Int x = (if x < 0 then \<lceil>x\<rceil> else \<lfloor>x\<rfloor>)"

section \<open>Decimal strings\<close>

definition is_digit :: "char \<Rightarrow> bool" where
  "is_digit c \<longleftrightarrow> 48 \<le> (of_char c :: nat) \<and> (of_char c :: nat) \<le> 57"

definition digits_val :: "string \<Rightarrow> nat" where
  "digits_val ds = foldl (\<lambda>n c. 10 * n + (of_char c - 48)) 0 ds"

definition split_sign :: "string \<Rightarrow> bool \<times> string" where
  "split_sign s = (case s of c # r \<Rightarrow> if c = CHR ''-'' then (True, r) else if c = CHR ''+'' then (False, r) else (False, s)
                   | [] \<Rightarrow> (False, []))"

text \<open>
  \<^verbatim>\<open>big.ParseFloat(s, 10, prec, big.AwayFromZero)\<close> on decimal syntax: an optional sign,
  digits with an optional point, an optional decimal exponent. \<open>None\<close> is the error.
\<close>

definition parse_exp :: "string \<Rightarrow> int option" where
  "parse_exp s =
    (case s of
       [] \<Rightarrow> Some 0
     | c # r \<Rightarrow>
         if c = CHR ''e'' \<or> c = CHR ''E'' then
           (let (neg, ds) = split_sign r
            in if ds \<noteq> [] \<and> list_all is_digit ds
               then Some (if neg then - int (digits_val ds) else int (digits_val ds)) else None)
         else None)"

definition ParseFloat10 :: "nat \<Rightarrow> string \<Rightarrow> rat option" where
  "ParseFloat10 prec s =
    (let (neg, r) = split_sign s;
         ip = takeWhile is_digit r;
         r1 = dropWhile is_digit r;
         (fp, r2) = (case r1 of c # q \<Rightarrow> if c = CHR ''.'' then (takeWhile is_digit q, dropWhile is_digit q) else ([], r1)
                     | [] \<Rightarrow> ([], []))
     in if ip @ fp = [] then None
        else (case parse_exp r2 of
                None \<Rightarrow> None
              | Some e \<Rightarrow>
                  (let d = e - int (length fp);
                       m = rat_of_nat (digits_val (ip @ fp));
                       v = (if 0 \<le> d then m * 10 ^ nat d else m / 10 ^ nat (- d))
                   in Some (bf_round prec (if neg then - v else v)))))"

definition float_prec :: nat where
  "float_prec = 512"

definition strToBigInt :: "string \<Rightarrow> int \<Rightarrow> int option" where
  "strToBigInt s decimal =
    (if length s = 0 then Some 0
     else (case ParseFloat10 float_prec s of
             None \<Rightarrow> None
           | Some target \<Rightarrow> Some (bf_Int (bf_round float_prec (target * (if 0 \<le> decimal then 10 ^ nat decimal else 1))))))"

definition StrToBigInt :: "string \<Rightarrow> int option" where
  "StrToBigInt s = strToBigInt s 18"

definition bigIntToStr :: "int \<Rightarrow> int \<Rightarrow> string" where
  "bigIntToStr n precision =
    (if precision < 0 then ''0''
     else
       (let starter = (if n < 0 then ''-'' else []);
            number = itoa (nat \<bar>n\<bar>);
            p = nat precision;
            (first, last) =
              (if length number \<le> p then (''0'', replicate (p - length number) CHR ''0'' @ number)
               else (take (length number - p) number, drop (length number - p) number))
        in if p = 0 then starter @ first else starter @ first @ ''.'' @ last))"

definition BigIntToStr :: "int \<Rightarrow> string" where
  "BigIntToStr number = (if number = 0 then ''0'' else bigIntToStr number 18)"

definition BigIntBytesToStr :: "bytes \<Rightarrow> string" where
  "BigIntBytesToStr value = BigIntToStr (big_SetBytes value)"

definition BigIntToStrWithoutDot :: "int \<Rightarrow> string" where
  "BigIntToStrWithoutDot number = takeWhile (\<lambda>c. c \<noteq> CHR ''.'') (BigIntToStr number)"

definition Uint64ToBigInt :: "u64 \<Rightarrow> int" where
  "Uint64ToBigInt number = int (unat number) * 1000000000000000000"

text \<open>The parse error is dropped, the result is then a nil pointer: \<open>None\<close>.\<close>

definition FormatDecimalForERC20 :: "int \<Rightarrow> int \<Rightarrow> int option" where
  "FormatDecimalForERC20 number decimal =
    (if number = 0 then Some 0 else strToBigInt (BigIntToStr number) decimal)"

definition FormatDecimalForRocket :: "int \<Rightarrow> int \<Rightarrow> int option" where
  "FormatDecimalForRocket number decimal =
    (if number = 0 then Some 0 else StrToBigInt (bigIntToStr number decimal))"

section \<open>Rounding\<close>

lemma nbits_pos: "n > 0 \<Longrightarrow> nbits n = Suc (nbits (n div 2))"
  by (subst nbits.simps) simp

lemma nbits_bounds: "n > 0 \<Longrightarrow> 0 < nbits n \<and> 2 ^ (nbits n - 1) \<le> n \<and> n < 2 ^ nbits n"
proof (induction n rule: nbits.induct)
  case (1 n)
  show ?case
  proof (cases "n div 2 = 0")
    case True
    with 1 have "n = 1" by simp
    then show ?thesis by (simp add: nbits_pos nbits.simps[of 0])
  next
    case False
    with 1 have ih: "0 < nbits (n div 2)" "2 ^ (nbits (n div 2) - 1) \<le> n div 2" "n div 2 < 2 ^ nbits (n div 2)" by auto
    then obtain k where k: "nbits (n div 2) = Suc k" by (cases "nbits (n div 2)") auto
    with ih have "2 * 2 ^ k \<le> n" "n < 2 * 2 ^ Suc k" by auto
    with 1 k show ?thesis by (simp add: nbits_pos)
  qed
qed

lemma rat_log2_le:
  assumes "0 < x"
  shows "2 powi rat_log2 x \<le> x"
proof -
  obtain a b where ab: "quotient_of x = (a, b)" by (cases "quotient_of x")
  have b: "b > 0" using ab quotient_of_denom_pos by blast
  have x: "x = of_int a / of_int b" using ab quotient_of_div by blast
  then have a: "a > 0" using assms b by (simp add: zero_less_divide_iff)
  let ?la = "nbits (nat a)" and ?lb = "nbits (nat b)"
  have la: "0 < ?la" "2 ^ (?la - 1) \<le> nat a" and lb: "nat b < 2 ^ ?lb"
    using nbits_bounds[of "nat a"] nbits_bounds[of "nat b"] a b by auto
  have A: "(2::rat) ^ (?la - 1) \<le> of_int a"
    using la(2) a by (metis of_int_le_iff of_int_numeral of_int_power of_nat_le_iff of_nat_nat of_nat_numeral of_nat_power order_less_imp_le)
  have B: "of_int b \<le> (2::rat) ^ ?lb"
    using lb b by (metis less_imp_le of_int_le_iff of_int_numeral of_int_power of_nat_le_iff of_nat_nat of_nat_numeral of_nat_power)
  have "2 powi (int ?la - int ?lb - 1) = (2::rat) ^ (?la - 1) / 2 ^ ?lb"
    using la(1) by (simp add: power_int_diff power_diff)
  also have "\<dots> \<le> of_int a / of_int b" using A B a b by (intro frac_le) auto
  finally show ?thesis using ab x by (auto simp: rat_log2_def Let_def)
qed

lemma bf_round_bounds:
  assumes "0 < x" "0 < p"
  shows "x \<le> bf_round p x" "bf_round p x \<le> x * (1 + 2 / 2 ^ p)"
proof -
  let ?u = "2 powi (rat_log2 x + 1 - int p) :: rat"
  have u: "0 < ?u" by simp
  have r: "bf_round p x = of_int \<lceil>x / ?u\<rceil> * ?u" using assms by (simp add: bf_round_def Let_def)
  have "x / ?u \<le> of_int \<lceil>x / ?u\<rceil>" by simp
  then show "x \<le> bf_round p x" unfolding r pos_divide_le_eq[OF u] .
  have "of_int \<lceil>x / ?u\<rceil> \<le> x / ?u + 1" by linarith
  then have "of_int \<lceil>x / ?u\<rceil> * ?u \<le> (x / ?u + 1) * ?u" using u by (intro mult_right_mono) auto
  also have "\<dots> = x + ?u" using u by (simp add: field_simps)
  finally have "bf_round p x \<le> x + ?u" using r by simp
  moreover have "?u = 2 powi rat_log2 x * (2 / 2 ^ p)"
    by (simp add: power_int_diff power_int_add)
  moreover have "2 powi rat_log2 x * (2 / 2 ^ p) \<le> x * (2 / 2 ^ p)"
    using rat_log2_le[OF assms(1)] by (intro mult_right_mono) auto
  ultimately show "bf_round p x \<le> x * (1 + 2 / 2 ^ p)" by (simp add: algebra_simps)
qed

text \<open>Two roundings up and a truncation are exact as long as the error stays below the
  distance to the next integer.\<close>

lemma two_roundings:
  fixes n :: nat and a b :: nat
  assumes "0 < n" "0 < b" "n * a < 2 ^ 509" "0 < a"
  shows "bf_Int (bf_round 512 (bf_round 512 (of_nat n / of_nat b) * of_nat a)) = int (n * a div b)"
proof -
  define d :: rat where "d = 2 / 2 ^ 512"
  define v :: rat where "v = of_nat n / of_nat b"
  define y where "y = bf_round 512 v"
  define z where "z = bf_round 512 (y * of_nat a)"
  define q :: rat where "q = of_nat (n * a) / of_nat b"
  have d: "0 < d" "d \<le> 1" "6 * d < 2 / 2 ^ 509" by (simp_all add: d_def)
  have v: "0 < v" using assms by (simp add: v_def)
  have y: "v \<le> y" "y \<le> v * (1 + d)" using bf_round_bounds[OF v, of 512] by (simp_all add: y_def d_def)
  have w: "0 < y * of_nat a" using v y assms(4) by simp
  have z: "y * of_nat a \<le> z" "z \<le> y * of_nat a * (1 + d)"
    using bf_round_bounds[OF w, of 512] by (simp_all add: z_def d_def)
  have va: "v * of_nat a = q" by (simp add: v_def q_def)
  have "v * of_nat a \<le> y * of_nat a" using y(1) by (intro mult_right_mono) auto
  then have lo: "q \<le> z" using z(1) va by simp
  have "y * of_nat a \<le> v * (1 + d) * of_nat a" using y(2) by (intro mult_right_mono) auto
  then have "y * of_nat a * (1 + d) \<le> v * (1 + d) * of_nat a * (1 + d)"
    by (rule mult_right_mono) (use d in simp)
  then have "z \<le> q * ((1 + d) * (1 + d))" using z(2) va by (simp add: algebra_simps)
  also have "(1 + d) * (1 + d) \<le> 1 + 3 * d" using d mult_left_mono[of d 1 d] by (simp add: algebra_simps)
  then have "q * ((1 + d) * (1 + d)) \<le> q * (1 + 3 * d)"
    by (intro mult_left_mono) (simp_all add: q_def)
  finally have hi: "z \<le> q + q * (3 * d)" by (simp add: algebra_simps)
  have "rat_of_nat (n * a) < 2 ^ 509"
    using assms(3) by (metis of_nat_less_iff of_nat_numeral of_nat_power)
  then have "of_nat (n * a) * (3 * d) < 2 ^ 509 * (3 * d)"
    by (rule mult_strict_right_mono) (use d in simp)
  also have "\<dots> \<le> 1" by (simp add: d_def)
  finally have "of_nat (n * a) * (3 * d) < 1" .
  then have "q * (3 * d) < 1 / of_nat b"
    using assms(2) by (simp add: q_def divide_less_cancel)
  moreover have "q \<le> of_nat (n * a div b) + 1 - 1 / of_nat b"
  proof -
    have "of_nat (n * a) = (of_nat (n * a div b) * of_nat b + of_nat (n * a mod b) :: rat)"
      by (metis div_mult_mod_eq of_nat_add of_nat_mult)
    then have "q = of_nat (n * a div b) + of_nat (n * a mod b) / of_nat b"
      using assms(2) by (simp add: q_def add_divide_distrib)
    moreover have "Suc (n * a mod b) \<le> b" using assms(2) by (simp add: Suc_leI)
    then have "rat_of_nat (n * a mod b) + 1 \<le> of_nat b" by (metis of_nat_Suc of_nat_le_iff add.commute)
    then have "rat_of_nat (n * a mod b) / of_nat b \<le> (of_nat b - 1) / of_nat b"
      by (intro divide_right_mono) auto
    moreover have "(rat_of_nat b - 1) / of_nat b = 1 - 1 / of_nat b" using assms(2) by (simp add: diff_divide_distrib)
    ultimately show ?thesis by simp
  qed
  ultimately have up: "z < of_nat (n * a div b) + 1" using hi by simp
  have "of_nat (n * a div b) \<le> q" unfolding q_def using assms(2)
    by (metis of_nat_div_le_of_nat)
  with lo up have "\<lfloor>z\<rfloor> = int (n * a div b)" by (intro floor_unique) auto
  moreover have "0 \<le> z" using w z(1) by simp
  ultimately show ?thesis by (simp add: bf_Int_def z_def y_def v_def)
qed

section \<open>Decimal strings of integers\<close>

lemma digits_val_append: "digits_val (a @ b) = digits_val a * 10 ^ length b + digits_val b"
proof -
  have "foldl (\<lambda>n c. 10 * n + (of_char c - 48)) k b =
      k * 10 ^ length b + foldl (\<lambda>n c. 10 * n + (of_char c - 48)) 0 b" for k :: nat
  proof (induction b arbitrary: k)
    case (Cons c b)
    from Cons[of "10 * k + (of_char c - 48)"] Cons[of "of_char c - 48"] show ?case
      by (simp add: algebra_simps)
  qed simp
  from this[of "digits_val a"] show ?thesis by (simp add: digits_val_def)
qed

lemma itoa_less: "n < 10 \<Longrightarrow> itoa n = [char_of (48 + n)]"
  by (subst itoa.simps) simp

lemma itoa_geq: "\<not> n < 10 \<Longrightarrow> itoa n = itoa (n div 10) @ [char_of (48 + n mod 10)]"
  by (subst itoa.simps) simp

lemma itoa_digits: "list_all is_digit (itoa n) \<and> itoa n \<noteq> [] \<and> digits_val (itoa n) = n"
proof (induction n rule: itoa.induct)
  case (1 n)
  have d: "is_digit (char_of (48 + k :: nat)) \<and> digits_val [char_of (48 + k)] = k" if "k < 10" for k :: nat
    using that by (simp add: is_digit_def digits_val_def)
  show ?case
  proof (cases "n < 10")
    case True
    with d[of n] show ?thesis by (simp add: itoa_less)
  next
    case False
    with 1 d[of "n mod 10"] show ?thesis
      unfolding itoa_geq[OF False] by (simp add: digits_val_append del: of_char_of)
  qed
qed

lemma digits_val_zeros [simp]: "digits_val (replicate k CHR ''0'') = 0"
  by (induction k) (simp_all add: digits_val_def)

lemma is_digit_sign: "is_digit c \<Longrightarrow> c \<noteq> CHR ''-'' \<and> c \<noteq> CHR ''+'' \<and> c \<noteq> CHR ''.''"
  by (auto simp: is_digit_def)

lemma parse_plain:
  assumes "list_all is_digit ip" "list_all is_digit fp" "ip \<noteq> []"
  shows "ParseFloat10 prec (ip @ ''.'' @ fp) = Some (bf_round prec (rat_of_nat (digits_val (ip @ fp)) / 10 ^ length fp))"
    "fp = [] \<Longrightarrow> ParseFloat10 prec ip = Some (bf_round prec (rat_of_nat (digits_val ip)))"
proof -
  obtain c r where c: "ip = c # r" "is_digit c" using assms by (cases ip) auto
  have sg: "split_sign (ip @ x) = (False, ip @ x)" for x
    using c is_digit_sign[of c] by (simp add: split_sign_def)
  have nd: "\<not> is_digit CHR ''.''" by (simp add: is_digit_def)
  have tw: "takeWhile is_digit (ip @ CHR ''.'' # fp) = ip" "dropWhile is_digit (ip @ CHR ''.'' # fp) = CHR ''.'' # fp"
    "takeWhile is_digit fp = fp" "dropWhile is_digit fp = []" "takeWhile is_digit ip = ip" "dropWhile is_digit ip = []"
    using assms nd by (auto simp: takeWhile_append list_all_iff dropWhile_append)
  show "ParseFloat10 prec (ip @ ''.'' @ fp) = Some (bf_round prec (rat_of_nat (digits_val (ip @ fp)) / 10 ^ length fp))"
    using assms(3) sg[of "CHR ''.'' # fp"] by (simp add: ParseFloat10_def Let_def parse_exp_def tw)
  show "fp = [] \<Longrightarrow> ParseFloat10 prec ip = Some (bf_round prec (rat_of_nat (digits_val ip)))"
    using assms(3) sg[of "[]"] by (simp add: ParseFloat10_def Let_def parse_exp_def tw)
qed

lemma parse_bigIntToStr:
  assumes "0 < n" "0 \<le> p"
  shows "ParseFloat10 prec (bigIntToStr n p) = Some (bf_round prec (of_nat (nat n) / 10 ^ nat p))"
proof -
  let ?s = "itoa (nat n)" and ?p = "nat p"
  note it = itoa_digits[of "nat n"]
  have zero: "is_digit CHR ''0''" by (simp add: is_digit_def)
  consider "length ?s \<le> ?p" "?p \<noteq> 0" | "\<not> length ?s \<le> ?p" "?p \<noteq> 0" | "?p = 0" by auto
  then show ?thesis
  proof cases
    case 1
    let ?f = "replicate (?p - length ?s) CHR ''0'' @ ?s"
    from 1 assms have str: "bigIntToStr n p = ''0'' @ ''.'' @ ?f" by (auto simp: bigIntToStr_def Let_def)
    have "list_all is_digit ?f" "length ?f = ?p" "digits_val (''0'' @ ?f) = nat n"
      using it zero 1 digits_val_append[of "''0''" ?f] by (auto simp: list_all_iff digits_val_append digits_val_def[of "''0''"])
    with parse_plain(1)[of "''0''" ?f prec] zero show ?thesis unfolding str by simp
  next
    case 2
    let ?i = "take (length ?s - ?p) ?s" and ?f = "drop (length ?s - ?p) ?s"
    from 2 assms have str: "bigIntToStr n p = ?i @ ''.'' @ ?f" by (auto simp: bigIntToStr_def Let_def)
    have "list_all is_digit ?i" "list_all is_digit ?f" "?i \<noteq> []" "length ?f = ?p" "digits_val (?i @ ?f) = nat n"
      using it 2 by (auto simp: list_all_iff dest: in_set_takeD in_set_dropD)
    with parse_plain(1)[of ?i ?f prec] show ?thesis unfolding str by simp
  next
    case 3
    with assms it have str: "bigIntToStr n p = ?s" by (auto simp: bigIntToStr_def Let_def)
    with parse_plain(2)[of ?s "[]" prec] it 3 show ?thesis by simp
  qed
qed

text \<open>Conversion of an amount with \<open>p\<close> decimals to \<open>d\<close> decimals.\<close>

lemma decimal_convert:
  assumes "0 < n" "0 \<le> p" "0 \<le> d" "n * 10 ^ nat d < 2 ^ 509"
  shows "strToBigInt (bigIntToStr n p) d = Some (n * 10 ^ nat d div 10 ^ nat p)"
proof -
  have "int (nat n * 10 ^ nat d) < int (2 ^ 509)" using assms by simp
  then have bound: "nat n * 10 ^ nat d < 2 ^ 509" by (simp only: of_nat_less_iff)
  have ne: "bigIntToStr n p \<noteq> []"
    using assms itoa_digits[of "nat n"] by (auto simp: bigIntToStr_def Let_def)
  have "strToBigInt (bigIntToStr n p) d =
      Some (bf_Int (bf_round 512 (bf_round 512 (of_nat (nat n) / of_nat (10 ^ nat p)) * of_nat (10 ^ nat d))))"
    using ne assms by (simp add: strToBigInt_def parse_bigIntToStr float_prec_def)
  also have "\<dots> = Some (int (nat n * 10 ^ nat d div 10 ^ nat p))"
    using assms(1) bound by (subst two_roundings) auto
  also have "int (nat n * 10 ^ nat d div 10 ^ nat p) = n * 10 ^ nat d div 10 ^ nat p"
    using assms(1) by (simp add: zdiv_int)
  finally show ?thesis .
qed

section \<open>Amounts\<close>

lemma UInt64_roundtrip: "ByteToUInt64 (UInt64ToByte i) = i"
  by (simp add: ByteToUInt64_def UInt64ToByte_def be_word_be_bytes)

lemma FormatDecimalForERC20_eq:
  "0 \<le> n \<Longrightarrow> 0 \<le> d \<Longrightarrow> n * 10 ^ nat d < 2 ^ 509 \<Longrightarrow> FormatDecimalForERC20 n d = Some (n * 10 ^ nat d div 10 ^ 18)"
  using decimal_convert[of n 18 d] by (auto simp: FormatDecimalForERC20_def BigIntToStr_def)

lemma FormatDecimalForRocket_eq:
  "0 \<le> n \<Longrightarrow> 0 \<le> d \<Longrightarrow> n * 10 ^ 18 < 2 ^ 509 \<Longrightarrow> FormatDecimalForRocket n d = Some (n * 10 ^ 18 div 10 ^ nat d)"
  using decimal_convert[of n d 18] by (auto simp: FormatDecimalForRocket_def StrToBigInt_def)



end
