(* ===== verification/Access_List.thy ===== *)
theory Access_List
  imports Common_Types
begin

text \<open>
  \<^verbatim>\<open>src/storage/account/access_list.go\<close>: the per-transaction list of warm addresses and
  storage slots. An address maps to the index of its slot set, or to \<open>-1\<close> when it has
  no slots. A panic is \<open>None\<close>.
\<close>

record accessList =
  addresses :: "address \<rightharpoonup> int"
  slots :: "hash set list"

definition newAccessList :: accessList where
  "newAccessList = \<lparr>addresses = Map.empty, slots = []\<rparr>"

definition ContainsAddress :: "accessList \<Rightarrow> address \<Rightarrow> bool" where
  "ContainsAddress al address \<longleftrightarrow> addresses al address \<noteq> None"

definition Contains :: "accessList \<Rightarrow> address \<Rightarrow> hash \<Rightarrow> (bool \<times> bool) option" where
  "Contains al address slot =
    (case addresses al address of
       None \<Rightarrow> Some (False, False)
     | Some idx \<Rightarrow>
         if idx = -1 then Some (True, False)
         else if 0 \<le> idx \<and> nat idx < length (slots al) then Some (True, slot \<in> slots al ! nat idx)
         else None)"

definition AddAddress :: "accessList \<Rightarrow> address \<Rightarrow> accessList \<times> bool" where
  "AddAddress al address =
    (if addresses al address \<noteq> None then (al, False)
     else (al\<lparr>addresses := (addresses al)(address \<mapsto> -1)\<rparr>, True))"

definition AddSlot :: "accessList \<Rightarrow> address \<Rightarrow> hash \<Rightarrow> (accessList \<times> bool \<times> bool) option" where
  "AddSlot al address slot =
    (let fresh = al\<lparr>addresses := (addresses al)(address \<mapsto> int (length (slots al))), slots := slots al @ [{slot}]\<rparr> in
     case addresses al address of
       None \<Rightarrow> Some (fresh, True, True)
     | Some idx \<Rightarrow>
         if idx = -1 then Some (fresh, False, True)
         else if \<not> (0 \<le> idx \<and> nat idx < length (slots al)) then None
         else if slot \<notin> slots al ! nat idx
         then Some (al\<lparr>slots := (slots al)[nat idx := insert slot (slots al ! nat idx)]\<rparr>, False, True)
         else Some (al, False, False))"

definition DeleteSlot :: "accessList \<Rightarrow> address \<Rightarrow> hash \<Rightarrow> accessList option" where
  "DeleteSlot al address slot =
    (case addresses al address of
       None \<Rightarrow> None
     | Some idx \<Rightarrow>
         if \<not> (0 \<le> idx \<and> nat idx < length (slots al)) then None
         else
           (let slotmap = slots al ! nat idx - {slot}
            in Some (if slotmap = {}
                 then al\<lparr>slots := take (nat idx) (slots al), addresses := (addresses al)(address \<mapsto> -1)\<rparr>
                 else al\<lparr>slots := (slots al)[nat idx := slotmap]\<rparr>)))"

definition DeleteAddress :: "accessList \<Rightarrow> address \<Rightarrow> accessList" where
  "DeleteAddress al address = al\<lparr>addresses := (addresses al)(address := None)\<rparr>"

text \<open>\<^verbatim>\<open>Copy\<close> builds a fresh map and fresh slot sets with the same entries.\<close>

definition accessList_Copy :: "accessList \<Rightarrow> accessList" where
  "accessList_Copy a = newAccessList\<lparr>addresses := addresses a, slots := map (\<lambda>m. m) (slots a)\<rparr>"

section \<open>Invariant and meaning\<close>

definition al_inv :: "accessList \<Rightarrow> bool" where
  "al_inv al \<longleftrightarrow>
     (\<forall>a i. addresses al a = Some i \<longrightarrow> i = -1 \<or> (0 \<le> i \<and> nat i < length (slots al))) \<and>
     (\<forall>a b i. addresses al a = Some i \<longrightarrow> addresses al b = Some i \<longrightarrow> i \<noteq> -1 \<longrightarrow> a = b) \<and>
     (\<forall>i < length (slots al). slots al ! i \<noteq> {})"

text \<open>The warm addresses and the warm slots.\<close>

definition warm :: "accessList \<Rightarrow> address set" where
  "warm al = dom (addresses al)"

definition warm_slots :: "accessList \<Rightarrow> (address \<times> hash) set" where
  "warm_slots al = {(a, s). \<exists>i. addresses al a = Some (int i) \<and> i < length (slots al) \<and> s \<in> slots al ! i}"

lemma al_inv_new [simp]: "al_inv newAccessList"
  by (simp add: al_inv_def newAccessList_def)

lemma al_inv_index:
  "al_inv al \<Longrightarrow> addresses al a = Some i \<Longrightarrow> i \<noteq> -1 \<Longrightarrow> 0 \<le> i \<and> nat i < length (slots al)"
  by (auto simp: al_inv_def)

lemma AddAddress_inv: "al_inv al \<Longrightarrow> al_inv (fst (AddAddress al a))"
  by (auto simp: al_inv_def AddAddress_def)

lemma AddSlot_inv:
  assumes "al_inv al" "AddSlot al a s = Some (al', ac, sc)"
  shows "al_inv al'"
proof (cases "addresses al a = None \<or> addresses al a = Some (-1)")
  case True
  then have al': "al' = al\<lparr>addresses := (addresses al)(a \<mapsto> int (length (slots al))), slots := slots al @ [{s}]\<rparr>"
    using assms(2) by (auto simp: AddSlot_def Let_def)
  have range: "addresses al x = Some i \<Longrightarrow> i = -1 \<or> (0 \<le> i \<and> nat i < length (slots al))" for x i
    using assms(1) by (auto simp: al_inv_def)
  have inj: "addresses al x = Some i \<Longrightarrow> addresses al y = Some i \<Longrightarrow> i \<noteq> -1 \<Longrightarrow> x = y" for x y i
    using assms(1) by (auto simp: al_inv_def)
  have "\<forall>i < length (slots al'). slots al' ! i \<noteq> {}"
    using assms(1) by (auto simp: al' al_inv_def nth_append)
  moreover have "addresses al' x = Some i \<Longrightarrow> i = -1 \<or> (0 \<le> i \<and> nat i < length (slots al'))" for x i
    using range[of x i] by (auto simp: al' split: if_splits)
  moreover have "addresses al' x = Some i \<Longrightarrow> addresses al' y = Some i \<Longrightarrow> i \<noteq> -1 \<Longrightarrow> x = y" for x y i
    using range[of x i] range[of y i] inj[of x i y] by (auto simp: al' split: if_splits)
  ultimately show ?thesis unfolding al_inv_def by blast
next
  case False
  then obtain i where i: "addresses al a = Some i" "i \<noteq> -1" by auto
  note b = al_inv_index[OF assms(1) i]
  have "al' = al \<or> al' = al\<lparr>slots := (slots al)[nat i := insert s (slots al ! nat i)]\<rparr>"
    using assms(2) i b by (auto simp: AddSlot_def Let_def split: if_splits)
  then show ?thesis
  proof
    assume u: "al' = al\<lparr>slots := (slots al)[nat i := insert s (slots al ! nat i)]\<rparr>"
    show ?thesis using assms(1) b unfolding u al_inv_def by (simp add: nth_list_update)
  qed (simp add: assms(1))
qed

lemma AddSlot_total: "al_inv al \<Longrightarrow> \<exists>r. AddSlot al a s = Some r"
  using al_inv_index[of al a] by (auto simp: AddSlot_def Let_def split: option.split)

lemma Contains_spec:
  "al_inv al \<Longrightarrow> Contains al a s = Some (a \<in> warm al, (a, s) \<in> warm_slots al)"
  using al_inv_index[of al a]
  by (auto simp: Contains_def warm_def warm_slots_def split: option.split) (metis int_nat_eq nat_int)+

lemma AddSlot_spec:
  assumes "al_inv al" "AddSlot al a s = Some (al', ac, sc)"
  shows "warm al' = insert a (warm al)" "warm_slots al' = insert (a, s) (warm_slots al)"
    "ac \<longleftrightarrow> a \<notin> warm al" "sc \<longleftrightarrow> (a, s) \<notin> warm_slots al"
proof -
  have "warm al' = insert a (warm al) \<and> warm_slots al' = insert (a, s) (warm_slots al) \<and>
    (ac \<longleftrightarrow> a \<notin> warm al) \<and> (sc \<longleftrightarrow> (a, s) \<notin> warm_slots al)"
  proof (cases "addresses al a = None \<or> addresses al a = Some (-1)")
    case True
    then have al': "al' = al\<lparr>addresses := (addresses al)(a \<mapsto> int (length (slots al))), slots := slots al @ [{s}]\<rparr>"
        "ac \<longleftrightarrow> addresses al a = None" "sc"
      using assms(2) by (auto simp: AddSlot_def Let_def)
    have "(x, y) \<in> warm_slots al' \<longleftrightarrow> (x, y) = (a, s) \<or> (x, y) \<in> warm_slots al" for x y
      using True al_inv_index[OF assms(1), of x] unfolding al'(1) warm_slots_def by (auto simp: nth_append)
    then have "warm_slots al' = insert (a, s) (warm_slots al)" by auto
    moreover have "(a, s) \<notin> warm_slots al" using True by (auto simp: warm_slots_def)
    ultimately show ?thesis using True al' by (auto simp: warm_def)
  next
    case False
    then obtain i where i: "addresses al a = Some i" "i \<noteq> -1" by auto
    note b = al_inv_index[OF assms(1) i]
    then obtain n where n: "i = int n" "n < length (slots al)" by (metis int_nat_eq)
    have in_al: "(a, s) \<in> warm_slots al \<longleftrightarrow> s \<in> slots al ! n" using i n by (auto simp: warm_slots_def)
    have al': "\<not> ac" "sc \<longleftrightarrow> s \<notin> slots al ! n"
        "al' = (if s \<in> slots al ! n then al else al\<lparr>slots := (slots al)[n := insert s (slots al ! n)]\<rparr>)"
      using assms(2) i n by (auto simp: AddSlot_def Let_def split: if_splits)
    have uniq: "addresses al x = Some (int n) \<longleftrightarrow> x = a" for x
      using assms(1) i n by (auto simp: al_inv_def)
    have "(x, y) \<in> warm_slots al' \<longleftrightarrow> (x, y) = (a, s) \<or> (x, y) \<in> warm_slots al" for x y
      using uniq[of x] i n unfolding al'(3) warm_slots_def by (auto simp: nth_list_update split: if_splits)
    then have "warm_slots al' = insert (a, s) (warm_slots al)" by auto
    with al' in_al i show ?thesis by (auto simp: warm_def)
  qed
  then show "warm al' = insert a (warm al)" "warm_slots al' = insert (a, s) (warm_slots al)"
    "ac \<longleftrightarrow> a \<notin> warm al" "sc \<longleftrightarrow> (a, s) \<notin> warm_slots al" by blast+
qed

lemma AddAddress_spec:
  assumes "AddAddress al a = (al', c)"
  shows "warm al' = insert a (warm al)" "warm_slots al' = warm_slots al" "c \<longleftrightarrow> a \<notin> warm al"
  using assms by (auto simp: AddAddress_def warm_def warm_slots_def split: if_splits)

text \<open>The two deletions undo the two additions exactly, as the journal uses them.\<close>

lemma undo_AddAddress: "AddAddress al a = (al', True) \<Longrightarrow> DeleteAddress al' a = al"
  by (auto simp: AddAddress_def DeleteAddress_def fun_upd_idem split: if_splits)

lemma undo_AddSlot:
  assumes "al_inv al" "AddSlot al a s = Some (al', ac, True)"
  shows "\<exists>al1. DeleteSlot al' a s = Some al1 \<and> (if ac then DeleteAddress al1 a else al1) = al \<and> al_inv al1"
proof (cases "addresses al a = None \<or> addresses al a = Some (-1)")
  case True
  then have "al' = al\<lparr>addresses := (addresses al)(a \<mapsto> int (length (slots al))), slots := slots al @ [{s}]\<rparr>"
      "ac \<longleftrightarrow> addresses al a = None"
    using assms(2) by (auto simp: AddSlot_def Let_def)
  then have "DeleteSlot al' a s = Some (al\<lparr>addresses := (addresses al)(a \<mapsto> -1)\<rparr>)" by (simp add: DeleteSlot_def)
  moreover have "al_inv (al\<lparr>addresses := (addresses al)(a \<mapsto> -1)\<rparr>)" using assms(1) by (auto simp: al_inv_def)
  ultimately show ?thesis using True \<open>ac \<longleftrightarrow> addresses al a = None\<close>
    by (auto simp: DeleteAddress_def fun_upd_idem)
next
  case False
  then obtain i where i: "addresses al a = Some i" "i \<noteq> -1" by auto
  note b = al_inv_index[OF assms(1) i]
  have al': "s \<notin> slots al ! nat i" "al' = al\<lparr>slots := (slots al)[nat i := insert s (slots al ! nat i)]\<rparr>" "\<not> ac"
    using assms(2) i b by (auto simp: AddSlot_def Let_def split: if_splits)
  have "slots al ! nat i \<noteq> {}" using assms(1) b by (auto simp: al_inv_def)
  with al' i b assms(1) show ?thesis by (auto simp: DeleteSlot_def Let_def insert_Diff_if)
qed

section \<open>The access list as two sets\<close>

text \<open>
  C18: adding a slot to the access list is insertion into the sets of warm addresses and
  warm slots. It never indexes out of range, reports exactly what was new, keeps the
  invariant, and \<^verbatim>\<open>DeleteSlot\<close> followed by \<^verbatim>\<open>DeleteAddress\<close> (for what was new)
  restores the list exactly, indices included.
\<close>

theorem access_list_AddSlot:
  assumes "al_inv al"
  shows "\<exists>al' ac sc. AddSlot al a s = Some (al', ac, sc) \<and> al_inv al'
    \<and> Contains al' a s = Some (True, True)
    \<and> warm al' = insert a (warm al) \<and> warm_slots al' = insert (a, s) (warm_slots al)
    \<and> ac = (a \<notin> warm al) \<and> sc = ((a, s) \<notin> warm_slots al)
    \<and> (sc \<longrightarrow> (\<exists>al1. DeleteSlot al' a s = Some al1 \<and> (if ac then DeleteAddress al1 a else al1) = al))"
proof -
  obtain al' ac sc where r: "AddSlot al a s = Some (al', ac, sc)"
    using AddSlot_total[OF assms, of a s] by (metis prod_cases3)
  note sp = AddSlot_spec[OF assms r]
  have inv: "al_inv al'" using AddSlot_inv[OF assms r] .
  have "Contains al' a s = Some (True, True)" using Contains_spec[OF inv, of a s] sp by simp
  moreover have "sc \<longrightarrow> (\<exists>al1. DeleteSlot al' a s = Some al1 \<and> (if ac then DeleteAddress al1 a else al1) = al)"
    using undo_AddSlot[OF assms, of a s al' ac] r by (cases sc) auto
  ultimately show ?thesis using r inv sp by (intro exI[of _ al'] exI[of _ ac] exI[of _ sc]) simp
qed

theorem access_list_AddSlot_witness:
  "\<exists>al' ac sc. AddSlot newAccessList zero_address zero_hash = Some (al', ac, sc) \<and> ac \<and> sc"
  using access_list_AddSlot[OF al_inv_new, of zero_address zero_hash] by (auto simp: warm_def warm_slots_def newAccessList_def)

end
