(* ===== verification/Account_State.thy ===== *)
theory Account_State
  imports Access_List Utility_Convert Trie_Ops
begin

text \<open>
  \<^verbatim>\<open>src/storage/account/\<close>: account objects and the account database
  (\<^verbatim>\<open>account_object.go\<close>, \<^verbatim>\<open>accountdb.go\<close>, \<^verbatim>\<open>transition.go\<close>,
  \<^verbatim>\<open>transient_storage.go\<close>).

  The Go interfaces \<^verbatim>\<open>AccountDatabase\<close> and \<^verbatim>\<open>Trie\<close> are a record of functions over
  a type \<open>'t\<close> of tries; a trie method returns the trie it updated. The same record holds
  the hash functions of third-party packages, the RLP decoder of accounts and the fork
  configuration. An account object is reached through its address in \<open>accountObjects\<close>;
  its callback \<^verbatim>\<open>onDirty\<close> is the flag whether it is still set. Locks are left out.
\<close>

section \<open>Interfaces\<close>

datatype acc_error =
    TrieErr trie_error
  | CantCreateTrie
  | CantLoadCode
  | CodeNotFound

record Account =
  Nonce :: u64
  Root :: hash
  kind :: byte
  NFTSetDefinitionHash :: "bytes option"

record 't AccountEnv =
  OpenTrie :: "hash \<Rightarrow> acc_error + 't"
  OpenStorageTrie :: "hash \<Rightarrow> hash \<Rightarrow> acc_error + 't"
  ContractCode :: "hash \<Rightarrow> hash \<Rightarrow> acc_error + bytes"
  ContractCodeSize :: "hash \<Rightarrow> hash \<Rightarrow> nat \<times> acc_error option"
  op_TryGet :: "'t \<Rightarrow> bytes \<Rightarrow> acc_error + bytes option \<times> 't"
  op_TryUpdate :: "'t \<Rightarrow> bytes \<Rightarrow> bytes \<Rightarrow> acc_error + 't"
  op_TryDelete :: "'t \<Rightarrow> bytes \<Rightarrow> acc_error + 't"
  op_Hash :: "'t \<Rightarrow> hash \<times> 't"
  decodeAccount :: "bytes \<Rightarrow> Account option"
  encodeAccount :: "Account \<Rightarrow> bytes option"
  sum256 :: "bytes \<Rightarrow> hash"
  keccak256 :: "bytes \<Rightarrow> hash"
  sha256 :: "bytes \<Rightarrow> bytes"
  proposal002 :: bool
  isSub :: bool

section \<open>Account objects\<close>

text \<open>A Go \<^verbatim>\<open>Storage\<close> map: keys to nullable values.\<close>

type_synonym Storage = "(bytes \<times> bytes option) list"

record 't accountObject =
  ao_address :: address
  addrHash :: hash
  ao_data :: Account
  ao_dbErr :: "acc_error option"
  ao_trie :: "'t option"
  nftSet :: "bytes option"
  dirtyNFTSet :: bool
  cachedStorage :: Storage
  dirtyStorage :: Storage
  suicided :: bool
  touched :: bool
  deleted :: bool
  onDirty :: bool

definition emptyCodeHash :: "('t, 'x) AccountEnv_scheme \<Rightarrow> hash" where
  "emptyCodeHash E = sum256 E []"

definition ao_empty :: "('t, 'x) AccountEnv_scheme \<Rightarrow> 't accountObject \<Rightarrow> bool" where
  "ao_empty E ao \<longleftrightarrow>
    (NFTSetDefinitionHash (ao_data ao) = None \<or> NFTSetDefinitionHash (ao_data ao) = Some (emptyCodeHash E)) \<and>
    Nonce (ao_data ao) = 0 \<and> length (cachedStorage ao) = 0 \<and> length (dirtyStorage ao) = 0"

definition newAccountObject :: "('t, 'x) AccountEnv_scheme \<Rightarrow> address \<Rightarrow> Account \<Rightarrow> bool \<Rightarrow> 't accountObject" where
  "newAccountObject E address data dirtyfn =
    (let data = (if NFTSetDefinitionHash data = None
                 then data\<lparr>NFTSetDefinitionHash := Some (emptyCodeHash E)\<rparr> else data)
     in \<lparr>ao_address = address, addrHash = sum256 E address, ao_data = data, ao_dbErr = None,
         ao_trie = None, nftSet = None, dirtyNFTSet = False, cachedStorage = [], dirtyStorage = [],
         suicided = False, touched = False, deleted = False, onDirty = dirtyfn\<rparr>)"

definition ao_setError :: "acc_error \<Rightarrow> 't accountObject \<Rightarrow> 't accountObject" where
  "ao_setError err ao = (if ao_dbErr ao = None then ao\<lparr>ao_dbErr := Some err\<rparr> else ao)"

text \<open>\<open>getTrie\<close> opens the storage trie on first use, the empty one when that fails.\<close>

definition getTrie :: "('t, 'x) AccountEnv_scheme \<Rightarrow> 't accountObject \<Rightarrow> 't accountObject" where
  "getTrie E ao =
    (case ao_trie ao of
       Some t \<Rightarrow> ao
     | None \<Rightarrow>
         (case OpenStorageTrie E (addrHash ao) (Root (ao_data ao)) of
            Inr t \<Rightarrow> ao\<lparr>ao_trie := Some t\<rparr>
          | Inl _ \<Rightarrow>
              (let ao = ao_setError CantCreateTrie ao
               in case OpenStorageTrie E (addrHash ao) zero_hash of
                    Inr t \<Rightarrow> ao\<lparr>ao_trie := Some t\<rparr>
                  | Inl _ \<Rightarrow> ao)))"

definition GetCommittedData ::
  "('t, 'x) AccountEnv_scheme \<Rightarrow> bytes \<Rightarrow> 't accountObject \<Rightarrow> bytes option \<times> 't accountObject" where
  "GetCommittedData E key ao =
    (let ao = getTrie E ao
     in case ao_trie ao of
          None \<Rightarrow> (None, ao)
        | Some t \<Rightarrow>
            (case op_TryGet E t key of
               Inl err \<Rightarrow> (None, ao_setError err ao)
             | Inr (None, t) \<Rightarrow> (None, ao\<lparr>ao_trie := Some t\<rparr>)
             | Inr (Some v, t) \<Rightarrow>
                 (Some v, ao\<lparr>ao_trie := Some t, cachedStorage := AList.update key (Some v) (cachedStorage ao)\<rparr>)))"

definition ao_GetData ::
  "('t, 'x) AccountEnv_scheme \<Rightarrow> bytes \<Rightarrow> 't accountObject \<Rightarrow> bytes option \<times> 't accountObject" where
  "ao_GetData E key ao =
    (case map_of (cachedStorage ao) key of
       Some value \<Rightarrow> (value, ao)
     | None \<Rightarrow> GetCommittedData E key ao)"

definition nftSetDefinition :: "('t, 'x) AccountEnv_scheme \<Rightarrow> 't accountObject \<Rightarrow> bytes option \<times> 't accountObject" where
  "nftSetDefinition E ao =
    (if nftSet ao \<noteq> None then (nftSet ao, ao)
     else if slice_of (NFTSetDefinitionHash (ao_data ao)) = emptyCodeHash E then (None, ao)
     else
       (case ContractCode E (addrHash ao) (BytesToHash (slice_of (NFTSetDefinitionHash (ao_data ao)))) of
          Inr code \<Rightarrow> (Some code, ao\<lparr>nftSet := Some code\<rparr>)
        | Inl _ \<Rightarrow> (None, (ao_setError CantLoadCode ao)\<lparr>nftSet := None\<rparr>)))"

definition CodeSize :: "('t, 'x) AccountEnv_scheme \<Rightarrow> 't accountObject \<Rightarrow> nat \<times> 't accountObject" where
  "CodeSize E ao =
    (case nftSet ao of
       Some c \<Rightarrow> (length c, ao)
     | None \<Rightarrow>
         if slice_of (NFTSetDefinitionHash (ao_data ao)) = emptyCodeHash E then (0, ao)
         else (case ContractCodeSize E (addrHash ao) (BytesToHash (slice_of (NFTSetDefinitionHash (ao_data ao)))) of
                 (sz, None) \<Rightarrow> (sz, ao)
               | (sz, Some _) \<Rightarrow> (sz, ao_setError CantLoadCode ao)))"

section \<open>The database\<close>

text \<open>\<^verbatim>\<open>middleware/types/log.go\<close>.\<close>

record Log =
  log_Address :: address
  Topics :: "hash list"
  log_Data :: bytes
  BlockNumber :: u64
  log_TxHash :: hash
  log_TxIndex :: u64
  log_BlockHash :: hash
  log_Index :: u64
  Removed :: bool

text \<open>The journal entries of \<^verbatim>\<open>transition.go\<close>.\<close>

datatype 't transitionEntry =
    CreateObjectChange address
  | ResetObjectChange "'t accountObject"
  | SuicideChange address bool int
  | NonceChange address u64
  | StorageChange address bytes "bytes option"
  | NftSetDefinitionChange address "bytes option" "bytes option"
  | RefundChange u64
  | AddLogChange hash
  | TouchChange address bool bool
  | AccessListAddAccountChange address
  | AccessListAddSlotChange address hash
  | TransientStorageChange address hash hash

record 't AccountDB =
  adb_trie :: 't
  accessList :: accessList
  accountObjects :: "(address \<times> 't accountObject) list"
  accountObjectsDirty :: "address list"
  adb_dbErr :: "acc_error option"
  refund :: u64
  transientStorage :: "(address \<times> Storage) list"
  transitions :: "'t transitionEntry list"
  validRevisions :: "(int \<times> nat) list"
  nextRevisionID :: int
  thash :: hash
  bhash :: hash
  txIndex :: int
  logs :: "hash \<rightharpoonup> Log list"
  logSize :: u64
  rpgContractAddress :: address

definition NewAccountDB :: "('t, 'x) AccountEnv_scheme \<Rightarrow> hash \<Rightarrow> address \<Rightarrow> acc_error + 't AccountDB" where
  "NewAccountDB E rt rpg =
    (case OpenTrie E rt of
       Inl err \<Rightarrow> Inl err
     | Inr tr \<Rightarrow> Inr \<lparr>adb_trie = tr, accessList = newAccessList, accountObjects = [],
         accountObjectsDirty = [], adb_dbErr = None, refund = 0, transientStorage = [],
         transitions = [], validRevisions = [], nextRevisionID = 0, thash = zero_hash,
         bhash = zero_hash, txIndex = 0, logs = Map.empty, logSize = 0, rpgContractAddress = rpg\<rparr>)"

definition adb_setError :: "acc_error \<Rightarrow> 't AccountDB \<Rightarrow> 't AccountDB" where
  "adb_setError err adb = (if adb_dbErr adb = None then adb\<lparr>adb_dbErr := Some err\<rparr> else adb)"

definition journal :: "'t transitionEntry \<Rightarrow> 't AccountDB \<Rightarrow> 't AccountDB" where
  "journal e adb = adb\<lparr>transitions := transitions adb @ [e]\<rparr>"

definition MarkAccountObjectDirty :: "address \<Rightarrow> 't AccountDB \<Rightarrow> 't AccountDB" where
  "MarkAccountObjectDirty addr adb = adb\<lparr>accountObjectsDirty := List.insert addr (accountObjectsDirty adb)\<rparr>"

definition get_obj :: "'t AccountDB \<Rightarrow> address \<Rightarrow> 't accountObject option" where
  "get_obj adb addr = map_of (accountObjects adb) addr"

definition put_obj :: "address \<Rightarrow> 't accountObject \<Rightarrow> 't AccountDB \<Rightarrow> 't AccountDB" where
  "put_obj addr ao adb = adb\<lparr>accountObjects := AList.update addr ao (accountObjects adb)\<rparr>"

text \<open>The end of every setter: \<^verbatim>\<open>if ao.onDirty != nil \{ ao.onDirty(addr); ao.onDirty = nil \}\<close>.\<close>

definition put_dirty :: "address \<Rightarrow> 't accountObject \<Rightarrow> 't AccountDB \<Rightarrow> 't AccountDB" where
  "put_dirty addr ao adb =
    (if onDirty ao then put_obj addr (ao\<lparr>onDirty := False\<rparr>) (MarkAccountObjectDirty addr adb)
     else put_obj addr ao adb)"

text \<open>\<^verbatim>\<open>accountObjects.LoadOrStore\<close>.\<close>

definition setAccountObject :: "'t accountObject \<Rightarrow> 't AccountDB \<Rightarrow> 't AccountDB" where
  "setAccountObject ao adb =
    (if get_obj adb (ao_address ao) = None then put_obj (ao_address ao) ao adb else adb)"

definition getAccountObjectFromTrie ::
  "('t, 'x) AccountEnv_scheme \<Rightarrow> address \<Rightarrow> 't AccountDB \<Rightarrow> 't accountObject option \<times> 't AccountDB" where
  "getAccountObjectFromTrie E addr adb =
    (case op_TryGet E (adb_trie adb) addr of
       Inl err \<Rightarrow> (None, adb_setError err adb)
     | Inr (enc, tr) \<Rightarrow>
         (let adb = adb\<lparr>adb_trie := tr\<rparr>
          in if length (slice_of enc) = 0 then (None, adb)
             else (case decodeAccount E (slice_of enc) of
                     None \<Rightarrow> (None, adb)
                   | Some data \<Rightarrow> (Some (newAccountObject E addr data True), adb))))"

definition empty_Account :: Account where
  "empty_Account = \<lparr>Nonce = 0, Root = zero_hash, kind = 0, NFTSetDefinitionHash = None\<rparr>"

definition createObject ::
  "('t, 'x) AccountEnv_scheme \<Rightarrow> address \<Rightarrow> 't accountObject option \<Rightarrow> 't AccountDB \<Rightarrow> 't AccountDB" where
  "createObject E addr prev adb =
    (let newobj = (newAccountObject E addr empty_Account True)\<lparr>onDirty := False\<rparr>;
         adb = MarkAccountObjectDirty addr adb;
         adb = journal (case prev of None \<Rightarrow> CreateObjectChange addr | Some p \<Rightarrow> ResetObjectChange p) adb
     in setAccountObject newobj adb)"

text \<open>\<open>getAccountObject\<close>: whether the address has an object, which then is in the map.
  An object that is marked deleted counts as missing, also for the creating form.\<close>

definition getAccountObject ::
  "('t, 'x) AccountEnv_scheme \<Rightarrow> address \<Rightarrow> bool \<Rightarrow> 't AccountDB \<Rightarrow> bool \<times> 't AccountDB" where
  "getAccountObject E addr isCreateWhenNil adb =
    (case get_obj adb addr of
       Some obj \<Rightarrow> (\<not> deleted obj, adb)
     | None \<Rightarrow>
         (let (obj, adb) = getAccountObjectFromTrie E addr adb in
          case obj of
            Some obj \<Rightarrow> (True, setAccountObject obj adb)
          | None \<Rightarrow> if isCreateWhenNil then (True, createObject E addr None adb) else (False, adb)))"

end
