(* ===== verification/Account_DB.thy ===== *)
theory Account_DB
  imports Account_State
begin

text \<open>
  The operations of \<^verbatim>\<open>accountdb.go\<close>, \<^verbatim>\<open>accountdb_eth.go\<close>, \<^verbatim>\<open>accountdb_tuntun.go\<close>
  and of the account objects they call. Every operation returns the updated database;
  \<open>None\<close> is a nil-pointer panic or an explicit \<^verbatim>\<open>panic\<close>.
\<close>

section \<open>Object operations\<close>

text \<open>The object at an address that the caller has just obtained; \<open>None\<close> is the nil
  pointer of an object marked deleted.\<close>

definition with_obj ::
  "('t, 'x) AccountEnv_scheme \<Rightarrow> address \<Rightarrow> bool \<Rightarrow> ('t accountObject \<Rightarrow> 't AccountDB \<Rightarrow> 'r) \<Rightarrow> ('t AccountDB \<Rightarrow> 'r) \<Rightarrow>
   't AccountDB \<Rightarrow> 'r" where
  "with_obj E addr create f g adb =
    (let (found, adb) = getAccountObject E addr create adb
     in case (found, get_obj adb addr) of (True, Some ao) \<Rightarrow> f ao adb | _ \<Rightarrow> g adb)"

definition ao_setData :: "bytes \<Rightarrow> bytes option \<Rightarrow> 't accountObject \<Rightarrow> 't AccountDB \<Rightarrow> 't AccountDB" where
  "ao_setData key value ao adb =
    put_dirty (ao_address ao)
      (ao\<lparr>cachedStorage := AList.update key value (cachedStorage ao),
         dirtyStorage := AList.update key value (dirtyStorage ao)\<rparr>) adb"

definition ao_SetData ::
  "('t, 'x) AccountEnv_scheme \<Rightarrow> bytes \<Rightarrow> bytes option \<Rightarrow> 't accountObject \<Rightarrow> 't AccountDB \<Rightarrow> 't AccountDB" where
  "ao_SetData E key value ao adb =
    (let (preValue, ao) = ao_GetData E key ao
     in if slice_of value = slice_of preValue then put_obj (ao_address ao) ao adb
        else ao_setData key value ao (journal (StorageChange (ao_address ao) key preValue) adb))"

definition ao_setNonce :: "u64 \<Rightarrow> 't accountObject \<Rightarrow> 't AccountDB \<Rightarrow> 't AccountDB" where
  "ao_setNonce nonce ao adb = put_dirty (ao_address ao) (ao\<lparr>ao_data := (ao_data ao)\<lparr>Nonce := nonce\<rparr>\<rparr>) adb"

definition ao_SetNonce :: "u64 \<Rightarrow> 't accountObject \<Rightarrow> 't AccountDB \<Rightarrow> 't AccountDB" where
  "ao_SetNonce nonce ao adb =
    ao_setNonce nonce ao (journal (NonceChange (ao_address ao) (Nonce (ao_data ao))) adb)"

definition ao_IncreaseNonce :: "'t accountObject \<Rightarrow> 't AccountDB \<Rightarrow> u64 \<times> 't AccountDB" where
  "ao_IncreaseNonce ao adb =
    (let nonce = Nonce (ao_data ao) + 1
     in (nonce, ao_setNonce nonce ao (journal (NonceChange (ao_address ao) (Nonce (ao_data ao))) adb)))"

definition NFTSET_TYPE :: byte where
  "NFTSET_TYPE = 1"

definition ao_setNFTSetDefinition :: "hash \<Rightarrow> bytes option \<Rightarrow> 't accountObject \<Rightarrow> 't AccountDB \<Rightarrow> 't AccountDB" where
  "ao_setNFTSetDefinition h code ao adb =
    put_dirty (ao_address ao)
      (ao\<lparr>ao_data := (ao_data ao)\<lparr>kind := NFTSET_TYPE, NFTSetDefinitionHash := Some h\<rparr>,
         nftSet := code, dirtyNFTSet := True\<rparr>) adb"

definition ao_SetNFTSetDefinition ::
  "('t, 'x) AccountEnv_scheme \<Rightarrow> hash \<Rightarrow> bytes option \<Rightarrow> 't accountObject \<Rightarrow> 't AccountDB \<Rightarrow> 't AccountDB" where
  "ao_SetNFTSetDefinition E h code ao adb =
    (let (prevCode, ao) = nftSetDefinition E ao
     in ao_setNFTSetDefinition h code ao
          (journal (NftSetDefinitionChange (ao_address ao) prevCode (NFTSetDefinitionHash (ao_data ao))) adb))"

definition ao_markSuicided :: "'t accountObject \<Rightarrow> 't AccountDB \<Rightarrow> 't AccountDB" where
  "ao_markSuicided ao adb = put_dirty (ao_address ao) (ao\<lparr>suicided := True\<rparr>) adb"

definition ao_touch :: "'t accountObject \<Rightarrow> 't AccountDB \<Rightarrow> 't AccountDB" where
  "ao_touch ao adb =
    put_dirty (ao_address ao) (ao\<lparr>touched := True\<rparr>)
      (journal (TouchChange (ao_address ao) (touched ao) (\<not> onDirty ao)) adb)"

section \<open>Reading and writing accounts\<close>

definition Exist :: "('t, 'x) AccountEnv_scheme \<Rightarrow> address \<Rightarrow> 't AccountDB \<Rightarrow> bool \<times> 't AccountDB" where
  "Exist E addr adb = getAccountObject E addr False adb"

definition Empty :: "('t, 'x) AccountEnv_scheme \<Rightarrow> address \<Rightarrow> 't AccountDB \<Rightarrow> bool \<times> 't AccountDB" where
  "Empty E addr adb = with_obj E addr False (\<lambda>ao adb. (ao_empty E ao, adb)) (\<lambda>adb. (True, adb)) adb"

definition GetNonce :: "('t, 'x) AccountEnv_scheme \<Rightarrow> address \<Rightarrow> 't AccountDB \<Rightarrow> u64 \<times> 't AccountDB" where
  "GetNonce E addr adb = with_obj E addr False (\<lambda>ao adb. (Nonce (ao_data ao), adb)) (\<lambda>adb. (0, adb)) adb"

definition GetData :: "('t, 'x) AccountEnv_scheme \<Rightarrow> address \<Rightarrow> bytes \<Rightarrow> 't AccountDB \<Rightarrow> bytes option \<times> 't AccountDB" where
  "GetData E addr key adb =
    with_obj E addr False
      (\<lambda>ao adb. let (v, ao) = ao_GetData E key ao in (v, put_obj addr ao adb)) (\<lambda>adb. (None, adb)) adb"

definition HasSuicided :: "('t, 'x) AccountEnv_scheme \<Rightarrow> address \<Rightarrow> 't AccountDB \<Rightarrow> bool \<times> 't AccountDB" where
  "HasSuicided E addr adb = with_obj E addr False (\<lambda>ao adb. (suicided ao, adb)) (\<lambda>adb. (False, adb)) adb"

definition GetCode :: "('t, 'x) AccountEnv_scheme \<Rightarrow> address \<Rightarrow> 't AccountDB \<Rightarrow> bytes option \<times> 't AccountDB" where
  "GetCode E addr adb =
    with_obj E addr False
      (\<lambda>ao adb. let (c, ao) = nftSetDefinition E ao in (c, put_obj addr ao adb)) (\<lambda>adb. (None, adb)) adb"

definition IsContract :: "('t, 'x) AccountEnv_scheme \<Rightarrow> address \<Rightarrow> 't AccountDB \<Rightarrow> bool \<times> 't AccountDB" where
  "IsContract E addr adb = (let (c, adb) = GetCode E addr adb in (length (slice_of c) \<noteq> 0, adb))"

definition GetCodeSize :: "('t, 'x) AccountEnv_scheme \<Rightarrow> address \<Rightarrow> 't AccountDB \<Rightarrow> nat \<times> 't AccountDB" where
  "GetCodeSize E addr adb =
    with_obj E addr False
      (\<lambda>ao adb. let (n, ao) = CodeSize E ao in (n, put_obj addr ao adb)) (\<lambda>adb. (0, adb)) adb"

definition GetCodeHash :: "('t, 'x) AccountEnv_scheme \<Rightarrow> address \<Rightarrow> 't AccountDB \<Rightarrow> hash \<times> 't AccountDB" where
  "GetCodeHash E addr adb =
    with_obj E addr False
      (\<lambda>ao adb. (BytesToHash (slice_of (NFTSetDefinitionHash (ao_data ao))), adb)) (\<lambda>adb. (zero_hash, adb)) adb"

definition GetState :: "('t, 'x) AccountEnv_scheme \<Rightarrow> address \<Rightarrow> hash \<Rightarrow> 't AccountDB \<Rightarrow> hash \<times> 't AccountDB" where
  "GetState E addr h adb =
    with_obj E addr False
      (\<lambda>ao adb. let (v, ao) = ao_GetData E h ao in (BytesToHash (slice_of v), put_obj addr ao adb))
      (\<lambda>adb. (zero_hash, adb)) adb"

definition GetCommittedState :: "('t, 'x) AccountEnv_scheme \<Rightarrow> address \<Rightarrow> hash \<Rightarrow> 't AccountDB \<Rightarrow> hash \<times> 't AccountDB" where
  "GetCommittedState E addr h adb =
    with_obj E addr False
      (\<lambda>ao adb. let (v, ao) = GetCommittedData E h ao in (BytesToHash (slice_of v), put_obj addr ao adb))
      (\<lambda>adb. (zero_hash, adb)) adb"

definition SetNonce :: "('t, 'x) AccountEnv_scheme \<Rightarrow> address \<Rightarrow> u64 \<Rightarrow> 't AccountDB \<Rightarrow> 't AccountDB" where
  "SetNonce E addr nonce adb = with_obj E addr True (ao_SetNonce nonce) (\<lambda>adb. adb) adb"

definition IncreaseNonce :: "('t, 'x) AccountEnv_scheme \<Rightarrow> address \<Rightarrow> 't AccountDB \<Rightarrow> u64 \<times> 't AccountDB" where
  "IncreaseNonce E addr adb = with_obj E addr True ao_IncreaseNonce (\<lambda>adb. (0, adb)) adb"

definition SetData :: "('t, 'x) AccountEnv_scheme \<Rightarrow> address \<Rightarrow> bytes \<Rightarrow> bytes option \<Rightarrow> 't AccountDB \<Rightarrow> 't AccountDB" where
  "SetData E addr key value adb = with_obj E addr True (ao_SetData E key value) (\<lambda>adb. adb) adb"

definition RemoveData :: "('t, 'x) AccountEnv_scheme \<Rightarrow> address \<Rightarrow> bytes \<Rightarrow> 't AccountDB \<Rightarrow> 't AccountDB" where
  "RemoveData E addr key adb = SetData E addr key None adb"

definition SetState :: "('t, 'x) AccountEnv_scheme \<Rightarrow> address \<Rightarrow> hash \<Rightarrow> hash \<Rightarrow> 't AccountDB \<Rightarrow> 't AccountDB" where
  "SetState E addr key value adb = with_obj E addr True (ao_SetData E key (Some value)) (\<lambda>adb. adb) adb"

definition SetCode :: "('t, 'x) AccountEnv_scheme \<Rightarrow> address \<Rightarrow> bytes \<Rightarrow> 't AccountDB \<Rightarrow> 't AccountDB" where
  "SetCode E addr code adb =
    with_obj E addr True (ao_SetNFTSetDefinition E (keccak256 E code) (Some code)) (\<lambda>adb. adb) adb"

definition CreateAccount :: "('t, 'x) AccountEnv_scheme \<Rightarrow> address \<Rightarrow> 't AccountDB \<Rightarrow> 't AccountDB" where
  "CreateAccount E addr adb = snd (getAccountObject E addr True adb)"

section \<open>Refund, access list, transient storage, logs\<close>

definition AddRefund :: "u64 \<Rightarrow> 't AccountDB \<Rightarrow> 't AccountDB" where
  "AddRefund gas adb = (journal (RefundChange (refund adb)) adb)\<lparr>refund := refund adb + gas\<rparr>"

definition SubRefund :: "u64 \<Rightarrow> 't AccountDB \<Rightarrow> 't AccountDB option" where
  "SubRefund gas adb =
    (if gas > refund adb then None
     else Some ((journal (RefundChange (refund adb)) adb)\<lparr>refund := refund adb - gas\<rparr>))"

definition AddAddressToAccessList :: "address \<Rightarrow> 't AccountDB \<Rightarrow> 't AccountDB" where
  "AddAddressToAccessList addr adb =
    (let (al, changed) = AddAddress (accessList adb) addr;
         adb = adb\<lparr>accessList := al\<rparr>
     in if changed then journal (AccessListAddAccountChange addr) adb else adb)"

definition AddSlotToAccessList :: "address \<Rightarrow> hash \<Rightarrow> 't AccountDB \<Rightarrow> 't AccountDB option" where
  "AddSlotToAccessList addr slot adb =
    (case AddSlot (accessList adb) addr slot of
       None \<Rightarrow> None
     | Some (al, addrMod, slotMod) \<Rightarrow>
         (let adb = adb\<lparr>accessList := al\<rparr>;
              adb = (if addrMod then journal (AccessListAddAccountChange addr) adb else adb)
          in Some (if slotMod then journal (AccessListAddSlotChange addr slot) adb else adb)))"

text \<open>\<^verbatim>\<open>transient_storage.go\<close>; the inner keys are the hex strings of the hashes, which
  determine them, so the hash itself serves as key.\<close>

definition transient_Set :: "address \<Rightarrow> hash \<Rightarrow> hash \<Rightarrow> (address \<times> Storage) list \<Rightarrow> (address \<times> Storage) list" where
  "transient_Set addr key value t =
    (if value = zero_hash then
       (case map_of t addr of
          None \<Rightarrow> t
        | Some st \<Rightarrow>
            (let st = AList.delete key st
             in if length st = 0 then AList.delete addr t else AList.update addr st t))
     else
       (let st = (case map_of t addr of None \<Rightarrow> [] | Some st \<Rightarrow> st)
        in AList.update addr (AList.update key (Some value) st) t))"

definition transient_Get :: "address \<Rightarrow> hash \<Rightarrow> (address \<times> Storage) list \<Rightarrow> hash" where
  "transient_Get addr key t =
    (case map_of t addr of
       None \<Rightarrow> zero_hash
     | Some st \<Rightarrow> BytesToHash (slice_of (case map_of st key of None \<Rightarrow> None | Some v \<Rightarrow> v)))"

definition setTransientState :: "address \<Rightarrow> hash \<Rightarrow> hash \<Rightarrow> 't AccountDB \<Rightarrow> 't AccountDB" where
  "setTransientState addr key value adb =
    adb\<lparr>transientStorage := transient_Set addr key value (transientStorage adb)\<rparr>"

definition GetTransientState :: "address \<Rightarrow> hash \<Rightarrow> 't AccountDB \<Rightarrow> hash" where
  "GetTransientState addr key adb = transient_Get addr key (transientStorage adb)"

definition SetTransientState :: "address \<Rightarrow> hash \<Rightarrow> hash \<Rightarrow> 't AccountDB \<Rightarrow> 't AccountDB" where
  "SetTransientState addr key value adb =
    (let prev = GetTransientState addr key adb
     in if prev = value then adb
        else setTransientState addr key value (journal (TransientStorageChange addr key prev) adb))"

definition AddLog :: "Log \<Rightarrow> 't AccountDB \<Rightarrow> 't AccountDB" where
  "AddLog lg adb =
    (let adb = journal (AddLogChange (thash adb)) adb;
         lg = lg\<lparr>log_TxHash := thash adb, log_BlockHash := bhash adb,
                   log_TxIndex := of_int (txIndex adb), log_Index := logSize adb\<rparr>;
         old = (case logs adb (thash adb) of None \<Rightarrow> [] | Some ls \<Rightarrow> ls)
     in adb\<lparr>logs := (logs adb)(thash adb \<mapsto> old @ [lg]), logSize := logSize adb + 1\<rparr>)"

definition GetLogs :: "hash \<Rightarrow> 't AccountDB \<Rightarrow> Log list" where
  "GetLogs h adb = (case logs adb h of None \<Rightarrow> [] | Some ls \<Rightarrow> ls)"

definition Prepare :: "hash \<Rightarrow> hash \<Rightarrow> int \<Rightarrow> 't AccountDB \<Rightarrow> 't AccountDB" where
  "Prepare th bh ti adb = adb\<lparr>thash := th, bhash := bh, txIndex := ti, accessList := newAccessList\<rparr>"

section \<open>Tokens\<close>

definition BLANCE_NAME :: string where
  "BLANCE_NAME = ''SYSTEM-RPG''"

definition str_bytes :: "string \<Rightarrow> bytes" where
  "str_bytes s = map of_char s"

definition GenerateFTKey :: "string \<Rightarrow> bytes" where
  "GenerateFTKey name = str_bytes (''f:'' @ name)"

definition GenerateERC20Binding :: "('t, 'x) AccountEnv_scheme \<Rightarrow> string \<Rightarrow> address" where
  "GenerateERC20Binding E name = BytesToAddress (sha256 E (str_bytes (''erc20-'' @ name)))"

definition contractKey :: bytes where "contractKey = str_bytes ''c''"
definition positionKey :: bytes where "positionKey = str_bytes ''p''"
definition decimalKey :: bytes where "decimalKey = str_bytes ''d''"

definition AddERC20Binding ::
  "('t, 'x) AccountEnv_scheme \<Rightarrow> string \<Rightarrow> address \<Rightarrow> u64 \<Rightarrow> u64 \<Rightarrow> 't AccountDB \<Rightarrow> bool \<times> 't AccountDB" where
  "AddERC20Binding E name contract position decimal adb =
    (let address = GenerateERC20Binding E name;
         (ex, adb) = Exist E address adb
     in if ex then (False, adb)
        else
          (let adb = SetData E address contractKey (Some contract) adb;
               adb = SetData E address positionKey (Some (UInt64ToByte position)) adb;
               adb = SetData E address decimalKey (Some (UInt64ToByte decimal)) adb
           in (True, adb)))"

definition loadContractCache :: "('t, 'x) AccountEnv_scheme \<Rightarrow> 't AccountDB \<Rightarrow> 't AccountDB" where
  "loadContractCache E adb =
    (let (v, adb) = GetData E (GenerateERC20Binding E BLANCE_NAME) contractKey adb
     in adb\<lparr>rpgContractAddress := BytesToAddress (slice_of v)\<rparr>)"

definition GetERC20Binding ::
  "('t, 'x) AccountEnv_scheme \<Rightarrow> string \<Rightarrow> 't AccountDB \<Rightarrow> (bool \<times> address \<times> u64 \<times> u64) \<times> 't AccountDB" where
  "GetERC20Binding E name adb =
    (if name = BLANCE_NAME then
       (let adb = (if rpgContractAddress adb = zero_address then loadContractCache E adb else adb)
        in ((True, rpgContractAddress adb, (if isSub E then 4 else 3), 18), adb))
     else
       (let address = GenerateERC20Binding E name;
            (ex, adb) = Exist E address adb
        in if \<not> ex then ((False, zero_address, 0, 0), adb)
           else
             (let (c, adb) = GetData E address contractKey adb;
                  (p, adb) = GetData E address positionKey adb;
                  (d, adb) = GetData E address decimalKey adb
              in ((True, BytesToAddress (slice_of c), ByteToUInt64 (slice_of p), ByteToUInt64 (slice_of d)), adb))))"

definition GetERC20Key :: "('t, 'x) AccountEnv_scheme \<Rightarrow> address \<Rightarrow> u64 \<Rightarrow> bytes" where
  "GetERC20Key E address position =
    (let data = replicate 64 0;
         data = take 12 data @ go_copy (drop 12 data) address;
         positionBytes = UInt64ToByte position;
         n = 64 - length positionBytes;
         data = take n data @ go_copy (drop n data) positionBytes
     in keccak256 E data)"

text \<open>\<^verbatim>\<open>account_object_ft.go\<close>: balances of tokens without a contract, under the key
  \<^verbatim>\<open>f:name\<close> of the account.\<close>

definition ao_getFT :: "('t, 'x) AccountEnv_scheme \<Rightarrow> string \<Rightarrow> 't accountObject \<Rightarrow> int option \<times> 't accountObject" where
  "ao_getFT E name ao =
    (let (value, ao) = ao_GetData E (GenerateFTKey name) ao
     in (if length (slice_of value) = 0 then None else Some (big_SetBytes (slice_of value)), ao))"

definition ao_SetFT :: "('t, 'x) AccountEnv_scheme \<Rightarrow> int \<Rightarrow> string \<Rightarrow> 't accountObject \<Rightarrow> 't AccountDB \<Rightarrow> 't AccountDB" where
  "ao_SetFT E amount name ao adb = ao_SetData E (GenerateFTKey name) (Some (big_Bytes amount)) ao adb"

definition ao_AddFT :: "('t, 'x) AccountEnv_scheme \<Rightarrow> int \<Rightarrow> string \<Rightarrow> 't accountObject \<Rightarrow> 't AccountDB \<Rightarrow> 't AccountDB" where
  "ao_AddFT E amount name ao adb =
    (if amount = 0 then (if ao_empty E ao then ao_touch ao adb else adb)
     else
       (let (raw, ao) = ao_getFT E name ao
        in ao_SetFT E (case raw of None \<Rightarrow> amount | Some r \<Rightarrow> r + amount) name ao adb))"

definition ao_SubFT ::
  "('t, 'x) AccountEnv_scheme \<Rightarrow> int \<Rightarrow> string \<Rightarrow> 't accountObject \<Rightarrow> 't AccountDB \<Rightarrow> (int option \<times> bool) \<times> 't AccountDB" where
  "ao_SubFT E amount name ao adb =
    (let (raw, ao) = ao_getFT E name ao;
         adb = put_obj (ao_address ao) ao adb
     in if amount = 0 then ((Some (case raw of None \<Rightarrow> 0 | Some r \<Rightarrow> r), True), adb)
        else (case raw of
                None \<Rightarrow> ((None, False), adb)
              | Some r \<Rightarrow>
                  if r < amount then ((None, False), adb)
                  else ((Some (r - amount), True), ao_SetFT E (r - amount) name ao adb)))"

definition GetFT :: "('t, 'x) AccountEnv_scheme \<Rightarrow> address \<Rightarrow> string \<Rightarrow> 't AccountDB \<Rightarrow> (int \<times> 't AccountDB) option" where
  "GetFT E addr ftName adb =
    (let ((found, contract, position, decimal), adb) = GetERC20Binding E ftName adb
     in if found then
          with_obj E contract True
            (\<lambda>account adb.
               let (data, account) = ao_GetData E (GetERC20Key E addr position) account
               in map_option (\<lambda>r. (r, put_obj contract account adb))
                    (FormatDecimalForRocket (big_SetBytes (slice_of data)) (sint decimal)))
            (\<lambda>adb. None) adb
        else
          with_obj E addr True
            (\<lambda>ao adb. let (raw, ao) = ao_getFT E ftName ao
                      in Some (case raw of None \<Rightarrow> 0 | Some r \<Rightarrow> r, put_obj addr ao adb))
            (\<lambda>adb. None) adb)"

definition SetFT :: "('t, 'x) AccountEnv_scheme \<Rightarrow> address \<Rightarrow> string \<Rightarrow> int \<Rightarrow> 't AccountDB \<Rightarrow> 't AccountDB option" where
  "SetFT E addr ftName balance adb =
    (let ((found, contract, position, decimal), adb) = GetERC20Binding E ftName adb
     in if found then
          with_obj E contract True
            (\<lambda>account adb.
               map_option (\<lambda>v. ao_SetData E (GetERC20Key E addr position) (Some (big_Bytes v)) account adb)
                 (FormatDecimalForERC20 balance (sint decimal)))
            (\<lambda>adb. None) adb
        else with_obj E addr True (\<lambda>ao adb. Some (ao_SetFT E balance ftName ao adb)) (\<lambda>adb. None) adb)"

text \<open>Before the fork of proposal 2 the contract storage is written without a journal entry.\<close>

definition write_balance ::
  "('t, 'x) AccountEnv_scheme \<Rightarrow> bytes \<Rightarrow> int \<Rightarrow> 't accountObject \<Rightarrow> 't AccountDB \<Rightarrow> 't AccountDB" where
  "write_balance E key remain account adb =
    (if proposal002 E then ao_SetData E key (Some (big_Bytes remain)) account adb
     else ao_setData key (Some (big_Bytes remain)) account adb)"

definition AddFT :: "('t, 'x) AccountEnv_scheme \<Rightarrow> address \<Rightarrow> string \<Rightarrow> int \<Rightarrow> 't AccountDB \<Rightarrow> 't AccountDB option" where
  "AddFT E addr ftName balance adb =
    (let ((found, contract, position, decimal), adb) = GetERC20Binding E ftName adb
     in if found then
          with_obj E contract True
            (\<lambda>account adb.
               let key = GetERC20Key E addr position;
                   (data, account) = ao_GetData E key account
               in map_option (\<lambda>v. write_balance E key (big_SetBytes (slice_of data) + v) account adb)
                    (FormatDecimalForERC20 balance (sint decimal)))
            (\<lambda>adb. None) adb
        else with_obj E addr True (\<lambda>ao adb. Some (ao_AddFT E balance ftName ao adb)) (\<lambda>adb. None) adb)"

definition SubFT ::
  "('t, 'x) AccountEnv_scheme \<Rightarrow> address \<Rightarrow> string \<Rightarrow> int \<Rightarrow> 't AccountDB \<Rightarrow> ((int option \<times> bool) \<times> 't AccountDB) option" where
  "SubFT E addr ftName balance adb =
    (let ((found, contract, position, decimal), adb) = GetERC20Binding E ftName adb
     in if found then
          with_obj E contract True
            (\<lambda>account adb.
               let key = GetERC20Key E addr position;
                   (data, account) = ao_GetData E key account;
                   remain = big_SetBytes (slice_of data)
               in (case FormatDecimalForERC20 balance (sint decimal) of
                     None \<Rightarrow> None
                   | Some value \<Rightarrow>
                       if remain < value then Some ((Some remain, False), put_obj contract account adb)
                       else map_option (\<lambda>left. ((Some left, True), write_balance E key (remain - value) account adb))
                              (FormatDecimalForRocket (remain - value) (sint decimal))))
            (\<lambda>adb. None) adb
        else with_obj E addr True (\<lambda>ao adb. Some (ao_SubFT E balance ftName ao adb)) (\<lambda>adb. None) adb)"

definition GetBalance :: "('t, 'x) AccountEnv_scheme \<Rightarrow> address \<Rightarrow> 't AccountDB \<Rightarrow> (int \<times> 't AccountDB) option" where
  "GetBalance E addr adb = GetFT E addr BLANCE_NAME adb"

definition AddBalance :: "('t, 'x) AccountEnv_scheme \<Rightarrow> address \<Rightarrow> int \<Rightarrow> 't AccountDB \<Rightarrow> 't AccountDB option" where
  "AddBalance E addr amount adb = AddFT E addr BLANCE_NAME amount adb"

definition SubBalance :: "('t, 'x) AccountEnv_scheme \<Rightarrow> address \<Rightarrow> int \<Rightarrow> 't AccountDB \<Rightarrow> (int option \<times> 't AccountDB) option" where
  "SubBalance E addr amount adb =
    map_option (\<lambda>((left, _), adb). (left, adb)) (SubFT E addr BLANCE_NAME amount adb)"

definition SetBalance :: "('t, 'x) AccountEnv_scheme \<Rightarrow> address \<Rightarrow> int \<Rightarrow> 't AccountDB \<Rightarrow> 't AccountDB option" where
  "SetBalance E addr amount adb = SetFT E addr BLANCE_NAME amount adb"

definition setBalance :: "('t, 'x) AccountEnv_scheme \<Rightarrow> address \<Rightarrow> int \<Rightarrow> 't AccountDB \<Rightarrow> 't AccountDB option" where
  "setBalance E addr balance adb =
    (let ((found, contract, position, decimal), adb) = GetERC20Binding E BLANCE_NAME adb
     in if found then
          with_obj E contract True
            (\<lambda>account adb.
               map_option (\<lambda>v. ao_setData (GetERC20Key E addr position) (Some (big_Bytes v)) account adb)
                 (FormatDecimalForERC20 balance (sint decimal)))
            (\<lambda>adb. None) adb
        else Some adb)"

definition Transfer :: "('t, 'x) AccountEnv_scheme \<Rightarrow> address \<Rightarrow> address \<Rightarrow> int \<Rightarrow> 't AccountDB \<Rightarrow> 't AccountDB option" where
  "Transfer E sender recipient amount adb =
    (if amount \<le> 0 then Some adb
     else do {
       (_, adb) \<leftarrow> SubBalance E sender amount adb;
       AddBalance E recipient amount adb
     })"

definition CanTransfer :: "('t, 'x) AccountEnv_scheme \<Rightarrow> address \<Rightarrow> int \<Rightarrow> 't AccountDB \<Rightarrow> (bool \<times> 't AccountDB) option" where
  "CanTransfer E addr amount adb =
    (if amount < 0 then Some (False, adb)
     else map_option (\<lambda>(b, adb). (b \<ge> amount, adb)) (GetBalance E addr adb))"

definition Suicide :: "('t, 'x) AccountEnv_scheme \<Rightarrow> address \<Rightarrow> 't AccountDB \<Rightarrow> (bool \<times> 't AccountDB) option" where
  "Suicide E addr adb =
    (let (found, adb) = getAccountObject E addr False adb
     in if \<not> found then Some (False, adb)
        else do {
          (bal, adb) \<leftarrow> GetBalance E addr adb;
          ao \<leftarrow> get_obj adb addr;
          let adb = journal (SuicideChange addr (suicided ao) bal) adb;
          let adb = ao_markSuicided ao adb;
          adb \<leftarrow> setBalance E addr 0 adb;
          Some (True, adb)
        })"

end
