(* ===== verification/Account_Journal.thy ===== *)
theory Account_Journal
  imports Account_DB
begin

text \<open>
  Snapshots and the journal (\<^verbatim>\<open>transition.go\<close> and the end of \<^verbatim>\<open>accountdb.go\<close>):
  undoing an entry, reverting to a snapshot, and writing the dirty objects to the trie.
\<close>

section \<open>Undo\<close>

definition ripemd :: address where
  "ripemd = BytesToAddress (str_bytes ''0000000000000000000000000000000000000003'')"

text \<open>\<^verbatim>\<open>s.getAccountObject(addr, false).f(...)\<close> panics when there is no object.\<close>

definition on_obj ::
  "('t, 'x) AccountEnv_scheme \<Rightarrow> address \<Rightarrow> ('t accountObject \<Rightarrow> 't AccountDB \<Rightarrow> 't AccountDB) \<Rightarrow> 't AccountDB \<Rightarrow>
   't AccountDB option" where
  "on_obj E addr f adb = with_obj E addr False (\<lambda>ao adb. Some (f ao adb)) (\<lambda>adb. None) adb"

fun undo :: "('t, 'x) AccountEnv_scheme \<Rightarrow> 't transitionEntry \<Rightarrow> 't AccountDB \<Rightarrow> 't AccountDB option" where
  "undo E (TransientStorageChange addr key prevalue) s = Some (setTransientState addr key prevalue s)"
| "undo E (AddLogChange txhash) s =
     (let ls = GetLogs txhash s;
          s = (if length ls = 1 then s\<lparr>logs := (logs s)(txhash := None)\<rparr>
               else s\<lparr>logs := (logs s)(txhash \<mapsto> butlast ls)\<rparr>)
      in if length ls = 0 then None else Some (s\<lparr>logSize := logSize s - 1\<rparr>))"
| "undo E (CreateObjectChange addr) s =
     Some (s\<lparr>accountObjects := AList.delete addr (accountObjects s),
             accountObjectsDirty := removeAll addr (accountObjectsDirty s)\<rparr>)"
| "undo E (ResetObjectChange prev) s = Some (setAccountObject prev s)"
| "undo E (SuicideChange addr prev prevbalance) s =
     with_obj E addr False
       (\<lambda>obj s. setBalance E addr prevbalance (put_obj addr (obj\<lparr>suicided := prev\<rparr>) s)) (\<lambda>s. Some s) s"
| "undo E (TouchChange addr prev prevDirty) s =
     (if \<not> prev \<and> addr \<noteq> ripemd then
        on_obj E addr (\<lambda>obj s.
          let s = put_obj addr (obj\<lparr>touched := prev\<rparr>) s
          in if \<not> prevDirty then s\<lparr>accountObjectsDirty := removeAll addr (accountObjectsDirty s)\<rparr> else s) s
      else Some s)"
| "undo E (NonceChange addr prev) s = on_obj E addr (ao_setNonce prev) s"
| "undo E (StorageChange addr key prevalue) s = on_obj E addr (ao_setData key prevalue) s"
| "undo E (RefundChange prev) s = Some (s\<lparr>refund := prev\<rparr>)"
| "undo E (NftSetDefinitionChange addr prev prevhash) s =
     on_obj E addr (ao_setNFTSetDefinition (BytesToHash (slice_of prevhash)) prev) s"
| "undo E (AccessListAddAccountChange addr) s = Some (s\<lparr>accessList := DeleteAddress (accessList s) addr\<rparr>)"
| "undo E (AccessListAddSlotChange addr slot) s =
     map_option (\<lambda>al. s\<lparr>accessList := al\<rparr>) (DeleteSlot (accessList s) addr slot)"

section \<open>Snapshots\<close>

definition Snapshot :: "'t AccountDB \<Rightarrow> int \<times> 't AccountDB" where
  "Snapshot adb =
    (let id = nextRevisionID adb
     in (id, adb\<lparr>nextRevisionID := nextRevisionID adb + 1,
                validRevisions := validRevisions adb @ [(id, length (transitions adb))]\<rparr>))"

text \<open>\<^verbatim>\<open>sort.Search\<close>: bisection for the first index at which a monotone predicate holds.\<close>

function sort_Search :: "nat \<Rightarrow> nat \<Rightarrow> (nat \<Rightarrow> bool) \<Rightarrow> nat" where
  "sort_Search i j f =
    (if i < j then
       (let h = (i + j) div 2 in if \<not> f h then sort_Search (h + 1) j f else sort_Search i h f)
     else i)"
  by pat_completeness auto
termination by (relation "measure (\<lambda>(i, j, f). j - i)") auto

declare sort_Search.simps [simp del]

text \<open>The loop \<^verbatim>\<open>for i := len - 1; i >= snapshot; i--\<close> over the journal, the last entry first.\<close>

fun undo_all :: "('t, 'x) AccountEnv_scheme \<Rightarrow> 't transitionEntry list \<Rightarrow> 't AccountDB \<Rightarrow> 't AccountDB option" where
  "undo_all E [] s = Some s"
| "undo_all E (e # es) s = (case undo E e s of None \<Rightarrow> None | Some s \<Rightarrow> undo_all E es s)"

definition RevertToSnapshot :: "('t, 'x) AccountEnv_scheme \<Rightarrow> int \<Rightarrow> 't AccountDB \<Rightarrow> 't AccountDB option" where
  "RevertToSnapshot E revid adb =
    (let vr = validRevisions adb;
         idx = sort_Search 0 (length vr) (\<lambda>i. fst (vr ! i) \<ge> revid)
     in if idx = length vr \<or> fst (vr ! idx) \<noteq> revid then None
        else
          (let snapshot = snd (vr ! idx)
           in map_option (\<lambda>adb. adb\<lparr>transitions := take snapshot (transitions adb), validRevisions := take idx vr\<rparr>)
                (undo_all E (rev (drop snapshot (transitions adb))) adb)))"

section \<open>Writing back\<close>

definition clearJournalAndRefund :: "'t AccountDB \<Rightarrow> 't AccountDB" where
  "clearJournalAndRefund adb = adb\<lparr>transitions := [], validRevisions := [], refund := 0\<rparr>"

definition Reset :: "('t, 'x) AccountEnv_scheme \<Rightarrow> hash \<Rightarrow> 't AccountDB \<Rightarrow> acc_error + 't AccountDB" where
  "Reset E rt adb =
    (case OpenTrie E rt of
       Inl err \<Rightarrow> Inl err
     | Inr tr \<Rightarrow>
         (let adb = clearJournalAndRefund (adb\<lparr>adb_trie := tr, accountObjects := [], accountObjectsDirty := []\<rparr>)
          in Inr (adb\<lparr>accessList := newAccessList, thash := zero_hash, bhash := zero_hash, txIndex := 0,
                     logs := Map.empty, logSize := 0\<rparr>)))"

definition Clean :: "'t AccountDB \<Rightarrow> 't AccountDB" where
  "Clean adb = clearJournalAndRefund (adb\<lparr>accountObjects := [], accountObjectsDirty := []\<rparr>)"

text \<open>\<^verbatim>\<open>updateTrie\<close> ranges over the dirty slots, removing each; \<open>None\<close> is a nil trie.\<close>

fun write_slots :: "('t, 'x) AccountEnv_scheme \<Rightarrow> Storage \<Rightarrow> 't \<Rightarrow> 't accountObject \<Rightarrow> 't \<times> 't accountObject" where
  "write_slots E [] tr ao = (tr, ao)"
| "write_slots E ((key, value) # kvs) tr ao =
     (let ao = ao\<lparr>dirtyStorage := AList.delete key (dirtyStorage ao)\<rparr> in
      case (case value of None \<Rightarrow> op_TryDelete E tr key | Some v \<Rightarrow> op_TryUpdate E tr key v) of
        Inl err \<Rightarrow> write_slots E kvs tr (ao_setError err ao)
      | Inr tr \<Rightarrow> write_slots E kvs tr ao)"

definition updateTrie :: "('t, 'x) AccountEnv_scheme \<Rightarrow> 't accountObject \<Rightarrow> 't accountObject option" where
  "updateTrie E ao =
    (let ao = getTrie E ao
     in case ao_trie ao of
          None \<Rightarrow> if dirtyStorage ao = [] then Some ao else None
        | Some tr \<Rightarrow> (let (tr, ao) = write_slots E (dirtyStorage ao) tr ao in Some (ao\<lparr>ao_trie := Some tr\<rparr>)))"

definition updateRoot :: "('t, 'x) AccountEnv_scheme \<Rightarrow> 't accountObject \<Rightarrow> 't accountObject option" where
  "updateRoot E ao = do {
     ao \<leftarrow> updateTrie E ao;
     tr \<leftarrow> ao_trie ao;
     let (h, tr) = op_Hash E tr;
     Some (ao\<lparr>ao_trie := Some tr, ao_data := (ao_data ao)\<lparr>Root := h\<rparr>\<rparr>)
   }"

definition adb_trie_result :: "acc_error + 't \<Rightarrow> 't AccountDB \<Rightarrow> 't AccountDB" where
  "adb_trie_result r adb = (case r of Inl err \<Rightarrow> adb_setError err adb | Inr tr \<Rightarrow> adb\<lparr>adb_trie := tr\<rparr>)"

definition updateAccountObject :: "('t, 'x) AccountEnv_scheme \<Rightarrow> 't accountObject \<Rightarrow> 't AccountDB \<Rightarrow> 't AccountDB option" where
  "updateAccountObject E ao adb =
    map_option (\<lambda>data. adb_trie_result (op_TryUpdate E (adb_trie adb) (ao_address ao) data) adb)
      (encodeAccount E (ao_data ao))"

definition deleteAccountObject :: "('t, 'x) AccountEnv_scheme \<Rightarrow> 't accountObject \<Rightarrow> 't AccountDB \<Rightarrow> 't AccountDB" where
  "deleteAccountObject E ao adb =
    adb_trie_result (op_TryDelete E (adb_trie adb) (ao_address ao)) (put_obj (ao_address ao) (ao\<lparr>deleted := True\<rparr>) adb)"

fun finalise_objects ::
  "('t, 'x) AccountEnv_scheme \<Rightarrow> bool \<Rightarrow> address list \<Rightarrow> 't AccountDB \<Rightarrow> 't AccountDB option" where
  "finalise_objects E del [] adb = Some adb"
| "finalise_objects E del (addr # addrs) adb =
     (case get_obj adb addr of
        None \<Rightarrow> finalise_objects E del addrs adb
      | Some ao \<Rightarrow>
          if suicided ao \<or> (del \<and> ao_empty E ao)
          then finalise_objects E del addrs (deleteAccountObject E ao adb)
          else do {
            ao \<leftarrow> updateRoot E ao;
            adb \<leftarrow> updateAccountObject E ao (put_obj addr ao adb);
            finalise_objects E del addrs adb
          })"

definition Finalise :: "('t, 'x) AccountEnv_scheme \<Rightarrow> bool \<Rightarrow> 't AccountDB \<Rightarrow> 't AccountDB option" where
  "Finalise E del adb = map_option clearJournalAndRefund (finalise_objects E del (accountObjectsDirty adb) adb)"

definition IntermediateRoot :: "('t, 'x) AccountEnv_scheme \<Rightarrow> bool \<Rightarrow> 't AccountDB \<Rightarrow> (hash \<times> 't AccountDB) option" where
  "IntermediateRoot E del adb = do {
     adb \<leftarrow> Finalise E del adb;
     let (h, tr) = op_Hash E (adb_trie adb);
     Some (h, adb\<lparr>adb_trie := tr\<rparr>)
   }"

end
