(* ===== verification/Account_View.thy ===== *)
theory Account_View
  imports Account_Journal
begin

text \<open>
  What the account database shows to its users: the accounts with nonce, code, storage and
  suicide mark, the refund counter, the access list, transient storage and logs. Loading an
  account or a storage slot into a cache does not change the view, and every journalled
  operation can be undone at the level of views.
\<close>

section \<open>Views\<close>

record acct =
  a_nonce :: u64
  a_codeHash :: hash
  a_code :: "bytes option"
  a_suicided :: bool
  a_storage :: "bytes \<Rightarrow> bytes"

record view =
  v_accts :: "address \<Rightarrow> acct option"
  v_base :: "address \<Rightarrow> acct option"
  v_refund :: u64
  v_access :: accessList
  v_transient :: "address \<Rightarrow> hash \<Rightarrow> hash"
  v_logs :: "hash \<rightharpoonup> Log list"
  v_logSize :: u64

definition code_of :: "('t, 'x) AccountEnv_scheme \<Rightarrow> hash \<Rightarrow> bytes option \<Rightarrow> hash \<Rightarrow> bytes option" where
  "code_of E ah c h =
    (if c \<noteq> None then c
     else if h = emptyCodeHash E then None
     else (case ContractCode E ah (BytesToHash h) of Inr code \<Rightarrow> Some code | Inl _ \<Rightarrow> None))"

definition obj_view :: "('t, 'x) AccountEnv_scheme \<Rightarrow> 't accountObject \<Rightarrow> acct" where
  "obj_view E ao =
    \<lparr>a_nonce = Nonce (ao_data ao),
     a_codeHash = BytesToHash (slice_of (NFTSetDefinitionHash (ao_data ao))),
     a_code = code_of E (addrHash ao) (nftSet ao) (slice_of (NFTSetDefinitionHash (ao_data ao))),
     a_suicided = suicided ao,
     a_storage = (\<lambda>k. slice_of (fst (ao_GetData E k ao)))\<rparr>"

text \<open>The account in the state trie, and the account the database shows.\<close>

definition base_of :: "('t, 'x) AccountEnv_scheme \<Rightarrow> 't AccountDB \<Rightarrow> address \<Rightarrow> acct option" where
  "base_of E adb addr = map_option (obj_view E) (fst (getAccountObjectFromTrie E addr adb))"

definition acct_of :: "('t, 'x) AccountEnv_scheme \<Rightarrow> 't AccountDB \<Rightarrow> address \<Rightarrow> acct option" where
  "acct_of E adb addr =
    (case get_obj adb addr of
       Some ao \<Rightarrow> if deleted ao then None else Some (obj_view E ao)
     | None \<Rightarrow> base_of E adb addr)"

definition view_of :: "('t, 'x) AccountEnv_scheme \<Rightarrow> 't AccountDB \<Rightarrow> view" where
  "view_of E adb =
    \<lparr>v_accts = acct_of E adb, v_base = base_of E adb, v_refund = refund adb, v_access = accessList adb,
     v_transient = (\<lambda>a k. transient_Get a k (transientStorage adb)),
     v_logs = logs adb, v_logSize = logSize adb\<rparr>"

text \<open>Undoing a journal entry on a view; \<open>None\<close> where the entry does not apply. Suicide
  has its own treatment below.\<close>

definition map_acct :: "address \<Rightarrow> (acct \<Rightarrow> acct) \<Rightarrow> view \<Rightarrow> view option" where
  "map_acct a f v =
    (case v_accts v a of None \<Rightarrow> None | Some x \<Rightarrow> Some (v\<lparr>v_accts := (v_accts v)(a \<mapsto> f x)\<rparr>))"

fun view_undo :: "('t, 'x) AccountEnv_scheme \<Rightarrow> 't transitionEntry \<Rightarrow> view \<Rightarrow> view option" where
  "view_undo E (TransientStorageChange a k p) v =
     (if length p = 32 then Some (v\<lparr>v_transient := (v_transient v)(a := (v_transient v a)(k := p))\<rparr>) else None)"
| "view_undo E (AddLogChange h) v =
     (case v_logs v h of
        None \<Rightarrow> None
      | Some ls \<Rightarrow> if ls = [] then None
          else Some (v\<lparr>v_logs := (v_logs v)(h := if length ls = 1 then None else Some (butlast ls)),
                       v_logSize := v_logSize v - 1\<rparr>))"
| "view_undo E (CreateObjectChange a) v = Some (v\<lparr>v_accts := (v_accts v)(a := v_base v a)\<rparr>)"
| "view_undo E (NonceChange a n) v = map_acct a (\<lambda>x. x\<lparr>a_nonce := n\<rparr>) v"
| "view_undo E (StorageChange a k p) v = map_acct a (\<lambda>x. x\<lparr>a_storage := (a_storage x)(k := slice_of p)\<rparr>) v"
| "view_undo E (NftSetDefinitionChange a p h) v =
     map_acct a (\<lambda>x. x\<lparr>a_codeHash := BytesToHash (slice_of h), a_code := code_of E (sum256 E a) p (BytesToHash (slice_of h))\<rparr>) v"
| "view_undo E (RefundChange r) v = Some (v\<lparr>v_refund := r\<rparr>)"
| "view_undo E (TouchChange a p d) v = (if \<not> p \<and> a \<noteq> ripemd then map_acct a (\<lambda>x. x) v else Some v)"
| "view_undo E (AccessListAddAccountChange a) v = Some (v\<lparr>v_access := DeleteAddress (v_access v) a\<rparr>)"
| "view_undo E (AccessListAddSlotChange a s) v =
     (case DeleteSlot (v_access v) a s of
        None \<Rightarrow> None
      | Some al \<Rightarrow> if al_inv al then Some (v\<lparr>v_access := al\<rparr>) else None)"
| "view_undo E (ResetObjectChange prev) v = None"
| "view_undo E (SuicideChange a p b) v = None"

fun view_undos :: "('t, 'x) AccountEnv_scheme \<Rightarrow> 't transitionEntry list \<Rightarrow> view \<Rightarrow> view option" where
  "view_undos E [] v = Some v"
| "view_undos E (e # es) v = (case view_undo E e v of None \<Rightarrow> None | Some v \<Rightarrow> view_undos E es v)"

lemma view_undos_append:
  "view_undos E (a @ b) v = (case view_undos E a v of None \<Rightarrow> None | Some v \<Rightarrow> view_undos E b v)"
  by (induction a arbitrary: v) (auto split: option.split)

section \<open>The environment\<close>

text \<open>
  The contract of the account layer with the tries, the codec and the hash functions: a
  trie that holds a map answers lookups from it and still holds it, and the empty root can
  always be opened. A well-formed database stores only accounts whose storage root, when it
  opens, opens a trie that holds some map, and whose code hash has 32 bytes.
\<close>

definition opens_wf :: "('t, 'x) AccountEnv_scheme \<Rightarrow> ('t \<Rightarrow> (bytes \<rightharpoonup> bytes) \<Rightarrow> bool) \<Rightarrow> hash \<Rightarrow> hash \<Rightarrow> bool" where
  "opens_wf E holds ah r \<longleftrightarrow> (\<forall>t. OpenStorageTrie E ah r = Inr t \<longrightarrow> (\<exists>m. holds t m))"

definition data_wf :: "('t, 'x) AccountEnv_scheme \<Rightarrow> ('t \<Rightarrow> (bytes \<rightharpoonup> bytes) \<Rightarrow> bool) \<Rightarrow> address \<Rightarrow> Account \<Rightarrow> bool" where
  "data_wf E holds addr d \<longleftrightarrow> opens_wf E holds (sum256 E addr) (Root d)
    \<and> (NFTSetDefinitionHash d = None \<or> length (slice_of (NFTSetDefinitionHash d)) = 32)"

definition accounts_wf :: "('t, 'x) AccountEnv_scheme \<Rightarrow> ('t \<Rightarrow> (bytes \<rightharpoonup> bytes) \<Rightarrow> bool) \<Rightarrow> (bytes \<rightharpoonup> bytes) \<Rightarrow> bool" where
  "accounts_wf E holds m \<longleftrightarrow> (\<forall>addr enc d. m addr = Some enc \<longrightarrow> decodeAccount E enc = Some d \<longrightarrow> data_wf E holds addr d)"

definition obj_wf :: "('t, 'x) AccountEnv_scheme \<Rightarrow> ('t \<Rightarrow> (bytes \<rightharpoonup> bytes) \<Rightarrow> bool) \<Rightarrow> address \<Rightarrow> 't accountObject \<Rightarrow> bool" where
  "obj_wf E holds addr ao \<longleftrightarrow> ao_address ao = addr \<and> addrHash ao = sum256 E addr
    \<and> opens_wf E holds (sum256 E addr) (Root (ao_data ao))
    \<and> (\<exists>h. NFTSetDefinitionHash (ao_data ao) = Some h \<and> length h = 32)
    \<and> (\<forall>t. ao_trie ao = Some t \<longrightarrow> (\<exists>m. holds t m))"

definition adb_wf :: "('t, 'x) AccountEnv_scheme \<Rightarrow> ('t \<Rightarrow> (bytes \<rightharpoonup> bytes) \<Rightarrow> bool) \<Rightarrow> 't AccountDB \<Rightarrow> bool" where
  "adb_wf E holds adb \<longleftrightarrow> (\<exists>m. holds (adb_trie adb) m \<and> accounts_wf E holds m)
    \<and> (\<forall>addr ao. get_obj adb addr = Some ao \<longrightarrow> obj_wf E holds addr ao)
    \<and> al_inv (accessList adb) \<and> (\<forall>h. logs adb h \<noteq> Some [])"

text \<open>An object's storage is its cache in front of the map of its trie.\<close>

definition backed :: "('t, 'x) AccountEnv_scheme \<Rightarrow> ('t \<Rightarrow> (bytes \<rightharpoonup> bytes) \<Rightarrow> bool) \<Rightarrow> 't accountObject \<Rightarrow> (bytes \<rightharpoonup> bytes) \<Rightarrow> bool" where
  "backed E holds ao m \<longleftrightarrow> (\<exists>t. ao_trie (getTrie E ao) = Some t \<and> holds t m)"

text \<open>The account that the state trie stores, as the object it is loaded into.\<close>

definition stored :: "('t, 'x) AccountEnv_scheme \<Rightarrow> (bytes \<rightharpoonup> bytes) \<Rightarrow> address \<Rightarrow> 't accountObject option" where
  "stored E m addr =
    (case m addr of
       None \<Rightarrow> None
     | Some enc \<Rightarrow> if enc = [] then None else map_option (\<lambda>d. newAccountObject E addr d True) (decodeAccount E enc))"

text \<open>From \<open>s\<close> to \<open>s'\<close> the journal grew by entries that undo the change of the view.\<close>

definition journaled :: "('t, 'x) AccountEnv_scheme \<Rightarrow> ('t \<Rightarrow> (bytes \<rightharpoonup> bytes) \<Rightarrow> bool) \<Rightarrow> 't AccountDB \<Rightarrow> 't AccountDB \<Rightarrow> bool" where
  "journaled E holds s s' \<longleftrightarrow> adb_wf E holds s'
    \<and> (\<exists>es. transitions s' = transitions s @ es \<and> view_undos E (rev es) (view_of E s') = Some (view_of E s))
    \<and> validRevisions s' = validRevisions s \<and> nextRevisionID s' = nextRevisionID s"

lemma journaled_refl: "adb_wf E holds s \<Longrightarrow> journaled E holds s s"
  by (auto simp: journaled_def intro: exI[of _ "[]"])

lemma journaled_trans: "journaled E holds s s' \<Longrightarrow> journaled E holds s' s'' \<Longrightarrow> journaled E holds s s''"
  by (fastforce simp: journaled_def view_undos_append)

lemma journaled_wf: "journaled E holds s s' \<Longrightarrow> adb_wf E holds s'"
  by (simp add: journaled_def)

text \<open>The parts of an object that a read may not change.\<close>

definition same_obj :: "'t accountObject \<Rightarrow> 't accountObject \<Rightarrow> bool" where
  "same_obj ao ao' \<longleftrightarrow> ao_address ao' = ao_address ao \<and> addrHash ao' = addrHash ao \<and> ao_data ao' = ao_data ao
    \<and> suicided ao' = suicided ao \<and> deleted ao' = deleted ao \<and> touched ao' = touched ao \<and> onDirty ao' = onDirty ao
    \<and> dirtyNFTSet ao' = dirtyNFTSet ao \<and> dirtyStorage ao' = dirtyStorage ao"

locale account_env =
  fixes E :: "('t, 'x) AccountEnv_scheme"
    and holds :: "'t \<Rightarrow> (bytes \<rightharpoonup> bytes) \<Rightarrow> bool"
  assumes get_law: "holds t m \<Longrightarrow> \<exists>t'. op_TryGet E t k = Inr (m k, t') \<and> holds t' m"
    and open_zero: "\<exists>t m. OpenStorageTrie E a zero_hash = Inr t \<and> holds t m"
    and sum256_length: "length (sum256 E b) = 32"
begin

lemma ao_setError_simps [simp]:
  "ao_address (ao_setError e ao) = ao_address ao" "addrHash (ao_setError e ao) = addrHash ao"
  "ao_data (ao_setError e ao) = ao_data ao" "suicided (ao_setError e ao) = suicided ao"
  "deleted (ao_setError e ao) = deleted ao" "touched (ao_setError e ao) = touched ao"
  "onDirty (ao_setError e ao) = onDirty ao" "dirtyNFTSet (ao_setError e ao) = dirtyNFTSet ao"
  "dirtyStorage (ao_setError e ao) = dirtyStorage ao" "cachedStorage (ao_setError e ao) = cachedStorage ao"
  "nftSet (ao_setError e ao) = nftSet ao" "ao_trie (ao_setError e ao) = ao_trie ao"
  by (simp_all add: ao_setError_def)

lemma getTrie_wf:
  assumes "obj_wf E holds a ao"
  shows "\<exists>t m. ao_trie (getTrie E ao) = Some t \<and> holds t m" "obj_wf E holds a (getTrie E ao)"
    "same_obj ao (getTrie E ao)" "cachedStorage (getTrie E ao) = cachedStorage ao" "nftSet (getTrie E ao) = nftSet ao"
    "getTrie E (getTrie E ao) = getTrie E ao"
proof -
  have "(\<exists>t m. ao_trie (getTrie E ao) = Some t \<and> holds t m) \<and> obj_wf E holds a (getTrie E ao) \<and>
    same_obj ao (getTrie E ao) \<and> cachedStorage (getTrie E ao) = cachedStorage ao \<and> nftSet (getTrie E ao) = nftSet ao"
    using assms open_zero[of "addrHash ao"]
    by (auto simp: getTrie_def obj_wf_def opens_wf_def same_obj_def split: option.splits sum.splits)
  moreover from this have "getTrie E (getTrie E ao) = getTrie E ao"
    by (auto simp: getTrie_def[of E "getTrie E ao"])
  ultimately show "\<exists>t m. ao_trie (getTrie E ao) = Some t \<and> holds t m" "obj_wf E holds a (getTrie E ao)"
    "same_obj ao (getTrie E ao)" "cachedStorage (getTrie E ao) = cachedStorage ao" "nftSet (getTrie E ao) = nftSet ao"
    "getTrie E (getTrie E ao) = getTrie E ao" by blast+
qed

lemma back_ex: "obj_wf E holds a ao \<Longrightarrow> \<exists>m. backed E holds ao m"
  using getTrie_wf(1)[of a ao] by (auto simp: backed_def)

lemma back_committed:
  assumes "obj_wf E holds a ao" "backed E holds ao m"
  shows "\<exists>ao'. GetCommittedData E k ao = (m k, ao') \<and> obj_wf E holds a ao' \<and> backed E holds ao' m \<and> same_obj ao ao' \<and> nftSet ao' = nftSet ao
    \<and> cachedStorage ao' = (case m k of None \<Rightarrow> cachedStorage ao | Some v \<Rightarrow> AList.update k (Some v) (cachedStorage ao))"
proof -
  from assms(2) obtain t where t: "ao_trie (getTrie E ao) = Some t" "holds t m" by (auto simp: backed_def)
  from get_law[OF t(2), of k] obtain t' where t': "op_TryGet E t k = Inr (m k, t')" "holds t' m" by blast
  note g = getTrie_wf[OF assms(1)]
  let ?ao = "(getTrie E ao)\<lparr>ao_trie := Some t'\<rparr>"
  let ?ao' = "case m k of None \<Rightarrow> ?ao | Some v \<Rightarrow> ?ao\<lparr>cachedStorage := AList.update k (Some v) (cachedStorage ao)\<rparr>"
  have 1: "GetCommittedData E k ao = (m k, ?ao')"
    using t t' g by (auto simp: GetCommittedData_def Let_def split: option.split)
  have 2: "obj_wf E holds a ?ao'" using g(2) t' by (auto simp: obj_wf_def split: option.split)
  have 3: "backed E holds ?ao' m" using t' by (auto simp: backed_def getTrie_def split: option.split)
  have 4: "same_obj ao ?ao'" using g(3) by (auto simp: same_obj_def split: option.split)
  show ?thesis using 1 2 3 4 g(4,5) by (intro exI[of _ ?ao']) (auto split: option.split)
qed

lemma back_GetData:
  assumes "obj_wf E holds a ao" "backed E holds ao m"
  shows "\<exists>ao'. ao_GetData E k ao = (case map_of (cachedStorage ao) k of Some v \<Rightarrow> v | None \<Rightarrow> m k, ao')
    \<and> obj_wf E holds a ao' \<and> backed E holds ao' m \<and> same_obj ao ao' \<and> nftSet ao' = nftSet ao
    \<and> (\<forall>k'. (case map_of (cachedStorage ao') k' of Some v \<Rightarrow> v | None \<Rightarrow> m k') =
            (case map_of (cachedStorage ao) k' of Some v \<Rightarrow> v | None \<Rightarrow> m k'))"
proof (cases "map_of (cachedStorage ao) k")
  case None
  obtain ao' where "GetCommittedData E k ao = (m k, ao')" "obj_wf E holds a ao'" "backed E holds ao' m" "same_obj ao ao'" "nftSet ao' = nftSet ao"
    "cachedStorage ao' = (case m k of None \<Rightarrow> cachedStorage ao | Some v \<Rightarrow> AList.update k (Some v) (cachedStorage ao))"
    using back_committed[OF assms, of k] by blast
  with None show ?thesis by (auto simp: ao_GetData_def update_conv' split: option.split)
next
  case (Some v)
  with assms show ?thesis by (auto simp: ao_GetData_def same_obj_def)
qed

lemma storage_back:
  assumes "obj_wf E holds a ao" "backed E holds ao m"
  shows "fst (ao_GetData E k ao) = (case map_of (cachedStorage ao) k of Some v \<Rightarrow> v | None \<Rightarrow> m k)"
  using back_GetData[OF assms, of k] by auto

lemma obj_view_GetData:
  assumes "obj_wf E holds a ao" "ao_GetData E k ao = (v, ao')"
  shows "obj_wf E holds a ao'" "obj_view E ao' = obj_view E ao" "same_obj ao ao'" "v = fst (ao_GetData E k ao)"
    "slice_of v = a_storage (obj_view E ao) k"
proof -
  from back_ex[OF assms(1)] obtain m where m: "backed E holds ao m" by blast
  from back_GetData[OF assms(1) m, of k] assms(2) have g: "obj_wf E holds a ao'" "backed E holds ao' m" "same_obj ao ao'"
    "nftSet ao' = nftSet ao" and c: "\<And>k'. (case map_of (cachedStorage ao') k' of Some v \<Rightarrow> v | None \<Rightarrow> m k') =
            (case map_of (cachedStorage ao) k' of Some v \<Rightarrow> v | None \<Rightarrow> m k')" by auto
  have "fst (ao_GetData E k' ao') = fst (ao_GetData E k' ao)" for k'
    using storage_back[OF g(1,2)] storage_back[OF assms(1) m] c[of k'] by simp
  with g show "obj_view E ao' = obj_view E ao" by (simp add: obj_view_def same_obj_def)
  show "obj_wf E holds a ao'" "same_obj ao ao'" "v = fst (ao_GetData E k ao)" "slice_of v = a_storage (obj_view E ao) k"
    using g assms(2) by (simp_all add: obj_view_def)
qed

lemma newAccountObject_wf:
  assumes "data_wf E holds a d"
  shows "obj_wf E holds a (newAccountObject E a d b)" "\<not> deleted (newAccountObject E a d b)"
  using assms sum256_length
  by (cases "NFTSetDefinitionHash d"; simp add: data_wf_def obj_wf_def newAccountObject_def Let_def emptyCodeHash_def)+

lemma stored_wf:
  assumes "stored E m a = Some ao" "accounts_wf E holds m"
  shows "obj_wf E holds a ao" "\<not> deleted ao"
proof -
  from assms(1) obtain enc d where "m a = Some enc" "decodeAccount E enc = Some d" "ao = newAccountObject E a d True"
    by (auto simp: stored_def split: option.splits if_splits)
  with assms(2) newAccountObject_wf[of a d True] show "obj_wf E holds a ao" "\<not> deleted ao"
    by (auto simp: accounts_wf_def)
qed

lemma from_trie:
  assumes "holds (adb_trie s) m"
  shows "\<exists>tr. getAccountObjectFromTrie E a s = (stored E m a, s\<lparr>adb_trie := tr\<rparr>) \<and> holds tr m"
proof -
  from get_law[OF assms, of a] obtain tr where "op_TryGet E (adb_trie s) a = Inr (m a, tr)" "holds tr m" by blast
  then show ?thesis
    by (intro exI[of _ tr]) (auto simp: getAccountObjectFromTrie_def stored_def Let_def split: option.split)
qed

lemma base_of_holds: "holds (adb_trie s) m \<Longrightarrow> base_of E s a = map_option (obj_view E) (stored E m a)"
  using from_trie[of s m a] by (auto simp: base_of_def)

lemma base_of_cong: "adb_trie s' = adb_trie s \<Longrightarrow> base_of E s' = base_of E s"
  by (rule ext) (simp add: base_of_def getAccountObjectFromTrie_def adb_setError_def Let_def
      split: option.split sum.split prod.split)

lemma base_of_upd [simp]:
  "base_of E (s\<lparr>transitions := ts\<rparr>) = base_of E s" "base_of E (s\<lparr>accountObjects := os\<rparr>) = base_of E s"
  "base_of E (s\<lparr>accountObjectsDirty := ds\<rparr>) = base_of E s" "base_of E (s\<lparr>refund := r\<rparr>) = base_of E s"
  "base_of E (s\<lparr>accessList := al\<rparr>) = base_of E s" "base_of E (s\<lparr>logs := ls\<rparr>) = base_of E s"
  "base_of E (s\<lparr>logSize := n\<rparr>) = base_of E s" "base_of E (s\<lparr>transientStorage := tt\<rparr>) = base_of E s"
  "base_of E (s\<lparr>validRevisions := vr\<rparr>) = base_of E s" "base_of E (s\<lparr>nextRevisionID := nr\<rparr>) = base_of E s"
  "base_of E (s\<lparr>rpgContractAddress := ra\<rparr>) = base_of E s"
  by (rule base_of_cong; simp)+

lemma base_of_trie:
  "holds (adb_trie s) m \<Longrightarrow> holds tr m \<Longrightarrow> base_of E (s\<lparr>adb_trie := tr\<rparr>) = base_of E s"
  using base_of_holds[of s m] base_of_holds[of "s\<lparr>adb_trie := tr\<rparr>" m] by (auto simp: fun_eq_iff)

lemma acct_of_holds:
  assumes "holds (adb_trie s) m"
  shows "acct_of E s a = (case get_obj s a of Some ao \<Rightarrow> if deleted ao then None else Some (obj_view E ao)
      | None \<Rightarrow> map_option (obj_view E) (stored E m a))"
  using base_of_holds[OF assms, of a] by (auto simp: acct_of_def split: option.split)

lemma acct_of_put_obj:
  "acct_of E (put_obj a ao s) = (acct_of E s)(a := if deleted ao then None else Some (obj_view E ao))"
proof
  fix b
  have "base_of E (put_obj a ao s) = base_of E s" by (rule base_of_cong) (simp add: put_obj_def)
  then show "acct_of E (put_obj a ao s) b = ((acct_of E s)(a := if deleted ao then None else Some (obj_view E ao))) b"
    by (auto simp: acct_of_def get_obj_def put_obj_def update_conv' split: option.split)
qed

lemma adb_wf_put_obj: "adb_wf E holds s \<Longrightarrow> obj_wf E holds a ao \<Longrightarrow> adb_wf E holds (put_obj a ao s)"
  by (auto simp: adb_wf_def put_obj_def get_obj_def update_conv')

lemma view_of_put_obj:
  "\<not> deleted ao \<Longrightarrow> view_of E (put_obj a ao s) = (view_of E s)\<lparr>v_accts := (acct_of E s)(a \<mapsto> obj_view E ao)\<rparr>"
  using base_of_cong[of "put_obj a ao s" s] by (simp add: view_of_def acct_of_put_obj) (simp add: put_obj_def)

lemma acct_of_cong:
  "adb_trie s' = adb_trie s \<Longrightarrow> accountObjects s' = accountObjects s \<Longrightarrow> acct_of E s' = acct_of E s"
  using base_of_cong[of s' s] by (auto simp: acct_of_def get_obj_def fun_eq_iff split: option.split)

lemma acct_of_obj: "get_obj s a = Some ao \<Longrightarrow> \<not> deleted ao \<Longrightarrow> acct_of E s a = Some (obj_view E ao)"
  by (simp add: acct_of_def)

text \<open>Loading an object changes nothing that can be seen.\<close>

lemma view_load:
  assumes "adb_wf E holds s" "get_obj s a = None" "holds (adb_trie s) m" "holds tr m" "stored E m a = Some ao"
    "accounts_wf E holds m"
  shows "adb_wf E holds (put_obj a ao (s\<lparr>adb_trie := tr\<rparr>))"
    "view_of E (put_obj a ao (s\<lparr>adb_trie := tr\<rparr>)) = view_of E s"
proof -
  note st = stored_wf[OF assms(5,6)]
  have "adb_wf E holds (s\<lparr>adb_trie := tr\<rparr>)" using assms(1,4,6) by (auto simp: adb_wf_def get_obj_def)
  with st show "adb_wf E holds (put_obj a ao (s\<lparr>adb_trie := tr\<rparr>))" by (intro adb_wf_put_obj)
  have eq: "acct_of E (s\<lparr>adb_trie := tr\<rparr>) = acct_of E s"
    using acct_of_holds[OF assms(3)] acct_of_holds[of "s\<lparr>adb_trie := tr\<rparr>" m] assms(4)
    by (auto simp: fun_eq_iff get_obj_def)
  have "acct_of E s a = Some (obj_view E ao)" using acct_of_holds[OF assms(3), of a] assms(2,5) by simp
  with eq st base_of_trie[OF assms(3,4)] show "view_of E (put_obj a ao (s\<lparr>adb_trie := tr\<rparr>)) = view_of E s"
    by (simp add: view_of_put_obj) (simp add: view_of_def fun_upd_idem)
qed

lemma view_miss:
  assumes "adb_wf E holds s" "holds (adb_trie s) m" "holds tr m" "accounts_wf E holds m"
  shows "adb_wf E holds (s\<lparr>adb_trie := tr\<rparr>)" "view_of E (s\<lparr>adb_trie := tr\<rparr>) = view_of E s"
proof -
  show "adb_wf E holds (s\<lparr>adb_trie := tr\<rparr>)" using assms(1,3,4) by (auto simp: adb_wf_def get_obj_def)
  have "acct_of E (s\<lparr>adb_trie := tr\<rparr>) = acct_of E s"
    using acct_of_holds[OF assms(2)] acct_of_holds[of "s\<lparr>adb_trie := tr\<rparr>" m] assms(3)
    by (auto simp: fun_eq_iff get_obj_def)
  with base_of_trie[OF assms(2,3)] show "view_of E (s\<lparr>adb_trie := tr\<rparr>) = view_of E s" by (simp add: view_of_def)
qed

lemma journaled_same_view:
  assumes "adb_wf E holds s'" "view_of E s' = view_of E s" "transitions s' = transitions s"
    "validRevisions s' = validRevisions s" "nextRevisionID s' = nextRevisionID s"
  shows "journaled E holds s s'"
  using assms by (auto simp: journaled_def intro: exI[of _ "[]"])

lemma empty_data_wf: "data_wf E holds a empty_Account"
  using open_zero[of "sum256 E a"] by (auto simp: data_wf_def opens_wf_def empty_Account_def)

lemma createObject_journaled:
  assumes "adb_wf E holds s" "get_obj s a = None" "acct_of E s a = None"
  shows "journaled E holds s (createObject E a None s)"
    "\<exists>ao. get_obj (createObject E a None s) a = Some ao \<and> \<not> deleted ao \<and> obj_wf E holds a ao"
proof -
  let ?o = "(newAccountObject E a empty_Account True)\<lparr>onDirty := False\<rparr>"
  let ?s1 = "journal (CreateObjectChange a) (MarkAccountObjectDirty a s)"
  have o: "obj_wf E holds a ?o" "\<not> deleted ?o" "ao_address ?o = a"
    using newAccountObject_wf[OF empty_data_wf, of a True]
    by (auto simp: obj_wf_def empty_Account_def newAccountObject_def Let_def)
  have c: "createObject E a None s = put_obj a ?o ?s1"
    using assms(2) o(3) by (simp add: createObject_def setAccountObject_def journal_def MarkAccountObjectDirty_def get_obj_def Let_def)
  have w: "adb_wf E holds ?s1" using assms(1) by (auto simp: adb_wf_def journal_def MarkAccountObjectDirty_def get_obj_def)
  have a1: "acct_of E ?s1 = acct_of E s" by (rule acct_of_cong) (simp_all add: journal_def MarkAccountObjectDirty_def)
  then have v1: "view_of E ?s1 = view_of E s" by (simp add: view_of_def journal_def MarkAccountObjectDirty_def)
  have b: "base_of E s a = None" using assms(2,3) by (simp add: acct_of_def)
  have "view_undo E (CreateObjectChange a) (view_of E (put_obj a ?o ?s1)) = Some (view_of E s)"
    using view_of_put_obj[OF o(2), of a ?s1] assms(3) a1 v1 b by (simp add: view_of_def fun_upd_idem)
  moreover have "transitions (put_obj a ?o ?s1) = transitions s @ [CreateObjectChange a]"
    "validRevisions (put_obj a ?o ?s1) = validRevisions s" "nextRevisionID (put_obj a ?o ?s1) = nextRevisionID s"
    by (simp_all add: put_obj_def journal_def MarkAccountObjectDirty_def)
  ultimately show "journaled E holds s (createObject E a None s)"
    unfolding c journaled_def using adb_wf_put_obj[OF w o(1)] by (auto intro!: exI[of _ "[CreateObjectChange a]"])
  show "\<exists>ao. get_obj (createObject E a None s) a = Some ao \<and> \<not> deleted ao \<and> obj_wf E holds a ao"
    unfolding c using o by (auto simp: get_obj_def put_obj_def update_conv')
qed

lemma getAccountObject_spec:
  assumes "adb_wf E holds s" "getAccountObject E a create s = (found, s')"
  shows "journaled E holds s s'"
    and "found \<Longrightarrow> \<exists>ao. get_obj s' a = Some ao \<and> \<not> deleted ao \<and> obj_wf E holds a ao"
    and "\<not> create \<Longrightarrow> view_of E s' = view_of E s \<and> transitions s' = transitions s \<and> (found \<longleftrightarrow> acct_of E s a \<noteq> None)"
proof -
  from assms(1) obtain m where m: "holds (adb_trie s) m" and acc: "accounts_wf E holds m" by (auto simp: adb_wf_def)
  obtain tr where tr: "getAccountObjectFromTrie E a s = (stored E m a, s\<lparr>adb_trie := tr\<rparr>)" "holds tr m"
    using from_trie[OF m, of a] by blast
  have "journaled E holds s s' \<and> (found \<longrightarrow> (\<exists>ao. get_obj s' a = Some ao \<and> \<not> deleted ao \<and> obj_wf E holds a ao))
    \<and> (\<not> create \<longrightarrow> view_of E s' = view_of E s \<and> transitions s' = transitions s \<and> (found \<longleftrightarrow> acct_of E s a \<noteq> None))"
  proof (cases "get_obj s a")
    case (Some ao)
    with assms show ?thesis
      by (auto simp: getAccountObject_def acct_of_def journaled_refl) (auto simp: adb_wf_def)
  next
    case None
    note ms = view_miss[OF assms(1) m tr(2) acc]
    show ?thesis
    proof (cases "stored E m a")
      case ao: (Some ao)
      have "ao_address ao = a" using stored_wf(1)[OF ao acc] by (simp add: obj_wf_def)
      then have s': "s' = put_obj a ao (s\<lparr>adb_trie := tr\<rparr>)" "found"
        using assms(2) None tr ao by (auto simp: getAccountObject_def setAccountObject_def get_obj_def)
      note l = view_load[OF assms(1) None m tr(2) ao acc]
      have "journaled E holds s s'" using l s' by (intro journaled_same_view) (simp_all add: put_obj_def)
      moreover have "get_obj s' a = Some ao" using s' by (simp add: get_obj_def put_obj_def update_conv')
      moreover have "acct_of E s a \<noteq> None" using acct_of_holds[OF m, of a] None ao by simp
      ultimately show ?thesis using l s' stored_wf[OF ao acc] by (auto simp: put_obj_def)
    next
      case no: None
      have na: "acct_of E s a = None" using acct_of_holds[OF m, of a] None no by simp
      then have na': "acct_of E (s\<lparr>adb_trie := tr\<rparr>) a = None"
        using ms(2) by (metis view.select_convs(1) view_of_def)
      have j: "journaled E holds s (s\<lparr>adb_trie := tr\<rparr>)" using ms by (intro journaled_same_view) simp_all
      have go: "get_obj (s\<lparr>adb_trie := tr\<rparr>) a = None" using None by (simp add: get_obj_def)
      note cr = createObject_journaled[OF ms(1) go na']
      show ?thesis
        using assms(2) None tr no ms j na cr journaled_trans[OF j cr(1)]
        by (auto simp: getAccountObject_def split: if_splits)
    qed
  qed
  then show "journaled E holds s s'"
    and "found \<Longrightarrow> \<exists>ao. get_obj s' a = Some ao \<and> \<not> deleted ao \<and> obj_wf E holds a ao"
    and "\<not> create \<Longrightarrow> view_of E s' = view_of E s \<and> transitions s' = transitions s \<and> (found \<longleftrightarrow> acct_of E s a \<noteq> None)"
    by blast+
qed

section \<open>Operations\<close>

text \<open>Fields that the storage of an object does not depend on.\<close>

lemma fst_GetData_cong:
  assumes "cachedStorage ao' = cachedStorage ao" "ao_trie ao' = ao_trie ao" "addrHash ao' = addrHash ao"
    "Root (ao_data ao') = Root (ao_data ao)"
  shows "fst (ao_GetData E k ao') = fst (ao_GetData E k ao)"
  using assms
  by (simp add: ao_GetData_def GetCommittedData_def getTrie_def Let_def split: option.split sum.split prod.split)

lemma backed_cong:
  assumes "ao_trie ao' = ao_trie ao" "addrHash ao' = addrHash ao" "Root (ao_data ao') = Root (ao_data ao)"
  shows "backed E holds ao' m = backed E holds ao m"
  using assms by (auto simp: backed_def getTrie_def Let_def split: option.split sum.split)

lemma obj_view_onDirty [simp]: "obj_view E (ao\<lparr>onDirty := b\<rparr>) = obj_view E ao"
  by (simp add: obj_view_def fst_GetData_cong[of "ao\<lparr>onDirty := b\<rparr>" ao])

lemma obj_view_setData:
  assumes "obj_wf E holds a ao"
  shows "obj_view E (ao\<lparr>cachedStorage := AList.update k v (cachedStorage ao), dirtyStorage := d\<rparr>) =
    (obj_view E ao)\<lparr>a_storage := (a_storage (obj_view E ao))(k := slice_of v)\<rparr>"
    (is "obj_view E ?ao = _")
proof -
  obtain m where m: "backed E holds ao m" using back_ex[OF assms] by blast
  have w: "obj_wf E holds a ?ao" using assms by (simp add: obj_wf_def)
  have m': "backed E holds ?ao m" using m backed_cong[of ?ao ao m] by simp
  have "slice_of (fst (ao_GetData E k' ?ao)) = (if k' = k then slice_of v else slice_of (fst (ao_GetData E k' ao)))" for k'
    using storage_back[OF w m', of k'] storage_back[OF assms m, of k'] by (simp add: update_conv')
  then show ?thesis by (simp add: obj_view_def fun_eq_iff)
qed

lemma put_dirty_view:
  assumes "adb_wf E holds s" "obj_wf E holds a ao" "\<not> deleted ao"
  shows "adb_wf E holds (put_dirty a ao s)"
    "view_of E (put_dirty a ao s) = (view_of E s)\<lparr>v_accts := (acct_of E s)(a \<mapsto> obj_view E ao)\<rparr>"
    "transitions (put_dirty a ao s) = transitions s" "validRevisions (put_dirty a ao s) = validRevisions s"
    "nextRevisionID (put_dirty a ao s) = nextRevisionID s"
proof -
  let ?s = "MarkAccountObjectDirty a s"
  have w: "adb_wf E holds ?s" using assms(1) by (auto simp: adb_wf_def MarkAccountObjectDirty_def get_obj_def)
  have "acct_of E ?s = acct_of E s" by (rule acct_of_cong) (simp_all add: MarkAccountObjectDirty_def)
  then have v: "view_of E ?s = view_of E s" "acct_of E ?s = acct_of E s"
    by (simp_all add: view_of_def MarkAccountObjectDirty_def)
  have o: "obj_wf E holds a (ao\<lparr>onDirty := False\<rparr>)" "\<not> deleted (ao\<lparr>onDirty := False\<rparr>)"
    using assms by (simp_all add: obj_wf_def)
  show "adb_wf E holds (put_dirty a ao s)"
    using adb_wf_put_obj[OF w o(1)] adb_wf_put_obj[OF assms(1,2)] by (simp add: put_dirty_def)
  show "view_of E (put_dirty a ao s) = (view_of E s)\<lparr>v_accts := (acct_of E s)(a \<mapsto> obj_view E ao)\<rparr>"
    using view_of_put_obj[OF o(2), of a ?s] view_of_put_obj[OF assms(3), of a s] v by (simp add: put_dirty_def)
  show "transitions (put_dirty a ao s) = transitions s" "validRevisions (put_dirty a ao s) = validRevisions s"
    "nextRevisionID (put_dirty a ao s) = nextRevisionID s"
    by (simp_all add: put_dirty_def put_obj_def MarkAccountObjectDirty_def)
qed

lemma journal_fields [simp]:
  "transitions (journal e s) = transitions s @ [e]" "validRevisions (journal e s) = validRevisions s"
  "nextRevisionID (journal e s) = nextRevisionID s"
  by (simp_all add: journal_def)

lemma journal_view [simp]: "view_of E (journal e s) = view_of E s" "acct_of E (journal e s) = acct_of E s"
  "adb_wf E holds (journal e s) = adb_wf E holds s"
proof -
  show a: "acct_of E (journal e s) = acct_of E s" by (rule acct_of_cong) (simp_all add: journal_def)
  then show "view_of E (journal e s) = view_of E s" by (simp add: view_of_def journal_def)
  show "adb_wf E holds (journal e s) = adb_wf E holds s" by (simp add: adb_wf_def journal_def get_obj_def)
qed

lemma setter_journaled:
  assumes "adb_wf E holds s" "obj_wf E holds a ao" "\<not> deleted ao"
    and "view_undo E e ((view_of E s)\<lparr>v_accts := (acct_of E s)(a \<mapsto> obj_view E ao)\<rparr>) = Some (view_of E s)"
  shows "journaled E holds s (put_dirty a ao (journal e s))"
  using put_dirty_view[of "journal e s" a ao] assms by (auto simp: journaled_def intro!: exI[of _ "[e]"])

lemma v_accts_view_of [simp]: "v_accts (view_of E s) = acct_of E s"
  by (simp add: view_of_def)

lemma view_accts_id [simp]: "(view_of E s)\<lparr>v_accts := acct_of E s\<rparr> = view_of E s"
  by (simp add: view_of_def)

lemma ao_SetNonce_journaled:
  assumes "adb_wf E holds s" "get_obj s a = Some ao" "\<not> deleted ao"
  shows "journaled E holds s (ao_SetNonce n ao s)"
proof -
  have w: "obj_wf E holds a ao" using assms(1,2) by (simp add: adb_wf_def)
  let ?ao = "ao\<lparr>ao_data := (ao_data ao)\<lparr>Nonce := n\<rparr>\<rparr>"
  have "obj_view E ?ao = (obj_view E ao)\<lparr>a_nonce := n\<rparr>"
    by (simp add: obj_view_def fst_GetData_cong[of ?ao ao])
  with assms w show ?thesis
    using setter_journaled[of s a ?ao "NonceChange a (Nonce (ao_data ao))"] acct_of_obj[OF assms(2,3)]
    by (simp add: ao_SetNonce_def ao_setNonce_def obj_wf_def map_acct_def obj_view_def fun_upd_idem)
qed

lemma ao_IncreaseNonce_journaled:
  "adb_wf E holds s \<Longrightarrow> get_obj s a = Some ao \<Longrightarrow> \<not> deleted ao \<Longrightarrow> journaled E holds s (snd (ao_IncreaseNonce ao s))"
  using ao_SetNonce_journaled[of s a ao "Nonce (ao_data ao) + 1"]
  by (simp add: ao_IncreaseNonce_def ao_SetNonce_def Let_def)

lemma put_read_journaled:
  assumes "adb_wf E holds s" "get_obj s a = Some ao" "\<not> deleted ao" "obj_wf E holds a ao'" "same_obj ao ao'"
    "obj_view E ao' = obj_view E ao"
  shows "journaled E holds s (put_obj a ao' s)" "view_of E (put_obj a ao' s) = view_of E s"
proof -
  have d: "\<not> deleted ao'" using assms(3,5) by (simp add: same_obj_def)
  show v: "view_of E (put_obj a ao' s) = view_of E s"
    using view_of_put_obj[OF d, of a s] acct_of_obj[OF assms(2,3)] assms(6) by (simp add: fun_upd_idem)
  show "journaled E holds s (put_obj a ao' s)"
    using adb_wf_put_obj[OF assms(1,4)] v by (intro journaled_same_view) (simp_all add: put_obj_def)
qed

lemma ao_SetData_journaled:
  assumes "adb_wf E holds s" "get_obj s a = Some ao" "\<not> deleted ao"
  shows "journaled E holds s (ao_SetData E k v ao s)"
proof -
  have w: "obj_wf E holds a ao" using assms(1,2) by (simp add: adb_wf_def)
  obtain p ao1 where g: "ao_GetData E k ao = (p, ao1)" by (cases "ao_GetData E k ao")
  note r = obj_view_GetData[OF w g]
  have a1: "ao_address ao1 = a" "\<not> deleted ao1" using r(1,3) assms(3) by (auto simp: obj_wf_def same_obj_def)
  let ?ao = "ao1\<lparr>cachedStorage := AList.update k v (cachedStorage ao1), dirtyStorage := AList.update k v (dirtyStorage ao1)\<rparr>"
  have wf: "obj_wf E holds a ?ao" using r(1) by (simp add: obj_wf_def)
  have "view_undo E (StorageChange a k p) ((view_of E s)\<lparr>v_accts := (acct_of E s)(a \<mapsto> obj_view E ?ao)\<rparr>) = Some (view_of E s)"
    using obj_view_setData[OF r(1), where k = k and v = v] r(2,5) acct_of_obj[OF assms(2,3)]
    by (simp add: map_acct_def fun_upd_idem)
  then have "journaled E holds s (put_dirty a ?ao (journal (StorageChange a k p) s))"
    using setter_journaled[OF assms(1) wf] a1 by simp
  moreover have "journaled E holds s (put_obj a ao1 s)"
    using put_read_journaled(1)[OF assms r(1,3,2)] .
  ultimately show ?thesis using g a1 by (simp add: ao_SetData_def ao_setData_def)
qed

lemma nftSetDefinition_view:
  assumes "obj_wf E holds a ao" "nftSetDefinition E ao = (c, ao')"
  shows "obj_wf E holds a ao'" "same_obj ao ao'" "obj_view E ao' = obj_view E ao" "c = a_code (obj_view E ao)"
proof -
  have x: "obj_wf E holds a ao' \<and> same_obj ao ao' \<and> c = a_code (obj_view E ao) \<and> a_code (obj_view E ao') = a_code (obj_view E ao)
      \<and> cachedStorage ao' = cachedStorage ao \<and> ao_trie ao' = ao_trie ao"
  proof (cases "nftSet ao")
    case (Some y)
    then have "ao' = ao" "c = Some y" using assms(2) by (simp_all add: nftSetDefinition_def)
    with Some assms(1) show ?thesis by (simp add: same_obj_def obj_view_def code_of_def)
  next
    case None
    with assms show ?thesis
      by (auto simp: nftSetDefinition_def obj_wf_def same_obj_def obj_view_def code_of_def split: if_splits sum.splits)
  qed
  then have "a_storage (obj_view E ao') = a_storage (obj_view E ao)"
    using fst_GetData_cong[of ao' ao] by (simp add: obj_view_def same_obj_def fun_eq_iff)
  with x show "obj_wf E holds a ao'" "same_obj ao ao'" "obj_view E ao' = obj_view E ao" "c = a_code (obj_view E ao)"
    by (auto simp: obj_view_def same_obj_def)
qed

lemma ao_SetCode_journaled:
  assumes "adb_wf E holds s" "get_obj s a = Some ao" "\<not> deleted ao" "length h = 32"
  shows "journaled E holds s (ao_SetNFTSetDefinition E h c ao s)"
proof -
  have w: "obj_wf E holds a ao" using assms(1,2) by (simp add: adb_wf_def)
  obtain p ao1 where g: "nftSetDefinition E ao = (p, ao1)" by (cases "nftSetDefinition E ao")
  note r = nftSetDefinition_view[OF w g]
  have a1: "ao_address ao1 = a" "\<not> deleted ao1" using r(1,2) assms(3) by (auto simp: obj_wf_def same_obj_def)
  let ?ao = "ao1\<lparr>ao_data := (ao_data ao1)\<lparr>kind := NFTSET_TYPE, NFTSetDefinitionHash := Some h\<rparr>, nftSet := c, dirtyNFTSet := True\<rparr>"
  have wf: "obj_wf E holds a ?ao" using r(1) assms(4) by (simp add: obj_wf_def)
  have st: "a_storage (obj_view E ?ao) = a_storage (obj_view E ao)"
    using fst_GetData_cong[of ?ao ao1] r(3) by (simp add: obj_view_def fun_eq_iff)
  have ho: "length (slice_of (NFTSetDefinitionHash (ao_data ao1))) = 32" "addrHash ao1 = sum256 E a"
    using r(1) by (auto simp: obj_wf_def)
  have "(obj_view E ?ao)\<lparr>a_codeHash := BytesToHash (slice_of (NFTSetDefinitionHash (ao_data ao1))),
      a_code := code_of E (sum256 E a) p (BytesToHash (slice_of (NFTSetDefinitionHash (ao_data ao1))))\<rparr> = obj_view E ao1"
    using st r(3,4) ho by (auto simp: obj_view_def code_of_def)
  then have "view_undo E (NftSetDefinitionChange a p (NFTSetDefinitionHash (ao_data ao1)))
      ((view_of E s)\<lparr>v_accts := (acct_of E s)(a \<mapsto> obj_view E ?ao)\<rparr>) = Some (view_of E s)"
    using r(3) acct_of_obj[OF assms(2,3)] by (simp add: map_acct_def fun_upd_idem)
  with setter_journaled[OF assms(1) wf] a1 g show ?thesis
    by (simp add: ao_SetNFTSetDefinition_def ao_setNFTSetDefinition_def)
qed

text \<open>Every operation on the account at an address goes through \<open>with_obj\<close>.\<close>

lemma with_obj_rule:
  assumes "adb_wf E holds s"
    and "\<And>ao s1. journaled E holds s s1 \<Longrightarrow> get_obj s1 a = Some ao \<Longrightarrow> \<not> deleted ao \<Longrightarrow> obj_wf E holds a ao \<Longrightarrow>
      P (f ao s1)"
    and "\<And>s1. journaled E holds s s1 \<Longrightarrow> P (g s1)"
  shows "P (with_obj E a c f g s)"
proof -
  obtain found s1 where g: "getAccountObject E a c s = (found, s1)" by (cases "getAccountObject E a c s")
  note sp = getAccountObject_spec[OF assms(1) g]
  show ?thesis
  proof (cases found)
    case True
    with sp(2) obtain ao where ao: "get_obj s1 a = Some ao" "\<not> deleted ao" "obj_wf E holds a ao" by blast
    with True g assms(2)[OF sp(1) ao] show ?thesis by (simp add: with_obj_def)
  next
    case False
    with g assms(3)[OF sp(1)] show ?thesis by (simp add: with_obj_def)
  qed
qed

lemma set_journaled:
  assumes "adb_wf E holds s"
  shows "journaled E holds s (SetNonce E a n s)" "journaled E holds s (snd (IncreaseNonce E a s))"
    "journaled E holds s (SetData E a k v s)" "journaled E holds s (SetState E a h h' s)"
    "(\<And>b. length (keccak256 E b) = 32) \<Longrightarrow> journaled E holds s (SetCode E a code s)"
    "journaled E holds s (CreateAccount E a s)"
proof -
  show "journaled E holds s (SetNonce E a n s)"
    unfolding SetNonce_def
    by (rule with_obj_rule[OF assms]) (auto intro: journaled_trans ao_SetNonce_journaled journaled_wf)
  show "journaled E holds s (snd (IncreaseNonce E a s))"
    unfolding IncreaseNonce_def
    by (rule with_obj_rule[OF assms, where P = "\<lambda>r. journaled E holds s (snd r)"])
      (auto intro: journaled_trans ao_IncreaseNonce_journaled journaled_wf)
  show "journaled E holds s (SetData E a k v s)"
    unfolding SetData_def
    by (rule with_obj_rule[OF assms]) (auto intro: journaled_trans ao_SetData_journaled journaled_wf)
  show "journaled E holds s (SetState E a h h' s)"
    unfolding SetState_def
    by (rule with_obj_rule[OF assms]) (auto intro: journaled_trans ao_SetData_journaled journaled_wf)
  show "journaled E holds s (SetCode E a code s)" if "\<And>b. length (keccak256 E b) = 32"
    unfolding SetCode_def
    by (rule with_obj_rule[OF assms]) (auto intro: journaled_trans ao_SetCode_journaled journaled_wf that)
  show "journaled E holds s (CreateAccount E a s)"
    using getAccountObject_spec(1)[OF assms, of a True] by (cases "getAccountObject E a True s") (simp add: CreateAccount_def)
qed

section \<open>Reads return the view\<close>

lemma with_obj_read_rule:
  assumes "adb_wf E holds s"
    and "\<And>ao s1. adb_wf E holds s1 \<Longrightarrow> view_of E s1 = view_of E s \<Longrightarrow> journaled E holds s s1 \<Longrightarrow> get_obj s1 a = Some ao \<Longrightarrow>
      \<not> deleted ao \<Longrightarrow> obj_wf E holds a ao \<Longrightarrow> acct_of E s a = Some (obj_view E ao) \<Longrightarrow> P (f ao s1)"
    and "\<And>s1. adb_wf E holds s1 \<Longrightarrow> view_of E s1 = view_of E s \<Longrightarrow> journaled E holds s s1 \<Longrightarrow> acct_of E s a = None \<Longrightarrow> P (g s1)"
  shows "P (with_obj E a False f g s)"
proof -
  obtain found s1 where g: "getAccountObject E a False s = (found, s1)" by (cases "getAccountObject E a False s")
  note sp = getAccountObject_spec[OF assms(1) g]
  have v: "view_of E s1 = view_of E s" "found \<longleftrightarrow> acct_of E s a \<noteq> None" using sp(3) by auto
  have ac: "acct_of E s1 = acct_of E s" using v(1) by (metis v_accts_view_of)
  note w = journaled_wf[OF sp(1)]
  show ?thesis
  proof (cases found)
    case True
    with sp(2) obtain ao where ao: "get_obj s1 a = Some ao" "\<not> deleted ao" "obj_wf E holds a ao" by blast
    have "acct_of E s a = Some (obj_view E ao)" using acct_of_obj[OF ao(1,2)] ac by simp
    with True g assms(2)[OF w v(1) sp(1) ao] ao(1) show ?thesis by (simp add: with_obj_def)
  next
    case False
    with v(2) have "acct_of E s a = None" by simp
    with False g assms(3)[OF w v(1) sp(1)] show ?thesis by (simp add: with_obj_def)
  qed
qed

lemma GetNonce_view:
  assumes "adb_wf E holds s"
  shows "fst (GetNonce E a s) = (case acct_of E s a of None \<Rightarrow> 0 | Some x \<Rightarrow> a_nonce x)
    \<and> view_of E (snd (GetNonce E a s)) = view_of E s \<and> journaled E holds s (snd (GetNonce E a s))"
  unfolding GetNonce_def
  by (rule with_obj_read_rule[OF assms, where P = "\<lambda>r. fst r = (case acct_of E s a of None \<Rightarrow> 0 | Some x \<Rightarrow> a_nonce x)
      \<and> view_of E (snd r) = view_of E s \<and> journaled E holds s (snd r)"]) (auto simp: obj_view_def)

lemma GetData_view:
  assumes "adb_wf E holds s"
  shows "slice_of (fst (GetData E a k s)) = (case acct_of E s a of None \<Rightarrow> [] | Some x \<Rightarrow> a_storage x k)
    \<and> view_of E (snd (GetData E a k s)) = view_of E s \<and> journaled E holds s (snd (GetData E a k s))"
  unfolding GetData_def
proof (rule with_obj_read_rule[OF assms, where P = "\<lambda>r. slice_of (fst r) = (case acct_of E s a of None \<Rightarrow> [] | Some x \<Rightarrow> a_storage x k)
      \<and> view_of E (snd r) = view_of E s \<and> journaled E holds s (snd r)"], goal_cases)
  case (1 ao s1)
  obtain v ao' where g: "ao_GetData E k ao = (v, ao')" by (cases "ao_GetData E k ao")
  note r = obj_view_GetData[OF 1(6) g]
  note p = put_read_journaled[OF 1(1,4,5) r(1,3,2)]
  show ?case using g 1(2,7) p(2) r(5) journaled_trans[OF 1(3) p(1)] by simp
qed auto

lemma GetCode_view:
  assumes "adb_wf E holds s"
  shows "fst (GetCode E a s) = (case acct_of E s a of None \<Rightarrow> None | Some x \<Rightarrow> a_code x)
    \<and> view_of E (snd (GetCode E a s)) = view_of E s \<and> journaled E holds s (snd (GetCode E a s))"
  unfolding GetCode_def
proof (rule with_obj_read_rule[OF assms, where P = "\<lambda>r. fst r = (case acct_of E s a of None \<Rightarrow> None | Some x \<Rightarrow> a_code x)
      \<and> view_of E (snd r) = view_of E s \<and> journaled E holds s (snd r)"], goal_cases)
  case (1 ao s1)
  obtain v ao' where g: "nftSetDefinition E ao = (v, ao')" by (cases "nftSetDefinition E ao")
  note r = nftSetDefinition_view[OF 1(6) g]
  note p = put_read_journaled[OF 1(1,4,5) r(1,2,3)]
  show ?case using g 1(2,7) p(2) r(4) journaled_trans[OF 1(3) p(1)] by simp
qed auto

lemma Exist_view:
  assumes "adb_wf E holds s"
  shows "fst (Exist E a s) = (acct_of E s a \<noteq> None)
    \<and> view_of E (snd (Exist E a s)) = view_of E s \<and> journaled E holds s (snd (Exist E a s))"
  using getAccountObject_spec[OF assms, of a False] by (cases "getAccountObject E a False s") (auto simp: Exist_def)

lemma HasSuicided_view:
  assumes "adb_wf E holds s"
  shows "fst (HasSuicided E a s) = (case acct_of E s a of None \<Rightarrow> False | Some x \<Rightarrow> a_suicided x)
    \<and> view_of E (snd (HasSuicided E a s)) = view_of E s \<and> journaled E holds s (snd (HasSuicided E a s))"
  unfolding HasSuicided_def
  by (rule with_obj_read_rule[OF assms, where P = "\<lambda>r. fst r = (case acct_of E s a of None \<Rightarrow> False | Some x \<Rightarrow> a_suicided x)
      \<and> view_of E (snd r) = view_of E s \<and> journaled E holds s (snd r)"]) (auto simp: obj_view_def)

section \<open>Counters, access list, transient storage, logs\<close>

lemma entry_journaled:
  assumes "adb_wf E holds s'" "transitions s' = transitions s @ [e]" "view_undo E e (view_of E s') = Some (view_of E s)"
    "validRevisions s' = validRevisions s" "nextRevisionID s' = nextRevisionID s"
  shows "journaled E holds s s'"
  using assms by (auto simp: journaled_def intro!: exI[of _ "[e]"])

lemma refund_journaled:
  assumes "adb_wf E holds s"
  shows "journaled E holds s ((journal (RefundChange (refund s)) s)\<lparr>refund := r\<rparr>)"
proof (rule entry_journaled)
  let ?s = "(journal (RefundChange (refund s)) s)\<lparr>refund := r\<rparr>"
  have a: "acct_of E ?s = acct_of E s" by (rule acct_of_cong) (simp_all add: journal_def)
  then show "view_undo E (RefundChange (refund s)) (view_of E ?s) = Some (view_of E s)"
    by (simp add: view_of_def journal_def)
  show "adb_wf E holds ?s" using assms by (simp add: adb_wf_def journal_def get_obj_def)
qed simp_all

lemma transient_Get_Set:
  assumes "length v = 32"
  shows "transient_Get a k (transient_Set a' k' v t) = (if a' = a \<and> k' = k then v else transient_Get a k t)"
proof -
  have zh: "BytesToHash [] = zero_hash" by (simp add: BytesToHash_pad zero_hash_def HashLength_def)
  have em: "map_of st k = None" if "AList.delete k' st = []" "k' \<noteq> k" for st :: Storage
    using that delete_conv'[of k' st] by (metis fun_upd_other map_of.simps(1))
  show ?thesis
    using assms zh em
    by (auto simp: transient_Get_def transient_Set_def update_conv' delete_conv' Let_def split: option.split if_splits)
qed

lemma transient_Get_length: "length (transient_Get a k t) = 32"
  by (simp add: transient_Get_def split: option.split)

lemma transient_journaled:
  assumes "adb_wf E holds s" "length v = 32"
  shows "journaled E holds s (SetTransientState a k v s)"
proof (cases "GetTransientState a k s = v")
  case False
  let ?e = "TransientStorageChange a k (GetTransientState a k s)"
  let ?s = "setTransientState a k v (journal ?e s)"
  have "acct_of E ?s = acct_of E s" by (rule acct_of_cong) (simp_all add: journal_def setTransientState_def)
  then have "view_undo E ?e (view_of E ?s) = Some (view_of E s)"
    using transient_Get_Set[OF assms(2)] transient_Get_length
    by (auto simp: view_of_def journal_def setTransientState_def GetTransientState_def fun_eq_iff)
  moreover have "adb_wf E holds ?s" using assms by (simp add: adb_wf_def journal_def setTransientState_def get_obj_def)
  moreover have "transitions ?s = transitions s @ [?e]" "validRevisions ?s = validRevisions s"
    "nextRevisionID ?s = nextRevisionID s" by (simp_all add: setTransientState_def)
  ultimately have "journaled E holds s ?s" by (intro entry_journaled[of ?s s ?e])
  with False show ?thesis by (simp add: SetTransientState_def)
qed (simp add: SetTransientState_def journaled_refl assms)

lemma AddLog_journaled:
  assumes "adb_wf E holds s"
  shows "journaled E holds s (AddLog l s)"
proof (rule entry_journaled)
  have "acct_of E (AddLog l s) = acct_of E s" by (rule acct_of_cong) (simp_all add: AddLog_def journal_def Let_def)
  moreover have "logs s h \<noteq> Some []" for h using assms by (simp add: adb_wf_def)
  ultimately show "view_undo E (AddLogChange (thash s)) (view_of E (AddLog l s)) = Some (view_of E s)"
    by (auto simp: view_of_def AddLog_def journal_def Let_def fun_upd_idem split: option.split)
  show "adb_wf E holds (AddLog l s)"
    using assms by (auto simp: adb_wf_def AddLog_def journal_def get_obj_def Let_def)
qed (simp_all add: AddLog_def journal_def Let_def)

end

end
