(* ===== verification/Account_Revert.thy ===== *)
theory Account_Revert
  imports Account_View Trie_Correct
begin

text \<open>
  Reverting to a snapshot restores the view of the account database, whatever journalled
  operations, reads, nested snapshots and nested reverts happened in between.
\<close>

section \<open>Undo refines undo on views\<close>

text \<open>An undo step: the view becomes \<open>v\<close>, the journal and the snapshots stay.\<close>

definition undone ::
  "('t, 'x) AccountEnv_scheme \<Rightarrow> ('t \<Rightarrow> (bytes \<rightharpoonup> bytes) \<Rightarrow> bool) \<Rightarrow> 't AccountDB \<Rightarrow> view \<Rightarrow> 't AccountDB \<Rightarrow> bool" where
  "undone E holds s v s' \<longleftrightarrow> adb_wf E holds s' \<and> view_of E s' = v \<and> transitions s' = transitions s
    \<and> validRevisions s' = validRevisions s \<and> nextRevisionID s' = nextRevisionID s"

context account_env
begin

lemma AddAddress_journaled:
  assumes "adb_wf E holds s"
  shows "journaled E holds s (AddAddressToAccessList a s)"
proof -
  obtain al c where al: "AddAddress (accessList s) a = (al, c)" by (cases "AddAddress (accessList s) a")
  have inv: "al_inv (accessList s)" using assms by (simp add: adb_wf_def)
  have "al_inv al" using AddAddress_inv[OF inv, of a] al by simp
  show ?thesis
  proof (cases c)
    case True
    let ?s = "journal (AccessListAddAccountChange a) (s\<lparr>accessList := al\<rparr>)"
    have "acct_of E (s\<lparr>accessList := al\<rparr>) = acct_of E s" by (rule acct_of_cong) simp_all
    then have "view_undo E (AccessListAddAccountChange a) (view_of E ?s) = Some (view_of E s)"
      using undo_AddAddress[of "accessList s" a al] al True unfolding journal_view by (simp add: view_of_def)
    moreover have "adb_wf E holds ?s" using assms \<open>al_inv al\<close> unfolding journal_view by (simp add: adb_wf_def get_obj_def)
    ultimately have "journaled E holds s ?s"
      by (intro entry_journaled[of ?s s "AccessListAddAccountChange a"]) simp_all
    with al True show ?thesis by (simp add: AddAddressToAccessList_def)
  next
    case False
    then have "al = accessList s" using al by (auto simp: AddAddress_def split: if_splits)
    with False al assms show ?thesis by (simp add: AddAddressToAccessList_def journaled_refl)
  qed
qed

lemma AddSlot_journaled:
  assumes "adb_wf E holds s"
  shows "\<exists>s'. AddSlotToAccessList a h s = Some s' \<and> journaled E holds s s'"
proof -
  have inv: "al_inv (accessList s)" using assms by (simp add: adb_wf_def)
  obtain al ac sc where al: "AddSlot (accessList s) a h = Some (al, ac, sc)"
    using AddSlot_total[OF inv, of a h] by (metis prod_cases3)
  have ali: "al_inv al" using AddSlot_inv[OF inv al] .
  let ?es = "(if ac then [AccessListAddAccountChange a] else []) @ (if sc then [AccessListAddSlotChange a h] else [])"
  let ?s = "s\<lparr>accessList := al, transitions := transitions s @ ?es\<rparr>"
  have eq: "AddSlotToAccessList a h s = Some ?s" using al by (simp add: AddSlotToAccessList_def journal_def)
  have a: "acct_of E ?s = acct_of E s" by (rule acct_of_cong) simp_all
  have "view_undos E (rev ?es) (view_of E ?s) = Some (view_of E s)"
  proof (cases sc)
    case True
    with undo_AddSlot[OF inv, of a h al ac] al obtain al1 where "DeleteSlot al a h = Some al1"
      "(if ac then DeleteAddress al1 a else al1) = accessList s" "al_inv al1" by auto
    with True a show ?thesis by (auto simp: view_of_def split: if_splits)
  next
    case False
    then have "al = accessList s" "\<not> ac" using al by (auto simp: AddSlot_def Let_def split: option.splits if_splits)
    with False a show ?thesis by (simp add: view_of_def)
  qed
  moreover have "adb_wf E holds ?s" using assms ali by (simp add: adb_wf_def get_obj_def)
  ultimately have "journaled E holds s ?s" by (auto simp: journaled_def intro!: exI[of _ ?es])
  with eq show ?thesis by blast
qed

lemma on_obj_undone:
  assumes "adb_wf E holds s" "map_acct a f (view_of E s) = Some v"
    and "\<And>ao s1. adb_wf E holds s1 \<Longrightarrow> undone E holds s (view_of E s) s1 \<Longrightarrow> get_obj s1 a = Some ao \<Longrightarrow>
      \<not> deleted ao \<Longrightarrow> obj_wf E holds a ao \<Longrightarrow>
      undone E holds s1 ((view_of E s1)\<lparr>v_accts := (acct_of E s1)(a \<mapsto> f (obj_view E ao))\<rparr>) (g ao s1)"
  shows "\<exists>s'. on_obj E a g s = Some s' \<and> undone E holds s v s'"
proof -
  from assms(2) obtain x where x: "acct_of E s a = Some x" "v = (view_of E s)\<lparr>v_accts := (acct_of E s)(a \<mapsto> f x)\<rparr>"
    by (auto simp: map_acct_def split: option.splits)
  obtain found s1 where g: "getAccountObject E a False s = (found, s1)" by (cases "getAccountObject E a False s")
  note sp = getAccountObject_spec[OF assms(1) g]
  have same: "view_of E s1 = view_of E s" "transitions s1 = transitions s" "found" using sp(3) x by auto
  have ac: "acct_of E s1 = acct_of E s" using same(1) by (metis v_accts_view_of)
  have u: "undone E holds s (view_of E s) s1" using sp(1) same by (auto simp: undone_def journaled_def)
  from sp(2) same obtain ao where ao: "get_obj s1 a = Some ao" "\<not> deleted ao" "obj_wf E holds a ao" by blast
  have "x = obj_view E ao" using acct_of_obj[OF ao(1,2)] ac x by simp
  with assms(3)[OF journaled_wf[OF sp(1)] u ao] u x same ac have "undone E holds s v (g ao s1)" by (simp add: undone_def)
  with g ao same show ?thesis by (simp add: on_obj_def with_obj_def)
qed

lemma put_dirty_undone:
  assumes "adb_wf E holds s" "obj_wf E holds a ao" "\<not> deleted ao"
  shows "undone E holds s ((view_of E s)\<lparr>v_accts := (acct_of E s)(a \<mapsto> obj_view E ao)\<rparr>) (put_dirty a ao s)"
  using put_dirty_view[OF assms] by (simp add: undone_def)

lemma undo_nonce:
  "adb_wf E holds s \<Longrightarrow> view_undo E (NonceChange a n) (view_of E s) = Some v \<Longrightarrow>
   \<exists>s'. undo E (NonceChange a n) s = Some s' \<and> undone E holds s v s'"
proof (simp, rule on_obj_undone, assumption, assumption)
  fix ao s1 assume s1: "adb_wf E holds s1" "\<not> deleted ao" "obj_wf E holds a ao"
  let ?ao = "ao\<lparr>ao_data := (ao_data ao)\<lparr>Nonce := n\<rparr>\<rparr>"
  have "obj_view E ?ao = (obj_view E ao)\<lparr>a_nonce := n\<rparr>"
    by (simp add: obj_view_def fst_GetData_cong[of ?ao ao])
  with put_dirty_undone[of s1 a ?ao] s1
  show "undone E holds s1 ((view_of E s1)\<lparr>v_accts := (acct_of E s1)(a \<mapsto> (obj_view E ao)\<lparr>a_nonce := n\<rparr>)\<rparr>) (ao_setNonce n ao s1)"
    by (simp add: ao_setNonce_def obj_wf_def)
qed

lemma undo_storage:
  "adb_wf E holds s \<Longrightarrow> view_undo E (StorageChange a k p) (view_of E s) = Some v \<Longrightarrow>
   \<exists>s'. undo E (StorageChange a k p) s = Some s' \<and> undone E holds s v s'"
proof (simp, rule on_obj_undone, assumption, assumption)
  fix ao s1 assume s1: "adb_wf E holds s1" "\<not> deleted ao" "obj_wf E holds a ao"
  let ?ao = "ao\<lparr>cachedStorage := AList.update k p (cachedStorage ao), dirtyStorage := AList.update k p (dirtyStorage ao)\<rparr>"
  from put_dirty_undone[of s1 a ?ao] s1 obj_view_setData[OF s1(3)]
  show "undone E holds s1 ((view_of E s1)\<lparr>v_accts := (acct_of E s1)(a \<mapsto>
      (obj_view E ao)\<lparr>a_storage := (a_storage (obj_view E ao))(k := slice_of p)\<rparr>)\<rparr>) (ao_setData k p ao s1)"
    by (simp add: ao_setData_def obj_wf_def)
qed

lemma undo_code:
  "adb_wf E holds s \<Longrightarrow> view_undo E (NftSetDefinitionChange a p h) (view_of E s) = Some v \<Longrightarrow>
   \<exists>s'. undo E (NftSetDefinitionChange a p h) s = Some s' \<and> undone E holds s v s'"
proof (simp, rule on_obj_undone, assumption, assumption)
  fix ao s1 assume s1: "adb_wf E holds s1" "\<not> deleted ao" "obj_wf E holds a ao"
  let ?h = "BytesToHash (slice_of h)"
  let ?ao = "ao\<lparr>ao_data := (ao_data ao)\<lparr>kind := NFTSET_TYPE, NFTSetDefinitionHash := Some ?h\<rparr>, nftSet := p, dirtyNFTSet := True\<rparr>"
  have "obj_view E ?ao = (obj_view E ao)\<lparr>a_codeHash := ?h, a_code := code_of E (sum256 E a) p ?h\<rparr>"
    using s1(3) by (simp add: obj_view_def fst_GetData_cong[of ?ao ao] obj_wf_def)
  with put_dirty_undone[of s1 a ?ao] s1
  show "undone E holds s1 ((view_of E s1)\<lparr>v_accts := (acct_of E s1)(a \<mapsto>
      (obj_view E ao)\<lparr>a_codeHash := ?h, a_code := code_of E (sum256 E a) p ?h\<rparr>)\<rparr>)
      (ao_setNFTSetDefinition ?h p ao s1)"
    by (simp add: ao_setNFTSetDefinition_def obj_wf_def)
qed

lemma undo_create:
  assumes "adb_wf E holds s" "view_undo E (CreateObjectChange a) (view_of E s) = Some v"
  shows "\<exists>s'. undo E (CreateObjectChange a) s = Some s' \<and> undone E holds s v s'"
proof -
  let ?s = "s\<lparr>accountObjects := AList.delete a (accountObjects s), accountObjectsDirty := removeAll a (accountObjectsDirty s)\<rparr>"
  have g: "get_obj ?s b = (if b = a then None else get_obj s b)" for b
    by (simp add: get_obj_def delete_conv')
  have "acct_of E ?s = (acct_of E s)(a := base_of E s a)"
    using g by (auto simp: acct_of_def fun_eq_iff split: option.split)
  then have "view_of E ?s = v" using assms(2) by (auto simp: view_of_def)
  moreover have "adb_wf E holds ?s" using assms(1) g by (auto simp: adb_wf_def)
  ultimately show ?thesis by (simp add: undone_def)
qed

lemma undo_touch:
  assumes "adb_wf E holds s" "view_undo E (TouchChange a p d) (view_of E s) = Some v"
  shows "\<exists>s'. undo E (TouchChange a p d) s = Some s' \<and> undone E holds s v s'"
proof (cases "\<not> p \<and> a \<noteq> ripemd")
  case True
  with assms(2) have "map_acct a (\<lambda>x. x) (view_of E s) = Some v" by simp
  moreover have "undone E holds s1 ((view_of E s1)\<lparr>v_accts := (acct_of E s1)(a \<mapsto> obj_view E ao)\<rparr>)
      (let s = put_obj a (ao\<lparr>touched := p\<rparr>) s1
       in if \<not> d then s\<lparr>accountObjectsDirty := removeAll a (accountObjectsDirty s)\<rparr> else s)"
    if s1: "adb_wf E holds s1" "\<not> deleted ao" "obj_wf E holds a ao" for ao s1
  proof -
    let ?ao = "ao\<lparr>touched := p\<rparr>" and ?f = "\<lambda>s. s\<lparr>accountObjectsDirty := removeAll a (accountObjectsDirty s)\<rparr>"
    have o: "obj_view E ?ao = obj_view E ao" "obj_wf E holds a ?ao"
      using s1(3) by (simp_all add: obj_view_def fst_GetData_cong[of ?ao ao] obj_wf_def)
    have "acct_of E (?f (put_obj a ?ao s1)) = acct_of E (put_obj a ?ao s1)" by (rule acct_of_cong) simp_all
    then have f: "view_of E (?f (put_obj a ?ao s1)) = view_of E (put_obj a ?ao s1)" by (simp add: view_of_def)
    have w: "adb_wf E holds (put_obj a ?ao s1)" using adb_wf_put_obj[OF s1(1) o(2)] .
    then have "adb_wf E holds (?f (put_obj a ?ao s1))" by (simp add: adb_wf_def get_obj_def)
    with w f view_of_put_obj[of ?ao a s1] s1(2) o(1) show ?thesis
      by (simp add: undone_def Let_def) (simp add: put_obj_def)
  qed
  ultimately show ?thesis using True on_obj_undone[OF assms(1), of a "\<lambda>x. x" v] by simp
next
  case False
  with assms show ?thesis by (auto simp: undone_def)
qed

lemma undo_refines:
  assumes "adb_wf E holds s" "view_undo E e (view_of E s) = Some v"
  shows "\<exists>s'. undo E e s = Some s' \<and> undone E holds s v s'"
proof (cases e)
  case (AddLogChange h)
  then obtain ls where ls: "logs s h = Some ls" "ls \<noteq> []"
      "v = (view_of E s)\<lparr>v_logs := (logs s)(h := if length ls = 1 then None else Some (butlast ls)), v_logSize := logSize s - 1\<rparr>"
    using assms(2) by (auto simp: view_of_def split: option.splits if_splits)
  let ?s = "s\<lparr>logs := (logs s)(h := if length ls = 1 then None else Some (butlast ls)), logSize := logSize s - 1\<rparr>"
  have "undo E e s = Some ?s" using AddLogChange ls by (auto simp: GetLogs_def Let_def)
  moreover have "acct_of E ?s = acct_of E s" by (rule acct_of_cong) simp_all
  then have "view_of E ?s = v" using ls(3) by (simp add: view_of_def)
  moreover have "butlast ls \<noteq> []" if "length ls \<noteq> 1" using ls(2) that by (cases ls) auto
  then have "adb_wf E holds ?s" using assms(1) by (auto simp: adb_wf_def get_obj_def)
  ultimately show ?thesis by (simp add: undone_def)
next
  case (TransientStorageChange a k p)
  let ?s = "setTransientState a k p s"
  have p: "length p = 32" using assms(2) TransientStorageChange by (auto split: if_splits)
  have "acct_of E ?s = acct_of E s" by (rule acct_of_cong) (simp_all add: setTransientState_def)
  then have "view_of E ?s = v"
    using assms(2) transient_Get_Set[OF p] p TransientStorageChange
    by (auto simp: view_of_def setTransientState_def fun_eq_iff)
  moreover have "adb_wf E holds ?s" using assms(1) by (simp add: adb_wf_def setTransientState_def get_obj_def)
  ultimately show ?thesis using TransientStorageChange by (simp add: undone_def) (simp add: setTransientState_def)
next
  case (AccessListAddAccountChange a)
  let ?s = "s\<lparr>accessList := DeleteAddress (accessList s) a\<rparr>"
  have "acct_of E ?s = acct_of E s" by (rule acct_of_cong) simp_all
  then have "view_of E ?s = v" using assms(2) AccessListAddAccountChange by (auto simp: view_of_def)
  moreover have "al_inv (DeleteAddress (accessList s) a)" using assms(1) by (auto simp: adb_wf_def al_inv_def DeleteAddress_def)
  then have "adb_wf E holds ?s" using assms(1) by (simp add: adb_wf_def get_obj_def)
  ultimately show ?thesis using AccessListAddAccountChange by (simp add: undone_def)
next
  case (AccessListAddSlotChange a h)
  then obtain al where al: "DeleteSlot (accessList s) a h = Some al" "v = (view_of E s)\<lparr>v_access := al\<rparr>" "al_inv al"
    using assms(2) by (auto simp: view_of_def split: option.splits if_splits)
  let ?s = "s\<lparr>accessList := al\<rparr>"
  have "acct_of E ?s = acct_of E s" by (rule acct_of_cong) simp_all
  then have "view_of E ?s = v" using al by (auto simp: view_of_def)
  moreover have "adb_wf E holds ?s" using assms(1) al(3) by (simp add: adb_wf_def get_obj_def)
  ultimately show ?thesis using AccessListAddSlotChange al by (simp add: undone_def)
next
  case (RefundChange r)
  let ?s = "s\<lparr>refund := r\<rparr>"
  have "acct_of E ?s = acct_of E s" by (rule acct_of_cong) simp_all
  then have "view_of E ?s = v" using assms(2) RefundChange by (auto simp: view_of_def)
  moreover have "adb_wf E holds ?s" using assms(1) by (simp add: adb_wf_def get_obj_def)
  ultimately show ?thesis using RefundChange by (simp add: undone_def)
next
  case (CreateObjectChange a)
  with assms undo_create show ?thesis by blast
next
  case (NonceChange a n)
  with assms undo_nonce show ?thesis by blast
next
  case (StorageChange a k p)
  with assms undo_storage show ?thesis by blast
next
  case (NftSetDefinitionChange a p h)
  with assms undo_code show ?thesis by blast
next
  case (TouchChange a p d)
  with assms undo_touch show ?thesis by blast
qed (use assms(2) in simp_all)


lemma undo_all_refines:
  "adb_wf E holds s \<Longrightarrow> view_undos E es (view_of E s) = Some v \<Longrightarrow> \<exists>s'. undo_all E es s = Some s' \<and> undone E holds s v s'"
proof (induction es arbitrary: s)
  case Nil
  then show ?case by (simp add: undone_def)
next
  case (Cons e es)
  then obtain v1 where v1: "view_undo E e (view_of E s) = Some v1" "view_undos E es v1 = Some v"
    by (auto split: option.splits)
  with undo_refines[OF Cons.prems(1)] obtain s1 where s1: "undo E e s = Some s1" "undone E holds s v1 s1" by blast
  with Cons.IH[of s1] v1(2) obtain s' where "undo_all E es s1 = Some s'" "undone E holds s1 v s'"
    by (auto simp: undone_def)
  with s1 show ?case by (auto simp: undone_def)
qed

section \<open>Token operations\<close>

lemma AList_update_twice: "AList.update k v (AList.update k w xs) = AList.update k v xs"
  by (induction xs) auto

lemma put_obj_twice [simp]: "put_obj a x (put_obj a y s) = put_obj a x s"
  by (simp add: put_obj_def AList_update_twice)

lemma put_dirty_put_obj [simp]: "put_dirty a x (put_obj a y s) = put_dirty a x s"
  by (simp add: put_dirty_def MarkAccountObjectDirty_def put_obj_def AList_update_twice)

lemma journal_put_obj: "journal e (put_obj a y s) = put_obj a y (journal e s)"
  by (simp add: journal_def put_obj_def)

text \<open>Writing through a copy of the object that has read a slot.\<close>

lemma ao_SetData_read_journaled:
  assumes "adb_wf E holds s" "get_obj s a = Some ao" "\<not> deleted ao" "ao_GetData E k ao = (x, ao1)"
  shows "journaled E holds s (ao_SetData E k' v ao1 s)" "journaled E holds s (put_obj a ao1 s)"
    "get_obj (put_obj a ao1 s) a = Some ao1" "\<not> deleted ao1" "ao_address ao1 = a"
proof -
  have w: "obj_wf E holds a ao" using assms(1,2) by (simp add: adb_wf_def)
  note r = obj_view_GetData[OF w assms(4)]
  show ad: "\<not> deleted ao1" "ao_address ao1 = a" using r(1,3) assms(3) by (auto simp: same_obj_def obj_wf_def)
  show j: "journaled E holds s (put_obj a ao1 s)" using put_read_journaled(1)[OF assms(1-3) r(1,3,2)] .
  show g: "get_obj (put_obj a ao1 s) a = Some ao1" by (simp add: get_obj_def put_obj_def update_conv')
  obtain y ao2 where y: "ao_GetData E k' ao1 = (y, ao2)" by (cases "ao_GetData E k' ao1")
  have "ao_address ao2 = a" using obj_view_GetData(1)[OF r(1) y] by (simp add: obj_wf_def)
  then have "ao_SetData E k' v ao1 (put_obj a ao1 s) = ao_SetData E k' v ao1 s"
    using y by (simp add: ao_SetData_def ao_setData_def journal_put_obj)
  with ao_SetData_journaled[OF journaled_wf[OF j] g ad(1), of k' v] j
  show "journaled E holds s (ao_SetData E k' v ao1 s)" by (auto intro: journaled_trans)
qed

lemma ao_touch_journaled:
  assumes "adb_wf E holds s" "get_obj s a = Some ao" "\<not> deleted ao"
  shows "journaled E holds s (ao_touch ao s)"
proof -
  have w: "obj_wf E holds a ao" using assms(1,2) by (simp add: adb_wf_def)
  let ?ao = "ao\<lparr>touched := True\<rparr>"
  have o: "obj_view E ?ao = obj_view E ao" "obj_wf E holds a ?ao"
    using w by (simp_all add: obj_view_def fst_GetData_cong[of ?ao ao] obj_wf_def)
  have "view_undo E (TouchChange a p d) ((view_of E s)\<lparr>v_accts := (acct_of E s)(a \<mapsto> obj_view E ?ao)\<rparr>) = Some (view_of E s)" for p d
    using o(1) acct_of_obj[OF assms(2,3)] by (simp add: map_acct_def fun_upd_idem)
  with setter_journaled[OF assms(1) o(2)] assms(3) w show ?thesis by (simp add: ao_touch_def obj_wf_def)
qed

lemma ao_AddFT_journaled:
  assumes "adb_wf E holds s" "get_obj s a = Some ao" "\<not> deleted ao"
  shows "journaled E holds s (ao_AddFT E v n ao s)"
  using ao_SetData_read_journaled(1)[OF assms] ao_touch_journaled[OF assms] journaled_refl[OF assms(1)]
  by (auto simp: ao_AddFT_def ao_getFT_def ao_SetFT_def Let_def split: prod.splits)

lemma ao_SubFT_journaled:
  assumes "adb_wf E holds s" "get_obj s a = Some ao" "\<not> deleted ao"
  shows "journaled E holds s (snd (ao_SubFT E v n ao s))"
proof -
  obtain x ao1 where g: "ao_GetData E (GenerateFTKey n) ao = (x, ao1)" by (cases "ao_GetData E (GenerateFTKey n) ao")
  note r = ao_SetData_read_journaled[OF assms g]
  have "journaled E holds s (ao_SetData E k w ao1 (put_obj a ao1 s))" for k w
    using ao_SetData_journaled[OF journaled_wf[OF r(2)] r(3,4), of k w] r(2) by (auto intro: journaled_trans)
  with g r show ?thesis by (auto simp: ao_SubFT_def ao_getFT_def ao_SetFT_def Let_def split: option.split)
qed

lemma rpg_journaled: "journaled E holds s s1 \<Longrightarrow> journaled E holds s (s1\<lparr>rpgContractAddress := r\<rparr>)"
proof -
  assume j: "journaled E holds s s1"
  have "acct_of E (s1\<lparr>rpgContractAddress := r\<rparr>) = acct_of E s1" by (rule acct_of_cong) simp_all
  then have "view_of E (s1\<lparr>rpgContractAddress := r\<rparr>) = view_of E s1" by (simp add: view_of_def)
  moreover have "adb_wf E holds (s1\<lparr>rpgContractAddress := r\<rparr>) = adb_wf E holds s1"
    by (simp add: adb_wf_def get_obj_def)
  ultimately show ?thesis using j by (simp add: journaled_def)
qed

lemmas read_journaled = GetData_view[THEN conjunct2, THEN conjunct2] Exist_view[THEN conjunct2, THEN conjunct2]

lemma GetERC20Binding_journaled:
  assumes "adb_wf E holds s"
  shows "journaled E holds s (snd (GetERC20Binding E n s))"
proof (cases "n = BLANCE_NAME")
  case True
  then show ?thesis
    using rpg_journaled[OF read_journaled(1)[OF assms]] journaled_refl[OF assms]
    by (simp add: GetERC20Binding_def loadContractCache_def Let_def case_prod_unfold)
next
  case False
  let ?a = "GenerateERC20Binding E n"
  let ?s1 = "snd (Exist E ?a s)"
  let ?s2 = "snd (GetData E ?a contractKey ?s1)"
  let ?s3 = "snd (GetData E ?a positionKey ?s2)"
  let ?s4 = "snd (GetData E ?a decimalKey ?s3)"
  have 1: "journaled E holds s ?s1" using read_journaled(2)[OF assms] .
  have 2: "journaled E holds s ?s2" using read_journaled(1)[OF journaled_wf[OF 1]] 1 journaled_trans by blast
  have 3: "journaled E holds s ?s3" using read_journaled(1)[OF journaled_wf[OF 2]] 2 journaled_trans by blast
  have 4: "journaled E holds s ?s4" using read_journaled(1)[OF journaled_wf[OF 3]] 3 journaled_trans by blast
  from False 1 4 show ?thesis by (simp add: GetERC20Binding_def Let_def case_prod_unfold)
qed

text \<open>Once the fork \<^verbatim>\<open>Proposal002\<close> is active, token transfers are journalled.\<close>

lemma AddFT_journaled:
  assumes "adb_wf E holds s" "proposal002 E" "AddFT E a n v s = Some s'"
  shows "journaled E holds s s'"
proof -
  obtain found c p d s1 where b: "GetERC20Binding E n s = ((found, c, p, d), s1)" by (metis prod.exhaust)
  have j: "journaled E holds s s1" using GetERC20Binding_journaled[OF assms(1), of n] b by simp
  note w = journaled_wf[OF j]
  have "AddFT E a n v s = Some s' \<longrightarrow> journaled E holds s1 s'"
  proof (cases found)
    case True
    show ?thesis using b True assms(2) unfolding AddFT_def
      by (simp, intro with_obj_rule[OF w, where P = "\<lambda>r. r = Some s' \<longrightarrow> journaled E holds s1 s'"])
        (auto simp: write_balance_def Let_def split: prod.splits
          intro: journaled_trans[OF _ ao_SetData_read_journaled(1)[OF journaled_wf]])
  next
    case False
    show ?thesis using b False unfolding AddFT_def
      by (simp, intro with_obj_rule[OF w, where P = "\<lambda>r. r = Some s' \<longrightarrow> journaled E holds s1 s'"])
        (auto intro: journaled_trans[OF _ ao_AddFT_journaled[OF journaled_wf]])
  qed
  with assms(3) j journaled_trans show ?thesis by blast
qed

lemma SubFT_journaled:
  assumes "adb_wf E holds s" "proposal002 E" "SubFT E a n v s = Some (r, s')"
  shows "journaled E holds s s'"
proof -
  obtain found c p d s1 where b: "GetERC20Binding E n s = ((found, c, p, d), s1)" by (metis prod.exhaust)
  have j: "journaled E holds s s1" using GetERC20Binding_journaled[OF assms(1), of n] b by simp
  note w = journaled_wf[OF j]
  have "SubFT E a n v s = Some (r, s') \<longrightarrow> journaled E holds s1 s'"
  proof (cases found)
    case True
    show ?thesis using b True assms(2) unfolding SubFT_def
      by (simp, intro with_obj_rule[OF w, where P = "\<lambda>x. x = Some (r, s') \<longrightarrow> journaled E holds s1 s'"])
        (auto simp: write_balance_def Let_def split: prod.splits option.splits if_splits
          intro: journaled_trans[OF _ ao_SetData_read_journaled(1)[OF journaled_wf]]
            journaled_trans[OF _ ao_SetData_read_journaled(2)[OF journaled_wf]])
  next
    case False
    show ?thesis using b False unfolding SubFT_def
      by (simp, intro with_obj_rule[OF w, where P = "\<lambda>x. x = Some (r, s') \<longrightarrow> journaled E holds s1 s'"])
        (auto dest!: arg_cong[where f = snd] intro: journaled_trans[OF _ ao_SubFT_journaled[OF journaled_wf]])
  qed
  with assms(3) j journaled_trans show ?thesis by blast
qed

lemma Transfer_journaled:
  assumes "adb_wf E holds s" "proposal002 E" "Transfer E a b v s = Some s'"
  shows "journaled E holds s s'"
proof (cases "v \<le> 0")
  case True
  with assms show ?thesis by (simp add: Transfer_def journaled_refl)
next
  case False
  with assms(3) obtain r s1 where "SubFT E a BLANCE_NAME v s = Some (r, s1)" "AddFT E b BLANCE_NAME v s1 = Some s'"
    by (auto simp: Transfer_def SubBalance_def AddBalance_def split: option.splits bind_splits)
  with SubFT_journaled[OF assms(1,2)] AddFT_journaled[OF _ assms(2)] show ?thesis
    using journaled_trans journaled_wf by blast
qed

end

section \<open>Histories\<close>

text \<open>
  The journalled interface of the database as a datatype, and the run of a sequence of
  calls; \<open>None\<close> where a call panics. Reads are calls like the others.
\<close>

datatype adb_op =
    OpCreateAccount address
  | OpSetNonce address u64
  | OpIncreaseNonce address
  | OpSetData address bytes "bytes option"
  | OpSetState address hash hash
  | OpSetCode address bytes
  | OpAddRefund u64
  | OpSubRefund u64
  | OpAddAddress address
  | OpAddSlot address hash
  | OpSetTransient address hash hash
  | OpAddLog Log
  | OpAddFT address string int
  | OpSubFT address string int
  | OpTransfer address address int
  | OpGetNonce address
  | OpGetData address bytes
  | OpGetCode address
  | OpExist address
  | OpSnapshot
  | OpRevert int

fun adb_run :: "('t, 'x) AccountEnv_scheme \<Rightarrow> adb_op \<Rightarrow> 't AccountDB \<Rightarrow> 't AccountDB option" where
  "adb_run E (OpCreateAccount a) s = Some (CreateAccount E a s)"
| "adb_run E (OpSetNonce a n) s = Some (SetNonce E a n s)"
| "adb_run E (OpIncreaseNonce a) s = Some (snd (IncreaseNonce E a s))"
| "adb_run E (OpSetData a k v) s = Some (SetData E a k v s)"
| "adb_run E (OpSetState a k v) s = Some (SetState E a k v s)"
| "adb_run E (OpSetCode a c) s = Some (SetCode E a c s)"
| "adb_run E (OpAddRefund g) s = Some (AddRefund g s)"
| "adb_run E (OpSubRefund g) s = SubRefund g s"
| "adb_run E (OpAddAddress a) s = Some (AddAddressToAccessList a s)"
| "adb_run E (OpAddSlot a h) s = AddSlotToAccessList a h s"
| "adb_run E (OpSetTransient a k v) s = Some (SetTransientState a k v s)"
| "adb_run E (OpAddLog l) s = Some (AddLog l s)"
| "adb_run E (OpAddFT a n v) s = AddFT E a n v s"
| "adb_run E (OpSubFT a n v) s = map_option snd (SubFT E a n v s)"
| "adb_run E (OpTransfer a b v) s = Transfer E a b v s"
| "adb_run E (OpGetNonce a) s = Some (snd (GetNonce E a s))"
| "adb_run E (OpGetData a k) s = Some (snd (GetData E a k s))"
| "adb_run E (OpGetCode a) s = Some (snd (GetCode E a s))"
| "adb_run E (OpExist a) s = Some (snd (Exist E a s))"
| "adb_run E OpSnapshot s = Some (snd (Snapshot s))"
| "adb_run E (OpRevert i) s = RevertToSnapshot E i s"

fun adb_runs :: "('t, 'x) AccountEnv_scheme \<Rightarrow> adb_op list \<Rightarrow> 't AccountDB \<Rightarrow> 't AccountDB option" where
  "adb_runs E [] s = Some s"
| "adb_runs E (op # ops) s = (case adb_run E op s of None \<Rightarrow> None | Some s \<Rightarrow> adb_runs E ops s)"

text \<open>The calls under a snapshot \<open>id\<close>: values of the type \<^verbatim>\<open>Hash\<close> have 32 bytes, and only
  later snapshots are reverted to.\<close>

fun op_under :: "int \<Rightarrow> adb_op \<Rightarrow> bool" where
  "op_under i (OpSetTransient a k v) = (length v = HashLength)"
| "op_under i (OpRevert j) = (i < j)"
| "op_under i _ = True"

text \<open>What holds of the database while the snapshot \<open>id\<close> of the state \<open>s\<close> is live.\<close>

definition since :: "('t, 'x) AccountEnv_scheme \<Rightarrow> ('t \<Rightarrow> (bytes \<rightharpoonup> bytes) \<Rightarrow> bool) \<Rightarrow> 't AccountDB \<Rightarrow> 't AccountDB \<Rightarrow> bool" where
  "since E holds s s' \<longleftrightarrow> adb_wf E holds s'
    \<and> (\<exists>es. transitions s' = transitions s @ es \<and> view_undos E (rev es) (view_of E s') = Some (view_of E s))
    \<and> (\<exists>rs. validRevisions s' = validRevisions s @ (nextRevisionID s, length (transitions s)) # rs
          \<and> sorted_wrt (<) (map fst (validRevisions s'))
          \<and> sorted (length (transitions s) # map snd rs @ [length (transitions s')])
          \<and> (\<forall>i \<in> fst ` set (validRevisions s'). i < nextRevisionID s'))"

definition revisions_ok :: "'t AccountDB \<Rightarrow> bool" where
  "revisions_ok s \<longleftrightarrow> sorted_wrt (<) (map fst (validRevisions s)) \<and> (\<forall>i \<in> fst ` set (validRevisions s). i < nextRevisionID s)"

text \<open>Bisection finds the first index at which a monotone predicate holds.\<close>

definition first_from :: "nat \<Rightarrow> nat \<Rightarrow> (nat \<Rightarrow> bool) \<Rightarrow> bool" where
  "first_from r j f \<longleftrightarrow> r \<le> j \<and> (\<forall>a < r. \<not> f a) \<and> (\<forall>a < j. r \<le> a \<longrightarrow> f a)"

lemma sort_Search_spec:
  assumes "i \<le> j" "\<And>a b. a \<le> b \<Longrightarrow> b < j \<Longrightarrow> f a \<Longrightarrow> f b" "\<And>a. a < i \<Longrightarrow> \<not> f a"
  shows "first_from (sort_Search i j f) j f"
  using assms
proof (induction i j f rule: sort_Search.induct)
  case (1 i j f)
  let ?h = "(i + j) div 2"
  show ?case
  proof (cases "i < j")
    case False
    then have "sort_Search i j f = i" by (subst sort_Search.simps) simp
    with False 1 show ?thesis by (auto simp: first_from_def)
  next
    case True
    then have h: "i \<le> ?h" "?h < j" by auto
    show ?thesis
    proof (cases "f ?h")
      case f: True
      have eq: "sort_Search i j f = sort_Search i ?h f" using True f by (subst sort_Search.simps) (simp add: Let_def)
      have "first_from (sort_Search i ?h f) ?h f"
        using "1.IH"(2)[OF True refl] f h(1) "1.prems"(2,3) h(2) by force
      moreover have "f a" if "?h \<le> a" "a < j" for a using "1.prems"(2) f that by blast
      ultimately show ?thesis using h(2) unfolding eq first_from_def
        by (meson le_less_linear less_imp_le order.trans)
    next
      case nf: False
      have eq: "sort_Search i j f = sort_Search (?h + 1) j f" using True nf by (subst sort_Search.simps) (simp add: Let_def)
      have "\<not> f a" if "a < ?h + 1" for a
      proof
        assume "f a"
        with that h(2) "1.prems"(2)[of a ?h] nf show False by simp
      qed
      then have "first_from (sort_Search (?h + 1) j f) j f"
        using "1.IH"(1)[OF True refl nf] h(2) "1.prems"(2) by force
      then show ?thesis unfolding eq .
    qed
  qed
qed

lemma sort_Search_sorted:
  fixes vr :: "(int \<times> nat) list"
  assumes "sorted_wrt (<) (map fst vr)" "p < length vr"
  shows "sort_Search 0 (length vr) (\<lambda>i. fst (vr ! i) \<ge> fst (vr ! p)) = p"
proof -
  let ?f = "\<lambda>i. fst (vr ! i) \<ge> fst (vr ! p)"
  let ?r = "sort_Search 0 (length vr) ?f"
  have lt: "fst (vr ! a) < fst (vr ! b)" if "a < b" "b < length vr" for a b
    using sorted_wrt_nth_less[OF assms(1), of a b] that by simp
  have "?f b" if "a \<le> b" "b < length vr" "?f a" for a b
    using lt[of a b] that by (cases "a = b") auto
  then have r: "?r \<le> length vr" "\<forall>a < ?r. \<not> ?f a" "\<forall>a < length vr. ?r \<le> a \<longrightarrow> ?f a"
    using sort_Search_spec[of 0 "length vr" ?f] by (auto simp: first_from_def)
  have "\<not> p < ?r" using r(2) by auto
  moreover have "\<not> ?r < p"
  proof
    assume "?r < p"
    with r(3) assms(2) have "?f ?r" by simp
    with lt[OF \<open>?r < p\<close> assms(2)] show False by simp
  qed
  ultimately show ?thesis by simp
qed

lemma RevertToSnapshot_at:
  assumes "sorted_wrt (<) (map fst (validRevisions s))" "p < length (validRevisions s)" "validRevisions s ! p = (i, n)"
  shows "RevertToSnapshot E i s =
    map_option (\<lambda>s'. s'\<lparr>transitions := take n (transitions s'), validRevisions := take p (validRevisions s)\<rparr>)
      (undo_all E (rev (drop n (transitions s))) s)"
  using sort_Search_sorted[OF assms(1,2)] assms by (simp add: RevertToSnapshot_def Let_def)

lemma RevertToSnapshot_cases:
  assumes "sorted_wrt (<) (map fst (validRevisions s))" "RevertToSnapshot E i s = Some s'"
  obtains p n where "p < length (validRevisions s)" "validRevisions s ! p = (i, n)"
proof -
  let ?r = "sort_Search 0 (length (validRevisions s)) (\<lambda>k. fst (validRevisions s ! k) \<ge> i)"
  from assms(2) have r: "?r \<noteq> length (validRevisions s)" "fst (validRevisions s ! ?r) = i"
    by (auto simp: RevertToSnapshot_def Let_def split: if_splits)
  have "fst (validRevisions s ! a) < fst (validRevisions s ! b)" if "a < b" "b < length (validRevisions s)" for a b
    using sorted_wrt_nth_less[OF assms(1), of a b] that by simp
  then have "first_from ?r (length (validRevisions s)) (\<lambda>k. fst (validRevisions s ! k) \<ge> i)"
    by (intro sort_Search_spec) (auto, metis le_neq_implies_less less_imp_le order.trans)
  then have "?r \<le> length (validRevisions s)" by (simp add: first_from_def)
  with r that[of ?r "snd (validRevisions s ! ?r)"] show ?thesis by (metis le_neq_implies_less prod.collapse)
qed

context account_env
begin

lemma since_journaled: "since E holds s s1 \<Longrightarrow> journaled E holds s1 s2 \<Longrightarrow> since E holds s s2"
proof -
  assume a: "since E holds s s1" and j: "journaled E holds s1 s2"
  from j obtain es where es: "transitions s2 = transitions s1 @ es" "view_undos E (rev es) (view_of E s2) = Some (view_of E s1)"
    and r: "validRevisions s2 = validRevisions s1" "nextRevisionID s2 = nextRevisionID s1" "adb_wf E holds s2"
    by (auto simp: journaled_def)
  from a es(1) have "\<exists>rs. validRevisions s2 = validRevisions s @ (nextRevisionID s, length (transitions s)) # rs
      \<and> sorted_wrt (<) (map fst (validRevisions s2))
      \<and> sorted (length (transitions s) # map snd rs @ [length (transitions s2)])
      \<and> (\<forall>i \<in> fst ` set (validRevisions s2). i < nextRevisionID s2)"
    unfolding since_def r by (elim conjE exE) (rule exI, auto simp: sorted_append)
  moreover from a es have "\<exists>es. transitions s2 = transitions s @ es \<and> view_undos E (rev es) (view_of E s2) = Some (view_of E s)"
    by (auto simp: since_def view_undos_append)
  ultimately show ?thesis using r(3) by (simp add: since_def)
qed

lemma revisions_view [simp]:
  "view_of E (s\<lparr>transitions := t, validRevisions := v\<rparr>) = view_of E s"
  "view_of E (s\<lparr>nextRevisionID := n, validRevisions := v\<rparr>) = view_of E s"
  "adb_wf E holds (s\<lparr>transitions := t, validRevisions := v\<rparr>) = adb_wf E holds s"
  "adb_wf E holds (s\<lparr>nextRevisionID := n, validRevisions := v\<rparr>) = adb_wf E holds s"
proof -
  have "acct_of E (s\<lparr>transitions := t, validRevisions := v\<rparr>) = acct_of E s"
    "acct_of E (s\<lparr>nextRevisionID := n, validRevisions := v\<rparr>) = acct_of E s" by (rule acct_of_cong; simp)+
  then show "view_of E (s\<lparr>transitions := t, validRevisions := v\<rparr>) = view_of E s"
    "view_of E (s\<lparr>nextRevisionID := n, validRevisions := v\<rparr>) = view_of E s" by (simp_all add: view_of_def)
  show "adb_wf E holds (s\<lparr>transitions := t, validRevisions := v\<rparr>) = adb_wf E holds s"
    "adb_wf E holds (s\<lparr>nextRevisionID := n, validRevisions := v\<rparr>) = adb_wf E holds s"
    by (simp_all add: adb_wf_def get_obj_def)
qed

lemma since_start:
  assumes "adb_wf E holds s" "revisions_ok s"
  shows "since E holds s (snd (Snapshot s))"
  using assms by (auto simp: since_def Snapshot_def Let_def revisions_ok_def sorted_wrt_append)

lemma since_Snapshot: "since E holds s s1 \<Longrightarrow> since E holds s (snd (Snapshot s1))"
proof -
  assume a: "since E holds s s1"
  then obtain rs where rs: "validRevisions s1 = validRevisions s @ (nextRevisionID s, length (transitions s)) # rs"
    "sorted_wrt (<) (map fst (validRevisions s1))"
    "sorted (length (transitions s) # map snd rs @ [length (transitions s1)])"
    "\<forall>i \<in> fst ` set (validRevisions s1). i < nextRevisionID s1"
    unfolding since_def by fastforce
  let ?rs = "rs @ [(nextRevisionID s1, length (transitions s1))]" and ?s = "snd (Snapshot s1)"
  have "validRevisions ?s = validRevisions s @ (nextRevisionID s, length (transitions s)) # ?rs"
    using rs(1) by (simp add: Snapshot_def Let_def)
  moreover have "sorted_wrt (<) (map fst (validRevisions ?s))"
    using rs(2,4) by (auto simp: Snapshot_def Let_def sorted_wrt_append)
  moreover have "sorted (length (transitions s) # map snd ?rs @ [length (transitions ?s)])"
    using rs(3) by (auto simp: Snapshot_def Let_def sorted_append)
  moreover have "\<forall>i \<in> fst ` set (validRevisions ?s). i < nextRevisionID ?s"
    using rs(4) by (auto simp: Snapshot_def Let_def)
  moreover have "adb_wf E holds ?s" "transitions ?s = transitions s1" "view_of E ?s = view_of E s1"
    using a by (simp_all add: Snapshot_def Let_def since_def)
  moreover have "\<exists>es. transitions s1 = transitions s @ es \<and> view_undos E (rev es) (view_of E s1) = Some (view_of E s)"
    using a by (simp add: since_def)
  ultimately show ?thesis unfolding since_def by (intro conjI exI[of _ ?rs]) simp_all
qed

text \<open>Reverting to a live snapshot undoes the entries after it.\<close>

lemma revert_prefix:
  assumes "adb_wf E holds s1" "transitions s1 = ts @ es @ es'" "view_undos E (rev (es @ es')) (view_of E s1) = Some v"
    "sorted_wrt (<) (map fst (validRevisions s1))" "validRevisions s1 = vr @ (i, length (ts @ es)) # vr'"
  shows "\<exists>s2. RevertToSnapshot E i s1 = Some s2 \<and> adb_wf E holds s2 \<and> transitions s2 = ts @ es
    \<and> view_undos E (rev es) (view_of E s2) = Some v \<and> validRevisions s2 = vr \<and> nextRevisionID s2 = nextRevisionID s1"
proof -
  from assms(3) obtain v1 where v1: "view_undos E (rev es') (view_of E s1) = Some v1" "view_undos E (rev es) v1 = Some v"
    by (auto simp: view_undos_append split: option.splits)
  obtain s' where s': "undo_all E (rev es') s1 = Some s'" "undone E holds s1 v1 s'"
    using undo_all_refines[OF assms(1) v1(1)] by blast
  have "RevertToSnapshot E i s1 = map_option (\<lambda>s'. s'\<lparr>transitions := take (length (ts @ es)) (transitions s'),
      validRevisions := take (length vr) (validRevisions s1)\<rparr>) (undo_all E (rev (drop (length (ts @ es)) (transitions s1))) s1)"
    by (rule RevertToSnapshot_at[OF assms(4)]) (use assms(5) in simp_all)
  with s' v1(2) assms(2,5) show ?thesis by (auto simp: undone_def)
qed

lemma since_Revert:
  assumes "since E holds s s1" "nextRevisionID s < i" "RevertToSnapshot E i s1 = Some s2"
  shows "since E holds s s2"
proof -
  from assms(1) obtain rs es where rs: "validRevisions s1 = validRevisions s @ (nextRevisionID s, length (transitions s)) # rs"
    "sorted_wrt (<) (map fst (validRevisions s1))"
    "sorted (length (transitions s) # map snd rs @ [length (transitions s1)])"
    "\<forall>i \<in> fst ` set (validRevisions s1). i < nextRevisionID s1"
    and es: "transitions s1 = transitions s @ es" "view_undos E (rev es) (view_of E s1) = Some (view_of E s)"
    and w: "adb_wf E holds s1"
    unfolding since_def by blast
  from RevertToSnapshot_cases[OF rs(2) assms(3)] obtain p n where p: "(i, n) \<in> set (validRevisions s1)" by (metis nth_mem)
  have "\<forall>j \<in> fst ` set (validRevisions s). j < nextRevisionID s"
    using rs(1,2) by (auto simp: sorted_wrt_append)
  with p rs(1) assms(2) have "(i, n) \<in> set rs" by force
  then obtain r1 r2 where r: "rs = r1 @ (i, n) # r2" by (meson split_list)
  with rs(3) have n: "length (transitions s) \<le> n" "n \<le> length (transitions s1)" by (auto simp: sorted_append)
  define e1 where "e1 = take (n - length (transitions s)) es"
  define e2 where "e2 = drop (n - length (transitions s)) es"
  have e: "es = e1 @ e2" "n = length (transitions s @ e1)" using n es(1) by (auto simp: e1_def e2_def)
  let ?vr = "validRevisions s @ (nextRevisionID s, length (transitions s)) # r1"
  obtain s2' where s2: "RevertToSnapshot E i s1 = Some s2'" "adb_wf E holds s2'" "transitions s2' = transitions s @ e1"
      "view_undos E (rev e1) (view_of E s2') = Some (view_of E s)" "validRevisions s2' = ?vr"
      "nextRevisionID s2' = nextRevisionID s1"
    using revert_prefix[of s1 "transitions s" e1 e2 "view_of E s" ?vr i r2] w es e rs(1,2) r by auto
  have "sorted (length (transitions s) # map snd r1 @ [length (transitions s2')])"
    using rs(3) r s2(3) e(2) by (auto simp: sorted_append)
  moreover have "sorted_wrt (<) (map fst ?vr)" using rs(1,2) r by (simp add: sorted_wrt_append)
  moreover have "\<forall>i \<in> fst ` set ?vr. i < nextRevisionID s2'" using rs(1,4) r s2(6) by auto
  ultimately show ?thesis using s2 assms(3) unfolding since_def by (intro conjI exI[of _ e1] exI[of _ r1]) simp_all
qed

lemma adb_run_since:
  assumes "since E holds s s1" "op_under (nextRevisionID s) op" "adb_run E op s1 = Some s2"
    "proposal002 E" "\<And>b. length (keccak256 E b) = HashLength"
  shows "since E holds s s2"
proof -
  have w: "adb_wf E holds s1" using assms(1) by (simp add: since_def)
  have sl: "journaled E holds s1 s'" if "AddSlotToAccessList a h s1 = Some s'" for a h s'
    using AddSlot_journaled[OF w, of a h] that by simp
  have k: "\<And>b. length (keccak256 E b) = 32" using assms(5) by (simp add: HashLength_def)
  have j: "journaled E holds s1 s2 \<or> op = OpSnapshot \<or> (\<exists>i. op = OpRevert i)"
    using assms(2-4) set_journaled[OF w] k refund_journaled[OF w] AddAddress_journaled[OF w] sl
      transient_journaled[OF w] AddLog_journaled[OF w] AddFT_journaled[OF w] SubFT_journaled[OF w] Transfer_journaled[OF w]
      GetNonce_view[OF w] GetData_view[OF w] GetCode_view[OF w] Exist_view[OF w]
    by (cases op) (auto simp: AddRefund_def SubRefund_def HashLength_def split: if_splits)
  then show ?thesis
    using since_journaled[OF assms(1)] since_Snapshot[OF assms(1)] since_Revert[OF assms(1)] assms(2,3) by auto
qed

lemma adb_runs_since:
  assumes "since E holds s s1" "\<forall>op \<in> set ops. op_under (nextRevisionID s) op" "adb_runs E ops s1 = Some s2"
    "proposal002 E" "\<And>b. length (keccak256 E b) = HashLength"
  shows "since E holds s s2"
  using assms(1-3)
proof (induction ops arbitrary: s1)
  case (Cons op ops)
  then obtain s' where s': "adb_run E op s1 = Some s'" "adb_runs E ops s' = Some s2" by (auto split: option.splits)
  with Cons.prems have "since E holds s s'" by (intro adb_run_since[OF _ _ s'(1) assms(4,5)]) auto
  with Cons.IH s'(2) Cons.prems(2) show ?case by simp
qed simp

lemma revert_restores:
  assumes "adb_wf E holds s" "revisions_ok s" "\<forall>op \<in> set ops. op_under (fst (Snapshot s)) op"
    "adb_runs E ops (snd (Snapshot s)) = Some s1" "proposal002 E" "\<And>b. length (keccak256 E b) = HashLength"
  shows "\<exists>s2. RevertToSnapshot E (fst (Snapshot s)) s1 = Some s2 \<and> view_of E s2 = view_of E s
    \<and> transitions s2 = transitions s \<and> validRevisions s2 = validRevisions s \<and> adb_wf E holds s2 \<and> revisions_ok s2"
proof -
  have i: "fst (Snapshot s) = nextRevisionID s" by (simp add: Snapshot_def Let_def)
  have "since E holds s s1"
    using adb_runs_since[OF since_start[OF assms(1,2)] _ assms(4-6)] assms(3) i by simp
  then obtain es rs where es: "transitions s1 = transitions s @ [] @ es" "view_undos E (rev ([] @ es)) (view_of E s1) = Some (view_of E s)"
    and rs: "sorted_wrt (<) (map fst (validRevisions s1))"
      "validRevisions s1 = validRevisions s @ (nextRevisionID s, length (transitions s @ [])) # rs"
    and n: "\<forall>i \<in> fst ` set (validRevisions s1). i < nextRevisionID s1" and w: "adb_wf E holds s1"
    unfolding since_def by auto
  from revert_prefix[OF w es rs] assms(2) n rs(2) show ?thesis
    unfolding i by (auto simp: revisions_ok_def)
qed

end

section \<open>The storage database\<close>

text \<open>
  \<^verbatim>\<open>accountdatasource.go\<close>: \<open>storageDB\<close> over the node database; its two caches hold what
  the node database holds. A trie call that does not return is read as a panic; on a trie
  that represents a map there is none. The hash functions return arrays of 32 bytes.
\<close>

definition open_trie :: "NodeDatabase \<Rightarrow> hash \<Rightarrow> acc_error + Trie" where
  "open_trie db rt = (case NewTrie rt db of Inl e \<Rightarrow> Inl (TrieErr e) | Inr t \<Rightarrow> Inr t)"

definition storage_ContractCode :: "NodeDatabase \<Rightarrow> hash \<Rightarrow> hash \<Rightarrow> acc_error + bytes" where
  "storage_ContractCode db ah codeHash =
    (case Node db codeHash of
       Some (Some code) \<Rightarrow> if length code > 0 then Inr code else Inl CodeNotFound
     | _ \<Rightarrow> Inl CodeNotFound)"

definition storage_ContractCodeSize :: "NodeDatabase \<Rightarrow> hash \<Rightarrow> hash \<Rightarrow> nat \<times> acc_error option" where
  "storage_ContractCodeSize db ah codeHash =
    (case storage_ContractCode db ah codeHash of Inl e \<Rightarrow> (0, Some e) | Inr code \<Rightarrow> (length code, None))"

definition lift_trie :: "(trie_error + 'a) option \<Rightarrow> acc_error + 'a" where
  "lift_trie r = (case r of None \<Rightarrow> Inl (TrieErr TriePanic) | Some (Inl e) \<Rightarrow> Inl (TrieErr e) | Some (Inr x) \<Rightarrow> Inr x)"

definition storageDB ::
  "NodeDatabase \<Rightarrow> (Trie \<Rightarrow> hash \<times> Trie) \<Rightarrow> (bytes \<Rightarrow> Account option) \<Rightarrow> (Account \<Rightarrow> bytes option) \<Rightarrow>
   (bytes \<Rightarrow> bytes) \<Rightarrow> (bytes \<Rightarrow> bytes) \<Rightarrow> (bytes \<Rightarrow> bytes) \<Rightarrow> bool \<Rightarrow> bool \<Rightarrow> Trie AccountEnv" where
  "storageDB db hsh dec enc sum3 kec sha p2 sub =
    \<lparr>OpenTrie = open_trie db, OpenStorageTrie = (\<lambda>_. open_trie db),
     ContractCode = storage_ContractCode db, ContractCodeSize = storage_ContractCodeSize db,
     op_TryGet = (\<lambda>t k. lift_trie (TryGet t k)), op_TryUpdate = (\<lambda>t k v. lift_trie (TryUpdate t k v)),
     op_TryDelete = (\<lambda>t k. lift_trie (TryDelete t k)), op_Hash = hsh,
     decodeAccount = dec, encodeAccount = enc,
     sum256 = (\<lambda>b. BytesToHash (sum3 b)), keccak256 = (\<lambda>b. BytesToHash (kec b)), sha256 = sha,
     proposal002 = p2, isSub = sub\<rparr>"

interpretation storage: account_env "storageDB db hsh dec enc sum3 kec sha p2 sub" trie_rep
proof
  show "\<exists>t'. op_TryGet (storageDB db hsh dec enc sum3 kec sha p2 sub) t k = Inr (m k, t') \<and> trie_rep t' m"
    if "trie_rep t m" for t m k
    using TryGet_rep[OF that, of k] by (auto simp: storageDB_def lift_trie_def)
  show "\<exists>t m. OpenStorageTrie (storageDB db hsh dec enc sum3 kec sha p2 sub) a zero_hash = Inr t \<and> trie_rep t m" for a
    using trie_rep_empty[of db zero_hash 0 0] by (intro exI conjI) (auto simp: storageDB_def open_trie_def NewTrie_def)
  show "length (sum256 (storageDB db hsh dec enc sum3 kec sha p2 sub) b) = 32" for b
    by (simp add: storageDB_def)
qed

section \<open>Properties\<close>


text \<open>A database opened at the empty root is well formed.\<close>

lemma NewAccountDB_wf:
  "\<exists>s. NewAccountDB (storageDB db hsh dec enc sum3 kec sha p2 sub) zero_hash rpg = Inr s
    \<and> adb_wf (storageDB db hsh dec enc sum3 kec sha p2 sub) trie_rep s \<and> revisions_ok s"
  using trie_rep_empty
  by (fastforce simp: NewAccountDB_def storageDB_def open_trie_def NewTrie_def adb_wf_def accounts_wf_def get_obj_def
      revisions_ok_def al_inv_new)


end
