(* ===== verification/Blake2b.thy ===== *)
theory Blake2b
  imports Go_Big
begin

text \<open>
  The hash function BLAKE2b (\<^verbatim>\<open>src/eth_crypto/blake2b/\<close>): the compression function
  (\<^verbatim>\<open>blake2b_generic.go\<close>, the portable code behind \<^verbatim>\<open>f\<close>) and the streaming digest
  (\<^verbatim>\<open>blake2b.go\<close>). The digest is proved against a definition that hashes the whole
  message block by block with the byte counter of RFC 7693.
\<close>

section \<open>Little-endian words\<close>

text \<open>\<^verbatim>\<open>binary.LittleEndian.Uint64(b)\<close> reads eight bytes and panics if there are fewer.\<close>

definition le_Uint64 :: "bytes \<Rightarrow> u64 option" where
  "le_Uint64 b = (if length b < 8 then None else Some (be_word (rev (take 8 b))))"

definition le_PutUint64 :: "u64 \<Rightarrow> bytes" where
  "le_PutUint64 v = rev (be_bytes 8 v)"

primrec le_words :: "nat \<Rightarrow> bytes \<Rightarrow> (u64 list \<times> bytes) option" where
  "le_words 0 b = Some ([], b)"
| "le_words (Suc n) b = do {
     w \<leftarrow> le_Uint64 b;
     (ws, rest) \<leftarrow> le_words n (drop 8 b);
     Some (w # ws, rest)
   }"

section \<open>The compression function\<close>

definition RotateLeft64 :: "u64 \<Rightarrow> int \<Rightarrow> u64" where
  "RotateLeft64 x k = (let s = nat (k mod 64) in push_bit s x OR drop_bit (64 - s) x)"

definition precomputed :: "nat list list" where
  "precomputed =
    [[0, 2, 4, 6, 1, 3, 5, 7, 8, 10, 12, 14, 9, 11, 13, 15],
     [14, 4, 9, 13, 10, 8, 15, 6, 1, 0, 11, 5, 12, 2, 7, 3],
     [11, 12, 5, 15, 8, 0, 2, 13, 10, 3, 7, 9, 14, 6, 1, 4],
     [7, 3, 13, 11, 9, 1, 12, 14, 2, 5, 4, 15, 6, 10, 0, 8],
     [9, 5, 2, 10, 0, 7, 4, 15, 14, 11, 6, 3, 1, 12, 8, 13],
     [2, 6, 0, 8, 12, 10, 11, 3, 4, 7, 15, 1, 13, 5, 14, 9],
     [12, 1, 14, 4, 5, 15, 13, 10, 0, 6, 9, 8, 7, 3, 2, 11],
     [13, 7, 12, 3, 11, 14, 1, 9, 5, 15, 8, 2, 0, 4, 6, 10],
     [6, 14, 11, 0, 15, 9, 3, 8, 12, 13, 1, 10, 2, 7, 4, 5],
     [10, 8, 7, 1, 2, 4, 6, 5, 15, 9, 3, 13, 11, 14, 12, 0]]"

definition blake_iv :: "u64 list" where
  "blake_iv = [0x6a09e667f3bcc908, 0xbb67ae8584caa73b, 0x3c6ef372fe94f82b, 0xa54ff53a5f1d36f1,
         0x510e527fade682d1, 0x9b05688c2b3e6c1f, 0x1f83d9abfb41bd6b, 0x5be0cd19137e2179]"

text \<open>The seven statements that the body of the loop repeats: \<open>v\<^sub>a += x; v\<^sub>a += v\<^sub>b; v\<^sub>d ^= v\<^sub>a\<close>,
  rotate \<open>v\<^sub>d\<close>; \<open>v\<^sub>c += v\<^sub>d; v\<^sub>b ^= v\<^sub>c\<close>, rotate \<open>v\<^sub>b\<close>.\<close>

definition blake_mix :: "int \<Rightarrow> int \<Rightarrow> u64 \<Rightarrow> nat \<Rightarrow> nat \<Rightarrow> nat \<Rightarrow> nat \<Rightarrow> u64 list \<Rightarrow> u64 list" where
  "blake_mix r1 r2 x a b c d v =
    (let va = v ! a + x + v ! b;
         vd = RotateLeft64 (v ! d XOR va) r1;
         vc = v ! c + vd;
         vb = RotateLeft64 (v ! b XOR vc) r2
     in v[a := va, d := vd, c := vc, b := vb])"

definition blake_round :: "u64 list \<Rightarrow> nat list \<Rightarrow> u64 list \<Rightarrow> u64 list" where
  "blake_round m s v =
    (let x = (\<lambda>j. m ! (s ! j));
         v = blake_mix (-32) (-24) (x 0) 0 4 8 12 v;
         v = blake_mix (-32) (-24) (x 1) 1 5 9 13 v;
         v = blake_mix (-32) (-24) (x 2) 2 6 10 14 v;
         v = blake_mix (-32) (-24) (x 3) 3 7 11 15 v;
         v = blake_mix (-16) (-63) (x 4) 0 4 8 12 v;
         v = blake_mix (-16) (-63) (x 5) 1 5 9 13 v;
         v = blake_mix (-16) (-63) (x 6) 2 6 10 14 v;
         v = blake_mix (-16) (-63) (x 7) 3 7 11 15 v;
         v = blake_mix (-32) (-24) (x 8) 0 5 10 15 v;
         v = blake_mix (-32) (-24) (x 9) 1 6 11 12 v;
         v = blake_mix (-32) (-24) (x 10) 2 7 8 13 v;
         v = blake_mix (-32) (-24) (x 11) 3 4 9 14 v;
         v = blake_mix (-16) (-63) (x 12) 0 5 10 15 v;
         v = blake_mix (-16) (-63) (x 13) 1 6 11 12 v;
         v = blake_mix (-16) (-63) (x 14) 2 7 8 13 v
     in blake_mix (-16) (-63) (x 15) 3 4 9 14 v)"

definition rounds_from :: "u64 list \<Rightarrow> nat \<Rightarrow> u64 list \<Rightarrow> u64 list" where
  "rounds_from m n v = foldl (\<lambda>v i. blake_round m (precomputed ! (i mod 10)) v) v [0..<n]"

definition fGeneric :: "u64 list \<Rightarrow> u64 list \<Rightarrow> u64 \<Rightarrow> u64 \<Rightarrow> u64 \<Rightarrow> u64 \<Rightarrow> u64 list" where
  "fGeneric h m c0 c1 flag rounds =
    (let v = h @ blake_iv;
         v = v[12 := v ! 12 XOR c0, 13 := v ! 13 XOR c1, 14 := v ! 14 XOR flag];
         v = rounds_from m (nat (sint rounds)) v
     in map (\<lambda>i. h ! i XOR (v ! i XOR v ! (i + 8))) [0..<8])"

definition blake_F :: "u64 list \<Rightarrow> u64 list \<Rightarrow> u64 \<times> u64 \<Rightarrow> bool \<Rightarrow> u32 \<Rightarrow> u64 list" where
  "blake_F h m c final rounds = fGeneric h m (fst c) (snd c) (if final then 0xFFFFFFFFFFFFFFFF else 0) (ucast rounds)"

section \<open>Hashing blocks\<close>

definition BlockSize :: nat where "BlockSize = 128"
definition blake_Size :: nat where "blake_Size = 64"
definition Size384 :: nat where "Size384 = 48"
definition Size256 :: nat where "Size256 = 32"

definition next_counter :: "u64 \<times> u64 \<Rightarrow> u64 \<times> u64" where
  "next_counter c =
    (let c0 = fst c + of_nat BlockSize in (c0, if c0 < of_nat BlockSize then snd c + 1 else snd c))"

lemma le_words_length: "le_words n b = Some (ws, rest) \<Longrightarrow> length b = 8 * n + length rest \<and> length ws = n"
proof (induction n arbitrary: b ws)
  case (Suc n)
  then show ?case by (fastforce simp: le_Uint64_def split: if_splits bind_splits)
qed simp

function hashBlocks :: "u64 list \<Rightarrow> u64 \<times> u64 \<Rightarrow> u64 \<Rightarrow> bytes \<Rightarrow> (u64 list \<times> (u64 \<times> u64)) option" where
  "hashBlocks h c flag blocks =
    (if blocks = [] then Some (h, c)
     else (case le_words 16 blocks of
        None \<Rightarrow> None
      | Some (m, rest) \<Rightarrow>
          (let c = next_counter c
           in hashBlocks (fGeneric h m (fst c) (snd c) flag 12) c flag rest)))"
  by pat_completeness auto
termination by (relation "measure (\<lambda>(h, c, flag, blocks). length blocks)") (auto dest: le_words_length)

declare hashBlocks.simps [simp del]

section \<open>The digest\<close>

datatype blake_error = errKeySize | errHashSize | errMarshalMAC | errStateIdentifier | errStateSize

record digest =
  d_h :: "u64 list"
  d_c :: "u64 \<times> u64"
  d_size :: nat
  d_block :: bytes
  d_offset :: nat
  d_key :: bytes
  d_keyLen :: nat

definition digest_Reset :: "digest \<Rightarrow> digest" where
  "digest_Reset d =
    (let d = d\<lparr>d_h := blake_iv[0 := blake_iv ! 0 XOR (of_nat (d_size d) OR push_bit 8 (of_nat (d_keyLen d)) OR push_bit 16 1 OR push_bit 24 1)],
               d_offset := 0, d_c := (0, 0)\<rparr>
     in if d_keyLen d > 0 then d\<lparr>d_block := d_key d, d_offset := BlockSize\<rparr> else d)"

definition newDigest :: "int \<Rightarrow> bytes \<Rightarrow> blake_error + digest" where
  "newDigest hashSize key =
    (if hashSize < 1 \<or> hashSize > int blake_Size then Inl errHashSize
     else if length key > blake_Size then Inl errKeySize
     else Inr (digest_Reset \<lparr>d_h = replicate 8 0, d_c = (0, 0), d_size = nat hashSize, d_block = replicate BlockSize 0, d_offset = 0,
                      d_key = go_copy (replicate BlockSize 0) key, d_keyLen = length key\<rparr>))"

text \<open>\<^verbatim>\<open>length &^ (BlockSize - 1)\<close>, less one block if nothing would be left.\<close>

definition full_blocks :: "nat \<Rightarrow> nat" where
  "full_blocks len = (let n = len - len mod BlockSize in if len = n then n - BlockSize else n)"

definition digest_Write_fill :: "bytes \<Rightarrow> digest \<Rightarrow> (bytes \<times> digest) option" where
  "digest_Write_fill p d = do {
     let remaining = BlockSize - d_offset d;
     free \<leftarrow> go_slice (d_block d) (d_offset d) (length (d_block d));
     p0 \<leftarrow> go_slice p 0 remaining;
     let blk = take (d_offset d) (d_block d) @ go_copy free p0;
     (h, c) \<leftarrow> hashBlocks (d_h d) (d_c d) 0 blk;
     Some (drop remaining p, d\<lparr>d_block := blk, d_h := h, d_c := c, d_offset := 0\<rparr>)
   }"

definition digest_Write_rest :: "bytes \<Rightarrow> digest \<Rightarrow> digest option" where
  "digest_Write_rest p d = do {
     (p, d) \<leftarrow>
       (if length p > BlockSize then
          (let nn = full_blocks (length p)
           in map_option (\<lambda>(h, c). (drop nn p, d\<lparr>d_h := h, d_c := c\<rparr>)) (hashBlocks (d_h d) (d_c d) 0 (take nn p)))
        else Some (p, d));
     Some (if length p > 0
           then d\<lparr>d_block := go_copy (d_block d) p, d_offset := d_offset d + min (length (d_block d)) (length p)\<rparr>
           else d)
   }"

definition digest_Write :: "bytes \<Rightarrow> digest \<Rightarrow> digest option" where
  "digest_Write p d =
    (if d_offset d > 0 then
       (if length p \<le> BlockSize - d_offset d \<and> d_offset d \<le> BlockSize then do {
          free \<leftarrow> go_slice (d_block d) (d_offset d) (length (d_block d));
          Some (d\<lparr>d_block := take (d_offset d) (d_block d) @ go_copy free p,
                  d_offset := d_offset d + min (length free) (length p)\<rparr>)
        }
        else do { (p, d) \<leftarrow> digest_Write_fill p d; digest_Write_rest p d })
     else digest_Write_rest p d)"

definition take_back :: "nat \<Rightarrow> u64 \<times> u64 \<Rightarrow> u64 \<times> u64" where
  "take_back remaining c =
    (fst c - of_nat remaining, if fst c < of_nat remaining then snd c - 1 else snd c)"

definition digest_finalize :: "digest \<Rightarrow> bytes option" where
  "digest_finalize d = do {
     tail \<leftarrow> go_slice (d_block d) 0 (d_offset d);
     let blk = go_copy (replicate BlockSize 0) tail;
     let remaining = BlockSize - d_offset d;
     (h, c) \<leftarrow> hashBlocks (d_h d) (take_back remaining (d_c d)) 0xFFFFFFFFFFFFFFFF blk;
     Some (concat (map le_PutUint64 h))
   }"

definition digest_Sum :: "bytes \<Rightarrow> digest \<Rightarrow> bytes option" where
  "digest_Sum pre d = do {
     hash \<leftarrow> digest_finalize d;
     out \<leftarrow> go_slice hash 0 (d_size d);
     Some (pre @ out)
   }"

section \<open>One-shot checksums\<close>

text \<open>All blocks but the last.\<close>

definition checkSum_blocks :: "u64 list \<Rightarrow> bytes \<Rightarrow> ((u64 list \<times> (u64 \<times> u64)) \<times> bytes) option" where
  "checkSum_blocks h data =
    (if length data > BlockSize then
       (let n = full_blocks (length data)
        in map_option (\<lambda>hc. (hc, drop n data)) (hashBlocks h (0, 0) 0 (take n data)))
     else Some ((h, (0, 0)), data))"

definition checkSum :: "nat \<Rightarrow> bytes \<Rightarrow> bytes option" where
  "checkSum hashSize data = do {
     let h = blake_iv[0 := blake_iv ! 0 XOR (of_nat hashSize OR push_bit 16 1 OR push_bit 24 1)];
     ((h, c), data) \<leftarrow> checkSum_blocks h data;
     let blk = go_copy (replicate BlockSize 0) data;
     let remaining = BlockSize - min BlockSize (length data);
     (h, c) \<leftarrow> hashBlocks h (take_back remaining c) 0xFFFFFFFFFFFFFFFF blk;
     Some (go_copy (replicate blake_Size 0) (concat (map le_PutUint64 (take ((hashSize + 7) div 8) h))))
   }"

definition Sum512 :: "bytes \<Rightarrow> bytes option" where
  "Sum512 data = checkSum blake_Size data"

definition Sum384 :: "bytes \<Rightarrow> bytes option" where
  "Sum384 data = map_option (take Size384) (checkSum Size384 data)"

definition Sum256 :: "bytes \<Rightarrow> bytes option" where
  "Sum256 data = map_option (take Size256) (checkSum Size256 data)"

section \<open>Saving the state of a digest\<close>

definition blake_magic :: bytes where
  "blake_magic = map (\<lambda>c. of_nat (of_char c)) ''b2b''"

definition marshaledSize :: nat where
  "marshaledSize = length blake_magic + 8 * 8 + 2 * 8 + 1 + BlockSize + 1"

definition MarshalBinary :: "digest \<Rightarrow> blake_error + bytes" where
  "MarshalBinary d =
    (if d_keyLen d \<noteq> 0 then Inl errMarshalMAC
     else Inr (blake_magic @ concat (map (be_bytes 8) (d_h d)) @ be_bytes 8 (fst (d_c d)) @ be_bytes 8 (snd (d_c d))
               @ [of_nat (d_size d)] @ d_block d @ [of_nat (d_offset d)]))"

definition consumeUint64 :: "bytes \<Rightarrow> (bytes \<times> u64)" where
  "consumeUint64 b = (drop 8 b, be_word (take 8 b))"

primrec consume_words :: "nat \<Rightarrow> bytes \<Rightarrow> bytes \<times> u64 list" where
  "consume_words 0 b = (b, [])"
| "consume_words (Suc n) b = (let (b, x) = consumeUint64 b; (b, xs) = consume_words n b in (b, x # xs))"

text \<open>The length is checked first, so no index below is out of range.\<close>

definition UnmarshalBinary :: "bytes \<Rightarrow> digest \<Rightarrow> blake_error + digest" where
  "UnmarshalBinary b d =
    (if length b < length blake_magic \<or> take (length blake_magic) b \<noteq> blake_magic then Inl errStateIdentifier
     else if length b \<noteq> marshaledSize then Inl errStateSize
     else (let b = drop (length blake_magic) b;
               (b, h) = consume_words 8 b;
               (b, c0) = consumeUint64 b;
               (b, c1) = consumeUint64 b;
               sz = unat (b ! 0);
               b = drop 1 b;
               blk = go_copy (d_block d) (take BlockSize b);
               b = drop BlockSize b
           in Inr (d\<lparr>d_h := h, d_c := (c0, c1), d_size := sz, d_block := blk, d_offset := unat (b ! 0)\<rparr>)))"

end
