(* ===== verification/Blake2b_Correct.thy ===== *)
theory Blake2b_Correct
  imports Blake2b
begin

text \<open>
  The digest of \<open>Blake2b\<close> against a definition of the hash over the whole message: the byte
  counter of the code as an integer, the hash of RFC 7693, what a digest stands for, and the
  operations that keep it.
\<close>

section \<open>The byte counter\<close>

definition counter :: "int \<Rightarrow> u64 \<times> u64" where
  "counter t = (of_int t, of_int (t div 2 ^ 64))"

lemma counter_0 [simp]: "counter 0 = (0, 0)"
  by (simp add: counter_def)

lemma div_mod_below_two:
  fixes x M :: int
  assumes "0 \<le> x" "x < 2 * M"
  shows "x div M = (if x < M then 0 else 1)" "x mod M = (if x < M then x else x - M)"
proof -
  show "x div M = (if x < M then 0 else 1)"
  proof (cases "x < M")
    case False
    then show ?thesis using assms int_div_pos_eq[of x M 1 "x - M"] by simp
  qed (use assms in simp)
  show "x mod M = (if x < M then x else x - M)"
  proof (cases "x < M")
    case False
    then show ?thesis using assms int_mod_pos_eq[of x M 1 "x - M"] by simp
  qed (use assms in simp)
qed

lemma div_mod_step:
  fixes t k M :: int
  assumes "0 \<le> k" "k < M"
  shows "(t + k) mod M < k \<longleftrightarrow> (t + k) div M = t div M + 1"
    and "(t + k) div M = t div M \<or> (t + k) div M = t div M + 1"
proof -
  define x where "x = t mod M + k"
  have r: "k \<le> x" "x < M + k" using assms by (simp_all add: x_def)
  have t: "t + k = t div M * M + x" by (simp add: x_def algebra_simps)
  have "(t + k) div M = t div M + x div M" using assms by (subst t, subst div_mult_self3) simp_all
  moreover have "(t + k) mod M = x mod M" by (simp add: x_def mod_add_left_eq)
  ultimately show "(t + k) mod M < k \<longleftrightarrow> (t + k) div M = t div M + 1"
    "(t + k) div M = t div M \<or> (t + k) div M = t div M + 1"
    using r assms div_mod_below_two[of x M] by auto
qed

lemma uint_of_int64: "uint (of_int t :: u64) = t mod 2 ^ 64"
  by (simp add: uint_word_of_int_eq take_bit_eq_mod)

lemma uint_small64: "k \<le> 128 \<Longrightarrow> uint (of_nat k :: u64) = int k"
  by (simp add: uint_nat unat_of_nat_small)

lemma carry: "of_int (t + int k) < (of_nat k :: u64) \<longleftrightarrow> (t + int k) div 2 ^ 64 = t div 2 ^ 64 + 1" if "k \<le> 128"
  using div_mod_step(1)[of "int k" "2 ^ 64" t] that
  by (simp only: word_less_def uint_of_int64 uint_small64) simp

lemma next_counter [simp]: "next_counter (counter t) = counter (t + 128)"
  using carry[of 128 t] div_mod_step(2)[of 128 "2 ^ 64" t]
  by (auto simp: next_counter_def counter_def BlockSize_def)

lemma take_back [simp]: "k \<le> 128 \<Longrightarrow> take_back k (counter t) = counter (t - int k)"
proof -
  assume k: "k \<le> 128"
  have "(of_int t :: u64) < of_nat k \<longleftrightarrow> t div 2 ^ 64 = (t - int k) div 2 ^ 64 + 1"
    using carry[OF k, of "t - int k"] by simp
  moreover have "t div 2 ^ 64 = (t - int k) div 2 ^ 64 \<or> t div 2 ^ 64 = (t - int k) div 2 ^ 64 + 1"
    using div_mod_step(2)[of "int k" "2 ^ 64" "t - int k"] k by simp
  ultimately show ?thesis by (auto simp: take_back_def counter_def)
qed

section \<open>The reference definition\<close>

text \<open>RFC 7693: the message, cut into blocks of 128 bytes, goes through the compression
  function with the number of bytes so far; the last block is padded and flagged.\<close>

definition block_words :: "bytes \<Rightarrow> u64 list" where
  "block_words b = map (\<lambda>i. be_word (rev (take 8 (drop (8 * i) b)))) [0..<16]"

definition pad_block :: "bytes \<Rightarrow> bytes" where
  "pad_block b = b @ replicate (128 - length b) 0"

definition compress :: "u64 list \<Rightarrow> bytes \<Rightarrow> int \<Rightarrow> u64 \<Rightarrow> u64 list" where
  "compress h b t flag = fGeneric h (block_words b) (fst (counter t)) (snd (counter t)) flag 12"

function rfc_hash :: "u64 list \<Rightarrow> int \<Rightarrow> bytes \<Rightarrow> u64 list" where
  "rfc_hash h t D =
    (if length D \<le> 128 then compress h (pad_block D) (t + int (length D)) 0xFFFFFFFFFFFFFFFF
     else rfc_hash (compress h (take 128 D) (t + 128) 0) (t + 128) (drop 128 D))"
  by pat_completeness auto
termination by (relation "measure (\<lambda>(h, t, D). length D)") auto

declare rfc_hash.simps [simp del]

definition blake2b :: "nat \<Rightarrow> bytes \<Rightarrow> bytes \<Rightarrow> bytes" where
  "blake2b n key msg =
    take n (concat (map le_PutUint64
      (rfc_hash (blake_iv[0 := blake_iv ! 0 XOR (of_nat n OR push_bit 8 (of_nat (length key)) OR push_bit 16 1 OR push_bit 24 1)]) 0
        ((if key = [] then [] else pad_block key) @ msg))))"

lemma le_words_exact:
  "8 * n \<le> length b \<Longrightarrow> le_words n b = Some (map (\<lambda>i. be_word (rev (take 8 (drop (8 * i) b)))) [0..<n], drop (8 * n) b)"
proof (induction n arbitrary: b)
  case (Suc n)
  have "map (\<lambda>i. be_word (rev (take 8 (drop (8 * i) b)))) [0..<Suc n] =
    be_word (rev (take 8 b)) # map (\<lambda>i. be_word (rev (take 8 (drop (8 * i) (drop 8 b))))) [0..<n]"
    by (simp del: upt_Suc add: upt_conv_Cons map_Suc_upt[symmetric] comp_def algebra_simps)
  with Suc show ?case by (simp del: upt_Suc add: le_Uint64_def algebra_simps)
qed simp

lemma hashBlocks_Nil [simp]: "hashBlocks h c flag [] = Some (h, c)"
  by (subst hashBlocks.simps) simp

lemma hashBlocks_block:
  "128 \<le> length b \<Longrightarrow>
   hashBlocks h (counter t) flag b = hashBlocks (compress h b (t + 128) flag) (counter (t + 128)) flag (drop 128 b)"
  by (subst hashBlocks.simps)
    (use le_words_exact[of 16 b] in \<open>auto simp: compress_def block_words_def Let_def\<close>)


lemma length_fGeneric [simp]: "length (fGeneric h m c0 c1 flag r) = 8"
  by (simp add: fGeneric_def Let_def)

lemma length_compress [simp]: "length (compress h b t flag) = 8"
  by (simp add: compress_def)

lemma block_words_take [simp]: "block_words (take 128 b) = block_words b"
  by (auto simp: block_words_def drop_take min_def)

lemma compress_take [simp]: "compress h (take 128 b) t flag = compress h b t flag"
  by (simp add: compress_def)

lemma rfc_hash_long:
  "128 < length D \<Longrightarrow> rfc_hash h t D = rfc_hash (compress h D (t + 128) 0) (t + 128) (drop 128 D)"
  by (subst rfc_hash.simps) simp

lemma length_rfc_hash [simp]: "length (rfc_hash h t D) = 8"
  by (induction h t D rule: rfc_hash.induct) (subst rfc_hash.simps, simp)

lemma blocks_cases:
  assumes "128 dvd length b" "b \<noteq> []"
  shows "128 \<le> length b" "128 dvd length (drop 128 b)"
  using assms by (auto simp: dvd_imp_le dvd_diff_nat)

text \<open>Hashing whole blocks of a longer message advances the reference by these blocks.\<close>

lemma hashBlocks_exact:
  assumes "128 dvd length b"
  shows "\<exists>h'. hashBlocks h (counter t) 0 b = Some (h', counter (t + int (length b)))
    \<and> (\<forall>tail. tail \<noteq> [] \<longrightarrow> rfc_hash h t (b @ tail) = rfc_hash h' (t + int (length b)) tail)"
  using assms
proof (induction "length b" arbitrary: b h t rule: less_induct)
  case less
  show ?case
  proof (cases "b = []")
    case False
    note b = blocks_cases[OF less.prems False]
    from b(1) False have "length (drop 128 b) < length b" by simp
    from less.hyps[OF this b(2), of "compress h b (t + 128) 0" "t + 128"] obtain h' where
      h: "hashBlocks (compress h b (t + 128) 0) (counter (t + 128)) 0 (drop 128 b) = Some (h', counter (t + int (length b)))"
      "\<And>tail. tail \<noteq> [] \<Longrightarrow> rfc_hash (compress h b (t + 128) 0) (t + 128) (drop 128 b @ tail) = rfc_hash h' (t + int (length b)) tail"
      using b(1) by (auto simp: of_nat_diff)
    have "rfc_hash h t (b @ tail) = rfc_hash (compress h b (t + 128) 0) (t + 128) (drop 128 b @ tail)" if "tail \<noteq> []" for tail
    proof -
      have "0 < length tail" using that by simp
      with b(1) have "128 < length (b @ tail)" by (simp only: length_append)
      moreover have "compress h (b @ tail) (t + 128) 0 = compress h b (t + 128) 0"
        using b(1) compress_take[of h "b @ tail"] by simp
      ultimately show ?thesis using b(1) by (simp add: rfc_hash_long)
    qed
    with h show ?thesis using hashBlocks_block[OF b(1), of h t 0] by auto
  qed simp
qed

lemma hashBlocks_returns: "128 dvd length b \<Longrightarrow> \<exists>h' c'. hashBlocks h (counter t) 0 b = Some (h', c')"
  using hashBlocks_exact by blast

lemma hashBlocks_append:
  assumes "128 dvd length a"
  shows "hashBlocks h (counter t) flag (a @ b) =
    Option.bind (hashBlocks h (counter t) flag a) (\<lambda>(h, c). hashBlocks h c flag b)"
  using assms
proof (induction "length a" arbitrary: a h t rule: less_induct)
  case less
  show ?case
  proof (cases "a = []")
    case False
    note a = blocks_cases[OF less.prems False]
    have "compress h (a @ b) (t + 128) flag = compress h a (t + 128) flag"
      using a(1) compress_take[of h "a @ b"] by simp
    moreover have "hashBlocks h (counter t) flag (a @ b) =
        hashBlocks (compress h (a @ b) (t + 128) flag) (counter (t + 128)) flag (drop 128 (a @ b))"
      using a(1) by (intro hashBlocks_block) simp
    moreover have "drop 128 (a @ b) = drop 128 a @ b" using a(1) by simp
    ultimately show ?thesis
      using less.hyps[OF _ a(2), of "compress h a (t + 128) flag" "t + 128"] a(1) False hashBlocks_block[OF a(1), of h t flag] by simp
  qed simp
qed

section \<open>What a digest stands for\<close>

text \<open>A digest that has taken in the bytes \<open>D\<close>: all but the last block, which is kept back
  even if it is full, have gone through the compression function.\<close>

definition holds :: "u64 list \<Rightarrow> digest \<Rightarrow> bytes \<Rightarrow> bool" where
  "holds h0 d D = (\<exists>full tail. D = full @ tail \<and> 128 dvd length full \<and> (tail = [] \<longrightarrow> full = []) \<and> length tail \<le> 128
     \<and> length (d_block d) = 128 \<and> d_offset d = length tail \<and> take (length tail) (d_block d) = tail
     \<and> hashBlocks h0 (0, 0) 0 full = Some (d_h d, d_c d))"

lemma holdsI:
  "128 dvd length full \<Longrightarrow> (tail = [] \<Longrightarrow> full = []) \<Longrightarrow> length tail \<le> 128 \<Longrightarrow> length (d_block d) = 128 \<Longrightarrow>
   d_offset d = length tail \<Longrightarrow> take (length tail) (d_block d) = tail \<Longrightarrow>
   hashBlocks h0 (0, 0) 0 full = Some (d_h d, d_c d) \<Longrightarrow> holds h0 d (full @ tail)"
  unfolding holds_def by blast

lemma full_blocks_split:
  assumes "128 < len"
  shows "128 dvd full_blocks len" "full_blocks len < len" "len - full_blocks len \<le> 128"
proof -
  have d: "128 dvd len - len mod 128" by (rule dvd_minus_mod)
  then have "128 dvd len - 128" if "len = len - len mod 128" by (subst that) (rule dvd_diff_nat, simp_all)
  moreover note d
  moreover have "len mod 128 < 128" "len mod 128 \<le> len" by simp_all
  ultimately show "128 dvd full_blocks len" "full_blocks len < len" "len - full_blocks len \<le> 128"
    using assms by (auto simp: full_blocks_def BlockSize_def Let_def dvd_diff_nat)
qed

lemma Write_rest_holds:
  assumes "128 dvd length full" "hashBlocks h0 (0, 0) 0 full = Some (d_h d, d_c d)" "length (d_block d) = 128" "d_offset d = 0"
    and "p = [] \<longrightarrow> full = []"
  shows "\<exists>d'. digest_Write_rest p d = Some d' \<and> holds h0 d' (full @ p) \<and> d_size d' = d_size d \<and> d_key d' = d_key d \<and> d_keyLen d' = d_keyLen d"
proof (cases "128 < length p")
  case False
  then obtain d' where w: "digest_Write_rest p d = Some d'" and d': "d' = (if p = [] then d
      else d\<lparr>d_block := go_copy (d_block d) p, d_offset := d_offset d + min (length (d_block d)) (length p)\<rparr>)"
    by (simp add: digest_Write_rest_def BlockSize_def)
  have "holds h0 d' (full @ p)"
    by (rule holdsI) (use False assms in \<open>auto simp: d' go_copy_def\<close>)
  with w show ?thesis by (simp add: d')
next
  case True
  define n where "n = full_blocks (length p)"
  have n: "128 dvd n" "n < length p" "length p - n \<le> 128" using full_blocks_split[OF True] by (simp_all add: n_def)
  have c: "d_c d = counter (int (length full))" using hashBlocks_exact[OF assms(1), of h0 0] assms(2) by auto
  have "128 dvd length (take n p)" using n by simp
  from hashBlocks_returns[OF this, of "d_h d" "int (length full)"] obtain h' c' where
    h: "hashBlocks (d_h d) (d_c d) 0 (take n p) = Some (h', c')" unfolding c by blast
  have "hashBlocks h0 (0, 0) 0 (full @ take n p) = Some (h', c')"
    using hashBlocks_append[OF assms(1), of h0 0 0 "take n p"] assms(2) h by simp
  moreover have "128 dvd length (full @ take n p)" using assms(1) n by simp
  moreover define d' where "d' = d\<lparr>d_h := h', d_c := c', d_block := go_copy (d_block d) (drop n p),
      d_offset := d_offset d + min (length (d_block d)) (length (drop n p))\<rparr>"
  ultimately have "holds h0 d' ((full @ take n p) @ drop n p)"
    by (intro holdsI) (use n assms in \<open>auto simp: d'_def go_copy_def\<close>)
  moreover have "digest_Write_rest p d = Some d'"
    using True h n by (simp add: digest_Write_rest_def BlockSize_def n_def[symmetric] d'_def)
  ultimately show ?thesis by (simp add: d'_def)
qed

lemma Write_holds:
  assumes "holds h0 d D"
  shows "\<exists>d'. digest_Write p d = Some d' \<and> holds h0 d' (D @ p) \<and> d_size d' = d_size d \<and> d_key d' = d_key d \<and> d_keyLen d' = d_keyLen d"
proof -
  obtain full tail where D: "D = full @ tail" "128 dvd length full" "tail = [] \<longrightarrow> full = []" "length tail \<le> 128"
    "length (d_block d) = 128" "d_offset d = length tail" "take (length tail) (d_block d) = tail"
    "hashBlocks h0 (0, 0) 0 full = Some (d_h d, d_c d)"
    using assms unfolding holds_def by blast
  consider (empty) "tail = []" | (fits) "tail \<noteq> []" "length p \<le> 128 - length tail" | (over) "tail \<noteq> []" "128 - length tail < length p"
    by linarith
  then show ?thesis
  proof cases
    case empty
    with D have "digest_Write p d = digest_Write_rest p d" by (simp add: digest_Write_def)
    with Write_rest_holds[of "[]" h0 d p] D empty show ?thesis by simp
  next
    case fits
    define d' where "d' = d\<lparr>d_block := tail @ go_copy (drop (length tail) (d_block d)) p, d_offset := length tail + length p\<rparr>"
    have "holds h0 d' (full @ tail @ p)"
      by (rule holdsI) (use D fits in \<open>auto simp: d'_def go_copy_def\<close>)
    moreover have "digest_Write p d = Some d'"
      using D fits by (simp add: digest_Write_def BlockSize_def d'_def min_absorb2)
    ultimately show ?thesis using D(1) by (simp add: d'_def)
  next
    case over
    define q where "q = take (128 - length tail) p"
    have q: "length (tail @ q) = 128" using over D(4) by (simp add: q_def)
    have c: "d_c d = counter (int (length full))" using hashBlocks_exact[OF D(2), of h0 0] D(8) by auto
    have "128 dvd length (tail @ q)" unfolding q by simp
    from hashBlocks_returns[OF this, of "d_h d" "int (length full)"] obtain h' c' where
      h: "hashBlocks (d_h d) (d_c d) 0 (tail @ q) = Some (h', c')" unfolding c by blast
    define d1 where "d1 = d\<lparr>d_block := tail @ q, d_h := h', d_c := c', d_offset := 0\<rparr>"
    have "digest_Write_fill p d = Some (drop (128 - length tail) p, d1)"
      using over D h by (simp add: digest_Write_fill_def BlockSize_def go_copy_def q_def d1_def Let_def)
    then have w: "digest_Write p d = digest_Write_rest (drop (128 - length tail) p) d1"
      using over D by (simp add: digest_Write_def BlockSize_def)
    have "hashBlocks h0 (0, 0) 0 (full @ tail @ q) = Some (d_h d1, d_c d1)"
      using hashBlocks_append[OF D(2), of h0 0 0 "tail @ q"] D(8) h by (simp add: d1_def)
    moreover have "128 dvd length (full @ tail @ q)" using D(2) q by (simp del: length_append add: length_append[of full])
    moreover have "D @ p = (full @ tail @ q) @ drop (128 - length tail) p" using D(1) by (simp add: q_def)
    ultimately show ?thesis
      using Write_rest_holds[of "full @ tail @ q" h0 d1 "drop (128 - length tail) p"] q over by (simp add: w) (simp add: d1_def)
  qed
qed

section \<open>Hashing\<close>

definition start_words :: "nat \<Rightarrow> nat \<Rightarrow> u64 list" where
  "start_words n k = blake_iv[0 := blake_iv ! 0 XOR (of_nat n OR push_bit 8 (of_nat k) OR push_bit 16 1 OR push_bit 24 1)]"

lemma newDigest_holds:
  assumes "newDigest n key = Inr d"
  shows "holds (start_words (nat n) (length key)) d (if key = [] then [] else pad_block key)"
    "d_size d = nat n" "1 \<le> n" "n \<le> 64"
proof -
  have key: "length key \<le> 64" and n: "1 \<le> n" "n \<le> 64" and d: "d = digest_Reset \<lparr>d_h = replicate 8 0, d_c = (0, 0),
      d_size = nat n, d_block = replicate BlockSize 0, d_offset = 0, d_key = go_copy (replicate BlockSize 0) key, d_keyLen = length key\<rparr>"
    using assms by (auto simp: newDigest_def blake_Size_def split: if_splits)
  have p: "go_copy (replicate 128 0) key = pad_block key"
    using key by (simp add: go_copy_def pad_block_def)
  have "holds (start_words (nat n) (length key)) d ([] @ (if key = [] then [] else pad_block key))"
    using key by (intro holdsI) (auto simp: d digest_Reset_def BlockSize_def start_words_def Let_def p pad_block_def)
  then show "holds (start_words (nat n) (length key)) d (if key = [] then [] else pad_block key)" by simp
  show "d_size d = nat n" "1 \<le> n" "n \<le> 64" using n by (auto simp: d digest_Reset_def Let_def)
qed

lemma length_le_words [simp]: "length (concat (map le_PutUint64 ws)) = 8 * length ws"
  by (induction ws) (simp_all add: le_PutUint64_def)

lemma take_concat_words: "concat (map le_PutUint64 (take k ws)) = take (8 * k) (concat (map le_PutUint64 ws))"
  by (induction ws arbitrary: k) (auto simp: le_PutUint64_def take_Cons' right_diff_distrib' split: nat.splits)

text \<open>The last block.\<close>

lemma last_block:
  assumes "length tail \<le> 128"
  shows "hashBlocks h (take_back (128 - length tail) (counter t)) 0xFFFFFFFFFFFFFFFF (pad_block tail) =
    Some (rfc_hash h t tail, counter (t + int (length tail)))"
proof -
  have "length (pad_block tail) = 128" using assms by (simp add: pad_block_def)
  moreover from this have "drop 128 (pad_block tail) = []" by simp
  ultimately show ?thesis using assms
    by (simp add: hashBlocks_block) (subst rfc_hash.simps, simp add: of_nat_diff)
qed

lemma Sum_holds:
  assumes "holds h0 d D" "d_size d \<le> 64"
  shows "digest_Sum s d = Some (s @ take (d_size d) (concat (map le_PutUint64 (rfc_hash h0 0 D))))"
proof -
  obtain full tail where D: "D = full @ tail" "128 dvd length full" "tail = [] \<longrightarrow> full = []" "length tail \<le> 128"
    "length (d_block d) = 128" "d_offset d = length tail" "take (length tail) (d_block d) = tail"
    "hashBlocks h0 (0, 0) 0 full = Some (d_h d, d_c d)"
    using assms(1) unfolding holds_def by blast
  have h: "d_c d = counter (int (length full))" "tail \<noteq> [] \<longrightarrow> rfc_hash h0 0 D = rfc_hash (d_h d) (int (length full)) tail"
    using hashBlocks_exact[OF D(2), of h0 0] D(1,8) by auto
  have r: "rfc_hash h0 0 D = rfc_hash (d_h d) (int (length full)) tail"
    using h(2) D by (cases "tail = []") auto
  have "go_copy (replicate 128 0) tail = pad_block tail"
    using D(4) by (simp add: go_copy_def pad_block_def)
  then have "digest_finalize d = Some (concat (map le_PutUint64 (rfc_hash h0 0 D)))"
    using D last_block[OF D(4), of "d_h d" "int (length full)"] h(1) r by (simp add: digest_finalize_def BlockSize_def)
  with assms(2) show ?thesis by (simp add: digest_Sum_def)
qed

fun write_all :: "bytes list \<Rightarrow> digest \<Rightarrow> digest option" where
  "write_all [] d = Some d"
| "write_all (p # ps) d = Option.bind (digest_Write p d) (write_all ps)"

lemma write_all_holds:
  "holds h0 d D \<Longrightarrow> \<exists>d'. write_all ps d = Some d' \<and> holds h0 d' (D @ concat ps) \<and> d_size d' = d_size d"
proof (induction ps arbitrary: d D)
  case (Cons p ps)
  from Write_holds[OF Cons.prems, of p] obtain d1 where
    d1: "digest_Write p d = Some d1" "holds h0 d1 (D @ p)" "d_size d1 = d_size d" by auto
  from Cons.IH[OF d1(2)] d1 show ?case by auto
qed auto



lemma first_blocks:
  "\<exists>full tail h'. data = full @ tail \<and> length tail \<le> 128 \<and> rfc_hash h 0 data = rfc_hash h' (int (length full)) tail
    \<and> checkSum_blocks h data = Some ((h', counter (int (length full))), tail)"
proof (cases "128 < length data")
  case False
  then show ?thesis by (intro exI[of _ "[]"] exI[of _ data] exI[of _ h]) (simp add: checkSum_blocks_def BlockSize_def)
next
  case True
  define k where "k = full_blocks (length data)"
  have k: "128 dvd k" "k < length data" "length data - k \<le> 128" using full_blocks_split[OF True] by (simp_all add: k_def)
  then have "128 dvd length (take k data)" by simp
  from hashBlocks_exact[OF this, of h 0] obtain h' where
    h': "hashBlocks h (0, 0) 0 (take k data) = Some (h', counter (int (length (take k data))))"
    "\<forall>tail. tail \<noteq> [] \<longrightarrow> rfc_hash h 0 (take k data @ tail) = rfc_hash h' (int (length (take k data))) tail"
    by auto
  then have "rfc_hash h 0 data = rfc_hash h' (int (length (take k data))) (drop k data)"
    using k(2) by (metis append_take_drop_id drop_eq_Nil2 not_less)
  with h'(1) k True show ?thesis
    by (intro exI[of _ "take k data"] exI[of _ "drop k data"] exI[of _ h']) (simp add: checkSum_blocks_def BlockSize_def k_def[symmetric] del: length_take)
qed

lemma checkSum_take:
  assumes "n \<le> 64"
  shows "map_option (take n) (checkSum n data) = Some (blake2b n [] data)"
proof -
  have h0: "blake_iv[0 := blake_iv ! 0 XOR (of_nat n OR push_bit 16 1 OR push_bit 24 1)] = start_words n 0"
    by (simp add: start_words_def or.assoc)
  obtain full tail :: bytes and h where d: "length tail \<le> 128"
    "rfc_hash (start_words n 0) 0 data = rfc_hash h (int (length full)) tail"
    "checkSum_blocks (start_words n 0) data = Some ((h, counter (int (length full))), tail)"
    using first_blocks[of data "start_words n 0"] by blast
  have p: "go_copy (replicate 128 0) tail = pad_block tail"
    using d(1) by (simp add: go_copy_def pad_block_def)
  define ws where "ws = rfc_hash (start_words n 0) 0 data"
  have "checkSum n data = Some (go_copy (replicate 64 0) (concat (map le_PutUint64 (take ((n + 7) div 8) ws))))"
    using last_block[OF d(1), of h "int (length full)"] d p
    unfolding checkSum_def Let_def h0 by (simp add: BlockSize_def blake_Size_def ws_def min_absorb2 del: take_back)
  moreover have "n \<le> 8 * ((n + 7) div 8)" "(n + 7) div 8 \<le> 8" using assms by linarith+
  moreover have "length ws = 8" by (simp add: ws_def)
  ultimately show ?thesis
    by (simp add: go_copy_def take_concat_words min_absorb2 min_absorb1 blake2b_def ws_def start_words_def)
qed


section \<open>Saving and resuming\<close>

lemma consumeUint64_bytes [simp]: "consumeUint64 (be_bytes 8 x @ b) = (b, x)"
proof -
  have "drop_bit (8 * 8) x = 0" by (rule bit_word_eqI) (auto simp: bit_drop_bit_eq dest: bit_imp_le_length)
  then show ?thesis using be_word_be_bytes[of 8 x] by (simp add: consumeUint64_def)
qed

lemma consume_words_bytes: "n = length xs \<Longrightarrow> consume_words n (concat (map (be_bytes 8) xs) @ b) = (b, xs)"
  by (induction xs arbitrary: n) auto

text \<open>
  C27: a saved digest can be resumed. Unmarshalling the bytes that \<^verbatim>\<open>MarshalBinary\<close> writes for a
  digest without a key gives back its hash state, counter, size, block and offset.
\<close>

theorem marshal_roundtrip:
  assumes "length (d_h d) = 8" "length (d_block d) = 128" "d_size d < 256" "d_offset d < 256" "d_keyLen d = 0"
    and "length (d_block d0) = 128"
  shows "\<exists>b. MarshalBinary d = Inr b \<and> UnmarshalBinary b d0 = Inr (d\<lparr>d_key := d_key d0, d_keyLen := d_keyLen d0\<rparr>)"
proof -
  have w: "length (concat (map (be_bytes 8) (d_h d))) = 64"
    using assms(1) by (simp add: length_concat comp_def sum_list_triv)
  have "unat (of_nat (d_size d) :: byte) = d_size d" "unat (of_nat (d_offset d) :: byte) = d_offset d"
    using assms by (simp_all add: unat_of_nat_small)
  then show ?thesis using assms w consume_words_bytes[of 8 "d_h d"]
    by (simp add: MarshalBinary_def UnmarshalBinary_def marshaledSize_def blake_magic_def BlockSize_def go_copy_def Let_def)
qed
theorem marshal_roundtrip_witness:
  "\<exists>b. MarshalBinary \<lparr>d_h = blake_iv, d_c = (0, 0), d_size = 32, d_block = replicate 128 7, d_offset = 3, d_key = [], d_keyLen = 0\<rparr> = Inr b
    \<and> UnmarshalBinary b \<lparr>d_h = [], d_c = (1, 1), d_size = 0, d_block = replicate 128 0, d_offset = 0, d_key = [], d_keyLen = 0\<rparr>
      = Inr \<lparr>d_h = blake_iv, d_c = (0, 0), d_size = 32, d_block = replicate 128 7, d_offset = 3, d_key = [], d_keyLen = 0\<rparr>"
  using marshal_roundtrip[of
      "\<lparr>d_h = blake_iv, d_c = (0, 0), d_size = 32, d_block = replicate 128 7, d_offset = 3, d_key = [], d_keyLen = 0\<rparr>"
      "\<lparr>d_h = [], d_c = (1, 1), d_size = 0, d_block = replicate 128 0, d_offset = 0, d_key = [], d_keyLen = 0\<rparr>"]
  by (simp add: blake_iv_def)

end
