(* ===== verification/Eth_Crypto.thy ===== *)
theory Eth_Crypto
  imports Rlp_Encode_Correct Common_Types
begin

text \<open>
  The parts of \<^verbatim>\<open>src/eth_crypto/crypto.go\<close> that are the node's own logic: the check of
  signature values and the addresses of new contracts. The hash function \<open>keccak\<close> is an
  argument. The bytes that are hashed for a new address determine the creator and the
  nonce or salt, so two contracts share an address only if the hash function collides.
\<close>

section \<open>Signature values\<close>

definition secp256k1N :: int where
  "secp256k1N = 0xfffffffffffffffffffffffffffffffebaaedce6af48a03bbfd25e8cd0364141"

definition secp256k1halfN :: int where
  "secp256k1halfN = secp256k1N div 2"

definition ValidateSignatureValues :: "byte \<Rightarrow> int \<Rightarrow> int \<Rightarrow> bool \<Rightarrow> bool" where
  "ValidateSignatureValues v r s homestead =
    (if r < 1 \<or> s < 1 then False
     else if homestead \<and> s > secp256k1halfN then False
     else r < secp256k1N \<and> s < secp256k1N \<and> (v = 0 \<or> v = 1))"

section \<open>Addresses of contracts\<close>

text \<open>\<^verbatim>\<open>rlp.EncodeToBytes([]interface{}{b, nonce})\<close>; the error is dropped.\<close>

definition CreateAddress_data :: "address \<Rightarrow> u64 \<Rightarrow> bytes" where
  "CreateAddress_data b nonce =
    (case EncodeToBytes (VSlice False [VInterface (Some (VByteArray b)), VInterface (Some (VUint nonce))]) of
       Inr data \<Rightarrow> data
     | Inl e \<Rightarrow> [])"

definition CreateAddress :: "(bytes \<Rightarrow> hash) \<Rightarrow> address \<Rightarrow> u64 \<Rightarrow> address" where
  "CreateAddress keccak b nonce = BytesToAddress (drop 12 (keccak (CreateAddress_data b nonce)))"

definition CreateAddress2_data :: "address \<Rightarrow> hash \<Rightarrow> bytes \<Rightarrow> bytes" where
  "CreateAddress2_data b salt inithash = [0xff] @ b @ salt @ inithash"

definition CreateAddress2 :: "(bytes \<Rightarrow> hash) \<Rightarrow> address \<Rightarrow> hash \<Rightarrow> bytes \<Rightarrow> address" where
  "CreateAddress2 keccak b salt inithash = BytesToAddress (drop 12 (keccak (CreateAddress2_data b salt inithash)))"

section \<open>The hashed bytes determine the contract\<close>

lemma str_spec_short: "length b \<le> 8 \<Longrightarrow> length (str_spec b) \<le> 9"
  by (simp add: str_spec_def head_spec_def)

lemma str_spec_inject:
  assumes "length b \<le> 8" "length c \<le> 8" "str_spec b = str_spec c"
  shows "b = c"
proof -
  have tag: "unat (0x80 + of_nat n :: byte) = 128 + n" if "n \<le> 8" for n
    using that by (simp add: unat_word_ariths unat_of_nat)
  have "hd (str_spec x) \<le> 0x7F \<longleftrightarrow> length x = 1 \<and> x ! 0 \<le> 0x7F" if "length x \<le> 8" for x
    using that tag[of "length x"] by (cases x) (auto simp: str_spec_def head_spec_def word_le_nat_alt)
  then have "(length b = 1 \<and> b ! 0 \<le> 0x7F) = (length c = 1 \<and> c ! 0 \<le> 0x7F)" using assms by metis
  then show ?thesis using assms by (auto simp: str_spec_def head_spec_def split: if_splits)
qed

lemma CreateAddress_data_eq:
  assumes "is_address a"
  shows "CreateAddress_data a n = (0xC0 + of_nat (21 + length (str_spec (nat_be (unat n))))) # 0x94 # a @ str_spec (nat_be (unat n))"
proof -
  let ?v = "VSlice False [VInterface (Some (VByteArray a)), VInterface (Some (VUint n))]"
  have a: "str_spec a = 0x94 # a" using assms by (simp add: str_spec_def head_spec_def is_address_def AddressLength_def)
  have n: "length (str_spec (nat_be (unat n))) \<le> 9" by (intro str_spec_short length_nat_be_unat)
  have "rlp_spec ?v = (0xC0 + of_nat (21 + length (str_spec (nat_be (unat n))))) # 0x94 # a @ str_spec (nat_be (unat n))"
    using n assms by (simp add: a list_spec_def head_spec_def is_address_def AddressLength_def)
  moreover have "EncodeToBytes ?v = Inr (rlp_spec ?v)"
    using n assms by (intro EncodeToBytes_spec) (simp_all add: a list_spec_def head_spec_def is_address_def AddressLength_def)
  ultimately show ?thesis by (simp add: CreateAddress_data_def)
qed

text \<open>
  C28: the addresses of created contracts do not collide by construction. The bytes hashed by
  \<^verbatim>\<open>CreateAddress\<close> determine creator and nonce, those hashed by \<^verbatim>\<open>CreateAddress2\<close> determine
  creator, salt and code hash, and no byte string is hashed by both.
\<close>

theorem create_preimages_distinct:
  assumes "is_address a" "is_address b" "is_hash salt" "is_hash salt'" "is_hash ih" "is_hash ih'"
  shows "(CreateAddress_data a n = CreateAddress_data b m \<longleftrightarrow> a = b \<and> n = m)
    \<and> (CreateAddress2_data a salt ih = CreateAddress2_data b salt' ih' \<longleftrightarrow> a = b \<and> salt = salt' \<and> ih = ih')
    \<and> CreateAddress_data a n \<noteq> CreateAddress2_data b salt ih"
proof (intro conjI)
  have len: "length (str_spec (nat_be (unat n))) \<le> 9" by (intro str_spec_short length_nat_be_unat)
  have "str_spec (nat_be (unat n)) = str_spec (nat_be (unat m)) \<longleftrightarrow> n = m"
    using str_spec_inject[OF length_nat_be_unat length_nat_be_unat, of n m] by (auto simp: word_unat_eq_iff)
  then show "CreateAddress_data a n = CreateAddress_data b m \<longleftrightarrow> a = b \<and> n = m"
    using assms(1,2) by (auto simp: CreateAddress_data_eq is_address_def)
  show "CreateAddress2_data a salt ih = CreateAddress2_data b salt' ih' \<longleftrightarrow> a = b \<and> salt = salt' \<and> ih = ih'"
    using assms by (auto simp: CreateAddress2_data_def is_address_def is_hash_def)
  have "length (CreateAddress_data a n) \<le> 31" "length (CreateAddress2_data b salt ih) = 85"
    using assms len by (simp_all add: CreateAddress_data_eq CreateAddress2_data_def is_address_def is_hash_def AddressLength_def HashLength_def)
  then show "CreateAddress_data a n \<noteq> CreateAddress2_data b salt ih" by auto
qed

theorem create_preimages_distinct_witness:
  "CreateAddress_data (replicate 20 7) 0 \<noteq> CreateAddress2_data (replicate 20 7) (replicate 32 1) (replicate 32 2)"
  using create_preimages_distinct[of "replicate 20 7" "replicate 20 7" "replicate 32 1" "replicate 32 1" "replicate 32 2" "replicate 32 2" 0 0]
  by (simp add: is_address_def is_hash_def AddressLength_def HashLength_def)

end
