(* ===== verification/Chain_Config.thy ===== *)
theory Chain_Config
  imports Utility_Convert
begin

text \<open>
  The configuration of a chain (\<^verbatim>\<open>src/common/version.go\<close>, \<^verbatim>\<open>height.go\<close>,
  \<^verbatim>\<open>genesis_conf.go\<close>) and the block counts of its economy
  (\<^verbatim>\<open>constant_economy.go\<close>). The package variables are one record: the configuration that was
  chosen at start, the genesis file of a sub-chain, the height the node has reached, which the
  forks are measured against, and the block counts that are computed once and kept. The network
  endpoints of a configuration (\<^verbatim>\<open>PHub\<close>, \<^verbatim>\<open>MysqlDSN\<close>, \<^verbatim>\<open>JsonRPCUrl\<close>) are left out.
\<close>

section \<open>Configurations\<close>

record ChainConfig =
  cc_ChainId :: string
  cc_NetworkId :: string
  cc_OriginalChainId :: string
  Proposal001Block :: u64
  Proposal002Block :: u64
  Proposal003Block :: u64
  Proposal004Block :: u64
  Proposal005Block :: u64
  Proposal006Block :: u64
  Proposal007Block :: u64
  Proposal008Block :: u64
  Proposal009Block :: u64
  Proposal010Block :: u64
  Proposal011Block :: u64
  Proposal012Block :: u64
  Proposal013Block :: u64
  Proposal014Block :: u64
  Proposal015Block :: u64
  Proposal016Block :: u64
  Proposal017Block :: u64
  Proposal018Block :: u64
  Proposal019Block :: u64
  Proposal020Block :: u64
  Proposal021Block :: u64
  Proposal022Block :: u64
  Proposal023Block :: u64
  Proposal024Block :: u64
  Proposal025Block :: u64
  Proposal026Block :: u64
  Proposal027Block :: u64
  mainNodeContract :: address

definition mainNetChainConfig :: ChainConfig where
  "mainNetChainConfig =
    \<lparr>cc_ChainId = ''2025'', cc_NetworkId = ''2025'', cc_OriginalChainId = ''8888'',
     Proposal001Block = 894116, Proposal002Block = 3353000, Proposal003Block = 3830000, Proposal004Block = 5310000,
     Proposal005Block = 10293600, Proposal006Block = 16733000, Proposal007Block = 16082000, Proposal008Block = 16082000,
     Proposal009Block = 16733000, Proposal010Block = -1, Proposal011Block = 11750354, Proposal012Block = 22815000,
     Proposal013Block = 28998000, Proposal014Block = 48081000, Proposal015Block = 53015000, Proposal016Block = 54038500,
     Proposal017Block = 54038500, Proposal018Block = 55959500, Proposal019Block = -1, Proposal020Block = 61794000,
     Proposal021Block = 61202000, Proposal022Block = 62606000, Proposal023Block = 63100000, Proposal024Block = 62575384,
     Proposal025Block = 63311000, Proposal026Block = 64666400, Proposal027Block = 69329000,
     mainNodeContract = HexToAddress ''0x74448149F549CD819b7173b6D67DbBEAFd2909a7''\<rparr>"

definition robinChainConfig :: ChainConfig where
  "robinChainConfig =
    \<lparr>cc_ChainId = ''9527'', cc_NetworkId = ''9527'', cc_OriginalChainId = ''9527'',
     Proposal001Block = 0, Proposal002Block = 2802000, Proposal003Block = 3380000, Proposal004Block = 5310000,
     Proposal005Block = 10003000, Proposal006Block = 12582000, Proposal007Block = 14261000, Proposal008Block = 16058000,
     Proposal009Block = 16740000, Proposal010Block = 19632000, Proposal011Block = -1, Proposal012Block = 23120000,
     Proposal013Block = 29063000, Proposal014Block = 0, Proposal015Block = 61205000, Proposal016Block = 62320000,
     Proposal017Block = 62997000, Proposal018Block = 65795000, Proposal019Block = 66114000, Proposal020Block = 75248100,
     Proposal021Block = 74312000, Proposal022Block = 76005000, Proposal023Block = 77826000, Proposal024Block = 0,
     Proposal025Block = 77920000, Proposal026Block = 79365500, Proposal027Block = 84150000,
     mainNodeContract = HexToAddress ''0x3a8467bEcb0B702c5c6343c8A3Ccb11acE0e8816''\<rparr>"

definition devNetChainConfig :: ChainConfig where
  "devNetChainConfig =
    \<lparr>cc_ChainId = ''9500'', cc_NetworkId = ''9500'', cc_OriginalChainId = ''9500'',
     Proposal001Block = 0, Proposal002Block = 0, Proposal003Block = 0, Proposal004Block = 0,
     Proposal005Block = 0, Proposal006Block = 0, Proposal007Block = 0, Proposal008Block = 0,
     Proposal009Block = 0, Proposal010Block = 0, Proposal011Block = 0, Proposal012Block = 0,
     Proposal013Block = 0, Proposal014Block = 0, Proposal015Block = 0, Proposal016Block = 0,
     Proposal017Block = 0, Proposal018Block = 0, Proposal019Block = 0, Proposal020Block = 10,
     Proposal021Block = 0, Proposal022Block = 0, Proposal023Block = 12, Proposal024Block = 0,
     Proposal025Block = 1000000000, Proposal026Block = 0, Proposal027Block = 0,
     mainNodeContract = HexToAddress ''0x27B01A9E699F177634f480Cc2150425009Edc5fD''\<rparr>"

definition subNetChainConfig :: ChainConfig where
  "subNetChainConfig =
    \<lparr>cc_ChainId = ''9500'', cc_NetworkId = ''9500'', cc_OriginalChainId = ''9500'',
     Proposal001Block = 0, Proposal002Block = 0, Proposal003Block = 0, Proposal004Block = 0,
     Proposal005Block = 0, Proposal006Block = 0, Proposal007Block = 0, Proposal008Block = 0,
     Proposal009Block = 0, Proposal010Block = 0, Proposal011Block = 0, Proposal012Block = 0,
     Proposal013Block = 0, Proposal014Block = 0, Proposal015Block = 0, Proposal016Block = 0,
     Proposal017Block = 0, Proposal018Block = 0, Proposal019Block = 0, Proposal020Block = 0,
     Proposal021Block = 0, Proposal022Block = 0, Proposal023Block = 0, Proposal024Block = 0,
     Proposal025Block = 0, Proposal026Block = 0, Proposal027Block = 0,
     mainNodeContract = HexToAddress ''0x27B01A9E699F177634f480Cc2150425009Edc5fD''\<rparr>"

record GenesisConf =
  g_ChainId :: string
  g_Cast :: u64

record ChainState =
  LocalChainConfig :: ChainConfig
  Genesis :: "GenesisConf option"
  currentBlockHeight :: u64
  rewardBlocks :: u64
  refundBlocks :: u64
  epochBlocks :: u64

text \<open>The genesis file, when it can be read, names the chain.\<close>

definition initChainConfig :: "string \<Rightarrow> GenesisConf option \<Rightarrow> ChainState" where
  "initChainConfig env genesis =
    (let cfg = (if env = ''dev'' then devNetChainConfig
                else if env = ''mainnet'' then mainNetChainConfig
                else if env = ''robin'' then robinChainConfig
                else subNetChainConfig);
         cfg = (case genesis of
                  None \<Rightarrow> cfg
                | Some g \<Rightarrow> if length (g_ChainId g) \<noteq> 0
                    then cfg\<lparr>cc_NetworkId := g_ChainId g, cc_ChainId := g_ChainId g\<rparr> else cfg)
     in \<lparr>LocalChainConfig = cfg, Genesis = genesis, currentBlockHeight = 0,
         rewardBlocks = 0, refundBlocks = 0, epochBlocks = 0\<rparr>)"

definition GetBlockHeight :: "ChainState \<Rightarrow> u64" where
  "GetBlockHeight S = currentBlockHeight S"

definition SetBlockHeight :: "u64 \<Rightarrow> ChainState \<Rightarrow> ChainState" where
  "SetBlockHeight height S = S\<lparr>currentBlockHeight := height\<rparr>"

section \<open>Forks\<close>

definition isForked :: "u64 \<Rightarrow> u64 \<Rightarrow> bool" where
  "isForked base height \<longleftrightarrow> height \<ge> base"

definition IsProposal001 :: "ChainState \<Rightarrow> u64 \<Rightarrow> bool" where
  "IsProposal001 S height = isForked (Proposal001Block (LocalChainConfig S)) height"

definition IsProposal002 :: "ChainState \<Rightarrow> bool" where
  "IsProposal002 S = isForked (Proposal002Block (LocalChainConfig S)) (GetBlockHeight S)"

definition IsProposal003 :: "ChainState \<Rightarrow> bool" where
  "IsProposal003 S = isForked (Proposal003Block (LocalChainConfig S)) (GetBlockHeight S)"

definition IsProposal004 :: "ChainState \<Rightarrow> bool" where
  "IsProposal004 S = isForked (Proposal004Block (LocalChainConfig S)) (GetBlockHeight S)"

definition IsProposal005 :: "ChainState \<Rightarrow> bool" where
  "IsProposal005 S = isForked (Proposal005Block (LocalChainConfig S)) (GetBlockHeight S)"

definition IsProposal006 :: "ChainState \<Rightarrow> bool" where
  "IsProposal006 S = isForked (Proposal006Block (LocalChainConfig S)) (GetBlockHeight S)"

definition IsProposal007 :: "ChainState \<Rightarrow> bool" where
  "IsProposal007 S = isForked (Proposal007Block (LocalChainConfig S)) (GetBlockHeight S)"

definition IsProposal008 :: "ChainState \<Rightarrow> bool" where
  "IsProposal008 S = isForked (Proposal008Block (LocalChainConfig S)) (GetBlockHeight S)"

definition IsProposal009 :: "ChainState \<Rightarrow> bool" where
  "IsProposal009 S = isForked (Proposal009Block (LocalChainConfig S)) (GetBlockHeight S)"

definition IsProposal012 :: "ChainState \<Rightarrow> bool" where
  "IsProposal012 S = isForked (Proposal012Block (LocalChainConfig S)) (GetBlockHeight S)"

definition IsProposal013 :: "ChainState \<Rightarrow> bool" where
  "IsProposal013 S = isForked (Proposal013Block (LocalChainConfig S)) (GetBlockHeight S)"

definition IsProposal015 :: "ChainState \<Rightarrow> bool" where
  "IsProposal015 S = isForked (Proposal015Block (LocalChainConfig S)) (GetBlockHeight S)"

definition IsProposal016 :: "ChainState \<Rightarrow> bool" where
  "IsProposal016 S = isForked (Proposal016Block (LocalChainConfig S)) (GetBlockHeight S)"

definition IsProposal017 :: "ChainState \<Rightarrow> bool" where
  "IsProposal017 S = isForked (Proposal017Block (LocalChainConfig S)) (GetBlockHeight S)"

definition IsProposal018 :: "ChainState \<Rightarrow> bool" where
  "IsProposal018 S = isForked (Proposal018Block (LocalChainConfig S)) (GetBlockHeight S)"

definition IsProposal020 :: "ChainState \<Rightarrow> bool" where
  "IsProposal020 S = isForked (Proposal020Block (LocalChainConfig S)) (GetBlockHeight S)"

definition IsProposal021 :: "ChainState \<Rightarrow> bool" where
  "IsProposal021 S = isForked (Proposal021Block (LocalChainConfig S)) (GetBlockHeight S)"

definition IsProposal023 :: "ChainState \<Rightarrow> bool" where
  "IsProposal023 S = isForked (Proposal023Block (LocalChainConfig S)) (GetBlockHeight S)"

definition IsProposal026 :: "ChainState \<Rightarrow> bool" where
  "IsProposal026 S = isForked (Proposal026Block (LocalChainConfig S)) (GetBlockHeight S)"

definition IsProposal027 :: "ChainState \<Rightarrow> bool" where
  "IsProposal027 S = isForked (Proposal027Block (LocalChainConfig S)) (GetBlockHeight S)"

lemmas proposal_defs = IsProposal002_def IsProposal003_def IsProposal004_def IsProposal005_def IsProposal006_def
  IsProposal007_def IsProposal008_def IsProposal009_def IsProposal012_def IsProposal013_def IsProposal015_def
  IsProposal016_def IsProposal017_def IsProposal018_def IsProposal020_def IsProposal021_def IsProposal023_def
  IsProposal026_def IsProposal027_def

definition ChainId :: "ChainState \<Rightarrow> u64 \<Rightarrow> string" where
  "ChainId S height =
    (if IsProposal001 S height then cc_ChainId (LocalChainConfig S) else cc_OriginalChainId (LocalChainConfig S))"

text \<open>\<^verbatim>\<open>big.Int.SetString(s, 10)\<close>: an optional sign and at least one digit; \<open>None\<close> is nil.\<close>

definition big_SetString10 :: "string \<Rightarrow> int option" where
  "big_SetString10 s =
    (let (neg, ds) = split_sign s
     in if ds = [] \<or> \<not> list_all is_digit ds then None
        else Some (if neg then - int (digits_val ds) else int (digits_val ds)))"

definition GetChainId :: "ChainState \<Rightarrow> u64 \<Rightarrow> int option" where
  "GetChainId S height =
    (let chainIdStr = (case Genesis S of
                         Some g \<Rightarrow> if length (g_ChainId g) \<noteq> 0 then g_ChainId g else ChainId S height
                       | None \<Rightarrow> ChainId S height)
     in big_SetString10 chainIdStr)"

definition NetworkId :: "ChainState \<Rightarrow> string" where
  "NetworkId S = cc_NetworkId (LocalChainConfig S)"

definition IsRobin :: "ChainState \<Rightarrow> bool" where
  "IsRobin S \<longleftrightarrow> cc_ChainId (LocalChainConfig S) = cc_ChainId robinChainConfig"

definition IsDEV :: "ChainState \<Rightarrow> bool" where
  "IsDEV S \<longleftrightarrow> cc_ChainId (LocalChainConfig S) = cc_ChainId devNetChainConfig"

definition IsMainnet :: "ChainState \<Rightarrow> bool" where
  "IsMainnet S \<longleftrightarrow> cc_ChainId (LocalChainConfig S) = cc_ChainId mainNetChainConfig"

definition IsSub :: "ChainState \<Rightarrow> bool" where
  "IsSub S \<longleftrightarrow> Genesis S \<noteq> None"

definition MainNodeContract :: "ChainState \<Rightarrow> address" where
  "MainNodeContract S = mainNodeContract (LocalChainConfig S)"

section \<open>Block counts\<close>

definition castingInterval :: u64 where "castingInterval = 1000"
definition rewardTime :: u64 where "rewardTime = 10 * 60 * 60 * 1000"
definition refundTime :: u64 where "refundTime = 50 * 1000"
definition oneDay :: u64 where "oneDay = 24 * 3600 * 1000"
definition epoch :: u64 where "epoch = 180 * oneDay"
definition ValidatorStake :: u64 where "ValidatorStake = 400"
definition ProposerStake :: u64 where "ProposerStake = 2000"

definition GetCastingInterval :: "ChainState \<Rightarrow> u64" where
  "GetCastingInterval S = (case Genesis S of Some g \<Rightarrow> g_Cast g | None \<Rightarrow> castingInterval)"

text \<open>Each count is computed on its first use; a casting interval of zero is a division by zero.\<close>

definition GetRewardBlocks :: "ChainState \<Rightarrow> (u64 \<times> ChainState) option" where
  "GetRewardBlocks S =
    (if rewardBlocks S \<noteq> 0 then Some (rewardBlocks S, S)
     else if GetCastingInterval S = 0 then None
     else (let S = S\<lparr>rewardBlocks := rewardTime div GetCastingInterval S\<rparr> in Some (rewardBlocks S, S)))"

definition GetRefundBlocks :: "ChainState \<Rightarrow> (u64 \<times> ChainState) option" where
  "GetRefundBlocks S =
    (if refundBlocks S \<noteq> 0 then Some (refundBlocks S, S)
     else if GetCastingInterval S = 0 then None
     else (let S = S\<lparr>refundBlocks := refundTime div GetCastingInterval S\<rparr> in Some (refundBlocks S, S)))"

definition GetBlocksPerEpoch :: "ChainState \<Rightarrow> (u64 \<times> ChainState) option" where
  "GetBlocksPerEpoch S =
    (if epochBlocks S \<noteq> 0 then Some (epochBlocks S, S)
     else if GetCastingInterval S = 0 then None
     else (let S = S\<lparr>epochBlocks := epoch div GetCastingInterval S\<rparr> in Some (epochBlocks S, S)))"

end
