(* ===== verification/Tx_Order.thy ===== *)
theory Tx_Order
  imports Chain_Config Account_DB "HOL-Library.Multiset" "HOL-Library.Product_Lexorder"
begin

text \<open>
  Transactions (\<^verbatim>\<open>src/middleware/types/transaction.go\<close>): the record, its hash, and the order in
  which a block lists them. The order is given to \<^verbatim>\<open>sort.Sort\<close> of the standard library, of
  which the model uses one law: on pairwise comparable elements in a linear order it returns the
  permutation that is ascending. \<^verbatim>\<open>Less\<close> panics on two transactions with equal hashes, so the
  comparison and the sort are option-valued.
\<close>

section \<open>Transactions\<close>

record TransferData =
  td_Balance :: string
  td_Coin :: "(string \<times> string) list"
  td_FT :: "(string \<times> string) list"

record UserData =
  ud_Address :: u64
  ud_Transfer :: TransferData
  ud_Assets :: "(string \<times> string) list"

record Sign =
  sign_r :: int
  sign_s :: int
  sign_recid :: byte

record Transaction =
  tx_Source :: string
  tx_Target :: string
  tx_Type :: u32
  tx_Time :: string
  tx_Data :: string
  tx_ExtraData :: string
  tx_ExtraDataType :: u32
  tx_SubTransactions :: "UserData list"
  tx_SubHash :: hash
  tx_Hash :: hash
  tx_Sign :: "Sign option"
  tx_Nonce :: u64
  tx_RequestId :: u64
  tx_SocketRequestId :: string
  tx_ChainId :: string

definition TransactionTypeETHTX :: u32 where "TransactionTypeETHTX = 188"
definition TransactionTypeContract :: u32 where "TransactionTypeContract = 200"

definition IsContractTx :: "u32 \<Rightarrow> bool" where
  "IsContractTx txType \<longleftrightarrow> txType = TransactionTypeETHTX \<or> txType = TransactionTypeContract"

text \<open>\<^verbatim>\<open>strconv.Itoa(int(tx.Type))\<close>: the type is a signed 32-bit integer.\<close>

definition itoa_i32 :: "u32 \<Rightarrow> string" where
  "itoa_i32 w = (if sint w < 0 then CHR ''-'' # itoa (nat (- sint w)) else itoa (nat (sint w)))"

definition tx_preimage :: "Transaction \<Rightarrow> bytes" where
  "tx_preimage tx =
    str_bytes (tx_Data tx) @ str_bytes (itoa (unat (tx_Nonce tx))) @ str_bytes (tx_Source tx) @
    str_bytes (tx_Target tx) @ str_bytes (itoa_i32 (tx_Type tx)) @ str_bytes (tx_Time tx) @
    str_bytes (tx_ExtraData tx) @ str_bytes (tx_ChainId tx)"

definition GenHash :: "(bytes \<Rightarrow> bytes) \<Rightarrow> Transaction option \<Rightarrow> hash" where
  "GenHash Sha256 t = (case t of None \<Rightarrow> zero_hash | Some tx \<Rightarrow> BytesToHash (Sha256 (tx_preimage tx)))"

definition GenHashes :: "Transaction option \<Rightarrow> hash \<times> hash" where
  "GenHashes t = (case t of None \<Rightarrow> (zero_hash, zero_hash) | Some tx \<Rightarrow> (tx_Hash tx, tx_SubHash tx))"

section \<open>The order\<close>

definition source_num :: "Transaction \<Rightarrow> int" where
  "source_num tx = big_SetBytes (FromHex (tx_Source tx))"

definition hash_num :: "Transaction \<Rightarrow> int" where
  "hash_num tx = big_SetBytes (tx_Hash tx)"

definition Less :: "ChainState \<Rightarrow> Transaction \<Rightarrow> Transaction \<Rightarrow> bool option" where
  "Less S a b =
    (if tx_RequestId a = 0 \<and> tx_RequestId b = 0 then
       if IsProposal023 S then
         if tx_Source a = tx_Source b then
           if tx_Nonce a \<noteq> tx_Nonce b then Some (tx_Nonce a < tx_Nonce b)
           else if tx_Hash a = tx_Hash b then None
           else Some (hash_num a > hash_num b)
         else Some (source_num a > source_num b)
       else if IsProposal021 S then
         if tx_Source a = tx_Source b then Some (tx_Nonce a < tx_Nonce b)
         else Some (source_num a > source_num b)
       else if IsProposal016 S \<and> tx_Source a = tx_Source b then Some (tx_Nonce a < tx_Nonce b)
       else Some (hash_num a > hash_num b)
     else Some (tx_RequestId a < tx_RequestId b))"

section \<open>Sorting\<close>

definition linear_on :: "('a \<Rightarrow> 'a \<Rightarrow> bool option) \<Rightarrow> 'a set \<Rightarrow> bool" where
  "linear_on cmp A \<longleftrightarrow>
    (\<forall>x \<in> A. \<forall>y \<in> A. x \<noteq> y \<longrightarrow> cmp x y \<noteq> None \<and> (cmp x y = Some True \<longleftrightarrow> cmp y x = Some False)) \<and>
    (\<forall>x \<in> A. \<forall>y \<in> A. \<forall>z \<in> A. x \<noteq> y \<longrightarrow> y \<noteq> z \<longrightarrow> x \<noteq> z \<longrightarrow>
       cmp x y = Some True \<longrightarrow> cmp y z = Some True \<longrightarrow> cmp x z = Some True)"

lemma linear_on_cases:
  assumes "linear_on cmp A" "x \<in> A" "y \<in> A" "x \<noteq> y"
  shows "cmp x y = Some True \<and> cmp y x = Some False \<or> cmp x y = Some False \<and> cmp y x = Some True"
proof -
  have "cmp x y \<noteq> None" "cmp x y = Some True \<longleftrightarrow> cmp y x = Some False"
    using assms unfolding linear_on_def by blast+
  moreover have "cmp y x = Some True \<longleftrightarrow> cmp x y = Some False"
    using assms(1-3) not_sym[OF assms(4)] unfolding linear_on_def by blast
  ultimately show ?thesis by (cases "cmp x y") (metis (full_types))+
qed

lemma linear_on_trans:
  "linear_on cmp A \<Longrightarrow> x \<in> A \<Longrightarrow> y \<in> A \<Longrightarrow> z \<in> A \<Longrightarrow> x \<noteq> y \<Longrightarrow> y \<noteq> z \<Longrightarrow> x \<noteq> z \<Longrightarrow>
   cmp x y = Some True \<Longrightarrow> cmp y z = Some True \<Longrightarrow> cmp x z = Some True"
  unfolding linear_on_def by blast

lemma linear_on_subset: "linear_on cmp A \<Longrightarrow> B \<subseteq> A \<Longrightarrow> linear_on cmp B"
  unfolding linear_on_def by blast

text \<open>The law of \<^verbatim>\<open>sort.Sort\<close>.\<close>

locale go_sort =
  fixes srt :: "('a \<Rightarrow> 'a \<Rightarrow> bool option) \<Rightarrow> 'a list \<Rightarrow> 'a list option"
  assumes sorts: "distinct xs \<Longrightarrow> linear_on cmp (set xs) \<Longrightarrow>
    \<exists>ys. srt cmp xs = Some ys \<and> mset ys = mset xs \<and> sorted_wrt (\<lambda>x y. cmp x y = Some True) ys"
begin

lemma sort_unique:
  assumes "distinct xs" "linear_on cmp (set xs)" "mset xs = mset zs"
  shows "srt cmp xs = srt cmp zs"
proof -
  have z: "distinct zs" "set zs = set xs" using assms(1,3) by (metis distinct_count_atmost_1 set_mset_mset, metis mset_eq_setD)
  obtain ys where ys: "srt cmp xs = Some ys" "mset ys = mset xs" "sorted_wrt (\<lambda>x y. cmp x y = Some True) ys"
    using sorts[OF assms(1,2)] by blast
  obtain ws where ws: "srt cmp zs = Some ws" "mset ws = mset zs" "sorted_wrt (\<lambda>x y. cmp x y = Some True) ws"
    using sorts[OF z(1)] assms(2) z(2) by metis
  have anti: "\<not> (cmp x y = Some True \<and> cmp y x = Some True)" if "x \<in> set xs" "y \<in> set xs" "x \<noteq> y" for x y
    using linear_on_cases[OF assms(2) that] by auto
  have "as = bs" if "mset as = mset bs" "distinct as" "set as \<subseteq> set xs" "sorted_wrt (\<lambda>x y. cmp x y = Some True) as"
    "sorted_wrt (\<lambda>x y. cmp x y = Some True) bs" for as bs
    using that
  proof (induction as arbitrary: bs)
    case (Cons a as)
    obtain b bs' where b: "bs = b # bs'" using Cons.prems(1) by (cases bs) auto
    have "a = b"
    proof (rule ccontr)
      assume ne: "a \<noteq> b"
      have st: "set (a # as) = set (b # bs')" using Cons.prems(1) b by (metis mset_eq_setD)
      then have "b \<in> set as" "a \<in> set bs'" using ne by auto
      then have "cmp a b = Some True" "cmp b a = Some True" using Cons.prems(4,5) b by auto
      then show False using anti[of a b] ne st Cons.prems(3) by auto
    qed
    then show ?case using Cons b by auto
  qed simp
  then have "ys = ws" using ys ws assms by (metis distinct_count_atmost_1 mset_eq_setD order_refl)
  then show ?thesis using ys ws by simp
qed

lemma sort_returns: "distinct xs \<Longrightarrow> linear_on cmp (set xs) \<Longrightarrow> srt cmp xs \<noteq> None"
  using sorts by fastforce

end

text \<open>Insertion sort keeps the law.\<close>

fun insort_opt :: "('a \<Rightarrow> 'a \<Rightarrow> bool option) \<Rightarrow> 'a \<Rightarrow> 'a list \<Rightarrow> 'a list option" where
  "insort_opt cmp x [] = Some [x]"
| "insort_opt cmp x (y # ys) =
     (case cmp x y of
        None \<Rightarrow> None
      | Some True \<Rightarrow> Some (x # y # ys)
      | Some False \<Rightarrow> map_option (\<lambda>zs. y # zs) (insort_opt cmp x ys))"

fun insertion_sort :: "('a \<Rightarrow> 'a \<Rightarrow> bool option) \<Rightarrow> 'a list \<Rightarrow> 'a list option" where
  "insertion_sort cmp [] = Some []"
| "insertion_sort cmp (x # xs) =
     (case insertion_sort cmp xs of None \<Rightarrow> None | Some ys \<Rightarrow> insort_opt cmp x ys)"

lemma insort_opt_sorts:
  assumes "linear_on cmp (insert x (set ys))" "x \<notin> set ys" "distinct ys" "sorted_wrt (\<lambda>x y. cmp x y = Some True) ys"
  shows "\<exists>zs. insort_opt cmp x ys = Some zs \<and> mset zs = mset (x # ys) \<and> sorted_wrt (\<lambda>x y. cmp x y = Some True) zs"
  using assms
proof (induction ys)
  case (Cons y ys)
  have xy: "cmp x y \<noteq> None" "cmp x y = Some False \<Longrightarrow> cmp y x = Some True"
    using linear_on_cases[OF Cons.prems(1), of x y] Cons.prems(2) by auto
  have tr: "cmp x z = Some True" if "cmp x y = Some True" "z \<in> set ys" for z
  proof -
    have "cmp y z = Some True" using that Cons.prems(4) by auto
    moreover have "x \<noteq> y" "y \<noteq> z" "x \<noteq> z" using that Cons.prems by auto
    ultimately show ?thesis using linear_on_trans[OF Cons.prems(1), of x y z] that by simp
  qed
  have sub: "linear_on cmp (insert x (set ys))" using Cons.prems(1) by (rule linear_on_subset) auto
  then obtain zs where zs: "insort_opt cmp x ys = Some zs" "mset zs = mset (x # ys)"
    "sorted_wrt (\<lambda>x y. cmp x y = Some True) zs" using Cons by auto
  have "set zs = insert x (set ys)" using zs(2) by (metis list.simps(15) mset_eq_setD)
  then show ?case using zs xy tr Cons.prems(4) by (auto split: option.split bool.split)
qed simp

lemma insertion_sort_sorts:
  assumes "distinct xs" "linear_on cmp (set xs)"
  shows "\<exists>ys. insertion_sort cmp xs = Some ys \<and> mset ys = mset xs \<and> sorted_wrt (\<lambda>x y. cmp x y = Some True) ys"
  using assms
proof (induction xs)
  case (Cons x xs)
  have "linear_on cmp (set xs)" using Cons.prems(2) by (rule linear_on_subset) auto
  then obtain ys where ys: "insertion_sort cmp xs = Some ys" "mset ys = mset xs"
    "sorted_wrt (\<lambda>x y. cmp x y = Some True) ys" using Cons by auto
  have "set ys = set xs" "distinct ys" using ys(2) Cons.prems(1) by (metis mset_eq_setD, metis distinct.simps(2) mset_eq_imp_distinct_iff)
  then show ?case using insort_opt_sorts[of cmp x ys] ys Cons.prems by auto
qed simp

interpretation isort: go_sort insertion_sort
  by unfold_locales (rule insertion_sort_sorts)

section \<open>The order of a block\<close>

text \<open>The transactions of a pool: one per hash, requests of the gate numbered apart, and an account
  written in one way.\<close>

definition txs_ok :: "Transaction list \<Rightarrow> bool" where
  "txs_ok xs \<longleftrightarrow> distinct (map tx_Hash xs) \<and> list_all (\<lambda>t. length (tx_Hash t) = HashLength) xs \<and>
    (\<forall>a \<in> set xs. \<forall>b \<in> set xs. tx_RequestId a = tx_RequestId b \<longrightarrow>
       (if tx_RequestId a = 0 then source_num a = source_num b \<longrightarrow> tx_Source a = tx_Source b else a = b))"

lemma txs_ok_hash:
  assumes "txs_ok xs" "a \<in> set xs" "b \<in> set xs" "a \<noteq> b"
  shows "tx_Hash a \<noteq> tx_Hash b" "hash_num a \<noteq> hash_num b"
proof -
  show h: "tx_Hash a \<noteq> tx_Hash b" using assms by (auto simp: txs_ok_def distinct_map inj_on_def)
  have "length (tx_Hash a) = length (tx_Hash b)" using assms by (simp add: txs_ok_def list_all_iff)
  then show "hash_num a \<noteq> hash_num b" using h be_nat_inject by (auto simp: hash_num_def big_SetBytes_def)
qed

lemma txs_ok_pair:
  assumes "txs_ok xs" "a \<in> set xs" "b \<in> set xs" "tx_RequestId a = tx_RequestId b"
  shows "if tx_RequestId a = 0 then source_num a = source_num b \<longrightarrow> tx_Source a = tx_Source b else a = b"
  using assms unfolding txs_ok_def by blast

lemma txs_ok_source:
  assumes "txs_ok xs" "a \<in> set xs" "b \<in> set xs" "tx_RequestId a = 0" "tx_RequestId b = 0"
  shows "source_num a = source_num b \<longleftrightarrow> tx_Source a = tx_Source b"
  using txs_ok_pair[OF assms(1-3)] assms(4,5) by (auto simp: source_num_def)

text \<open>From proposal 23 on the comparison is the lexicographic one on a key.\<close>

definition tx_key :: "Transaction \<Rightarrow> u64 \<times> int \<times> u64 \<times> int" where
  "tx_key t = (if tx_RequestId t = 0 then (0, - source_num t, tx_Nonce t, - hash_num t) else (tx_RequestId t, 0, 0, 0))"

lemma Less_key:
  assumes "IsProposal023 S" "txs_ok xs" "a \<in> set xs" "b \<in> set xs" "a \<noteq> b"
  shows "Less S a b = Some (tx_key a < tx_key b)"
proof (cases "tx_RequestId a = 0 \<and> tx_RequestId b = 0")
  case True
  then show ?thesis
    using txs_ok_hash(1)[OF assms(2-5)] txs_ok_source[OF assms(2-4)] assms(1)
    by (cases "tx_Source a = tx_Source b") (auto simp: Less_def tx_key_def less_prod_simp)
next
  case False
  then show ?thesis by (auto simp: Less_def tx_key_def less_prod_simp word_neq_0_conv)
qed

lemma tx_key_inj:
  assumes "txs_ok xs" "a \<in> set xs" "b \<in> set xs" "a \<noteq> b"
  shows "tx_key a \<noteq> tx_key b"
  using txs_ok_hash(2)[OF assms] txs_ok_pair[OF assms(1-3)] assms(4) by (auto simp: tx_key_def)

lemma Less_linear:
  assumes "IsProposal023 S" "txs_ok xs"
  shows "linear_on (Less S) (set xs)"
proof -
  note k = Less_key[OF assms] tx_key_inj[OF assms(2)]
  show ?thesis unfolding linear_on_def
  proof (intro conjI ballI impI)
    fix a b assume m: "a \<in> set xs" "b \<in> set xs" "a \<noteq> b"
    show "Less S a b \<noteq> None" "(Less S a b = Some True) = (Less S b a = Some False)"
      using k(1)[OF m] k(1)[OF m(2,1) not_sym[OF m(3)]] k(2)[OF m] by auto
  next
    fix a b c assume m: "a \<in> set xs" "b \<in> set xs" "c \<in> set xs" "a \<noteq> b" "b \<noteq> c" "a \<noteq> c"
      and l: "Less S a b = Some True" "Less S b c = Some True"
    then show "Less S a c = Some True"
      using k(1)[OF m(1,2,4)] k(1)[OF m(2,3,5)] k(1)[OF m(1,3,6)] by auto
  qed
qed

lemma txs_ok_distinct: "txs_ok xs \<Longrightarrow> distinct xs"
  by (auto simp: txs_ok_def distinct_map)

text \<open>Transactions of an account that differ in nonce and hash, and the main net at a height.\<close>

definition sample_tx :: "string \<Rightarrow> u64 \<Rightarrow> byte \<Rightarrow> Transaction" where
  "sample_tx src n h =
    \<lparr>tx_Source = src, tx_Target = [], tx_Type = 2, tx_Time = [], tx_Data = [], tx_ExtraData = [], tx_ExtraDataType = 0,
     tx_SubTransactions = [], tx_SubHash = zero_hash, tx_Hash = replicate 31 0 @ [h], tx_Sign = None, tx_Nonce = n,
     tx_RequestId = 0, tx_SocketRequestId = [], tx_ChainId = ''2025''\<rparr>"

definition main_state :: "u64 \<Rightarrow> ChainState" where
  "main_state h = SetBlockHeight h (initChainConfig ''mainnet'' None)"

lemma sample_hash_num: "hash_num (sample_tx src n h) = int (unat h)"
  by (simp add: hash_num_def sample_tx_def big_SetBytes_def)



text \<open>
  C31: between proposals 16 and 21 the comparison is not an order. Three acceptable transactions,
  two of one account and one of another, are each less than the next around a cycle, so that the
  sorted order of a block depends on the order in which the pool lists them.
\<close>

theorem Less_cyclic:
  assumes "IsProposal016 S" "\<not> IsProposal021 S" "\<not> IsProposal023 S"
  shows "\<exists>a b c. txs_ok [a, b, c] \<and> Less S a b = Some True \<and> Less S b c = Some True \<and> Less S c a = Some True"
proof (intro exI conjI)
  show "txs_ok [sample_tx ''0x01'' 0 1, sample_tx ''0x01'' 1 3, sample_tx ''0x02'' 0 2]" by code_simp
  have s: "tx_RequestId (sample_tx src n h) = 0" "tx_Source (sample_tx src n h) = src" "tx_Nonce (sample_tx src n h) = n"
    for src n h by (simp_all add: sample_tx_def)
  show "Less S (sample_tx ''0x01'' 0 1) (sample_tx ''0x01'' 1 3) = Some True"
    "Less S (sample_tx ''0x01'' 1 3) (sample_tx ''0x02'' 0 2) = Some True"
    "Less S (sample_tx ''0x02'' 0 2) (sample_tx ''0x01'' 0 1) = Some True"
    using assms by (simp_all add: Less_def s sample_hash_num)
qed

theorem Less_cyclic_witness:
  "\<exists>a b c. txs_ok [a, b, c] \<and> Less (main_state 54038500) a b = Some True
    \<and> Less (main_state 54038500) b c = Some True \<and> Less (main_state 54038500) c a = Some True"
proof -
  have "IsProposal016 (main_state 54038500)" "\<not> IsProposal021 (main_state 54038500)" "\<not> IsProposal023 (main_state 54038500)"
    by code_simp+
  then show ?thesis by (rule Less_cyclic)
qed

text \<open>
  C32: the hash that a sender signs does not determine the transaction. Its fields are
  concatenated without separators, so a digit can move from the data to the nonce: the same hash,
  and the same signature, hold for a transaction with other data and another nonce.
\<close>

theorem GenHash_ambiguous:
  "GenHash Sha256 (Some (t\<lparr>tx_Data := d @ ''1'', tx_Nonce := 2\<rparr>)) = GenHash Sha256 (Some (t\<lparr>tx_Data := d, tx_Nonce := 12\<rparr>))"
proof -
  have "itoa (unat (2 :: u64)) = ''2''" "itoa (unat (12 :: u64)) = ''12''" by code_simp+
  then show ?thesis unfolding GenHash_def tx_preimage_def str_bytes_def by simp
qed

end
