(* ===== verification/Tx_Pool.thy ===== *)
theory Tx_Pool
  imports Tx_Order
begin

text \<open>
  The transaction pool (\<^verbatim>\<open>src/service/simple_container.go\<close>, \<^verbatim>\<open>transaction_pool.go\<close>) over the
  databases of \<^verbatim>\<open>src/middleware/db\<close>. Received transactions wait in a container of bounded
  size, in which each has an age; executed ones are written to a database through a batch.

  Packages that are not part of the repository are parameters: the list map of \<^verbatim>\<open>gf\<close> with its
  laws, the LRU cache, the Protobuf and JSON codecs, signature recovery and the decoder of Ethereum
  transactions. A LevelDB file is a map from keys to values. The statistics that
  \<^verbatim>\<open>MarkExecuted\<close> sends to MySQL and the log lines are left out.
\<close>

section \<open>Parameters\<close>

record 'm ListMap =
  lm_New :: 'm
  lm_Size :: "'m \<Rightarrow> nat"
  lm_Contains :: "'m \<Rightarrow> hash \<Rightarrow> bool"
  lm_Get :: "'m \<Rightarrow> hash \<Rightarrow> Transaction option"
  lm_Set :: "'m \<Rightarrow> hash \<Rightarrow> Transaction \<Rightarrow> 'm"
  lm_Removes :: "'m \<Rightarrow> hash list \<Rightarrow> 'm"
  lm_Values :: "'m \<Rightarrow> Transaction list"

text \<open>The laws of \<^verbatim>\<open>gmap.ListMap\<close>: an association list in the order of insertion.\<close>

locale list_map =
  fixes L :: "('m, 'z) ListMap_scheme" and entries :: "'m \<Rightarrow> (hash \<times> Transaction) list" and lm_ok :: "'m \<Rightarrow> bool"
  assumes New: "lm_ok (lm_New L) \<and> entries (lm_New L) = []"
    and keys: "lm_ok m \<Longrightarrow> distinct (map fst (entries m))"
    and Size: "lm_ok m \<Longrightarrow> lm_Size L m = length (entries m)"
    and Contains: "lm_ok m \<Longrightarrow> lm_Contains L m k \<longleftrightarrow> k \<in> fst ` set (entries m)"
    and Get: "lm_ok m \<Longrightarrow> lm_Get L m k = map_of (entries m) k"
    and Set: "lm_ok m \<Longrightarrow> lm_ok (lm_Set L m k v) \<and> entries (lm_Set L m k v) = AList.update k v (entries m)"
    and Removes: "lm_ok m \<Longrightarrow> lm_ok (lm_Removes L m ks) \<and> entries (lm_Removes L m ks) = filter (\<lambda>(k, _). k \<notin> set ks) (entries m)"
    and Values: "lm_ok m \<Longrightarrow> lm_Values L m = map snd (entries m)"

definition alist_map :: "(hash \<times> Transaction) list ListMap" where
  "alist_map =
    \<lparr>lm_New = [], lm_Size = length, lm_Contains = (\<lambda>m k. k \<in> fst ` set m), lm_Get = map_of,
     lm_Set = (\<lambda>m k v. AList.update k v m), lm_Removes = (\<lambda>m ks. filter (\<lambda>(k, _). k \<notin> set ks) m),
     lm_Values = map snd\<rparr>"

lemma distinct_fst_filter: "distinct (map fst m) \<Longrightarrow> distinct (map fst (filter P m))"
  by (induction m) auto

lemma alist_map_laws:
  assumes "ListMap.truncate L = alist_map"
  shows "list_map L id (\<lambda>m. distinct (map fst m))"
proof -
  have f: "lm_New L = []" "lm_Size L = length" "lm_Contains L = (\<lambda>m k. k \<in> fst ` set m)" "lm_Get L = map_of"
    "lm_Set L = (\<lambda>m k v. AList.update k v m)" "lm_Removes L = (\<lambda>m ks. filter (\<lambda>(k, _). k \<notin> set ks) m)" "lm_Values L = map snd"
    using assms by (simp_all add: ListMap.truncate_def alist_map_def)
  show ?thesis by unfold_locales (auto simp: f distinct_update distinct_fst_filter)
qed

interpretation alm: list_map alist_map id "\<lambda>m. distinct (map fst m)"
  by (rule alist_map_laws) (simp add: ListMap.truncate_def alist_map_def)

record Receipt =
  rc_PostState :: bytes
  rc_Status :: u64
  rc_CumulativeGasUsed :: u64
  rc_Height :: u64
  rc_TxHash :: hash
  rc_Msg :: string
  rc_Source :: string
  rc_ContractAddress :: address
  rc_Logs :: "Log list"
  rc_Result :: string
  rc_GasUsed :: u64

record ExecutedReceipt = Receipt +
  er_BlockHash :: hash

record ExecutedTransaction =
  et_Receipt :: ExecutedReceipt
  et_Transaction :: bytes

record ('m, 'e, 'k, 'x) PoolEnv = "'m ListMap" +
  lru_New :: 'e
  lru_Add :: "'e \<Rightarrow> hash \<Rightarrow> 'e"
  lru_Remove :: "'e \<Rightarrow> hash \<Rightarrow> 'e"
  MarshalTransaction :: "Transaction option \<Rightarrow> bytes"
  UnMarshalTransaction :: "bytes \<Rightarrow> Transaction"
  json_Marshal :: "ExecutedTransaction \<Rightarrow> bytes option"
  json_Unmarshal :: "bytes \<Rightarrow> ExecutedTransaction option"
  sort_Sort :: "(Transaction \<Rightarrow> Transaction \<Rightarrow> bool option) \<Rightarrow> Transaction list \<Rightarrow> Transaction list option"
  Sha256 :: "bytes \<Rightarrow> bytes"
  RecoverPubkey :: "Sign \<Rightarrow> bytes \<Rightarrow> 'k option"
  pk_Verify :: "'k \<Rightarrow> bytes \<Rightarrow> Sign \<Rightarrow> bool"
  pk_GetAddress :: "'k \<Rightarrow> address"
  rlp_DecodeTx :: "bytes \<Rightarrow> 'x option"
  eth_Sender :: "int option \<Rightarrow> 'x \<Rightarrow> address option"
  ConvertTx :: "'x \<Rightarrow> address \<Rightarrow> bytes \<Rightarrow> Transaction"
  instance_file :: string

section \<open>Databases\<close>

type_synonym disks = "string \<Rightarrow> bytes \<rightharpoonup> bytes"

text \<open>A file of its own, or the keys with a prefix in the file that the node's databases share.\<close>

datatype Database = LDBDatabase string | PrefixedDatabase string

definition generateKey :: "bytes \<Rightarrow> string \<Rightarrow> bytes" where
  "generateKey raw prefix' = str_bytes prefix' @ raw"

definition db_place :: "('m, 'e, 'k, 'x) PoolEnv \<Rightarrow> Database \<Rightarrow> bytes \<Rightarrow> string \<times> bytes" where
  "db_place L d key =
    (case d of LDBDatabase f \<Rightarrow> (f, key) | PrefixedDatabase p \<Rightarrow> (instance_file L, generateKey key p))"

definition db_Get :: "('m, 'e, 'k, 'x) PoolEnv \<Rightarrow> Database \<Rightarrow> bytes \<Rightarrow> disks \<Rightarrow> bytes option" where
  "db_Get L d key ds = (let (f, k) = db_place L d key in ds f k)"

definition db_Has :: "('m, 'e, 'k, 'x) PoolEnv \<Rightarrow> Database \<Rightarrow> bytes \<Rightarrow> disks \<Rightarrow> bool" where
  "db_Has L d key ds = (db_Get L d key ds \<noteq> None)"

definition db_Delete :: "('m, 'e, 'k, 'x) PoolEnv \<Rightarrow> Database \<Rightarrow> bytes \<Rightarrow> disks \<Rightarrow> disks" where
  "db_Delete L d key ds = (let (f, k) = db_place L d key in ds(f := (ds f)(k := None)))"

record ldbBatch =
  b_db :: string
  b_puts :: "(bytes \<times> bytes) list"
  b_size :: nat

definition batch_Put :: "bytes \<Rightarrow> bytes \<Rightarrow> ldbBatch \<Rightarrow> ldbBatch" where
  "batch_Put key value b = b\<lparr>b_puts := b_puts b @ [(key, value)], b_size := b_size b + length value\<rparr>"

definition batch_Write :: "ldbBatch \<Rightarrow> disks \<Rightarrow> disks" where
  "batch_Write b ds = ds(b_db b := ds (b_db b) ++ map_of (rev (b_puts b)))"

definition batch_Reset :: "ldbBatch \<Rightarrow> ldbBatch" where
  "batch_Reset b = b\<lparr>b_puts := [], b_size := 0\<rparr>"

section \<open>The container\<close>

definition expiredRing :: u64 where "expiredRing = 5"

record 'm simpleContainer =
  c_limit :: nat
  c_data :: 'm
  txAnnualRingMap :: "(hash \<times> u64) list"

definition newSimpleContainer :: "('m, 'z) ListMap_scheme \<Rightarrow> nat \<Rightarrow> 'm simpleContainer" where
  "newSimpleContainer L l = \<lparr>c_limit = l, c_data = lm_New L, txAnnualRingMap = []\<rparr>"

definition c_Len :: "('m, 'z) ListMap_scheme \<Rightarrow> 'm simpleContainer \<Rightarrow> nat" where
  "c_Len L c = lm_Size L (c_data c)"

definition c_isFull :: "('m, 'z) ListMap_scheme \<Rightarrow> 'm simpleContainer \<Rightarrow> bool" where
  "c_isFull L c \<longleftrightarrow> lm_Size L (c_data c) \<ge> c_limit c"

definition c_contains :: "('m, 'z) ListMap_scheme \<Rightarrow> hash \<Rightarrow> 'm simpleContainer \<Rightarrow> bool" where
  "c_contains L key c = lm_Contains L (c_data c) key"

definition c_get :: "('m, 'z) ListMap_scheme \<Rightarrow> hash \<Rightarrow> 'm simpleContainer \<Rightarrow> Transaction option" where
  "c_get L key c = lm_Get L (c_data c) key"

definition c_asSlice :: "('m, 'z) ListMap_scheme \<Rightarrow> 'm simpleContainer \<Rightarrow> Transaction list" where
  "c_asSlice L c = lm_Values L (c_data c)"

definition c_push :: "('m, 'z) ListMap_scheme \<Rightarrow> Transaction \<Rightarrow> 'm simpleContainer \<Rightarrow> 'm simpleContainer" where
  "c_push L tx c =
    (if lm_Size L (c_data c) < c_limit c
     then c\<lparr>c_data := lm_Set L (c_data c) (tx_Hash tx) tx,
            txAnnualRingMap := AList.update (tx_Hash tx) 0 (txAnnualRingMap c)\<rparr>
     else c)"

definition c_remove :: "('m, 'z) ListMap_scheme \<Rightarrow> hash list \<Rightarrow> 'm simpleContainer \<Rightarrow> 'm simpleContainer" where
  "c_remove L txHashList c =
    c\<lparr>c_data := lm_Removes L (c_data c) txHashList,
      txAnnualRingMap := fold AList.delete txHashList (txAnnualRingMap c)\<rparr>"

definition growRing :: "('m, 'z) ListMap_scheme \<Rightarrow> 'm simpleContainer \<Rightarrow> 'm simpleContainer" where
  "growRing L c =
    (let rings = map (\<lambda>(h, r). (h, r + 1)) (txAnnualRingMap c);
         expired = map fst (filter (\<lambda>(h, r). r \<ge> expiredRing) rings);
         c = c\<lparr>txAnnualRingMap := rings\<rparr>
     in if length expired > 0 then c_remove L expired c else c)"

section \<open>The pool\<close>

definition rcvTxPoolSize :: nat where "rcvTxPoolSize = 50000"
definition txCountPerBlock :: nat where "txCountPerBlock = 200"
definition txDataBasePrefix :: string where "txDataBasePrefix = ''tx''"

datatype pool_error = ErrNil | ErrChainId | ErrHash | ErrSign | ErrExist | ErrEvicted | ErrIllegal

record ('m, 'e) TxPool =
  evictedTxs :: 'e
  received :: "'m simpleContainer"
  executed :: Database
  batch :: ldbBatch
  disks :: disks

definition newTransactionPool :: "('m, 'e, 'k, 'x) PoolEnv \<Rightarrow> disks \<Rightarrow> ('m, 'e) TxPool" where
  "newTransactionPool L ds =
    \<lparr>evictedTxs = lru_New L, received = newSimpleContainer L rcvTxPoolSize,
     executed = LDBDatabase txDataBasePrefix,
     batch = \<lparr>b_db = txDataBasePrefix, b_puts = [], b_size = 0\<rparr>, disks = ds\<rparr>"

definition refreshGateNonce :: "Transaction \<Rightarrow> ('m, 'e) TxPool \<Rightarrow> ('m, 'e) TxPool" where
  "refreshGateNonce tx pool =
    (case tx_SubTransactions tx of
       [sub] \<Rightarrow>
         if ud_Address sub \<noteq> 0
         then pool\<lparr>batch := batch_Put (str_bytes txDataBasePrefix) (UInt64ToByte (ud_Address sub)) (batch pool)\<rparr>
         else pool
     | _ \<Rightarrow> pool)"

definition GetGateNonce :: "('m, 'e, 'k, 'x) PoolEnv \<Rightarrow> ('m, 'e) TxPool \<Rightarrow> u64" where
  "GetGateNonce L pool =
    (case db_Get L (executed pool) (str_bytes txDataBasePrefix) (disks pool) of
       None \<Rightarrow> 0
     | Some data \<Rightarrow> if length data = 0 then 0 else ByteToUInt64 data)"

definition isTransactionExisted :: "('m, 'e, 'k, 'x) PoolEnv \<Rightarrow> hash \<Rightarrow> ('m, 'e) TxPool \<Rightarrow> bool" where
  "isTransactionExisted L h pool =
    (if c_contains L h (received pool) then True else db_Has L (executed pool) h (disks pool))"

definition pool_add ::
  "('m, 'e, 'k, 'x) PoolEnv \<Rightarrow> Transaction option \<Rightarrow> ('m, 'e) TxPool \<Rightarrow> (bool \<times> pool_error option) \<times> ('m, 'e) TxPool" where
  "pool_add L t pool =
    (case t of
       None \<Rightarrow> ((False, Some ErrNil), pool)
     | Some tx \<Rightarrow>
         if isTransactionExisted L (tx_Hash tx) pool then ((False, Some ErrExist), pool)
         else ((True, None), pool\<lparr>received := c_push L tx (received pool)\<rparr>))"

text \<open>\<open>add\<close> refuses nil, so the nonce is refreshed for a transaction.\<close>

definition AddTransaction ::
  "('m, 'e, 'k, 'x) PoolEnv \<Rightarrow> Transaction option \<Rightarrow> ('m, 'e) TxPool \<Rightarrow> (bool \<times> pool_error option) \<times> ('m, 'e) TxPool" where
  "AddTransaction L t pool =
    (let ((b, err), pool) = pool_add L t pool
     in case (err, t) of
          (None, Some tx) \<Rightarrow> ((b, err), refreshGateNonce tx pool)
        | _ \<Rightarrow> ((b, err), pool))"

definition pool_remove :: "('m, 'e, 'k, 'x) PoolEnv \<Rightarrow> hash list \<Rightarrow> ('m, 'e) TxPool \<Rightarrow> ('m, 'e) TxPool" where
  "pool_remove L txHashList pool = pool\<lparr>received := c_remove L txHashList (received pool)\<rparr>"

definition findTxInList :: "Transaction list \<Rightarrow> hash \<Rightarrow> nat \<Rightarrow> Transaction option" where
  "findTxInList txs txHash receiptIndex =
    (if length txs = 0 then None
     else if receiptIndex < length txs \<and> tx_Hash (txs ! receiptIndex) = txHash then Some (txs ! receiptIndex)
     else find (\<lambda>tx. tx_Hash tx = txHash) txs)"

definition executed_receipt :: "hash \<Rightarrow> Receipt \<Rightarrow> ExecutedReceipt" where
  "executed_receipt blockHash r =
    \<lparr>rc_PostState = [], rc_Status = rc_Status r, rc_CumulativeGasUsed = 0, rc_Height = rc_Height r, rc_TxHash = rc_TxHash r,
     rc_Msg = [], rc_Source = [], rc_ContractAddress = rc_ContractAddress r, rc_Logs = rc_Logs r,
     rc_Result = (if length (rc_Result r) \<noteq> 0 then rc_Result r else []), rc_GasUsed = rc_GasUsed r,
     er_BlockHash = blockHash\<rparr>"

definition flush_batch :: "('m, 'e) TxPool \<Rightarrow> ('m, 'e) TxPool" where
  "flush_batch pool = pool\<lparr>disks := batch_Write (batch pool) (disks pool), batch := batch_Reset (batch pool)\<rparr>"

text \<open>The loop over the receipts; a receipt without its transaction is a nil dereference.\<close>

fun mark_receipts ::
  "('m, 'e, 'k, 'x) PoolEnv \<Rightarrow> hash \<Rightarrow> Transaction list \<Rightarrow> nat \<Rightarrow> Receipt list \<Rightarrow> ('m, 'e) TxPool \<Rightarrow> ('m, 'e) TxPool option" where
  "mark_receipts L blockHash txs i [] pool = Some pool"
| "mark_receipts L blockHash txs i (r # rs) pool =
     (let tx = findTxInList txs (rc_TxHash r) i;
          executedTx = \<lparr>et_Receipt = executed_receipt blockHash r, et_Transaction = MarshalTransaction L tx\<rparr>
      in case json_Marshal L executedTx of
           None \<Rightarrow> mark_receipts L blockHash txs (Suc i) rs pool
         | Some data \<Rightarrow>
             (let pool = pool\<lparr>batch := batch_Put (rc_TxHash r) data (batch pool)\<rparr>;
                  pool = (if b_size (batch pool) > 100 * 1024 then flush_batch pool else pool)
              in case tx of
                   None \<Rightarrow> None
                 | Some tx \<Rightarrow> mark_receipts L blockHash txs (Suc i) rs (refreshGateNonce tx pool)))"

definition MarkExecuted ::
  "('m, 'e, 'k, 'x) PoolEnv \<Rightarrow> hash \<Rightarrow> Receipt list \<Rightarrow> Transaction list \<Rightarrow> hash list \<Rightarrow> ('m, 'e) TxPool \<Rightarrow> ('m, 'e) TxPool option" where
  "MarkExecuted L blockHash receipts txs evicted pool =
    do {
      pool \<leftarrow> (if length receipts \<noteq> 0
               then map_option (\<lambda>pool. if b_size (batch pool) > 0 then flush_batch pool else pool)
                      (mark_receipts L blockHash txs 0 receipts pool)
               else Some pool);
      let txHashList = map rc_TxHash receipts @ evicted;
      let pool = pool\<lparr>evictedTxs := fold (\<lambda>h e. lru_Add L e h) evicted (evictedTxs pool)\<rparr>;
      Some (if length txHashList > 0 then pool_remove L txHashList pool else pool)
    }"

definition unmark_tx :: "('m, 'e, 'k, 'x) PoolEnv \<Rightarrow> Transaction \<Rightarrow> ('m, 'e) TxPool \<Rightarrow> ('m, 'e) TxPool" where
  "unmark_tx L tx pool =
    snd (pool_add L (Some tx) (pool\<lparr>disks := db_Delete L (executed pool) (tx_Hash tx) (disks pool)\<rparr>))"

definition UnMarkExecuted ::
  "('m, 'e, 'k, 'x) PoolEnv \<Rightarrow> Transaction list \<Rightarrow> hash list \<Rightarrow> ('m, 'e) TxPool \<Rightarrow> ('m, 'e) TxPool" where
  "UnMarkExecuted L txs evicted pool =
    (if length txs = 0 then pool
     else
       (let pool = pool\<lparr>evictedTxs := fold (\<lambda>h e. lru_Remove L e h) evicted (evictedTxs pool)\<rparr>
        in fold (unmark_tx L) txs pool))"

definition complete_logs :: "ExecutedReceipt \<Rightarrow> ExecutedReceipt" where
  "complete_logs r =
    r\<lparr>rc_Logs := map (\<lambda>l. l\<lparr>log_BlockHash := er_BlockHash r, log_TxHash := rc_TxHash r\<rparr>) (rc_Logs r)\<rparr>"

definition GetExecuted :: "('m, 'e, 'k, 'x) PoolEnv \<Rightarrow> hash \<Rightarrow> ('m, 'e) TxPool \<Rightarrow> ExecutedTransaction option" where
  "GetExecuted L h pool =
    do {
      txBytes \<leftarrow> db_Get L (executed pool) h (disks pool);
      executedTx \<leftarrow> json_Unmarshal L txBytes;
      Some (executedTx\<lparr>et_Receipt := complete_logs (et_Receipt executedTx)\<rparr>)
    }"

definition GetTransaction :: "('m, 'e, 'k, 'x) PoolEnv \<Rightarrow> hash \<Rightarrow> ('m, 'e) TxPool \<Rightarrow> pool_error + Transaction" where
  "GetTransaction L h pool =
    (case c_get L h (received pool) of
       Some tx \<Rightarrow> Inr tx
     | None \<Rightarrow>
         (case GetExecuted L h pool of
            Some et \<Rightarrow> Inr (UnMarshalTransaction L (et_Transaction et))
          | None \<Rightarrow> Inl ErrNil))"

definition GetTransactionStatus :: "('m, 'e, 'k, 'x) PoolEnv \<Rightarrow> hash \<Rightarrow> ('m, 'e) TxPool \<Rightarrow> pool_error + u64" where
  "GetTransactionStatus L h pool =
    (case GetExecuted L h pool of None \<Rightarrow> Inl ErrNil | Some et \<Rightarrow> Inr (rc_Status (et_Receipt et)))"

text \<open>The batch is reset, but it still belongs to the file that the pool was created with.\<close>

definition Clear :: "('m, 'e, 'k, 'x) PoolEnv \<Rightarrow> ('m, 'e) TxPool \<Rightarrow> ('m, 'e) TxPool" where
  "Clear L pool =
    pool\<lparr>executed := PrefixedDatabase txDataBasePrefix, batch := batch_Reset (batch pool),
         received := newSimpleContainer L rcvTxPoolSize\<rparr>"

definition TxNum :: "('m, 'e, 'k, 'x) PoolEnv \<Rightarrow> ('m, 'e) TxPool \<Rightarrow> nat" where
  "TxNum L pool = c_Len L (received pool)"

definition IsFull :: "('m, 'e, 'k, 'x) PoolEnv \<Rightarrow> ('m, 'e) TxPool \<Rightarrow> bool" where
  "IsFull L pool = c_isFull L (received pool)"

definition GetReceived :: "('m, 'e, 'k, 'x) PoolEnv \<Rightarrow> ('m, 'e) TxPool \<Rightarrow> Transaction list" where
  "GetReceived L pool = c_asSlice L (received pool)"

section \<open>Packing a block\<close>

text \<open>The next nonce of a sender: the one noted while packing, or the one of its account.\<close>

definition expected_nonce ::
  "('t, 'y) AccountEnv_scheme \<Rightarrow> string \<Rightarrow> (string \<times> u64) list \<Rightarrow> 't AccountDB \<Rightarrow> u64 \<times> (string \<times> u64) list \<times> 't AccountDB" where
  "expected_nonce E src nonceMap adb =
    (case map_of nonceMap src of
       Some n \<Rightarrow> (n, nonceMap, adb)
     | None \<Rightarrow> (let (n, adb) = GetNonce E (HexToAddress src) adb in (n, AList.update src n nonceMap, adb)))"

fun check_nonces ::
  "('t, 'y) AccountEnv_scheme \<Rightarrow> Transaction list \<Rightarrow> Transaction list \<Rightarrow> (string \<times> u64) list \<Rightarrow> 't AccountDB \<Rightarrow>
   Transaction list \<times> 't AccountDB" where
  "check_nonces E [] packedTxs nonceMap adb = (packedTxs, adb)"
| "check_nonces E (tx # txs) packedTxs nonceMap adb =
     (if tx_RequestId tx = 0 then
        (let (expectedNonce, nonceMap, adb) = expected_nonce E (tx_Source tx) nonceMap adb
         in if expectedNonce < tx_Nonce tx then check_nonces E txs packedTxs nonceMap adb
            else
              (let nonceMap = (if expectedNonce = tx_Nonce tx then AList.update (tx_Source tx) (expectedNonce + 1) nonceMap
                               else nonceMap);
                   packedTxs = packedTxs @ [tx]
               in if length packedTxs \<ge> txCountPerBlock then (packedTxs, adb) else check_nonces E txs packedTxs nonceMap adb))
      else
        (let packedTxs = packedTxs @ [tx]
         in if length packedTxs \<ge> txCountPerBlock then (packedTxs, adb) else check_nonces E txs packedTxs nonceMap adb))"

definition checkNonce ::
  "('m, 'e, 'k, 'x) PoolEnv \<Rightarrow> ChainState \<Rightarrow> ('t, 'y) AccountEnv_scheme \<Rightarrow> Transaction list \<Rightarrow> 't AccountDB \<Rightarrow>
   (Transaction list \<times> 't AccountDB) option" where
  "checkNonce L S E txList adb = map_option (\<lambda>txs. check_nonces E txs [] [] adb) (sort_Sort L (Less S) txList)"

definition PackForCast ::
  "('m, 'e, 'k, 'x) PoolEnv \<Rightarrow> ChainState \<Rightarrow> ('t, 'y) AccountEnv_scheme \<Rightarrow> 't AccountDB \<Rightarrow> ('m, 'e) TxPool \<Rightarrow>
   (Transaction list \<times> 't AccountDB) option" where
  "PackForCast L S E adb pool =
    (let txs = c_asSlice L (received pool)
     in if length txs = 0 then Some ([], adb)
        else map_option (\<lambda>(packedTxs, adb). (take txCountPerBlock packedTxs, adb))
               (if IsProposal018 S then checkNonce L S E txs adb else Some (txs, adb)))"

section \<open>Verification and fees\<close>

definition verifyTxChainId :: "ChainState \<Rightarrow> Transaction \<Rightarrow> u64 \<Rightarrow> pool_error option" where
  "verifyTxChainId S tx height = (if tx_ChainId tx \<noteq> ChainId S height then Some ErrChainId else None)"

definition verifyTransactionHash :: "('m, 'e, 'k, 'x) PoolEnv \<Rightarrow> Transaction \<Rightarrow> pool_error option" where
  "verifyTransactionHash L tx = (if tx_Hash tx \<noteq> GenHash (Sha256 L) (Some tx) then Some ErrHash else None)"

definition verifyTransactionSign :: "('m, 'e, 'k, 'x) PoolEnv \<Rightarrow> Transaction \<Rightarrow> pool_error option" where
  "verifyTransactionSign L tx =
    (case tx_Sign tx of
       None \<Rightarrow> Some ErrSign
     | Some sg \<Rightarrow>
         (case RecoverPubkey L sg (tx_Hash tx) of
            None \<Rightarrow> Some ErrSign
          | Some pk \<Rightarrow>
              if \<not> pk_Verify L pk (tx_Hash tx) sg then Some ErrSign
              else if tx_Source tx \<noteq> GetHexString (pk_GetAddress L pk) then Some ErrSign
              else None))"

definition compareTx :: "Transaction \<Rightarrow> Transaction \<Rightarrow> bool" where
  "compareTx tx expectedTx \<longleftrightarrow>
    tx_Source tx = tx_Source expectedTx \<and> tx_Target tx = tx_Target expectedTx \<and> tx_Type tx = tx_Type expectedTx \<and>
    tx_ExtraData tx = tx_ExtraData expectedTx \<and> tx_Nonce tx = tx_Nonce expectedTx \<and> tx_ChainId tx = tx_ChainId expectedTx \<and>
    tx_Data tx = tx_Data expectedTx \<and> tx_Hash tx = tx_Hash expectedTx"

definition verifyETHTx :: "('m, 'e, 'k, 'x) PoolEnv \<Rightarrow> ChainState \<Rightarrow> Transaction \<Rightarrow> u64 \<Rightarrow> pool_error option" where
  "verifyETHTx L S tx height =
    (let encodedTx = FromHex (tx_ExtraData tx)
     in case rlp_DecodeTx L encodedTx of
          None \<Rightarrow> Some ErrIllegal
        | Some ethTx \<Rightarrow>
            (case eth_Sender L (GetChainId S height) ethTx of
               None \<Rightarrow> Some ErrIllegal
             | Some sender \<Rightarrow> if \<not> compareTx tx (ConvertTx L ethTx sender encodedTx) then Some ErrIllegal else None))"

definition VerifyTransaction :: "('m, 'e, 'k, 'x) PoolEnv \<Rightarrow> ChainState \<Rightarrow> Transaction \<Rightarrow> u64 \<Rightarrow> pool_error option" where
  "VerifyTransaction L S tx height =
    (if tx_Type tx = TransactionTypeETHTX then verifyETHTx L S tx height
     else case verifyTxChainId S tx height of
            Some e \<Rightarrow> Some e
          | None \<Rightarrow> (case verifyTransactionHash L tx of Some e \<Rightarrow> Some e | None \<Rightarrow> verifyTransactionSign L tx))"

definition FeeAccount :: address where
  "FeeAccount = HexToAddress ''0x3966eafd38c5f10cc91eaacaeff1b6682b83ced4''"

definition delta :: "int option" where "delta = StrToBigInt ''0.0001''"
definition delta026 :: "int option" where "delta026 = StrToBigInt ''0.001''"

text \<open>The result is whether the fee was paid; a nil fee would be dereferenced.\<close>

definition ProcessFee ::
  "ChainState \<Rightarrow> ('t, 'y) AccountEnv_scheme \<Rightarrow> Transaction \<Rightarrow> 't AccountDB \<Rightarrow> (bool \<times> 't AccountDB) option" where
  "ProcessFee S E tx adb =
    do {
      let addr = HexStringToAddress (tx_Source tx);
      (balance, adb) \<leftarrow> GetBalance E addr adb;
      fee \<leftarrow> (if IsProposal026 S then delta026 else delta);
      if balance < fee then Some (False, adb)
      else do {
        (_, adb) \<leftarrow> SubBalance E addr fee adb;
        adb \<leftarrow> AddBalance E FeeAccount fee adb;
        Some (True, adb)
      }
    }"

end
