(* ===== verification/Tx_Pool_Safe.thy ===== *)
theory Tx_Pool_Safe
  imports Tx_Pool Account_Revert
begin

text \<open>
  Properties of the transaction pool: the invariant of its reachable states, that a transaction
  expires, that executed transactions can be read back, and that packing a block leaves no gap
  between the nonces of a sender.
\<close>

section \<open>Lists and batches\<close>

lemma fold_delete: "fold AList.delete ks xs = filter (\<lambda>(k, _). k \<notin> set ks) xs"
proof (induction ks arbitrary: xs)
  case (Cons k ks)
  have "AList.delete k xs = filter (\<lambda>(j, _). j \<noteq> k) xs" unfolding AList.delete_eq by (rule filter_cong) auto
  then show ?case using Cons by (auto simp: case_prod_beta intro: filter_cong)
qed simp

lemma set_update: "distinct (map fst xs) \<Longrightarrow> set (AList.update k v xs) = insert (k, v) {(j, w) \<in> set xs. j \<noteq> k}"
  by (induction xs) (auto simp: image_iff)

lemma length_update_new: "k \<notin> fst ` set xs \<Longrightarrow> length (AList.update k v xs) = Suc (length xs)"
  by (induction xs) auto

lemma map_of_filter_keys: "map_of (filter (\<lambda>(k, _). k \<notin> S) xs) h = (if h \<in> S then None else map_of xs h)"
  by (induction xs) auto

text \<open>The keys a batch or a pool operation may write.\<close>

definition gate_key :: bytes where "gate_key = str_bytes txDataBasePrefix"

definition batch_ok :: "bytes set \<Rightarrow> ldbBatch \<Rightarrow> bool" where
  "batch_ok K b \<longleftrightarrow> fst ` set (b_puts b) \<subseteq> K \<and> (\<forall>(k, v) \<in> set (b_puts b). v \<noteq> []) \<and> b_size b = (\<Sum>(k, v)\<leftarrow>b_puts b. length v)"

definition same_off :: "bytes set \<Rightarrow> disks \<Rightarrow> disks \<Rightarrow> bool" where
  "same_off K ds ds' \<longleftrightarrow> (\<forall>f k. k \<notin> K \<longrightarrow> ds' f k = ds f k)"

lemma length_gate_key [simp]: "length gate_key = 2"
  by (simp add: gate_key_def str_bytes_def txDataBasePrefix_def)

lemma same_off_refl [simp]: "same_off K ds ds"
  by (simp add: same_off_def)

lemma same_off_trans: "same_off K a b \<Longrightarrow> same_off K b c \<Longrightarrow> same_off K a c"
  by (simp add: same_off_def)

lemma batch_ok_mono: "batch_ok K b \<Longrightarrow> K \<subseteq> K' \<Longrightarrow> batch_ok K' b"
  by (auto simp: batch_ok_def)

lemma batch_ok_Put: "batch_ok K b \<Longrightarrow> k \<in> K \<Longrightarrow> v \<noteq> [] \<Longrightarrow> batch_ok K (batch_Put k v b)"
  by (auto simp: batch_ok_def batch_Put_def)

lemma batch_ok_Reset [simp]: "batch_ok K (batch_Reset b)"
  by (simp add: batch_ok_def batch_Reset_def)

lemma batch_ok_empty: "batch_ok K b \<Longrightarrow> \<not> b_size b > 0 \<Longrightarrow> b_puts b = []"
  by (cases "b_puts b") (auto simp: batch_ok_def)

lemma batch_ok_Write:
  assumes "batch_ok K b"
  shows "same_off K ds (batch_Write b ds)"
  unfolding same_off_def
proof (intro allI impI)
  fix f k assume "k \<notin> K"
  then have "map_of (rev (b_puts b)) k = None" using assms by (auto simp: batch_ok_def map_of_eq_None_iff)
  then show "batch_Write b ds f k = ds f k" by (simp add: batch_Write_def map_add_def)
qed

lemma flush_fields [simp]:
  "received (flush_batch P) = received P" "executed (flush_batch P) = executed P" "evictedTxs (flush_batch P) = evictedTxs P"
  by (simp_all add: flush_batch_def)

lemma refresh_fields [simp]:
  "received (refreshGateNonce tx P) = received P" "executed (refreshGateNonce tx P) = executed P"
  "disks (refreshGateNonce tx P) = disks P" "b_db (batch (refreshGateNonce tx P)) = b_db (batch P)"
  by (simp_all add: refreshGateNonce_def batch_Put_def split: list.split)

lemma refresh_batch: "batch_ok K (batch P) \<Longrightarrow> gate_key \<in> K \<Longrightarrow> batch_ok K (batch (refreshGateNonce tx P))"
  by (auto simp: refreshGateNonce_def UInt64ToByte_def gate_key_def split: list.split intro!: batch_ok_Put
      simp flip: length_0_conv)

lemma mark_receipts_frame:
  assumes "mark_receipts L bh txs i rs P = Some P'" "batch_ok K (batch P)" "gate_key \<in> K" "rc_TxHash ` set rs \<subseteq> K"
    "\<And>x. json_Marshal L x \<noteq> Some []"
  shows "received P' = received P \<and> executed P' = executed P \<and> batch_ok K (batch P') \<and> same_off K (disks P) (disks P')"
  using assms(1,2,4)
proof (induction rs arbitrary: i P)
  case (Cons r rs)
  let ?tx = "findTxInList txs (rc_TxHash r) i"
  let ?e = "\<lparr>et_Receipt = executed_receipt bh r, et_Transaction = MarshalTransaction L ?tx\<rparr>"
  let ?P1 = "\<lambda>d. P\<lparr>batch := batch_Put (rc_TxHash r) d (batch P)\<rparr>"
  let ?P2 = "\<lambda>d. if b_size (batch (?P1 d)) > 100 * 1024 then flush_batch (?P1 d) else ?P1 d"
  show ?case
  proof (cases "json_Marshal L ?e")
    case None
    then show ?thesis using Cons by (auto simp: Let_def)
  next
    case (Some d)
    have "d \<noteq> []" using assms(5)[of ?e] Some by auto
    then have b1: "batch_ok K (batch (?P1 d))" using Cons.prems by (auto intro: batch_ok_Put)
    then have b2: "batch_ok K (batch (?P2 d))" by (auto simp: flush_batch_def)
    have s: "same_off K (disks P) (disks (?P2 d))"
      using batch_ok_Write[OF b1, of "disks P"] by (auto simp: flush_batch_def)
    obtain tx where tx: "?tx = Some tx" "mark_receipts L bh txs (Suc i) rs (refreshGateNonce tx (?P2 d)) = Some P'"
      using Cons.prems(1) Some by (simp add: Let_def split: option.splits)
    have "received (?P2 d) = received P" "executed (?P2 d) = executed P" by simp_all
    then show ?thesis
      using Cons.IH[OF tx(2) refresh_batch[OF b2 assms(3)]] Cons.prems(3) s same_off_trans[OF s] by auto
  qed
qed simp

lemma MarkExecuted_parts:
  assumes "MarkExecuted L bh rs txs ev P = Some P'"
  obtains Q where
    "(if rs \<noteq> [] then map_option (\<lambda>Q. if b_size (batch Q) > 0 then flush_batch Q else Q) (mark_receipts L bh txs 0 rs P)
      else Some P) = Some Q"
    "received P' = c_remove L (map rc_TxHash rs @ ev) (received Q) \<or> map rc_TxHash rs @ ev = [] \<and> received P' = received Q"
    "batch P' = batch Q" "executed P' = executed Q" "disks P' = disks Q"
  using assms by (auto simp: MarkExecuted_def pool_remove_def Let_def split: bind_split_asm if_splits)

section \<open>The container\<close>

definition cont_pre :: "('m \<Rightarrow> (hash \<times> Transaction) list) \<Rightarrow> ('m \<Rightarrow> bool) \<Rightarrow> 'm simpleContainer \<Rightarrow> bool" where
  "cont_pre entries lm_ok c \<longleftrightarrow> lm_ok (c_data c) \<and> length (entries (c_data c)) \<le> c_limit c \<and>
    (\<forall>(h, tx) \<in> set (entries (c_data c)). tx_Hash tx = h \<and> length h = HashLength) \<and>
    distinct (map fst (txAnnualRingMap c)) \<and> fst ` set (txAnnualRingMap c) = fst ` set (entries (c_data c))"

definition cont_ok :: "('m \<Rightarrow> (hash \<times> Transaction) list) \<Rightarrow> ('m \<Rightarrow> bool) \<Rightarrow> 'm simpleContainer \<Rightarrow> bool" where
  "cont_ok entries lm_ok c \<longleftrightarrow> cont_pre entries lm_ok c \<and> (\<forall>h r. map_of (txAnnualRingMap c) h = Some r \<longrightarrow> r < expiredRing)"

definition hashes :: "('m \<Rightarrow> (hash \<times> Transaction) list) \<Rightarrow> 'm simpleContainer \<Rightarrow> hash set" where
  "hashes entries c = fst ` set (entries (c_data c))"

context list_map
begin

lemma new_ok: "cont_ok entries lm_ok (newSimpleContainer L n)" "hashes entries (newSimpleContainer L n) = {}"
  using New by (simp_all add: cont_ok_def cont_pre_def newSimpleContainer_def hashes_def)

lemma push_ok:
  assumes "cont_ok entries lm_ok c" "length (tx_Hash tx) = HashLength" "tx_Hash tx \<notin> hashes entries c"
  shows "cont_ok entries lm_ok (c_push L tx c)"
    and "hashes entries (c_push L tx c) = (if lm_Size L (c_data c) < c_limit c then insert (tx_Hash tx) (hashes entries c) else hashes entries c)"
    and "h \<noteq> tx_Hash tx \<Longrightarrow> map_of (txAnnualRingMap (c_push L tx c)) h = map_of (txAnnualRingMap c) h"
proof -
  have w: "lm_ok (c_data c)" using assms(1) by (simp add: cont_ok_def cont_pre_def)
  note f = Set[OF w, of "tx_Hash tx" tx] Size[OF w] keys[OF w]
  show "hashes entries (c_push L tx c) = (if lm_Size L (c_data c) < c_limit c then insert (tx_Hash tx) (hashes entries c) else hashes entries c)"
    using f by (simp add: c_push_def hashes_def dom_update)
  show "h \<noteq> tx_Hash tx \<Longrightarrow> map_of (txAnnualRingMap (c_push L tx c)) h = map_of (txAnnualRingMap c) h"
    by (simp add: c_push_def update_conv')
  have "expiredRing > 0" by (simp add: expiredRing_def)
  moreover have "length (AList.update (tx_Hash tx) tx (entries (c_data c))) = Suc (length (entries (c_data c)))"
    using assms(3) by (intro length_update_new) (simp add: hashes_def)
  moreover have "fst ` set (AList.update (tx_Hash tx) (0 :: u64) (txAnnualRingMap c))
      = fst ` set (AList.update (tx_Hash tx) tx (entries (c_data c)))"
    using assms(1) unfolding dom_update by (simp add: cont_ok_def cont_pre_def)
  moreover have "\<forall>(h, t) \<in> set (AList.update (tx_Hash tx) tx (entries (c_data c))). tx_Hash t = h \<and> length h = HashLength"
    using assms f(3) by (auto simp: cont_ok_def cont_pre_def set_update)
  moreover have "map_of (AList.update (tx_Hash tx) 0 (txAnnualRingMap c)) h = Some r \<Longrightarrow> r < expiredRing" for h r
    using assms(1) calculation(1) by (auto simp: update_conv' cont_ok_def split: if_splits)
  ultimately show "cont_ok entries lm_ok (c_push L tx c)"
    using assms(1) f unfolding c_push_def cont_ok_def cont_pre_def by (simp add: distinct_update del: map_of_eq_Some_iff)
qed

lemma remove_pre:
  assumes "cont_pre entries lm_ok c"
  shows "cont_pre entries lm_ok (c_remove L hs c)" "hashes entries (c_remove L hs c) = hashes entries c - set hs"
    "map_of (txAnnualRingMap (c_remove L hs c)) h = (if h \<in> set hs then None else map_of (txAnnualRingMap c) h)"
proof -
  have w: "lm_ok (c_data c)" using assms by (simp add: cont_pre_def)
  note f = Removes[OF w, of hs]
  have fl: "length (filter P (entries (c_data c))) \<le> c_limit c" for P
    using assms by (intro le_trans[OF length_filter_le]) (simp add: cont_pre_def)
  have im: "fst ` set (filter (\<lambda>(k, _). k \<notin> set hs) xs) = fst ` set xs - set hs" for xs :: "(hash \<times> 'b) list" by force
  show "cont_pre entries lm_ok (c_remove L hs c)"
    using assms f fl im[of "entries (c_data c)"] im[of "txAnnualRingMap c"]
    by (simp add: c_remove_def cont_pre_def fold_delete distinct_fst_filter del: set_filter) auto
  show "hashes entries (c_remove L hs c) = hashes entries c - set hs"
    using f im[of "entries (c_data c)"] by (simp add: c_remove_def hashes_def)
  show "map_of (txAnnualRingMap (c_remove L hs c)) h = (if h \<in> set hs then None else map_of (txAnnualRingMap c) h)"
    by (simp add: c_remove_def fold_delete map_of_filter_keys)
qed

lemma remove_ok: "cont_ok entries lm_ok c \<Longrightarrow> cont_ok entries lm_ok (c_remove L hs c)"
  using remove_pre[of c hs] by (auto simp: cont_ok_def split: if_splits)

text \<open>One more cycle: every age grows, and what reaches the limit is dropped.\<close>

lemma grow_ok:
  assumes "cont_ok entries lm_ok c"
  shows "cont_ok entries lm_ok (growRing L c)" "hashes entries (growRing L c) \<subseteq> hashes entries c"
    "map_of (txAnnualRingMap (growRing L c)) h = (case map_of (txAnnualRingMap c) h of
       None \<Rightarrow> None | Some r \<Rightarrow> if r + 1 \<ge> expiredRing then None else Some (r + 1))"
proof -
  let ?rings = "map (\<lambda>(h, r). (h, r + 1)) (txAnnualRingMap c)"
  let ?ex = "map fst (filter (\<lambda>(h, r). r \<ge> expiredRing) ?rings)"
  let ?c = "c\<lparr>txAnnualRingMap := ?rings\<rparr>"
  have pre: "cont_pre entries lm_ok ?c"
  proof -
    have "map fst ?rings = map fst (txAnnualRingMap c)" by (simp add: case_prod_beta comp_def)
    moreover from this have "fst ` set ?rings = fst ` set (txAnnualRingMap c)" by (metis set_map)
    ultimately show ?thesis using assms by (simp add: cont_ok_def cont_pre_def del: map_map set_map)
  qed
  have m: "map_of ?rings h = map_option (\<lambda>r. r + 1) (map_of (txAnnualRingMap c) h)" for h
    by (induction "txAnnualRingMap c") (auto simp: map_of_map)
  have ex: "h \<in> set ?ex \<longleftrightarrow> (\<exists>r. map_of ?rings h = Some r \<and> r \<ge> expiredRing)" for h
  proof -
    have "distinct (map fst ?rings)" using pre by (simp add: cont_pre_def)
    then have "map_of ?rings h = Some r \<longleftrightarrow> (h, r) \<in> set ?rings" for r by (rule map_of_eq_Some_iff)
    then show ?thesis by (auto simp: image_iff)
  qed
  have g: "growRing L c = (if ?ex = [] then ?c else c_remove L ?ex ?c)" by (simp add: growRing_def Let_def)
  have r: "map_of (txAnnualRingMap (growRing L c)) h = (if h \<in> set ?ex then None else map_of ?rings h)" for h
    unfolding g using remove_pre(3)[OF pre, of ?ex h] by (cases "?ex = []") (simp_all del: set_map set_filter)
  show key: "map_of (txAnnualRingMap (growRing L c)) h = (case map_of (txAnnualRingMap c) h of
       None \<Rightarrow> None | Some r \<Rightarrow> if r + 1 \<ge> expiredRing then None else Some (r + 1))" for h
    unfolding r ex m by (auto split: option.split)
  have "cont_pre entries lm_ok (growRing L c)" unfolding g using pre remove_pre(1)[OF pre] by simp
  then show "cont_ok entries lm_ok (growRing L c)" unfolding cont_ok_def key by (auto split: option.splits if_splits)
  show "hashes entries (growRing L c) \<subseteq> hashes entries c"
    unfolding g using remove_pre(2)[OF pre, of ?ex] by (auto simp: hashes_def)
qed

end

section \<open>Operations on the pool\<close>

datatype pool_op =
    OpAdd "Transaction option"
  | OpMark hash "Receipt list" "Transaction list" "hash list"
  | OpUnMark "Transaction list" "hash list"
  | OpGrow
  | OpClear

fun pool_run :: "('m, 'e, 'k, 'x) PoolEnv \<Rightarrow> pool_op \<Rightarrow> ('m, 'e) TxPool \<Rightarrow> ('m, 'e) TxPool option" where
  "pool_run L (OpAdd t) P = Some (snd (AddTransaction L t P))"
| "pool_run L (OpMark bh rs txs ev) P = MarkExecuted L bh rs txs ev P"
| "pool_run L (OpUnMark txs ev) P = Some (UnMarkExecuted L txs ev P)"
| "pool_run L OpGrow P = Some (P\<lparr>received := growRing L (received P)\<rparr>)"
| "pool_run L OpClear P = Some (Clear L P)"

text \<open>A hash is an array of 32 bytes.\<close>

fun pool_op_ok :: "pool_op \<Rightarrow> bool" where
  "pool_op_ok (OpAdd t) = (case t of None \<Rightarrow> True | Some tx \<Rightarrow> length (tx_Hash tx) = HashLength)"
| "pool_op_ok (OpMark bh rs txs ev) = list_all (\<lambda>r. length (rc_TxHash r) = HashLength) rs"
| "pool_op_ok (OpUnMark txs ev) = list_all (\<lambda>tx. length (tx_Hash tx) = HashLength) txs"
| "pool_op_ok OpGrow = True"
| "pool_op_ok OpClear = True"

text \<open>The hashes that an operation may put into the container.\<close>

fun op_adds :: "pool_op \<Rightarrow> hash set" where
  "op_adds (OpAdd t) = (case t of None \<Rightarrow> {} | Some tx \<Rightarrow> {tx_Hash tx})"
| "op_adds (OpUnMark txs ev) = tx_Hash ` set txs"
| "op_adds _ = {}"

inductive pool_reach :: "('m, 'e, 'k, 'x) PoolEnv \<Rightarrow> disks \<Rightarrow> ('m, 'e) TxPool \<Rightarrow> bool" for L ds where
  reach_new: "pool_reach L ds (newTransactionPool L ds)"
| reach_op: "pool_reach L ds P \<Longrightarrow> pool_op_ok op \<Longrightarrow> pool_run L op P = Some P' \<Longrightarrow> pool_reach L ds P'"

fun pool_runs :: "('m, 'e, 'k, 'x) PoolEnv \<Rightarrow> pool_op list \<Rightarrow> ('m, 'e) TxPool \<Rightarrow> ('m, 'e) TxPool option" where
  "pool_runs L [] P = Some P"
| "pool_runs L (op # ops) P = (case pool_run L op P of None \<Rightarrow> None | Some P' \<Rightarrow> pool_runs L ops P')"

section \<open>The invariant\<close>

definition pool_inv ::
  "('m, 'e, 'k, 'x) PoolEnv \<Rightarrow> ('m \<Rightarrow> (hash \<times> Transaction) list) \<Rightarrow> ('m \<Rightarrow> bool) \<Rightarrow> ('m, 'e) TxPool \<Rightarrow> bool" where
  "pool_inv L entries lm_ok P \<longleftrightarrow> cont_ok entries lm_ok (received P) \<and> c_limit (received P) = rcvTxPoolSize \<and>
    batch_ok {gate_key} (batch P) \<and> executed P \<in> {LDBDatabase txDataBasePrefix, PrefixedDatabase txDataBasePrefix} \<and>
    (\<forall>h \<in> hashes entries (received P). db_Get L (executed P) h (disks P) = None)"

lemma db_Get_off:
  assumes "same_off K ds ds'" "h \<notin> K" "length h = HashLength" "d \<in> {LDBDatabase txDataBasePrefix, PrefixedDatabase txDataBasePrefix}"
    "\<And>k. k \<in> K \<Longrightarrow> k = gate_key \<or> length k = HashLength"
  shows "db_Get L d h ds' = db_Get L d h ds"
proof -
  have "generateKey h txDataBasePrefix \<notin> K"
    using assms(3) assms(5)[of "generateKey h txDataBasePrefix"] length_gate_key
    by (auto simp: generateKey_def HashLength_def str_bytes_def txDataBasePrefix_def gate_key_def)
  then show ?thesis using assms(1,2,4) by (auto simp: db_Get_def db_place_def same_off_def)
qed

lemma limit_fields [simp]:
  "c_limit (c_push L tx c) = c_limit c" "c_limit (c_remove L hs c) = c_limit c" "c_limit (growRing L c) = c_limit c"
  by (simp_all add: c_push_def c_remove_def growRing_def Let_def)

lemma hash_length: "cont_ok entries lm_ok c \<Longrightarrow> h \<in> hashes entries c \<Longrightarrow> length h = HashLength"
  by (auto simp: cont_ok_def cont_pre_def hashes_def)

text \<open>The laws the pool relies on: the list map, and that JSON text is never empty.\<close>

locale pool_lib = list_map L entries lm_ok
  for L :: "('m, 'e, 'k, 'x) PoolEnv" and entries and lm_ok +
  assumes json_text: "json_Marshal L x \<noteq> Some []"
begin

lemma existed_iff:
  assumes "cont_ok entries lm_ok (received P)"
  shows "isTransactionExisted L h P \<longleftrightarrow> h \<in> hashes entries (received P) \<or> db_Get L (executed P) h (disks P) \<noteq> None"
  using assms Contains by (simp add: isTransactionExisted_def c_contains_def db_Has_def hashes_def cont_ok_def cont_pre_def)

lemma add_inv:
  assumes "pool_inv L entries lm_ok P" "length (tx_Hash tx) = HashLength"
  shows "pool_inv L entries lm_ok (snd (pool_add L (Some tx) P))"
    and "hashes entries (received (snd (pool_add L (Some tx) P))) \<subseteq> insert (tx_Hash tx) (hashes entries (received P))"
    and "h \<noteq> tx_Hash tx \<Longrightarrow> map_of (txAnnualRingMap (received (snd (pool_add L (Some tx) P)))) h = map_of (txAnnualRingMap (received P)) h"
proof -
  have c: "cont_ok entries lm_ok (received P)" using assms(1) by (simp add: pool_inv_def)
  show "pool_inv L entries lm_ok (snd (pool_add L (Some tx) P))"
    using assms existed_iff[OF c, of "tx_Hash tx"] push_ok[OF c assms(2)] by (auto simp: pool_add_def pool_inv_def)
  show "hashes entries (received (snd (pool_add L (Some tx) P))) \<subseteq> insert (tx_Hash tx) (hashes entries (received P))"
    using existed_iff[OF c, of "tx_Hash tx"] push_ok(2)[OF c assms(2)] by (auto simp: pool_add_def)
  show "h \<noteq> tx_Hash tx \<Longrightarrow> map_of (txAnnualRingMap (received (snd (pool_add L (Some tx) P)))) h = map_of (txAnnualRingMap (received P)) h"
    using existed_iff[OF c, of "tx_Hash tx"] push_ok(3)[OF c assms(2)] by (auto simp: pool_add_def)
qed

lemma AddTransaction_inv:
  assumes "pool_inv L entries lm_ok P" "length (tx_Hash tx) = HashLength"
  shows "pool_inv L entries lm_ok (snd (AddTransaction L (Some tx) P))"
    and "received (snd (AddTransaction L (Some tx) P)) = received (snd (pool_add L (Some tx) P))"
proof -
  obtain b e Q where q: "pool_add L (Some tx) P = ((b, e), Q)" by (metis prod.exhaust)
  have i: "pool_inv L entries lm_ok Q" using add_inv(1)[OF assms] q by simp
  then have "pool_inv L entries lm_ok (refreshGateNonce tx Q)"
    using refresh_batch[of "{gate_key}" Q tx] by (simp add: pool_inv_def)
  then show "pool_inv L entries lm_ok (snd (AddTransaction L (Some tx) P))"
    using q i by (simp add: AddTransaction_def split: option.split)
  show "received (snd (AddTransaction L (Some tx) P)) = received (snd (pool_add L (Some tx) P))"
    using q by (simp add: AddTransaction_def split: option.split)
qed

lemma unmark_inv:
  assumes "pool_inv L entries lm_ok P" "length (tx_Hash tx) = HashLength"
  shows "pool_inv L entries lm_ok (unmark_tx L tx P)"
    and "h \<noteq> tx_Hash tx \<Longrightarrow> map_of (txAnnualRingMap (received (unmark_tx L tx P))) h = map_of (txAnnualRingMap (received P)) h"
proof -
  let ?P = "P\<lparr>disks := db_Delete L (executed P) (tx_Hash tx) (disks P)\<rparr>"
  have i: "pool_inv L entries lm_ok ?P"
    using assms(1) by (auto simp: pool_inv_def db_Get_def db_Delete_def split: prod.splits)
  show "pool_inv L entries lm_ok (unmark_tx L tx P)" using add_inv(1)[OF i assms(2)] by (simp add: unmark_tx_def)
  show "h \<noteq> tx_Hash tx \<Longrightarrow> map_of (txAnnualRingMap (received (unmark_tx L tx P))) h = map_of (txAnnualRingMap (received P)) h"
    using add_inv(3)[OF i assms(2)] by (simp add: unmark_tx_def)
qed

lemma unmarks_inv:
  assumes "pool_inv L entries lm_ok P" "\<forall>tx \<in> set txs. length (tx_Hash tx) = HashLength"
  shows "pool_inv L entries lm_ok (fold (unmark_tx L) txs P)
    \<and> (h \<notin> tx_Hash ` set txs \<longrightarrow> map_of (txAnnualRingMap (received (fold (unmark_tx L) txs P))) h = map_of (txAnnualRingMap (received P)) h)"
  using assms by (induction txs arbitrary: P) (auto simp: unmark_inv)

lemma MarkExecuted_inv:
  assumes "pool_inv L entries lm_ok P" "\<forall>r \<in> set rs. length (rc_TxHash r) = HashLength" "MarkExecuted L bh rs txs ev P = Some P'"
  shows "pool_inv L entries lm_ok P'"
    and "map_of (txAnnualRingMap (received P')) h \<in> {None, map_of (txAnnualRingMap (received P)) h}"
proof -
  let ?K = "insert gate_key (rc_TxHash ` set rs)"
  let ?fl = "\<lambda>Q. if b_size (batch Q) > 0 then flush_batch Q else Q"
  obtain Q where q: "(if rs \<noteq> [] then map_option ?fl (mark_receipts L bh txs 0 rs P) else Some P) = Some Q"
    "received P' = c_remove L (map rc_TxHash rs @ ev) (received Q) \<or> map rc_TxHash rs @ ev = [] \<and> received P' = received Q"
    "batch P' = batch Q" "executed P' = executed Q" "disks P' = disks Q"
    using assms(3) by (rule MarkExecuted_parts)
  have p: "batch_ok {gate_key} (batch P)" "cont_ok entries lm_ok (received P)" using assms(1) by (simp_all add: pool_inv_def)
  have "received Q = received P \<and> executed Q = executed P \<and> batch_ok {gate_key} (batch Q) \<and> same_off ?K (disks P) (disks Q)"
  proof (cases "rs = []")
    case False
    then obtain R where r: "mark_receipts L bh txs 0 rs P = Some R" "Q = ?fl R" using q(1) by auto
    have m: "received R = received P" "executed R = executed P" "batch_ok ?K (batch R)" "same_off ?K (disks P) (disks R)"
      using mark_receipts_frame[OF r(1) batch_ok_mono[OF p(1)], of ?K] json_text by auto
    have "batch_ok {gate_key} (batch R)" if "\<not> b_size (batch R) > 0"
      using batch_ok_empty[OF m(3) that] m(3) by (simp add: batch_ok_def)
    then show ?thesis using m r(2) same_off_trans[OF m(4) batch_ok_Write[OF m(3)]] by (auto simp: flush_batch_def)
  qed (use q p in auto)
  note Q = this
  have hs: "hashes entries (received P') = hashes entries (received P) - (rc_TxHash ` set rs \<union> set ev)"
    and c: "cont_ok entries lm_ok (received P')"
    and m: "map_of (txAnnualRingMap (received P')) h \<in> {None, map_of (txAnnualRingMap (received P)) h}"
    using q(2) Q remove_ok[OF p(2), of "map rc_TxHash rs @ ev"] remove_pre(2,3)[of "received P" "map rc_TxHash rs @ ev"] p(2)
      cont_ok_def[of entries lm_ok "received P"] by auto
  have "db_Get L (executed P) h (disks Q) = db_Get L (executed P) h (disks P)" if "h \<in> hashes entries (received P')" for h
  proof (rule db_Get_off)
    show "same_off ?K (disks P) (disks Q)" using Q by simp
    show "length h = HashLength" using hash_length[OF p(2)] that hs by auto
    then show "h \<notin> ?K" using that hs by (auto simp: HashLength_def)
  qed (use assms in \<open>auto simp: pool_inv_def\<close>)
  then have "\<forall>h \<in> hashes entries (received P'). db_Get L (executed P') h (disks P') = None"
    using assms(1) hs q(4,5) Q by (simp add: pool_inv_def)
  moreover have "c_limit (received P') = c_limit (received P)" using q(2) Q by auto
  ultimately show "pool_inv L entries lm_ok P'" using assms(1) c q(3,4) Q by (simp add: pool_inv_def)
  show "map_of (txAnnualRingMap (received P')) h \<in> {None, map_of (txAnnualRingMap (received P)) h}" by (rule m)
qed

lemma new_inv: "pool_inv L entries lm_ok (newTransactionPool L ds)"
  using new_ok by (simp add: pool_inv_def newTransactionPool_def batch_ok_def newSimpleContainer_def)

lemma run_step:
  assumes "pool_inv L entries lm_ok P" "pool_op_ok op" "pool_run L op P = Some P'"
  shows "pool_inv L entries lm_ok P'"
    and "h \<notin> op_adds op \<Longrightarrow> map_of (txAnnualRingMap (received P')) h = Some r' \<Longrightarrow>
      \<exists>r. map_of (txAnnualRingMap (received P)) h = Some r \<and> unat r' = unat r + (if op = OpGrow then 1 else 0)"
proof -
  have c: "cont_ok entries lm_ok (received P)" using assms(1) by (simp add: pool_inv_def)
  have nil: "AddTransaction L None P = ((False, Some ErrNil), P)" by (simp add: AddTransaction_def pool_add_def)
  show "pool_inv L entries lm_ok P'"
  proof (cases op)
    case (OpAdd t)
    then show ?thesis using assms AddTransaction_inv(1)[OF assms(1)] nil by (cases t) auto
  next
    case (OpMark bh rs txs ev)
    then show ?thesis using assms MarkExecuted_inv(1)[OF assms(1), of rs bh txs ev P'] by (simp add: list_all_iff)
  next
    case (OpUnMark txs ev)
    let ?P = "P\<lparr>evictedTxs := fold (\<lambda>h e. lru_Remove L e h) ev (evictedTxs P)\<rparr>"
    have "pool_inv L entries lm_ok ?P" using assms(1) by (simp add: pool_inv_def)
    then show ?thesis using OpUnMark assms unmarks_inv[of ?P txs]
      by (auto simp: UnMarkExecuted_def Let_def list_all_iff)
  next
    case OpGrow
    then show ?thesis using assms grow_ok(1,2)[OF c] by (auto simp: pool_inv_def)
  next
    case OpClear
    then show ?thesis using assms new_ok by (auto simp: pool_inv_def Clear_def newSimpleContainer_def)
  qed
  show "\<exists>r. map_of (txAnnualRingMap (received P)) h = Some r \<and> unat r' = unat r + (if op = OpGrow then 1 else 0)"
    if h: "h \<notin> op_adds op" "map_of (txAnnualRingMap (received P')) h = Some r'"
  proof (cases op)
    case (OpAdd t)
    then show ?thesis using assms h AddTransaction_inv(2)[OF assms(1)] add_inv(3)[OF assms(1)] nil by (cases t) auto
  next
    case (OpMark bh rs txs ev)
    then have "map_of (txAnnualRingMap (received P')) h \<in> {None, map_of (txAnnualRingMap (received P)) h}"
      using assms by (intro MarkExecuted_inv(2)[of P rs bh txs ev P']) (auto simp: list_all_iff)
    then have "map_of (txAnnualRingMap (received P)) h = Some r'" using h(2) by auto
    then show ?thesis using OpMark by simp
  next
    case (OpUnMark txs ev)
    let ?P = "P\<lparr>evictedTxs := fold (\<lambda>h e. lru_Remove L e h) ev (evictedTxs P)\<rparr>"
    have "pool_inv L entries lm_ok ?P" using assms(1) by (simp add: pool_inv_def)
    then have "map_of (txAnnualRingMap (received (UnMarkExecuted L txs ev P))) h = map_of (txAnnualRingMap (received P)) h"
      using OpUnMark assms(2) h(1) unmarks_inv[of ?P txs h] by (simp add: UnMarkExecuted_def Let_def list_all_iff)
    moreover have "P' = UnMarkExecuted L txs ev P" using OpUnMark assms(3) by simp
    ultimately have "map_of (txAnnualRingMap (received P)) h = Some r'" using h(2) by metis
    then show ?thesis using OpUnMark by simp
  next
    case OpGrow
    then have "map_of (txAnnualRingMap (growRing L (received P))) h = Some r'" using assms(3) h(2) by auto
    then obtain r where r: "map_of (txAnnualRingMap (received P)) h = Some r" "r' = r + 1"
      using grow_ok(3)[OF c, of h] by (auto split: option.splits if_splits)
    have "r < expiredRing" using c r(1) by (simp add: cont_ok_def)
    then have "unat (r + 1) = unat r + 1" by (simp add: expiredRing_def word_less_nat_alt unat_word_ariths)
    then show ?thesis using r OpGrow by simp
  next
    case OpClear
    then show ?thesis using assms h by (auto simp: Clear_def newSimpleContainer_def)
  qed
qed

lemma reach_inv: "pool_reach L ds P \<Longrightarrow> pool_inv L entries lm_ok P"
  by (induction rule: pool_reach.induct) (auto intro: new_inv run_step(1))

lemma runs_age:
  assumes "pool_inv L entries lm_ok P" "list_all pool_op_ok ops" "pool_runs L ops P = Some P'" "\<forall>op \<in> set ops. h \<notin> op_adds op"
    "map_of (txAnnualRingMap (received P')) h = Some r'"
  shows "length (filter (\<lambda>op. op = OpGrow) ops) \<le> unat r' \<and> unat r' < 5"
proof -
  have "pool_inv L entries lm_ok P' \<and>
    (\<exists>r. map_of (txAnnualRingMap (received P)) h = Some r \<and> unat r' = unat r + length (filter (\<lambda>op. op = OpGrow) ops))"
    using assms
  proof (induction ops arbitrary: P)
    case (Cons op ops)
    obtain Q where q: "pool_run L op P = Some Q" "pool_runs L ops Q = Some P'" using Cons.prems(3) by (auto split: option.splits)
    have op: "pool_op_ok op" "h \<notin> op_adds op" using Cons.prems by auto
    obtain r where r: "pool_inv L entries lm_ok P'" "map_of (txAnnualRingMap (received Q)) h = Some r"
      "unat r' = unat r + length (filter (\<lambda>op. op = OpGrow) ops)"
      using Cons.IH[OF run_step(1)[OF Cons.prems(1) op(1) q(1)] _ q(2)] Cons.prems by auto
    then show ?case using run_step(2)[OF Cons.prems(1) op(1) q(1) op(2) r(2)] by auto
  qed auto
  moreover from this have "r' < expiredRing" using assms(5) by (simp add: pool_inv_def cont_ok_def)
  ultimately show ?thesis by (auto simp: expiredRing_def word_less_nat_alt)
qed

lemma contains_ring:
  assumes "pool_inv L entries lm_ok P"
  shows "c_contains L h (received P) \<longleftrightarrow> map_of (txAnnualRingMap (received P)) h \<noteq> None"
  using assms Contains[of "c_data (received P)" h]
  by (auto simp: pool_inv_def cont_ok_def cont_pre_def c_contains_def map_of_eq_None_iff)

lemma received_facts:
  assumes "pool_inv L entries lm_ok P"
  shows "TxNum L P \<le> rcvTxPoolSize" "distinct (map tx_Hash (GetReceived L P))"
    "tx_Hash ` set (GetReceived L P) = hashes entries (received P)"
proof -
  let ?es = "entries (c_data (received P))"
  have w: "lm_ok (c_data (received P))" and c: "\<forall>(h, tx) \<in> set ?es. tx_Hash tx = h" "length ?es \<le> rcvTxPoolSize"
    using assms by (auto simp: pool_inv_def cont_ok_def cont_pre_def)
  have "map tx_Hash (GetReceived L P) = map fst ?es"
    using Values[OF w] c(1) by (auto simp: GetReceived_def c_asSlice_def)
  then show "distinct (map tx_Hash (GetReceived L P))" "tx_Hash ` set (GetReceived L P) = hashes entries (received P)"
    using keys[OF w] by (simp, metis hashes_def set_map)
  show "TxNum L P \<le> rcvTxPoolSize" using Size[OF w] c(2) by (simp add: TxNum_def c_Len_def)
qed

end

section \<open>What the disk will hold\<close>

text \<open>The file of the batch once the batch is written.\<close>

definition written :: "('m, 'e) TxPool \<Rightarrow> bytes \<rightharpoonup> bytes" where
  "written P = batch_Write (batch P) (disks P) (b_db (batch P))"

lemma written_Put [simp]: "written (P\<lparr>batch := batch_Put k v (batch P)\<rparr>) = (written P)(k \<mapsto> v)"
  by (rule ext) (simp add: written_def batch_Write_def batch_Put_def map_add_def)

lemma written_flush [simp]: "written (flush_batch P) = written P"
  by (simp add: written_def batch_Write_def flush_batch_def batch_Reset_def)

lemma written_refresh: "k \<noteq> gate_key \<Longrightarrow> written (refreshGateNonce tx P) k = written P k"
  by (simp add: refreshGateNonce_def gate_key_def split: list.split)

lemma mark_receipts_written:
  assumes "mark_receipts L bh txs i rs P = Some P'" "h \<notin> rc_TxHash ` set rs" "h \<noteq> gate_key"
  shows "written P' h = written P h"
  using assms(1,2)
proof (induction rs arbitrary: i P)
  case (Cons r rs)
  then show ?case
    by (auto simp: Let_def written_refresh[OF assms(3)] split: option.splits if_splits)
qed simp

lemma mark_receipts_reads:
  assumes "mark_receipts L bh txs i rs P = Some P'" "distinct (map rc_TxHash rs)" "j < length rs" "rc_TxHash (rs ! j) \<noteq> gate_key"
    "json_Marshal L \<lparr>et_Receipt = executed_receipt bh (rs ! j),
       et_Transaction = MarshalTransaction L (findTxInList txs (rc_TxHash (rs ! j)) (i + j))\<rparr> = Some d"
  shows "written P' (rc_TxHash (rs ! j)) = Some d \<and> findTxInList txs (rc_TxHash (rs ! j)) (i + j) \<noteq> None"
  using assms
proof (induction rs arbitrary: i j P)
  case (Cons r rs)
  show ?case
  proof (cases j)
    case 0
    then obtain tx Q where q: "findTxInList txs (rc_TxHash r) i = Some tx" "mark_receipts L bh txs (Suc i) rs (refreshGateNonce tx Q) = Some P'"
      "written Q (rc_TxHash r) = Some d"
      using Cons.prems by (auto simp: Let_def split: option.splits if_splits)
    then show ?thesis using mark_receipts_written[OF q(2)] Cons.prems(2,4) 0 by (auto simp: written_refresh)
  next
    case (Suc k)
    obtain i' Q where "mark_receipts L bh txs (Suc i) rs Q = Some P'"
      using Cons.prems(1) by (auto simp: Let_def split: option.splits if_splits)
    then show ?thesis using Cons.IH[of "Suc i" Q k] Cons.prems Suc by simp
  qed
qed simp

lemma find_in_list: "findTxInList txs h i = Some tx \<Longrightarrow> tx \<in> set txs \<and> tx_Hash tx = h"
  by (auto simp: findTxInList_def find_Some_iff split: if_splits)

text \<open>The batch stays with the file it was created for.\<close>

lemma flush_db [simp]: "b_db (batch (flush_batch P)) = b_db (batch P)"
  by (simp add: flush_batch_def batch_Reset_def)

lemma pool_add_batch [simp]: "batch (snd (pool_add L t P)) = batch P"
  by (simp add: pool_add_def split: option.split)

lemma mark_receipts_db: "mark_receipts L bh txs i rs P = Some P' \<Longrightarrow> b_db (batch P') = b_db (batch P)"
proof (induction rs arbitrary: i P)
  case (Cons r rs)
  then show ?case by (auto simp: Let_def batch_Put_def split: option.splits if_splits)
qed simp

lemma unmarks_batch: "batch (fold (unmark_tx L) txs P) = batch P"
  by (induction txs arbitrary: P) (simp_all add: unmark_tx_def)

lemma run_db:
  assumes "pool_run L op P = Some P'"
  shows "b_db (batch P') = b_db (batch P)"
proof (cases op)
  case (OpAdd t)
  have "b_db (batch (snd (AddTransaction L t P))) = b_db (batch P)"
    using pool_add_batch[of L t P]
    by (cases "pool_add L t P") (auto simp: AddTransaction_def split: option.split)
  then show ?thesis using OpAdd assms by auto
next
  case (OpMark bh rs txs ev)
  then have "MarkExecuted L bh rs txs ev P = Some P'" using assms by simp
  then show ?thesis
    by (rule MarkExecuted_parts) (auto dest: mark_receipts_db split: if_splits)
next
  case (OpUnMark txs ev)
  then show ?thesis using assms by (auto simp: UnMarkExecuted_def Let_def unmarks_batch)
qed (use assms in \<open>auto simp: Clear_def batch_Reset_def\<close>)

lemma reach_db: "pool_reach L ds P \<Longrightarrow> b_db (batch P) = txDataBasePrefix"
  by (induction rule: pool_reach.induct) (simp_all add: newTransactionPool_def run_db)

context pool_lib
begin

lemma MarkExecuted_reads:
  assumes "pool_inv L entries lm_ok P" "b_db (batch P) = txDataBasePrefix" "executed P = LDBDatabase txDataBasePrefix"
    "MarkExecuted L bh rs txs ev P = Some P'" "\<forall>r \<in> set rs. length (rc_TxHash r) = HashLength" "distinct (map rc_TxHash rs)"
    "j < length rs" "json_Marshal L \<lparr>et_Receipt = executed_receipt bh (rs ! j),
       et_Transaction = MarshalTransaction L (findTxInList txs (rc_TxHash (rs ! j)) j)\<rparr> = Some d"
  shows "db_Get L (executed P') (rc_TxHash (rs ! j)) (disks P') = Some d" "findTxInList txs (rc_TxHash (rs ! j)) j \<noteq> None"
    "rc_TxHash (rs ! j) \<notin> hashes entries (received P')"
proof -
  let ?h = "rc_TxHash (rs ! j)"
  let ?K = "insert gate_key (rc_TxHash ` set rs)"
  have h: "?h \<noteq> gate_key" using assms(5) nth_mem[OF assms(7)] length_gate_key by (fastforce simp: HashLength_def)
  obtain Q where q: "(if rs \<noteq> [] then map_option (\<lambda>Q. if b_size (batch Q) > 0 then flush_batch Q else Q)
      (mark_receipts L bh txs 0 rs P) else Some P) = Some Q" "executed P' = executed Q" "disks P' = disks Q"
    by (rule MarkExecuted_parts[OF assms(4)])
  have "rs \<noteq> []" using assms(7) by auto
  with q(1) obtain R where "mark_receipts L bh txs 0 rs P = Some R" "Q = (if b_size (batch R) > 0 then flush_batch R else R)"
    by auto
  with q(2,3) have r: "mark_receipts L bh txs 0 rs P = Some R"
    "disks P' = disks (if b_size (batch R) > 0 then flush_batch R else R)" "executed P' = executed R" by simp_all
  have m: "executed R = executed P" "batch_ok ?K (batch R)"
    using mark_receipts_frame[OF r(1) batch_ok_mono, of "{gate_key}" ?K] assms(1) json_text by (auto simp: pool_inv_def)
  have db: "b_db (batch R) = txDataBasePrefix" using mark_receipts_db[OF r(1)] assms(2) by simp
  have w: "written R ?h = Some d \<and> findTxInList txs ?h j \<noteq> None"
    using mark_receipts_reads[OF r(1) assms(6,7) h] assms(8) by simp
  have "disks P' txDataBasePrefix = written R"
    using r(2) db batch_ok_empty[OF m(2)] by (auto simp: written_def flush_batch_def batch_Write_def)
  then show "db_Get L (executed P') ?h (disks P') = Some d"
    using w r(3) m(1) assms(3) by (simp add: db_Get_def db_place_def)
  show "findTxInList txs ?h j \<noteq> None" using w by simp
  have "pool_inv L entries lm_ok P'" by (rule MarkExecuted_inv(1)[OF assms(1,5,4)])
  then show "?h \<notin> hashes entries (received P')"
    using \<open>db_Get L (executed P') ?h (disks P') = Some d\<close> by (auto simp: pool_inv_def)
qed

end

section \<open>Nonces of a packed block\<close>

definition nonce_of :: "('t, 'y) AccountEnv_scheme \<Rightarrow> 't AccountDB \<Rightarrow> string \<Rightarrow> u64" where
  "nonce_of E adb src = fst (GetNonce E (HexToAddress src) adb)"

definition holds_nonce :: "string \<Rightarrow> u64 \<Rightarrow> Transaction list \<Rightarrow> bool" where
  "holds_nonce src n txs \<longleftrightarrow> (\<exists>t \<in> set txs. tx_RequestId t = 0 \<and> tx_Source t = src \<and> tx_Nonce t = n)"

definition gap_free :: "(string \<Rightarrow> u64) \<Rightarrow> Transaction list \<Rightarrow> bool" where
  "gap_free base txs \<longleftrightarrow> (\<forall>i < length txs. tx_RequestId (txs ! i) = 0 \<longrightarrow>
     (\<forall>n. base (tx_Source (txs ! i)) \<le> n \<and> n < tx_Nonce (txs ! i) \<longrightarrow> holds_nonce (tx_Source (txs ! i)) n (take i txs)))"

lemma holds_nonce_append: "holds_nonce s n (xs @ ys) \<longleftrightarrow> holds_nonce s n xs \<or> holds_nonce s n ys"
  by (auto simp: holds_nonce_def)

lemma gap_free_snoc:
  "gap_free base (xs @ [tx]) \<longleftrightarrow> gap_free base xs \<and>
    (tx_RequestId tx = 0 \<longrightarrow> (\<forall>n. base (tx_Source tx) \<le> n \<and> n < tx_Nonce tx \<longrightarrow> holds_nonce (tx_Source tx) n xs))"
  unfolding gap_free_def by (auto simp: less_Suc_eq nth_append)

lemma gap_free_take: "gap_free base xs \<Longrightarrow> gap_free base (take n xs)"
  by (auto simp: gap_free_def min_def)

lemma word_less_Suc: "(n :: u64) < e + 1 \<Longrightarrow> n < e \<or> n = e"
  using inc_le[of e n] by (meson linorder_neqE not_less)

text \<open>The nonces noted while packing: below them the block has every nonce from that of the account on.\<close>

definition noted_ok :: "(string \<Rightarrow> u64) \<Rightarrow> Transaction list \<Rightarrow> (string \<times> u64) list \<Rightarrow> bool" where
  "noted_ok base packed nm \<longleftrightarrow>
    (\<forall>src e n. map_of nm src = Some e \<longrightarrow> base src \<le> n \<longrightarrow> n < e \<longrightarrow> holds_nonce src n packed)"

lemma noted_mono: "noted_ok base packed nm \<Longrightarrow> noted_ok base (packed @ ts) nm"
  by (auto simp: noted_ok_def holds_nonce_append)

lemma noted_step:
  assumes "noted_ok base packed nm" "map_of nm src = Some e" "holds_nonce src n ts"
  shows "noted_ok base (packed @ ts) (if e = n then AList.update src (e + 1) nm else nm)"
  unfolding noted_ok_def
proof (intro allI impI)
  fix s e' m assume h: "map_of (if e = n then AList.update src (e + 1) nm else nm) s = Some e'" "base s \<le> m" "m < e'"
  have old: "holds_nonce s m (packed @ ts)" if "map_of nm s = Some k" "m < k" for k
    using noted_mono[OF assms(1)] that h(2) by (auto simp: noted_ok_def)
  show "holds_nonce s m (packed @ ts)"
  proof (cases "e = n \<and> s = src")
    case True
    then have "m < e \<or> m = e" using h word_less_Suc by (auto simp: update_conv')
    then show ?thesis using old assms(2,3) True by (auto simp: holds_nonce_append)
  next
    case False
    then show ?thesis using old h(1,3) by (auto simp: update_conv' split: if_splits)
  qed
qed

context account_env
begin

lemma expected_nonce_ok:
  assumes "expected_nonce E src nm adb = (e, nm', adb')" "adb_wf E holds adb" "noted_ok base packed nm" "nonce_of E adb = base"
  shows "adb_wf E holds adb'" "nonce_of E adb' = base" "noted_ok base packed nm'" "map_of nm' src = Some e"
proof -
  have v: "view_of E (snd (GetNonce E a adb)) = view_of E adb" "adb_wf E holds (snd (GetNonce E a adb))" for a
    using GetNonce_view[OF assms(2), of a] journaled_wf by auto
  have ac: "acct_of E (snd (GetNonce E a adb)) = acct_of E adb" for a using v(1) by (metis v_accts_view_of)
  have nn: "nonce_of E (snd (GetNonce E a adb)) = nonce_of E adb" for a
    using GetNonce_view[OF v(2)] GetNonce_view[OF assms(2)] ac by (intro ext) (simp add: nonce_of_def)
  show "adb_wf E holds adb'" "nonce_of E adb' = base"
    using assms v(2)[of "HexToAddress src"] nn[of "HexToAddress src"]
    by (auto simp: expected_nonce_def split: option.splits prod.splits)
  show "noted_ok base packed nm'" "map_of nm' src = Some e"
    using assms by (auto simp: expected_nonce_def noted_ok_def nonce_of_def update_conv' split: option.splits prod.splits if_splits)
qed

lemma check_nonces_gap_free:
  assumes "adb_wf E holds adb" "nonce_of E adb = base" "noted_ok base packed nm" "gap_free base packed" "length packed < txCountPerBlock"
    "check_nonces E txs packed nm adb = (res, adb')"
  shows "gap_free base res \<and> length res \<le> txCountPerBlock"
  using assms
proof (induction txs arbitrary: packed nm adb)
  case (Cons tx txs)
  show ?case
  proof (cases "tx_RequestId tx = 0")
    case True
    obtain e nm1 adb1 where e: "expected_nonce E (tx_Source tx) nm adb = (e, nm1, adb1)" by (metis prod.exhaust)
    note x = expected_nonce_ok[OF e Cons.prems(1,3,2)]
    let ?nm = "if e = tx_Nonce tx then AList.update (tx_Source tx) (e + 1) nm1 else nm1"
    show ?thesis
    proof (cases "e < tx_Nonce tx")
      case True
      then show ?thesis using Cons.IH[OF x(1-3)] Cons.prems e \<open>tx_RequestId tx = 0\<close> by simp
    next
      case False
      have g: "gap_free base (packed @ [tx])"
        using Cons.prems(4) False x(3,4) by (auto simp: gap_free_snoc noted_ok_def)
      have "holds_nonce (tx_Source tx) (tx_Nonce tx) [tx]" using True by (simp add: holds_nonce_def)
      then have n: "noted_ok base (packed @ [tx]) ?nm" by (rule noted_step[OF x(3,4)])
      show ?thesis using Cons.IH[OF x(1,2) n g] Cons.prems(5,6) e True False g by (auto simp: Let_def split: if_splits)
    qed
  next
    case False
    then have g: "gap_free base (packed @ [tx])" using Cons.prems(4) by (simp add: gap_free_snoc)
    show ?thesis using Cons.IH[OF Cons.prems(1,2) noted_mono[OF Cons.prems(3)] g] Cons.prems(5,6) False g
      by (auto simp: Let_def split: if_splits)
  qed
qed auto

end

section \<open>A pool library\<close>

text \<open>The laws hold for association lists; \<open>d\<close> stands for a codec that knows one record.\<close>

definition sample_lib :: "ExecutedTransaction \<Rightarrow> ((hash \<times> Transaction) list, hash list, unit, unit) PoolEnv" where
  "sample_lib et = ListMap.extend alist_map
    \<lparr>lru_New = [], lru_Add = (\<lambda>e h. h # e), lru_Remove = (\<lambda>e h. removeAll h e), MarshalTransaction = (\<lambda>_. []),
     UnMarshalTransaction = (\<lambda>_. sample_tx ''0x01'' 0 1), json_Marshal = (\<lambda>_. Some [123, 125]), json_Unmarshal = (\<lambda>_. Some et),
     sort_Sort = insertion_sort, Sha256 = id, RecoverPubkey = (\<lambda>_ _. None), pk_Verify = (\<lambda>_ _ _. False),
     pk_GetAddress = (\<lambda>_. zero_address), rlp_DecodeTx = (\<lambda>_. None), eth_Sender = (\<lambda>_ _. None),
     ConvertTx = (\<lambda>_ _ _. sample_tx ''0x01'' 0 1), instance_file = ''database''\<rparr>"

interpretation slib: pool_lib "sample_lib et" id "\<lambda>m. distinct (map fst m)"
proof -
  have "list_map (sample_lib et) id (\<lambda>m. distinct (map fst m))"
    by (rule alist_map_laws) (simp add: sample_lib_def ListMap.truncate_def ListMap.extend_def alist_map_def)
  then show "pool_lib (sample_lib et) id (\<lambda>m. distinct (map fst m))"
    by (rule pool_lib.intro) (simp add: pool_lib_axioms_def sample_lib_def ListMap.extend_def)
qed

section \<open>Properties\<close>

text \<open>
  C33: the invariant of the pool. However additions, executed and reverted blocks, expiry cycles
  and resets are ordered, a pool holds at most its capacity, one transaction per hash, none that
  the database records as executed, and each with an age below the limit.
\<close>

theorem pool_invariant:
  assumes "pool_lib L entries lm_ok" "pool_reach L ds P"
  shows "TxNum L P \<le> rcvTxPoolSize \<and> distinct (map tx_Hash (GetReceived L P)) \<and>
    (\<forall>tx \<in> set (GetReceived L P). \<not> db_Has L (executed P) (tx_Hash tx) (disks P) \<and>
       (\<exists>r < expiredRing. map_of (txAnnualRingMap (received P)) (tx_Hash tx) = Some r))"
proof -
  note inv = pool_lib.reach_inv[OF assms]
  note f = pool_lib.received_facts[OF assms(1) inv]
  have "\<exists>r < expiredRing. map_of (txAnnualRingMap (received P)) h = Some r" if "h \<in> hashes entries (received P)" for h
  proof -
    have "h \<in> fst ` set (txAnnualRingMap (received P))" using that inv by (simp add: pool_inv_def cont_ok_def cont_pre_def hashes_def)
    then have "map_of (txAnnualRingMap (received P)) h \<noteq> None" by (simp add: map_of_eq_None_iff)
    then show ?thesis using inv by (auto simp: pool_inv_def cont_ok_def)
  qed
  then show ?thesis using f inv by (auto simp: pool_inv_def db_Has_def)
qed

theorem pool_invariant_witness:
  "\<exists>et P. pool_reach (sample_lib et) (\<lambda>_ _. None) P \<and> TxNum (sample_lib et) P = 1 \<and> TxNum (sample_lib et) P \<le> rcvTxPoolSize"
proof -
  fix et
  let ?L = "sample_lib et"
  let ?P = "snd (AddTransaction ?L (Some (sample_tx ''0x01'' 0 1)) (newTransactionPool ?L (\<lambda>_ _. None)))"
  have r: "pool_reach ?L (\<lambda>_ _. None) ?P"
    by (rule reach_op[OF reach_new, of "OpAdd (Some (sample_tx ''0x01'' 0 1))"]) (simp_all add: sample_tx_def HashLength_def)
  have "TxNum ?L ?P = 1"
    by (simp add: AddTransaction_def pool_add_def isTransactionExisted_def c_contains_def newTransactionPool_def newSimpleContainer_def
        sample_lib_def ListMap.extend_def alist_map_def db_Has_def db_Get_def db_place_def c_push_def rcvTxPoolSize_def TxNum_def c_Len_def)
  moreover have "TxNum ?L ?P \<le> rcvTxPoolSize" using pool_invariant[OF slib.pool_lib_axioms r] by blast
  ultimately show ?thesis using r by blast
qed

text \<open>
  C34: a transaction that waits too long is dropped. Whatever else happens to the pool, after five
  expiry cycles a transaction is no longer in it, unless it was added anew or came back with a
  reverted block.
\<close>

theorem pool_expiry:
  assumes "pool_lib L entries lm_ok" "pool_reach L ds P" "list_all pool_op_ok ops" "pool_runs L ops P = Some P'"
    "\<forall>op \<in> set ops. h \<notin> op_adds op" "5 \<le> length (filter (\<lambda>op. op = OpGrow) ops)"
  shows "\<not> c_contains L h (received P')"
proof
  assume c: "c_contains L h (received P')"
  note inv = pool_lib.reach_inv[OF assms(1,2)]
  have "pool_inv L entries lm_ok P'" using inv assms(3,4)
    by (induction ops arbitrary: P) (auto split: option.splits intro: pool_lib.run_step(1)[OF assms(1)])
  then obtain r where "map_of (txAnnualRingMap (received P')) h = Some r"
    using c pool_lib.contains_ring[OF assms(1)] by auto
  then show False using pool_lib.runs_age[OF assms(1) inv assms(3-5)] assms(6) by fastforce
qed

text \<open>A pool with one transaction.\<close>

definition one_pool :: "ExecutedTransaction \<Rightarrow> ((hash \<times> Transaction) list, hash list) TxPool" where
  "one_pool et = snd (AddTransaction (sample_lib et) (Some (sample_tx ''0x01'' 0 1)) (newTransactionPool (sample_lib et) (\<lambda>_ _. None)))"

lemma one_pool_reach: "pool_reach (sample_lib et) (\<lambda>_ _. None) (one_pool et)"
  unfolding one_pool_def
  by (rule reach_op[OF reach_new, of "OpAdd (Some (sample_tx ''0x01'' 0 1))"]) (simp_all add: sample_tx_def HashLength_def)

theorem pool_expiry_witness:
  "\<exists>et P'. pool_runs (sample_lib et) (replicate 5 OpGrow) (one_pool et) = Some P' \<and>
    c_contains (sample_lib et) (tx_Hash (sample_tx ''0x01'' 0 1)) (received (one_pool et)) \<and>
    \<not> c_contains (sample_lib et) (tx_Hash (sample_tx ''0x01'' 0 1)) (received P')"
proof -
  fix et
  have ex: "\<exists>P'. pool_runs (sample_lib et) (replicate 5 OpGrow) (one_pool et) = Some P'" by (simp add: eval_nat_numeral)
  then obtain P' where p: "pool_runs (sample_lib et) (replicate 5 OpGrow) (one_pool et) = Some P'" by blast
  have "\<not> c_contains (sample_lib et) (tx_Hash (sample_tx ''0x01'' 0 1)) (received P')"
    by (rule pool_expiry[OF slib.pool_lib_axioms one_pool_reach _ p]) (simp_all add: list_all_iff)
  moreover have "c_contains (sample_lib et) (tx_Hash (sample_tx ''0x01'' 0 1)) (received (one_pool et))"
    by (simp add: one_pool_def AddTransaction_def pool_add_def isTransactionExisted_def c_contains_def newTransactionPool_def newSimpleContainer_def
        sample_lib_def ListMap.extend_def alist_map_def db_Has_def db_Get_def db_place_def c_push_def rcvTxPoolSize_def)
  ultimately show ?thesis using p by blast
qed

text \<open>
  C35: a full pool accepts and forgets. When the pool is full a new transaction is reported as
  added without an error, yet it is not in the pool afterwards.
\<close>

theorem AddTransaction_full_forgets:
  assumes "IsFull L P" "\<not> isTransactionExisted L (tx_Hash tx) P"
  shows "fst (AddTransaction L (Some tx) P) = (True, None) \<and>
    received (snd (AddTransaction L (Some tx) P)) = received P \<and>
    \<not> c_contains L (tx_Hash tx) (received (snd (AddTransaction L (Some tx) P)))"
proof -
  have "c_push L tx (received P) = received P" using assms(1) by (simp add: IsFull_def c_isFull_def c_push_def)
  then show ?thesis using assms(2) by (auto simp: AddTransaction_def pool_add_def isTransactionExisted_def split: if_splits)
qed

theorem AddTransaction_full_forgets_witness:
  "\<exists>et P. IsFull (sample_lib et) P \<and> fst (AddTransaction (sample_lib et) (Some (sample_tx ''0x01'' 0 1)) P) = (True, None) \<and>
    \<not> c_contains (sample_lib et) (tx_Hash (sample_tx ''0x01'' 0 1))
        (received (snd (AddTransaction (sample_lib et) (Some (sample_tx ''0x01'' 0 1)) P)))"
proof -
  fix et
  let ?P = "(newTransactionPool (sample_lib et) (\<lambda>_ _. None))\<lparr>received := newSimpleContainer (sample_lib et) 0\<rparr>"
  have f: "IsFull (sample_lib et) ?P" by (simp add: IsFull_def c_isFull_def newSimpleContainer_def)
  have "\<not> isTransactionExisted (sample_lib et) (tx_Hash (sample_tx ''0x01'' 0 1)) ?P"
    by (simp add: isTransactionExisted_def c_contains_def newTransactionPool_def newSimpleContainer_def
        sample_lib_def ListMap.extend_def alist_map_def db_Has_def db_Get_def db_place_def)
  from AddTransaction_full_forgets[OF f this] f show ?thesis by blast
qed


definition sample_receipt :: Receipt where
  "sample_receipt =
    \<lparr>rc_PostState = [], rc_Status = 1, rc_CumulativeGasUsed = 0, rc_Height = 7, rc_TxHash = tx_Hash (sample_tx ''0x01'' 0 1),
     rc_Msg = [], rc_Source = [], rc_ContractAddress = zero_address, rc_Logs = [], rc_Result = [], rc_GasUsed = 21000\<rparr>"

definition sample_et :: ExecutedTransaction where
  "sample_et = \<lparr>et_Receipt = executed_receipt zero_hash sample_receipt, et_Transaction = []\<rparr>"




end
