(* ===== verification/Account_Store.thy ===== *)
theory Account_Store
  imports Account_Revert
begin

text \<open>
  The account database as a store: what \<^verbatim>\<open>GetData\<close> reads after \<^verbatim>\<open>SetData\<close>. The services that
  keep miners and refunds in the storage of fixed addresses rely on these laws only. They hold on a
  database in which no account object is marked deleted.
\<close>

definition data_at :: "('t, 'x) AccountEnv_scheme \<Rightarrow> 't AccountDB \<Rightarrow> address \<Rightarrow> bytes \<Rightarrow> bytes" where
  "data_at E s a k = (case acct_of E s a of None \<Rightarrow> [] | Some x \<Rightarrow> a_storage x k)"

definition code_at :: "('t, 'x) AccountEnv_scheme \<Rightarrow> 't AccountDB \<Rightarrow> address \<Rightarrow> bytes option" where
  "code_at E s a = (case acct_of E s a of None \<Rightarrow> None | Some x \<Rightarrow> a_code x)"

definition store_ok ::
  "('t, 'x) AccountEnv_scheme \<Rightarrow> ('t \<Rightarrow> (bytes \<rightharpoonup> bytes) \<Rightarrow> bool) \<Rightarrow> 't AccountDB \<Rightarrow> bool" where
  "store_ok E holds s \<longleftrightarrow> adb_wf E holds s \<and> (\<forall>a ao. get_obj s a = Some ao \<longrightarrow> \<not> deleted ao)"

definition same_store :: "('t, 'x) AccountEnv_scheme \<Rightarrow> 't AccountDB \<Rightarrow> 't AccountDB \<Rightarrow> bool" where
  "same_store E s s' \<longleftrightarrow> data_at E s' = data_at E s \<and> code_at E s' = code_at E s"

lemma same_store_view: "view_of E s' = view_of E s \<Longrightarrow> same_store E s s'"
proof -
  assume "view_of E s' = view_of E s"
  then have "acct_of E s' = acct_of E s" by (simp add: view_of_def)
  then show ?thesis by (simp add: same_store_def data_at_def code_at_def fun_eq_iff)
qed

lemma get_obj_put_obj: "get_obj (put_obj a ao s) b = (if b = a then Some ao else get_obj s b)"
  by (simp add: get_obj_def put_obj_def update_conv')

lemma get_obj_MarkDirty [simp]: "get_obj (MarkAccountObjectDirty a s) b = get_obj s b"
  by (simp add: get_obj_def MarkAccountObjectDirty_def)

lemma get_obj_journal [simp]: "get_obj (journal e s) b = get_obj s b"
  by (simp add: get_obj_def journal_def)

lemma get_obj_put_dirty: "get_obj (put_dirty a ao s) b = (if b = a then Some (ao\<lparr>onDirty := False\<rparr>) else get_obj s b) \<or>
    get_obj (put_dirty a ao s) b = (if b = a then Some ao else get_obj s b)"
  by (auto simp: put_dirty_def get_obj_put_obj)

text \<open>The root of an empty storage opens an empty trie.\<close>

locale account_store = account_env +
  assumes empty_root: "OpenStorageTrie E a zero_hash = Inr t \<Longrightarrow> holds t Map.empty"
begin

lemma new_object_view:
  "a_storage (obj_view E ((newAccountObject E a empty_Account True)\<lparr>onDirty := b\<rparr>)) = (\<lambda>_. [])"
  "a_code (obj_view E ((newAccountObject E a empty_Account True)\<lparr>onDirty := b\<rparr>)) = None"
proof -
  let ?o = "newAccountObject E a empty_Account True"
  obtain t where t: "OpenStorageTrie E (sum256 E a) zero_hash = Inr t" using open_zero[of "sum256 E a"] by blast
  have "slice_of (fst (ao_GetData E k ?o)) = []" for k
    using get_law[OF empty_root[OF t], of k] t
    by (auto simp: newAccountObject_def ao_GetData_def GetCommittedData_def getTrie_def empty_Account_def Let_def)
  then show "a_storage (obj_view E (?o\<lparr>onDirty := b\<rparr>)) = (\<lambda>_. [])"
    unfolding obj_view_onDirty by (simp add: obj_view_def)
  show "a_code (obj_view E (?o\<lparr>onDirty := b\<rparr>)) = None"
    by (simp add: obj_view_def newAccountObject_def empty_Account_def Let_def code_of_def)
qed

lemma createObject_store:
  assumes "store_ok E holds s" "get_obj s a = None" "acct_of E s a = None"
  shows "store_ok E holds (createObject E a None s)" "same_store E s (createObject E a None s)"
proof -
  let ?o = "(newAccountObject E a empty_Account True)\<lparr>onDirty := False\<rparr>"
  let ?s1 = "journal (CreateObjectChange a) (MarkAccountObjectDirty a s)"
  have o: "\<not> deleted ?o" "ao_address ?o = a" by (simp_all add: newAccountObject_def Let_def)
  have c: "createObject E a None s = put_obj a ?o ?s1"
    using assms(2) o(2) by (simp add: createObject_def setAccountObject_def journal_def MarkAccountObjectDirty_def get_obj_def Let_def)
  have w: "adb_wf E holds s" using assms(1) by (simp add: store_ok_def)
  show "store_ok E holds (createObject E a None s)"
    using journaled_wf[OF createObject_journaled(1)[OF w assms(2,3)]] assms(1) o(1) unfolding c
    by (auto simp: store_ok_def get_obj_put_obj)
  have a1: "acct_of E ?s1 = acct_of E s" by (rule acct_of_cong) (simp_all add: journal_def MarkAccountObjectDirty_def)
  have "acct_of E (createObject E a None s) = (acct_of E s)(a \<mapsto> obj_view E ?o)"
    unfolding c using view_of_put_obj[OF o(1), of a ?s1] a1 by (simp add: view_of_def)
  then show "same_store E s (createObject E a None s)"
    using assms(3) new_object_view by (auto simp: same_store_def data_at_def code_at_def fun_eq_iff)
qed

lemma get_create:
  assumes "store_ok E holds s" "getAccountObject E a c s = (found, s1)"
  shows "store_ok E holds s1" "same_store E s s1" "c \<Longrightarrow> found" "found \<Longrightarrow> \<exists>ao. get_obj s1 a = Some ao \<and> \<not> deleted ao \<and> obj_wf E holds a ao"
proof -
  have w: "adb_wf E holds s" using assms(1) by (simp add: store_ok_def)
  then obtain m where m: "holds (adb_trie s) m" and acc: "accounts_wf E holds m" by (auto simp: adb_wf_def)
  obtain tr where tr: "getAccountObjectFromTrie E a s = (stored E m a, s\<lparr>adb_trie := tr\<rparr>)" "holds tr m"
    using from_trie[OF m, of a] by blast
  have "store_ok E holds s1 \<and> same_store E s s1 \<and> (c \<longrightarrow> found)"
  proof (cases "get_obj s a")
    case (Some ao)
    then have "s1 = s" "found" using assms by (auto simp: getAccountObject_def store_ok_def)
    then show ?thesis using assms(1) by (simp add: same_store_def)
  next
    case None
    note ms = view_miss[OF w m tr(2) acc]
    show ?thesis
    proof (cases "stored E m a")
      case ao: (Some ao)
      have "ao_address ao = a" using stored_wf(1)[OF ao acc] by (simp add: obj_wf_def)
      then have s1: "s1 = put_obj a ao (s\<lparr>adb_trie := tr\<rparr>)" "found"
        using assms(2) None tr ao by (auto simp: getAccountObject_def setAccountObject_def get_obj_def)
      note l = view_load[OF w None m tr(2) ao acc]
      have "\<not> deleted ao" using stored_wf[OF ao acc] by simp
      then have "store_ok E holds s1" using l(1) s1 assms(1) by (auto simp: store_ok_def get_obj_put_obj) (simp add: get_obj_def)
      then show ?thesis using l s1 same_store_view[of E s1 s] by simp
    next
      case no: None
      let ?s = "s\<lparr>adb_trie := tr\<rparr>"
      have na: "acct_of E s a = None" using acct_of_holds[OF m, of a] None no by simp
      have v: "view_of E ?s = view_of E s" using ms by simp
      then have na': "acct_of E ?s a = None" using na by (metis v_accts_view_of)
      have go: "get_obj ?s b = get_obj s b" for b by (simp add: get_obj_def)
      have ok: "store_ok E holds ?s" using ms(1) assms(1) go by (simp add: store_ok_def)
      note cr = createObject_store[OF ok _ na']
      have "same_store E s ?s" by (rule same_store_view[OF v])
      then show ?thesis using assms(2) None tr no ok cr go
        by (auto simp: getAccountObject_def same_store_def split: if_splits)
    qed
  qed
  then show "store_ok E holds s1" "same_store E s s1" "c \<Longrightarrow> found" by auto
  show "found \<Longrightarrow> \<exists>ao. get_obj s1 a = Some ao \<and> \<not> deleted ao \<and> obj_wf E holds a ao"
    using getAccountObject_spec(2)[OF w assms(2)] .
qed

lemma ao_SetData_store:
  assumes "store_ok E holds s" "get_obj s a = Some ao"
  shows "store_ok E holds (ao_SetData E k v ao s)"
    "data_at E (ao_SetData E k v ao s) = (\<lambda>b j. if b = a \<and> j = k then slice_of v else data_at E s b j)"
    "code_at E (ao_SetData E k v ao s) = code_at E s"
proof -
  have w: "adb_wf E holds s" "\<not> deleted ao" using assms by (auto simp: store_ok_def)
  then have o: "obj_wf E holds a ao" using assms(2) by (simp add: adb_wf_def)
  obtain p ao1 where g: "ao_GetData E k ao = (p, ao1)" by (cases "ao_GetData E k ao")
  note r = obj_view_GetData[OF o g]
  have a1: "ao_address ao1 = a" "\<not> deleted ao1" using r(1,3) w(2) by (auto simp: obj_wf_def same_obj_def)
  let ?ao = "ao1\<lparr>cachedStorage := AList.update k v (cachedStorage ao1), dirtyStorage := AList.update k v (dirtyStorage ao1)\<rparr>"
  let ?s1 = "put_obj a ao1 s" and ?s2 = "put_dirty a ?ao (journal (StorageChange a k p) s)"
  have wf: "obj_wf E holds a ?ao" "\<not> deleted ?ao" using r(1) a1(2) by (simp_all add: obj_wf_def)
  have eq: "ao_SetData E k v ao s = (if slice_of v = slice_of p then ?s1 else ?s2)"
    using g a1 by (simp add: ao_SetData_def ao_setData_def)
  have acc: "acct_of E s a = Some (obj_view E ao)" by (rule acct_of_obj[OF assms(2) w(2)])
  have v1: "acct_of E ?s1 = acct_of E s" "adb_wf E holds ?s1"
    using put_read_journaled[OF w(1) assms(2) w(2) r(1,3,2)] journaled_wf v_accts_view_of by metis+
  have j: "adb_wf E holds (journal (StorageChange a k p) s)" using w(1) by simp
  have v2: "acct_of E ?s2 = (acct_of E s)(a \<mapsto> obj_view E ?ao)" "adb_wf E holds ?s2"
    using put_dirty_view[OF j wf] by (auto simp: view_of_def)
  have st: "obj_view E ?ao = (obj_view E ao)\<lparr>a_storage := (a_storage (obj_view E ao))(k := slice_of v)\<rparr>"
    using obj_view_setData[OF r(1), where k = k and v = v] r(2) by simp
  have p: "slice_of p = a_storage (obj_view E ao) k" using r(5) by simp
  show "store_ok E holds (ao_SetData E k v ao s)"
    unfolding eq using v1 v2 assms(1) a1(2) wf(2) by (auto simp: store_ok_def get_obj_put_obj put_dirty_def split: if_splits)
  show "data_at E (ao_SetData E k v ao s) = (\<lambda>b j. if b = a \<and> j = k then slice_of v else data_at E s b j)"
    unfolding eq using v1(1) v2(1) st p acc by (auto simp: data_at_def fun_eq_iff)
  show "code_at E (ao_SetData E k v ao s) = code_at E s"
    unfolding eq using v1(1) v2(1) st acc by (auto simp: code_at_def fun_eq_iff)
qed

text \<open>The laws of the store.\<close>

lemma SetData_store:
  assumes "store_ok E holds s"
  shows "store_ok E holds (SetData E a k v s)"
    "data_at E (SetData E a k v s) = (\<lambda>b j. if b = a \<and> j = k then slice_of v else data_at E s b j)"
    "code_at E (SetData E a k v s) = code_at E s"
proof -
  obtain found s1 where g: "getAccountObject E a True s = (found, s1)" by (cases "getAccountObject E a True s")
  note c = get_create[OF assms g]
  obtain ao where ao: "get_obj s1 a = Some ao" using c(3,4) by auto
  have eq: "SetData E a k v s = ao_SetData E k v ao s1" using g c(3) ao by (simp add: SetData_def with_obj_def)
  have e: "data_at E s1 = data_at E s" "code_at E s1 = code_at E s" using c(2) by (simp_all add: same_store_def)
  show "store_ok E holds (SetData E a k v s)"
    "data_at E (SetData E a k v s) = (\<lambda>b j. if b = a \<and> j = k then slice_of v else data_at E s b j)"
    "code_at E (SetData E a k v s) = code_at E s"
    unfolding eq using ao_SetData_store[OF c(1) ao, of k v, unfolded e] by blast+
qed

lemma GetData_store:
  assumes "store_ok E holds s" "GetData E a k s = (v, s')"
  shows "slice_of v = data_at E s a k" "store_ok E holds s'" "same_store E s s'"
proof -
  have w: "adb_wf E holds s" using assms(1) by (simp add: store_ok_def)
  show "slice_of v = data_at E s a k" "same_store E s s'"
    using GetData_view[OF w, of a k] assms(2) same_store_view by (auto simp: data_at_def)
  obtain found s1 where g: "getAccountObject E a False s = (found, s1)" by (cases "getAccountObject E a False s")
  note c = get_create[OF assms(1) g]
  have "get_obj s' b = Some ao \<Longrightarrow> \<not> deleted ao" for b ao
  proof (cases found)
    case True
    then obtain ao1 where o: "get_obj s1 a = Some ao1" "\<not> deleted ao1" "obj_wf E holds a ao1" using c(4) by blast
    obtain ao2 where g2: "ao_GetData E k ao1 = (v, ao2)" "s' = put_obj a ao2 s1"
      using assms(2) g True o(1) by (auto simp: GetData_def with_obj_def split: prod.splits)
    have "\<not> deleted ao2" using obj_view_GetData(3)[OF o(3) g2(1)] o(2) by (simp add: same_obj_def)
    then show "get_obj s' b = Some ao \<Longrightarrow> \<not> deleted ao" using c(1) g2(2) by (auto simp: get_obj_put_obj store_ok_def split: if_splits)
  next
    case False
    then have "s' = s1" using assms(2) g by (simp add: GetData_def with_obj_def)
    then show "get_obj s' b = Some ao \<Longrightarrow> \<not> deleted ao" using c(1) by (auto simp: store_ok_def)
  qed
  then show "store_ok E holds s'" using GetData_view[OF w, of a k] assms(2) journaled_wf by (auto simp: store_ok_def)
qed

lemma GetCode_store:
  assumes "store_ok E holds s" "GetCode E a s = (v, s')"
  shows "v = code_at E s a" "store_ok E holds s'" "same_store E s s'"
proof -
  have w: "adb_wf E holds s" using assms(1) by (simp add: store_ok_def)
  show "v = code_at E s a" "same_store E s s'"
    using GetCode_view[OF w, of a] assms(2) same_store_view by (auto simp: code_at_def)
  obtain found s1 where g: "getAccountObject E a False s = (found, s1)" by (cases "getAccountObject E a False s")
  note c = get_create[OF assms(1) g]
  have "get_obj s' b = Some ao \<Longrightarrow> \<not> deleted ao" for b ao
  proof (cases found)
    case True
    then obtain ao1 where o: "get_obj s1 a = Some ao1" "\<not> deleted ao1" "obj_wf E holds a ao1" using c(4) by blast
    obtain ao2 where g2: "nftSetDefinition E ao1 = (v, ao2)" "s' = put_obj a ao2 s1"
      using assms(2) g True o(1) by (auto simp: GetCode_def with_obj_def split: prod.splits)
    have "\<not> deleted ao2" using nftSetDefinition_view(2)[OF o(3) g2(1)] o(2) by (simp add: same_obj_def)
    then show "get_obj s' b = Some ao \<Longrightarrow> \<not> deleted ao" using c(1) g2(2) by (auto simp: get_obj_put_obj store_ok_def split: if_splits)
  next
    case False
    then have "s' = s1" using assms(2) g by (simp add: GetCode_def with_obj_def)
    then show "get_obj s' b = Some ao \<Longrightarrow> \<not> deleted ao" using c(1) by (auto simp: store_ok_def)
  qed
  then show "store_ok E holds s'" using GetCode_view[OF w, of a] assms(2) journaled_wf by (auto simp: store_ok_def)
qed

end

interpretation sstore: account_store "storageDB db hsh dec enc sum3 kec sha p2 sub" trie_rep
proof
  show "trie_rep t Map.empty" if "OpenStorageTrie (storageDB db hsh dec enc sum3 kec sha p2 sub) a zero_hash = Inr t" for a t
    using that trie_rep_empty by (auto simp: storageDB_def open_trie_def NewTrie_def)
qed

text \<open>A database opened at the empty root is a store.\<close>

lemma NewAccountDB_store:
  "\<exists>s. NewAccountDB (storageDB db hsh dec enc sum3 kec sha p2 sub) zero_hash rpg = Inr s
    \<and> store_ok (storageDB db hsh dec enc sum3 kec sha p2 sub) trie_rep s
    \<and> data_at (storageDB db hsh dec enc sum3 kec sha p2 sub) s = (\<lambda>_ _. [])"
proof -
  let ?E = "storageDB db hsh dec enc sum3 kec sha p2 sub"
  obtain s where s: "NewAccountDB ?E zero_hash rpg = Inr s" "adb_wf ?E trie_rep s" using NewAccountDB_wf by blast
  have o: "get_obj s a = None" "trie_rep (adb_trie s) Map.empty" for a
    using s(1) trie_rep_empty by (auto simp: NewAccountDB_def storageDB_def open_trie_def NewTrie_def get_obj_def)
  have "acct_of ?E s a = None" for a
    using storage.acct_of_holds[OF o(2), of _ _ _ _ _ _ _ _ _ a] o(1) by (simp add: stored_def)
  then show ?thesis using s o by (auto simp: store_ok_def data_at_def fun_eq_iff)
qed

end
