(* ===== verification/Utility_Float.thy ===== *)
theory Utility_Float
  imports Utility_Convert
begin

text \<open>
  Money from floating-point numbers (\<^verbatim>\<open>Float64ToBigInt\<close> of
  \<^verbatim>\<open>src/utility/data_convert.go\<close>). A \<^verbatim>\<open>float64\<close> is the rational it stands for; conversion to
  it and the product of \<^verbatim>\<open>big.Float\<close> round to the nearest value, ties to even.
\<close>

definition round_half_even :: "rat \<Rightarrow> int" where
  "round_half_even y =
    (let f = \<lfloor>y\<rfloor>; d = y - of_int f
     in if d < 1 / 2 then f else if d > 1 / 2 then f + 1 else if even f then f else f + 1)"

definition ne_round :: "nat \<Rightarrow> rat \<Rightarrow> rat" where
  "ne_round p x =
    (if x = 0 then 0
     else (let ulp = 2 powi (rat_log2 \<bar>x\<bar> + 1 - int p) in of_int (round_half_even (x / ulp)) * ulp))"

text \<open>The conversion \<^verbatim>\<open>float64(n)\<close> of an unsigned integer.\<close>

definition float64_of_u64 :: "u64 \<Rightarrow> rat" where
  "float64_of_u64 n = ne_round 53 (of_nat (unat n))"

definition Float64ToBigInt :: "rat \<Rightarrow> int" where
  "Float64ToBigInt number = bf_Int (ne_round float_prec (number * 1000000000000000000))"

lemma round_half_even_int [simp]: "round_half_even (of_int i) = i"
  by (simp add: round_half_even_def Let_def)

lemma ne_round_exact:
  assumes "n < 2 ^ p"
  shows "ne_round p (of_nat n) = of_nat n"
proof (cases "n = 0")
  case False
  let ?x = "rat_of_nat n"
  have x: "0 < ?x" using False by simp
  have "?x < 2 ^ p" using assms by (metis of_nat_less_iff of_nat_numeral of_nat_power)
  from le_less_trans[OF rat_log2_le[OF x] this] have "2 powi rat_log2 ?x < (2 :: rat) powi int p" by simp
  then have "rat_log2 ?x < int p" using power_int_increasing[of "int p" "rat_log2 ?x" "2 :: rat"] by (meson not_less one_le_numeral)
  then have "rat_log2 ?x + 1 - int p = - int (nat (int p - 1 - rat_log2 ?x))" by simp
  then obtain k where k: "rat_log2 ?x + 1 - int p = - int k" by blast
  have "?x / 2 powi (- int k) = of_int (int n * 2 ^ k)" by (simp add: power_int_minus divide_simps)
  then have r: "round_half_even (?x / 2 powi (- int k)) = int n * 2 ^ k" by (metis round_half_even_int)
  have "ne_round p ?x = of_int (round_half_even (?x / 2 powi (- int k))) * 2 powi (- int k)"
    using False k by (simp add: ne_round_def Let_def)
  also have "\<dots> = ?x" unfolding r by (simp add: power_int_minus)
  finally show ?thesis .
qed (simp add: ne_round_def)

lemma Float64ToBigInt_int:
  assumes "n * 1000000000000000000 < 2 ^ 512"
  shows "Float64ToBigInt (of_nat n) = int n * 1000000000000000000"
proof -
  have "ne_round 512 (of_nat n * 1000000000000000000) = of_int (int n * 1000000000000000000)"
    using ne_round_exact[OF assms] by simp
  then have "Float64ToBigInt (of_nat n) = bf_Int (of_int (int n * 1000000000000000000))"
    by (simp only: Float64ToBigInt_def float_prec_def)
  also have "\<dots> = int n * 1000000000000000000" unfolding bf_Int_def floor_of_int ceiling_of_int by simp
  finally show ?thesis .
qed

end
