(* ===== verification/Miner_Manager.thy ===== *)
theory Miner_Manager
  imports Chain_Config Utility_Float Account_DB
begin

text \<open>
  Miners and their stakes (\<^verbatim>\<open>src/service/miner_manager.go\<close>, \<^verbatim>\<open>src/middleware/types/miner.go\<close>). A
  miner is kept in the storage of a fixed address: its description as JSON under its id, and its
  stake, account and status under the iterated hashes of the id. The JSON codec and the iteration
  over a storage trie are parameters; \<open>None\<close> is a panic of the account database. The functions take
  the account database they are given, never nil; log lines are left out.
\<close>

section \<open>Miners\<close>

record Miner =
  mi_Id :: bytes
  mi_PublicKey :: bytes
  mi_VrfPublicKey :: bytes
  mi_ApplyHeight :: u64
  mi_Status :: byte
  mi_Type :: byte
  mi_Stake :: u64
  mi_Account :: bytes
  mi_WorkingMiners :: u64

text \<open>The members of the JSON object that \<^verbatim>\<open>GetMinerInfo\<close> writes.\<close>

record MinerInfo =
  info_id :: bytes
  info_publicKey :: bytes
  info_vrfPublicKey :: bytes
  info_applyHeight :: u64
  info_status :: "byte option"
  info_type :: byte

record 't MinerLib =
  json_Info :: "MinerInfo \<Rightarrow> bytes"
  json_Miner :: "bytes \<Rightarrow> Miner option"
  trie_entries :: "'t \<Rightarrow> (bytes \<times> bytes) list"

definition MinerTypeValidator :: byte where "MinerTypeValidator = 0"
definition MinerTypeProposer :: byte where "MinerTypeProposer = 1"
definition MinerStatusNormal :: byte where "MinerStatusNormal = 0"
definition MinerStatusAbort :: byte where "MinerStatusAbort = 1"
definition ValidatorDBAddress :: address where "ValidatorDBAddress = BigToAddress 1"
definition ProposerDBAddress :: address where "ProposerDBAddress = BigToAddress 2"
definition DifficultyAddress :: address where "DifficultyAddress = BigToAddress 3"
definition TotalWorkingMiners :: bytes where "TotalWorkingMiners = [0]"

definition miner_info :: "ChainState \<Rightarrow> Miner \<Rightarrow> MinerInfo" where
  "miner_info S miner =
    \<lparr>info_id = mi_Id miner, info_publicKey = mi_PublicKey miner, info_vrfPublicKey = mi_VrfPublicKey miner,
     info_applyHeight = mi_ApplyHeight miner,
     info_status = (if \<not> IsProposal003 S then Some (mi_Status miner) else None),
     info_type = mi_Type miner\<rparr>"

definition GetMinerInfo :: "('t, 'z) MinerLib_scheme \<Rightarrow> ChainState \<Rightarrow> Miner \<Rightarrow> bytes" where
  "GetMinerInfo L S miner = json_Info L (miner_info S miner)"

definition getMinerDatabaseAddress :: "byte \<Rightarrow> address" where
  "getMinerDatabaseAddress minerType =
    (if minerType = MinerTypeValidator then ValidatorDBAddress
     else if minerType = MinerTypeProposer then ProposerDBAddress
     else zero_address)"

definition IsEmptyByteSlice :: "bytes \<Rightarrow> bool" where
  "IsEmptyByteSlice data \<longleftrightarrow> (if length data = 0 then True else list_all (\<lambda>item. item = 0) data)"

section \<open>Reading\<close>

definition stake_key :: "('t, 'y) AccountEnv_scheme \<Rightarrow> bytes \<Rightarrow> bytes" where
  "stake_key E i = sha256 E i"

definition account_key :: "('t, 'y) AccountEnv_scheme \<Rightarrow> bytes \<Rightarrow> bytes" where
  "account_key E i = sha256 E (sha256 E i)"

definition status_key :: "('t, 'y) AccountEnv_scheme \<Rightarrow> bytes \<Rightarrow> bytes" where
  "status_key E i = sha256 E (sha256 E (sha256 E i))"

definition getMinerStake :: "('t, 'y) AccountEnv_scheme \<Rightarrow> bytes \<Rightarrow> byte \<Rightarrow> 't AccountDB \<Rightarrow> u64 \<times> 't AccountDB" where
  "getMinerStake E i knd adb =
    (let (stakeBytes, adb) = GetData E (getMinerDatabaseAddress knd) (stake_key E i) adb
     in (ByteToUInt64 (slice_of stakeBytes), adb))"

definition getMinerAccount :: "('t, 'y) AccountEnv_scheme \<Rightarrow> bytes \<Rightarrow> byte \<Rightarrow> 't AccountDB \<Rightarrow> bytes \<times> 't AccountDB" where
  "getMinerAccount E i knd adb =
    (let (a, adb) = GetData E (getMinerDatabaseAddress knd) (account_key E i) adb in (slice_of a, adb))"

definition status_or :: "byte \<Rightarrow> bytes \<Rightarrow> byte" where
  "status_or old status = (if length status = 1 then status ! 0 else old)"

definition GetMinerById ::
  "('t, 'z) MinerLib_scheme \<Rightarrow> ('t, 'y) AccountEnv_scheme \<Rightarrow> bytes \<Rightarrow> byte \<Rightarrow> 't AccountDB \<Rightarrow> Miner option \<times> 't AccountDB" where
  "GetMinerById L E i knd adb =
    (let db = getMinerDatabaseAddress knd;
         (data, adb) = GetData E db i adb
     in if length (slice_of data) > 0 then
          (case json_Miner L (slice_of data) of
             None \<Rightarrow> (None, adb)
           | Some miner \<Rightarrow>
               (let (stake, adb) = getMinerStake E i knd adb;
                    (account, adb) = getMinerAccount E i knd adb;
                    (status, adb) = GetData E db (status_key E i) adb;
                    (tot, adb) = GetData E DifficultyAddress TotalWorkingMiners adb
                in (Some (miner\<lparr>mi_Stake := stake, mi_Account := account,
                          mi_Status := status_or (mi_Status miner) (slice_of status),
                          mi_WorkingMiners := (if length (slice_of tot) \<noteq> 0 then ByteToUInt64 (slice_of tot) else 0)\<rparr>),
                    adb)))
        else (None, adb))"

definition GetMiner ::
  "('t, 'z) MinerLib_scheme \<Rightarrow> ('t, 'y) AccountEnv_scheme \<Rightarrow> bytes \<Rightarrow> 't AccountDB \<Rightarrow> Miner option \<times> 't AccountDB" where
  "GetMiner L E i adb =
    (let (miner, adb) = GetMinerById L E i MinerTypeProposer adb
     in case miner of None \<Rightarrow> GetMinerById L E i MinerTypeValidator adb | Some m \<Rightarrow> (Some m, adb))"

section \<open>Iterating\<close>

text \<open>\<^verbatim>\<open>DataIterator\<close> lists the trie of an account object, not the slots that are only cached.\<close>

definition ao_DataIterator ::
  "('t, 'z) MinerLib_scheme \<Rightarrow> ('t, 'y) AccountEnv_scheme \<Rightarrow> 't accountObject \<Rightarrow> ((bytes \<times> bytes) list \<times> 't accountObject) option" where
  "ao_DataIterator L E ao =
    (let ao = (if ao_trie ao = None then getTrie E ao else ao)
     in map_option (\<lambda>t. (trie_entries L t, ao)) (ao_trie ao))"

definition DataIterator ::
  "('t, 'z) MinerLib_scheme \<Rightarrow> ('t, 'y) AccountEnv_scheme \<Rightarrow> address \<Rightarrow> 't AccountDB \<Rightarrow> ((bytes \<times> bytes) list \<times> 't AccountDB) option" where
  "DataIterator L E addr adb =
    with_obj E addr False
      (\<lambda>ao adb. map_option (\<lambda>(es, ao). (es, put_obj addr ao adb)) (ao_DataIterator L E ao))
      (\<lambda>adb. Some ([], adb)) adb"

definition iter_Current ::
  "('t, 'z) MinerLib_scheme \<Rightarrow> ('t, 'y) AccountEnv_scheme \<Rightarrow> address \<Rightarrow> bytes \<Rightarrow> 't AccountDB \<Rightarrow> Miner option \<times> 't AccountDB" where
  "iter_Current L E db value adb =
    (case json_Miner L value of
       None \<Rightarrow> (None, adb)
     | Some miner \<Rightarrow>
         if length (mi_Id miner) = 0 then (None, adb)
         else
           (let (stake, adb) = GetData E db (stake_key E (mi_Id miner)) adb;
                (account, adb) = GetData E db (account_key E (mi_Id miner)) adb;
                (status, adb) = GetData E db (status_key E (mi_Id miner)) adb
            in (Some (miner\<lparr>mi_Stake := ByteToUInt64 (slice_of stake), mi_Account := slice_of account,
                        mi_Status := status_or (mi_Status miner) (slice_of status)\<rparr>), adb)))"

text \<open>The loops over an iterator skip the values that are not miners.\<close>

fun iter_miners ::
  "('t, 'z) MinerLib_scheme \<Rightarrow> ('t, 'y) AccountEnv_scheme \<Rightarrow> address \<Rightarrow> (bytes \<times> bytes) list \<Rightarrow> 't AccountDB \<Rightarrow> Miner list \<times> 't AccountDB" where
  "iter_miners L E db [] adb = ([], adb)"
| "iter_miners L E db ((k, value) # es) adb =
     (let (miner, adb) = iter_Current L E db value adb;
          (ms, adb) = iter_miners L E db es adb
      in (case miner of None \<Rightarrow> ms | Some m \<Rightarrow> m # ms, adb))"

definition minerIterator ::
  "('t, 'z) MinerLib_scheme \<Rightarrow> ('t, 'y) AccountEnv_scheme \<Rightarrow> byte \<Rightarrow> 't AccountDB \<Rightarrow> (Miner list \<times> 't AccountDB) option" where
  "minerIterator L E minerType adb =
    (let db = getMinerDatabaseAddress minerType
     in map_option (\<lambda>(es, adb). iter_miners L E db es adb) (DataIterator L E db adb))"

definition active :: "u64 \<Rightarrow> Miner \<Rightarrow> bool" where
  "active height miner \<longleftrightarrow> \<not> (MinerStatusNormal \<noteq> mi_Status miner \<or> height < mi_ApplyHeight miner)"

definition accounts_of :: "u64 \<Rightarrow> Miner list \<Rightarrow> (string \<times> address) list" where
  "accounts_of height ms =
    fold (\<lambda>m. AList.update (ToHex (mi_Id m)) (BytesToAddress (mi_Account m))) (filter (active height) ms) []"

definition GetAllMinerIdAndAccount ::
  "('t, 'z) MinerLib_scheme \<Rightarrow> ('t, 'y) AccountEnv_scheme \<Rightarrow> u64 \<Rightarrow> 't AccountDB \<Rightarrow>
   (((string \<times> address) list \<times> (string \<times> address) list) \<times> 't AccountDB) option" where
  "GetAllMinerIdAndAccount L E height adb =
    do {
      (ps, adb) \<leftarrow> minerIterator L E MinerTypeProposer adb;
      (vs, adb) \<leftarrow> minerIterator L E MinerTypeValidator adb;
      Some ((accounts_of height ps, accounts_of height vs), adb)
    }"

fun find_account ::
  "('t, 'z) MinerLib_scheme \<Rightarrow> ('t, 'y) AccountEnv_scheme \<Rightarrow> address \<Rightarrow> bytes \<Rightarrow> (bytes \<times> bytes) list \<Rightarrow> 't AccountDB \<Rightarrow>
   bytes option \<times> 't AccountDB" where
  "find_account L E db account [] adb = (None, adb)"
| "find_account L E db account ((k, value) # es) adb =
     (let (curr, adb) = iter_Current L E db value adb
      in case curr of
           Some m \<Rightarrow> if mi_Account m = account then (Some (mi_Id m), adb) else find_account L E db account es adb
         | None \<Rightarrow> find_account L E db account es adb)"

definition GetMinerIdByAccount ::
  "('t, 'z) MinerLib_scheme \<Rightarrow> ('t, 'y) AccountEnv_scheme \<Rightarrow> bytes \<Rightarrow> 't AccountDB \<Rightarrow> (bytes option \<times> 't AccountDB) option" where
  "GetMinerIdByAccount L E account adb =
    do {
      (es, adb) \<leftarrow> DataIterator L E ValidatorDBAddress adb;
      let (r, adb) = find_account L E ValidatorDBAddress account es adb;
      case r of
        Some i \<Rightarrow> Some (Some i, adb)
      | None \<Rightarrow> do {
          (es, adb) \<leftarrow> DataIterator L E ProposerDBAddress adb;
          Some (find_account L E ProposerDBAddress account es adb)
        }
    }"

fun GetValidatorsStake ::
  "('t, 'y) AccountEnv_scheme \<Rightarrow> bytes list \<Rightarrow> u64 \<Rightarrow> (address \<times> u64) list \<Rightarrow> 't AccountDB \<Rightarrow>
   (u64 \<times> (address \<times> u64) list) \<times> 't AccountDB" where
  "GetValidatorsStake E [] tot membersDetail adb = ((tot, membersDetail), adb)"
| "GetValidatorsStake E (member # members) tot membersDetail adb =
     (let (stake, adb) = getMinerStake E member MinerTypeValidator adb;
          (account, adb) = getMinerAccount E member MinerTypeValidator adb
      in if stake = 0 then GetValidatorsStake E members tot membersDetail adb
         else
           (let addr = BytesToAddress account;
                current = (case map_of membersDetail addr of None \<Rightarrow> 0 | Some c \<Rightarrow> c)
            in GetValidatorsStake E members (tot + stake) (AList.update addr (stake + current) membersDetail) adb))"

definition GetProposerTotalStakeWithDetail ::
  "('t, 'z) MinerLib_scheme \<Rightarrow> ('t, 'y) AccountEnv_scheme \<Rightarrow> u64 \<Rightarrow> 't AccountDB \<Rightarrow>
   ((u64 \<times> (string \<times> u64) list) \<times> 't AccountDB) option" where
  "GetProposerTotalStakeWithDetail L E height adb =
    map_option (\<lambda>(ms, adb).
      let act = filter (active height) ms
      in ((sum_list (map mi_Stake act), fold (\<lambda>m. AList.update (ToHex (mi_Id m)) (mi_Stake m)) act []), adb))
      (minerIterator L E MinerTypeProposer adb)"

section \<open>Writing\<close>

definition UpdateMiner ::
  "('t, 'z) MinerLib_scheme \<Rightarrow> ChainState \<Rightarrow> ('t, 'y) AccountEnv_scheme \<Rightarrow> Miner \<Rightarrow> bool \<Rightarrow> 't AccountDB \<Rightarrow> 't AccountDB" where
  "UpdateMiner L S E miner isNew adb =
    (let i = mi_Id miner;
         db = getMinerDatabaseAddress (mi_Type miner);
         adb = (if isNew then SetData E db i (Some (GetMinerInfo L S miner)) adb else adb);
         adb = SetData E db (stake_key E i) (Some (UInt64ToByte (mi_Stake miner))) adb;
         adb = SetData E db (account_key E i) (Some (mi_Account miner)) adb
     in if IsProposal003 S then SetData E db (status_key E i) (Some [mi_Status miner]) adb else adb)"

definition RemoveMiner ::
  "('t, 'y) AccountEnv_scheme \<Rightarrow> bytes \<Rightarrow> bytes \<Rightarrow> byte \<Rightarrow> u64 \<Rightarrow> 't AccountDB \<Rightarrow> 't AccountDB" where
  "RemoveMiner E i account ttype left adb =
    (let db = getMinerDatabaseAddress ttype;
         (contract, adb) = (if left = 0 then IsContract E (BytesToAddress account) adb else (True, adb))
     in if left = 0 \<and> \<not> contract then
          (let adb = SetData E db i (Some []) adb;
               adb = SetData E db (stake_key E i) (Some []) adb;
               adb = SetData E db (account_key E i) (Some []) adb
           in SetData E db (status_key E i) (Some []) adb)
        else
          (let adb = SetData E db (stake_key E i) (Some (UInt64ToByte left)) adb
           in SetData E db (status_key E i) (Some [MinerStatusAbort]) adb))"

definition RemoveUnusedValidator ::
  "('t, 'z) MinerLib_scheme \<Rightarrow> ('t, 'y) AccountEnv_scheme \<Rightarrow> string set \<Rightarrow> 't AccountDB \<Rightarrow> 't AccountDB option" where
  "RemoveUnusedValidator L E whitelist adb =
    map_option (\<lambda>(ms, adb).
      fold (\<lambda>unused. RemoveMiner E (mi_Id unused) (mi_Account unused) MinerTypeValidator 0)
        (filter (\<lambda>m. MinerStatusNormal = mi_Status m \<and> ToHex (mi_Id m) \<notin> whitelist) ms) adb)
      (minerIterator L E MinerTypeValidator adb)"

datatype miner_error =
    NotEnoughBalance | MinerNotExisted | StakeOverflow | MinerTypeError | NotEnoughStake | EmptyKey | MinerExisted
  | AccountExisted

text \<open>\<^verbatim>\<open>miner.Stake < 0\<close> compares an unsigned integer.\<close>

definition AddStake ::
  "('t, 'z) MinerLib_scheme \<Rightarrow> ChainState \<Rightarrow> ('t, 'y) AccountEnv_scheme \<Rightarrow> address \<Rightarrow> bytes \<Rightarrow> u64 \<Rightarrow> 't AccountDB \<Rightarrow>
   (miner_error option \<times> 't AccountDB) option" where
  "AddStake L S E addr minerId delta' adb =
    (if delta' = 0 then Some (None, adb)
     else do {
       let stake = Float64ToBigInt (float64_of_u64 delta');
       (balance, adb) \<leftarrow> GetBalance E addr adb;
       if balance < stake then Some (Some NotEnoughBalance, adb)
       else (let (found, adb) = GetMiner L E minerId adb
             in case found of
                  None \<Rightarrow> Some (Some MinerNotExisted, adb)
                | Some miner \<Rightarrow>
                    (let miner = miner\<lparr>mi_Stake := mi_Stake miner + delta'\<rparr>
                     in if mi_Stake miner < 0 then Some (Some StakeOverflow, adb)
                        else do {
                          let miner = (if mi_Type miner = MinerTypeProposer \<and> mi_Stake miner > ProposerStake \<or>
                                          mi_Type miner = MinerTypeValidator \<and> mi_Stake miner > ValidatorStake
                                       then miner\<lparr>mi_Status := MinerStatusNormal\<rparr> else miner);
                          (_, adb) \<leftarrow> SubBalance E addr stake adb;
                          Some (None, UpdateMiner L S E miner False adb)
                        }))
     })"

text \<open>The manager's own state is the cache of public keys, a LevelDB file.\<close>

definition AddMiner ::
  "('t, 'z) MinerLib_scheme \<Rightarrow> ChainState \<Rightarrow> ('t, 'y) AccountEnv_scheme \<Rightarrow> address \<Rightarrow> Miner \<Rightarrow> (bytes \<rightharpoonup> bytes) \<Rightarrow> 't AccountDB \<Rightarrow>
   (miner_error option \<times> (bytes \<rightharpoonup> bytes) \<times> 't AccountDB) option" where
  "AddMiner L S E addr miner pkCache adb =
    (if mi_Type miner \<noteq> MinerTypeValidator \<and> mi_Type miner \<noteq> MinerTypeProposer then Some (Some MinerTypeError, pkCache, adb)
     else if mi_Type miner = MinerTypeValidator \<and> mi_Stake miner < ValidatorStake \<or>
             mi_Type miner = MinerTypeProposer \<and> mi_Stake miner < ProposerStake then Some (Some NotEnoughStake, pkCache, adb)
     else if IsEmptyByteSlice (mi_VrfPublicKey miner) \<or> IsEmptyByteSlice (mi_PublicKey miner) then Some (Some EmptyKey, pkCache, adb)
     else do {
       let stake = Float64ToBigInt (float64_of_u64 (mi_Stake miner));
       (balance, adb) \<leftarrow> GetBalance E addr adb;
       if balance < stake then Some (Some NotEnoughBalance, pkCache, adb)
       else (let (found, adb) = GetMiner L E (mi_Id miner) adb
             in if found \<noteq> None then Some (Some MinerExisted, pkCache, adb)
                else do {
                  (existed, adb) \<leftarrow> GetMinerIdByAccount L E (mi_Account miner) adb;
                  if existed \<noteq> None then Some (Some AccountExisted, pkCache, adb)
                  else do {
                    (_, adb) \<leftarrow> SubBalance E addr stake adb;
                    Some (None, pkCache(mi_Id miner \<mapsto> mi_PublicKey miner), UpdateMiner L S E miner True adb)
                  }
                })
     })"

definition GetPubkey :: "bytes \<Rightarrow> (bytes \<rightharpoonup> bytes) \<Rightarrow> bytes option" where
  "GetPubkey i pkCache = pkCache i"

text \<open>An id counts as taken when its slot is not nil, even if it is empty.\<close>

definition InsertMiner ::
  "('t, 'z) MinerLib_scheme \<Rightarrow> ChainState \<Rightarrow> ('t, 'y) AccountEnv_scheme \<Rightarrow> Miner \<Rightarrow> (bytes \<rightharpoonup> bytes) \<Rightarrow> 't AccountDB \<Rightarrow>
   int \<times> (bytes \<rightharpoonup> bytes) \<times> 't AccountDB" where
  "InsertMiner L S E miner pkCache adb =
    (let (data, adb) = GetData E (getMinerDatabaseAddress (mi_Type miner)) (mi_Id miner) adb
     in if data \<noteq> None then (-1, pkCache, adb)
        else (1, pkCache(mi_Id miner \<mapsto> mi_PublicKey miner), UpdateMiner L S E miner True adb))"

end
