(* ===== verification/Refund_Manager.thy ===== *)
theory Refund_Manager
  imports Miner_Manager
begin

text \<open>
  Refunds of stakes (\<^verbatim>\<open>src/service/refund_manager.go\<close>) with the refunds an account object lists
  (\<^verbatim>\<open>src/storage/account/account_object_tuntun.go\<close>) and the height of the next reward
  (\<^verbatim>\<open>reward_calculator.go\<close>). What is due at a height is kept in the storage of an address derived
  from the height. The groups of a miner come from the group chain, a parameter; a Go map is an
  association list.
\<close>

section \<open>Heights\<close>

definition refundHeight :: u64 where "refundHeight = 36000"

text \<open>The quotient of two \<^verbatim>\<open>float64\<close>; its ceiling is converted back to an integer.\<close>

definition NextRewardHeight :: "u64 \<Rightarrow> ChainState \<Rightarrow> (u64 \<times> ChainState) option" where
  "NextRewardHeight height S =
    do {
      (blocks, S) \<leftarrow> GetRewardBlocks S;
      if blocks = 0 then None
      else (let nxt = \<lceil>ne_round 53 (float64_of_u64 height / float64_of_u64 blocks)\<rceil>
            in Some (of_int nxt * blocks, S))
    }"

text \<open>\<open>groups\<close> gives the dismissal heights of the groups a miner belongs to, seen from a fork or not.\<close>

definition validator_height :: "u64 list \<Rightarrow> u64 \<Rightarrow> ChainState \<Rightarrow> (u64 \<times> ChainState) option" where
  "validator_height heights left S =
    (let leftGroups = unat (left div ValidatorStake)
     in if length heights > leftGroups then
          (let base = sort heights ! (length heights - leftGroups - 1)
           in if base \<noteq> - 1 then map_option (\<lambda>(b, S). (base + b, S)) (GetRefundBlocks S) else Some (0, S))
        else Some (0, S))"

definition getRefundHeight ::
  "(bool \<Rightarrow> u64 \<Rightarrow> bytes \<Rightarrow> u64 list) \<Rightarrow> u64 \<Rightarrow> u64 \<Rightarrow> byte \<Rightarrow> bytes \<Rightarrow> string \<Rightarrow> ChainState \<Rightarrow> (u64 \<times> ChainState) option" where
  "getRefundHeight groups now left minerType minerId situation S =
    (if IsProposal012 S then Some (now + refundHeight, S)
     else do {
       (height, S) \<leftarrow>
         (if minerType = MinerTypeValidator then validator_height (groups (situation = ''fork'') now minerId) left S
          else do {
            (nxt, S) \<leftarrow> NextRewardHeight now S;
            (b, S) \<leftarrow> GetRefundBlocks S;
            Some (nxt + b, S)
          });
       (height, S) \<leftarrow>
         (if IsProposal004 S \<and> height \<le> 0 then map_option (\<lambda>(b, S). (now + b * 100, S)) (GetRefundBlocks S)
          else Some (height, S));
       Some (if Proposal011Block (LocalChainConfig S) = now then height - 50 else height, S)
     })"

section \<open>Recording and paying refunds\<close>

definition generateAddress :: "('t, 'y) AccountEnv_scheme \<Rightarrow> u64 \<Rightarrow> address" where
  "generateAddress E height = BytesToAddress (sha256 E (str_bytes (''refund'' @ itoa (unat height))))"

definition add_refund ::
  "('t, 'y) AccountEnv_scheme \<Rightarrow> address \<Rightarrow> bytes \<times> int \<Rightarrow> 't AccountDB \<Rightarrow> 't AccountDB" where
  "add_refund E address info adb =
    (let (i, value) = info;
         (existedBytes, adb) = GetData E address i adb
     in if length (slice_of existedBytes) = 0 then SetData E address i (Some (big_Bytes value)) adb
        else SetData E address i (Some (big_Bytes (big_SetBytes (slice_of existedBytes) + value))) adb)"

definition refund_Add ::
  "('t, 'y) AccountEnv_scheme \<Rightarrow> (u64 \<times> (bytes \<times> int) list) list \<Rightarrow> 't AccountDB \<Rightarrow> 't AccountDB" where
  "refund_Add E data adb =
    fold (\<lambda>(height, lst) adb. if length lst = 0 then adb else fold (add_refund E (generateAddress E height)) lst adb) data adb"

text \<open>The cached slots of the object come first, then those of its trie that are not cached.\<close>

definition getAllRefund ::
  "('t, 'z) MinerLib_scheme \<Rightarrow> ('t, 'y) AccountEnv_scheme \<Rightarrow> 't accountObject \<Rightarrow> ((address \<times> int) list \<times> 't accountObject) option" where
  "getAllRefund L E ao =
    (let result = fold (\<lambda>(k, v). AList.update (BytesToAddress k) (big_SetBytes (slice_of v))) (cachedStorage ao) []
     in map_option (\<lambda>(es, ao).
          fold (\<lambda>(k, v) (result, ao).
            if map_of (cachedStorage ao) k = None
            then (AList.update (BytesToAddress k) (big_SetBytes v) result,
                  ao\<lparr>cachedStorage := AList.update k (Some v) (cachedStorage ao)\<rparr>)
            else (result, ao)) es (result, ao))
          (ao_DataIterator L E ao))"

definition GetAllRefund ::
  "('t, 'z) MinerLib_scheme \<Rightarrow> ('t, 'y) AccountEnv_scheme \<Rightarrow> address \<Rightarrow> 't AccountDB \<Rightarrow> ((address \<times> int) list \<times> 't AccountDB) option" where
  "GetAllRefund L E addr adb =
    with_obj E addr True
      (\<lambda>ao adb. map_option (\<lambda>(r, ao). (r, put_obj addr ao adb)) (getAllRefund L E ao)) (\<lambda>adb. None) adb"

fun pay_refunds ::
  "('t, 'y) AccountEnv_scheme \<Rightarrow> address \<Rightarrow> (address \<times> int) list \<Rightarrow> 't AccountDB \<Rightarrow> 't AccountDB option" where
  "pay_refunds E address [] adb = Some adb"
| "pay_refunds E address ((addr, value) # rs) adb =
     do {
       adb \<leftarrow> AddBalance E addr value adb;
       pay_refunds E address rs (RemoveData E address addr adb)
     }"

definition CheckAndMove ::
  "('t, 'z) MinerLib_scheme \<Rightarrow> ('t, 'y) AccountEnv_scheme \<Rightarrow> u64 \<Rightarrow> 't AccountDB \<Rightarrow> 't AccountDB option" where
  "CheckAndMove L E height adb =
    do {
      let address = generateAddress E height;
      (refundList, adb) \<leftarrow> GetAllRefund L E address adb;
      if length refundList = 0 then Some adb else pay_refunds E address refundList adb
    }"

section \<open>Giving stake back\<close>

datatype refund_error = RefundMinerNotExisted | RefundAuth | RefundNotEnoughStake

definition GetRefundStake ::
  "('t, 'z) MinerLib_scheme \<Rightarrow> ('t, 'y) AccountEnv_scheme \<Rightarrow> (bool \<Rightarrow> u64 \<Rightarrow> bytes \<Rightarrow> u64 list) \<Rightarrow> u64 \<Rightarrow> bytes \<Rightarrow> bytes \<Rightarrow> u64 \<Rightarrow>
   string \<Rightarrow> ChainState \<Rightarrow> 't AccountDB \<Rightarrow> ((refund_error + u64 \<times> int \<times> bytes) \<times> ChainState \<times> 't AccountDB) option" where
  "GetRefundStake L E groups now minerId account money situation S adb =
    (let (found, adb) = GetMiner L E minerId adb
     in case found of
          None \<Rightarrow> Some (Inl RefundMinerNotExisted, S, adb)
        | Some miner \<Rightarrow>
            if account \<noteq> mi_Account miner then Some (Inl RefundAuth, S, adb)
            else
              (let money = (if money = - 1 then mi_Stake miner else money)
               in if mi_Stake miner < money then Some (Inl RefundNotEnoughStake, S, adb)
                  else
                    (let left = mi_Stake miner - money;
                         adb = (if mi_Type miner = MinerTypeProposer \<and> left < ProposerStake \<or>
                                   mi_Type miner = MinerTypeValidator \<and> left < ValidatorStake
                                then RemoveMiner E minerId account (mi_Type miner) left adb
                                else UpdateMiner L S E (miner\<lparr>mi_Stake := left\<rparr>) False adb)
                     in map_option (\<lambda>(height, S). (Inr (height, Uint64ToBigInt money, mi_Account miner), S, adb))
                          (getRefundHeight groups now left (mi_Type miner) minerId situation S))))"

end
