(* ===== verification/Miner_Store.thy ===== *)
theory Miner_Store
  imports Account_Store Refund_Manager
begin

text \<open>
  Miners and refunds over the laws of the account store: a miner that was written is read back, a
  refund takes from the stake what it gives, and refunds recorded for a height add up.
\<close>

section \<open>Reading a miner\<close>

text \<open>The miner that the data \<open>d\<close> of the accounts describe.\<close>

definition miner_at ::
  "('t, 'z) MinerLib_scheme \<Rightarrow> ('t, 'y) AccountEnv_scheme \<Rightarrow> (address \<Rightarrow> bytes \<Rightarrow> bytes) \<Rightarrow> bytes \<Rightarrow> byte \<Rightarrow> Miner option" where
  "miner_at L E d i knd =
    (let db = getMinerDatabaseAddress knd; tot = d DifficultyAddress TotalWorkingMiners
     in if d db i = [] then None
        else map_option (\<lambda>m. m\<lparr>mi_Stake := ByteToUInt64 (d db (stake_key E i)), mi_Account := d db (account_key E i),
               mi_Status := status_or (mi_Status m) (d db (status_key E i)),
               mi_WorkingMiners := (if tot \<noteq> [] then ByteToUInt64 tot else 0)\<rparr>) (json_Miner L (d db i)))"

text \<open>The four slots of a miner do not collide.\<close>

definition slots_apart :: "('t, 'y) AccountEnv_scheme \<Rightarrow> bytes \<Rightarrow> bool" where
  "slots_apart E i \<longleftrightarrow> distinct [i, stake_key E i, account_key E i, status_key E i]"

lemma db_not_difficulty: "getMinerDatabaseAddress knd \<noteq> DifficultyAddress"
proof -
  have "ValidatorDBAddress \<noteq> DifficultyAddress \<and> ProposerDBAddress \<noteq> DifficultyAddress \<and> zero_address \<noteq> DifficultyAddress"
    by code_simp
  then show ?thesis by (auto simp: getMinerDatabaseAddress_def)
qed

context account_store
begin

lemma same_store_trans: "same_store E a b \<Longrightarrow> same_store E b c \<Longrightarrow> same_store E a c"
  by (simp add: same_store_def)

lemma getMinerStake_store:
  assumes "store_ok E holds s" "getMinerStake E i knd s = (v, s')"
  shows "v = ByteToUInt64 (data_at E s (getMinerDatabaseAddress knd) (stake_key E i))" "store_ok E holds s'" "same_store E s s'"
  using GetData_store[OF assms(1), of "getMinerDatabaseAddress knd" "stake_key E i"] assms(2)
  by (auto simp: getMinerStake_def split: prod.splits)

lemma getMinerAccount_store:
  assumes "store_ok E holds s" "getMinerAccount E i knd s = (v, s')"
  shows "v = data_at E s (getMinerDatabaseAddress knd) (account_key E i)" "store_ok E holds s'" "same_store E s s'"
  using GetData_store[OF assms(1), of "getMinerDatabaseAddress knd" "account_key E i"] assms(2)
  by (auto simp: getMinerAccount_def split: prod.splits)

lemma GetMinerById_store:
  assumes "store_ok E holds s" "GetMinerById L E i knd s = (r, s')"
  shows "r = miner_at L E (data_at E s) i knd \<and> store_ok E holds s' \<and> same_store E s s'"
proof -
  let ?db = "getMinerDatabaseAddress knd"
  obtain d s1 where g: "GetData E ?db i s = (d, s1)" by (cases "GetData E ?db i s")
  note a = GetData_store[OF assms(1) g]
  show ?thesis
  proof (cases "slice_of d = [] \<or> json_Miner L (slice_of d) = None")
    case True
    then show ?thesis using assms(2) g a by (auto simp: GetMinerById_def miner_at_def Let_def)
  next
    case False
    then obtain m where m: "slice_of d \<noteq> []" "json_Miner L (slice_of d) = Some m" by auto
    obtain st s2 where g2: "getMinerStake E i knd s1 = (st, s2)" by (cases "getMinerStake E i knd s1")
    note b = getMinerStake_store[OF a(2) g2]
    obtain ac s3 where g3: "getMinerAccount E i knd s2 = (ac, s3)" by (cases "getMinerAccount E i knd s2")
    note c = getMinerAccount_store[OF b(2) g3]
    obtain su s4 where g4: "GetData E ?db (status_key E i) s3 = (su, s4)" by (cases "GetData E ?db (status_key E i) s3")
    note e = GetData_store[OF c(2) g4]
    obtain tw s5 where g5: "GetData E DifficultyAddress TotalWorkingMiners s4 = (tw, s5)"
      by (cases "GetData E DifficultyAddress TotalWorkingMiners s4")
    note f = GetData_store[OF e(2) g5]
    have eq: "data_at E s1 = data_at E s" "data_at E s2 = data_at E s" "data_at E s3 = data_at E s" "data_at E s4 = data_at E s"
      "same_store E s s5"
      using a(3) b(3) c(3) e(3) f(3) by (simp_all add: same_store_def)
    have "s' = s5" "r = Some (m\<lparr>mi_Stake := st, mi_Account := ac, mi_Status := status_or (mi_Status m) (slice_of su),
        mi_WorkingMiners := (if slice_of tw \<noteq> [] then ByteToUInt64 (slice_of tw) else 0)\<rparr>)"
      using assms(2) m g g2 g3 g4 g5 by (simp_all add: GetMinerById_def Let_def)
    then show ?thesis using a(1) b(1) c(1) e(1) f(1,2) eq m by (simp add: miner_at_def Let_def)
  qed
qed

lemma GetMiner_store:
  assumes "store_ok E holds s" "GetMiner L E i s = (r, s')"
  shows "r = (case miner_at L E (data_at E s) i MinerTypeProposer of
      None \<Rightarrow> miner_at L E (data_at E s) i MinerTypeValidator | Some m \<Rightarrow> Some m)"
    "store_ok E holds s'" "same_store E s s'"
proof -
  obtain x s1 where g: "GetMinerById L E i MinerTypeProposer s = (x, s1)" by (cases "GetMinerById L E i MinerTypeProposer s")
  note a = GetMinerById_store[OF assms(1) g]
  obtain y s2 where h: "GetMinerById L E i MinerTypeValidator s1 = (y, s2)" by (cases "GetMinerById L E i MinerTypeValidator s1")
  have s1: "store_ok E holds s1" using a by simp
  note b = GetMinerById_store[OF s1 h]
  have "r = (case x of None \<Rightarrow> y | Some m \<Rightarrow> Some m) \<and> s' = (case x of None \<Rightarrow> s2 | Some m \<Rightarrow> s1)"
    using assms(2) g h by (auto simp: GetMiner_def split: option.splits)
  then show "r = (case miner_at L E (data_at E s) i MinerTypeProposer of
      None \<Rightarrow> miner_at L E (data_at E s) i MinerTypeValidator | Some m \<Rightarrow> Some m)" "store_ok E holds s'" "same_store E s s'"
    using a b by (auto simp: same_store_def split: option.splits)
qed

section \<open>Writing a miner\<close>

text \<open>The data after \<^verbatim>\<open>UpdateMiner\<close> and \<^verbatim>\<open>RemoveMiner\<close>.\<close>

lemma UpdateMiner_store:
  assumes "store_ok E holds s" "db = getMinerDatabaseAddress (mi_Type m)" "i = mi_Id m" "slots_apart E i"
  shows "store_ok E holds (UpdateMiner L S E m new s)"
    "data_at E (UpdateMiner L S E m new s) b k =
      (if b \<noteq> db then data_at E s b k
       else if k = status_key E i \<and> IsProposal003 S then [mi_Status m]
       else if k = account_key E i then mi_Account m
       else if k = stake_key E i then UInt64ToByte (mi_Stake m)
       else if k = i \<and> new then GetMinerInfo L S m
       else data_at E s b k)"
  using assms by (auto simp: UpdateMiner_def Let_def SetData_store slots_apart_def)

lemma IsContract_store:
  assumes "store_ok E holds s" "IsContract E a s = (c, s')"
  shows "store_ok E holds s'" "same_store E s s'"
  using GetCode_store[OF assms(1), of a] assms(2) by (auto simp: IsContract_def Let_def split: prod.splits)

lemma RemoveMiner_store:
  assumes "store_ok E holds s" "db = getMinerDatabaseAddress ty" "slots_apart E i"
  shows "store_ok E holds (RemoveMiner E i ac ty left s)"
    "ByteToUInt64 (data_at E (RemoveMiner E i ac ty left s) db (stake_key E i)) = left"
    "data_at E (RemoveMiner E i ac ty left s) db (status_key E i) \<in> {[], [MinerStatusAbort]}"
proof -
  obtain c s1 where g: "(if left = 0 then IsContract E (BytesToAddress ac) s else (True, s)) = (c, s1)"
    by (cases "if left = 0 then IsContract E (BytesToAddress ac) s else (True, s)")
  have s1: "store_ok E holds s1" using g assms(1) IsContract_store by (auto split: if_splits)
  have e: "ByteToUInt64 [] = 0" by (simp add: ByteToUInt64_def)
  show "store_ok E holds (RemoveMiner E i ac ty left s)"
    "ByteToUInt64 (data_at E (RemoveMiner E i ac ty left s) db (stake_key E i)) = left"
    "data_at E (RemoveMiner E i ac ty left s) db (status_key E i) \<in> {[], [MinerStatusAbort]}"
    unfolding RemoveMiner_def Let_def g prod.case using s1 assms(2,3)
    by (auto simp: SetData_store slots_apart_def e UInt64_roundtrip)
qed

lemma UpdateMiner_reads:
  assumes "store_ok E holds s" "slots_apart E (mi_Id m)" "IsProposal003 S" "GetMinerInfo L S m \<noteq> []"
    "json_Miner L (GetMinerInfo L S m) = Some m0"
  shows "miner_at L E (data_at E (UpdateMiner L S E m True s)) (mi_Id m) (mi_Type m) =
    Some (m0\<lparr>mi_Stake := mi_Stake m, mi_Account := mi_Account m, mi_Status := mi_Status m,
      mi_WorkingMiners := (let tot = data_at E s DifficultyAddress TotalWorkingMiners in if tot \<noteq> [] then ByteToUInt64 tot else 0)\<rparr>)"
  using assms db_not_difficulty[of "mi_Type m"]
  by (auto simp: miner_at_def Let_def UpdateMiner_store[OF assms(1) refl refl assms(2)] UInt64_roundtrip status_or_def slots_apart_def)

lemma GetRefundStake_keeps:
  assumes "store_ok E holds s" "slots_apart E i"
    "GetRefundStake L E groups now i ac money situation S s = Some (Inr (h, v, a), S', s')"
    "GetMiner L E i s = (Some m, s0)" "mi_Id m = i"
  shows "\<exists>taken. v = Uint64ToBigInt taken \<and> taken = (if money = - 1 then mi_Stake m else money) \<and> taken \<le> mi_Stake m \<and> a = ac \<and>
    ac = mi_Account m \<and>
    ByteToUInt64 (data_at E s' (getMinerDatabaseAddress (mi_Type m)) (stake_key E i)) = mi_Stake m - taken \<and> store_ok E holds s'"
proof -
  define taken where "taken = (if money = - 1 then mi_Stake m else money)"
  define left where "left = mi_Stake m - taken"
  let ?db = "getMinerDatabaseAddress (mi_Type m)"
  have s0: "store_ok E holds s0" using GetMiner_store(2)[OF assms(1,4)] .
  have r: "ac = mi_Account m" "taken \<le> mi_Stake m" "v = Uint64ToBigInt taken" "a = mi_Account m"
    and s': "s' = RemoveMiner E i ac (mi_Type m) left s0 \<or> s' = UpdateMiner L S E (m\<lparr>mi_Stake := left\<rparr>) False s0"
    using assms(3,4) unfolding taken_def[symmetric] left_def[symmetric]
    by (auto simp: GetRefundStake_def Let_def not_less taken_def[symmetric] left_def[symmetric] split: if_splits)
  have "data_at E (UpdateMiner L S E (m\<lparr>mi_Stake := left\<rparr>) False s0) ?db (stake_key E i) = UInt64ToByte left"
    using UpdateMiner_store(2)[OF s0, of ?db "m\<lparr>mi_Stake := left\<rparr>" i L S False ?db "stake_key E i"] assms(2,5)
    by (simp add: slots_apart_def)
  then have "ByteToUInt64 (data_at E s' ?db (stake_key E i)) = left"
    using s' RemoveMiner_store(2)[OF s0 refl assms(2)] by (auto simp: UInt64_roundtrip)
  moreover have "store_ok E holds s'"
    using s' RemoveMiner_store(1)[OF s0 refl assms(2)] UpdateMiner_store(1)[OF s0 refl refl, of "m\<lparr>mi_Stake := left\<rparr>" L S False]
      assms(2,5) by auto
  ultimately show ?thesis using r unfolding taken_def left_def by blast
qed

section \<open>Refunds\<close>

lemma add_refund_store:
  assumes "store_ok E holds s" "0 \<le> v"
  shows "store_ok E holds (add_refund E a (i, v) s)"
    "big_SetBytes (data_at E (add_refund E a (i, v) s) b k) =
      big_SetBytes (data_at E s b k) + (if b = a \<and> k = i then v else 0)"
proof -
  obtain d s1 where g: "GetData E a i s = (d, s1)" by (cases "GetData E a i s")
  note r = GetData_store[OF assms(1) g]
  have e: "data_at E s1 = data_at E s" using r(3) by (simp add: same_store_def)
  have n: "big_SetBytes [] = 0" by (simp add: big_SetBytes_def)
  have p: "0 \<le> big_SetBytes (slice_of d) + v" using assms(2) by (simp add: add_nonneg_nonneg)
  show "store_ok E holds (add_refund E a (i, v) s)" using r(2) by (simp add: add_refund_def g SetData_store)
  show "big_SetBytes (data_at E (add_refund E a (i, v) s) b k) =
      big_SetBytes (data_at E s b k) + (if b = a \<and> k = i then v else 0)"
    using r(1,2) e assms(2) p n by (auto simp: add_refund_def g SetData_store)
qed

lemma add_refunds_store:
  assumes "store_ok E holds s" "\<forall>(i, v) \<in> set lst. 0 \<le> v"
  shows "store_ok E holds (fold (add_refund E a) lst s) \<and>
    big_SetBytes (data_at E (fold (add_refund E a) lst s) b k) =
      big_SetBytes (data_at E s b k) + (if b = a then \<Sum>(i, v)\<leftarrow>lst. if i = k then v else 0 else 0)"
  using assms
proof (induction lst arbitrary: s)
  case (Cons x lst)
  obtain i v where x: "x = (i, v)" by (cases x)
  have v: "0 \<le> v" using Cons.prems(2) x by simp
  note r = add_refund_store[OF Cons.prems(1) v, of a i]
  show ?case using Cons.IH[OF r(1)] Cons.prems(2) x r(2)[of b k] by auto
qed simp

lemma refund_Add_store:
  assumes "store_ok E holds s" "\<forall>(h, lst) \<in> set data. \<forall>(i, v) \<in> set lst. 0 \<le> v"
  shows "store_ok E holds (refund_Add E data s) \<and>
    big_SetBytes (data_at E (refund_Add E data s) b k) = big_SetBytes (data_at E s b k) +
      (\<Sum>(h, lst)\<leftarrow>data. if b = generateAddress E h then \<Sum>(i, v)\<leftarrow>lst. if i = k then v else 0 else 0)"
  using assms
proof (induction data arbitrary: s)
  case (Cons x data)
  obtain h lst where x: "x = (h, lst)" by (cases x)
  have l: "\<forall>(i, v) \<in> set lst. 0 \<le> v" using Cons.prems(2) x by simp
  note r = add_refunds_store[OF Cons.prems(1) l, of "generateAddress E h"]
  have f: "refund_Add E (x # data) s = refund_Add E data (fold (add_refund E (generateAddress E h)) lst s)"
    using x by (auto simp: refund_Add_def)
  have "store_ok E holds (fold (add_refund E (generateAddress E h)) lst s)" using r by blast
  note ih = Cons.IH[OF this]
  show ?case unfolding f using ih Cons.prems(2) r[of b k] x by auto
qed (simp add: refund_Add_def)

end

section \<open>Money\<close>

text \<open>A stake below \<open>2 ^ 53\<close> costs exactly what giving it back returns, although it is computed through
  a floating-point number.\<close>

lemma stake_money_exact:
  assumes "unat n < 2 ^ 53"
  shows "Float64ToBigInt (float64_of_u64 n) = Uint64ToBigInt n"
proof -
  have "float64_of_u64 n = of_nat (unat n)" using ne_round_exact[OF assms] by (simp add: float64_of_u64_def)
  then show ?thesis using Float64ToBigInt_int[of "unat n"] assms by (simp add: Uint64ToBigInt_def)
qed

section \<open>Properties\<close>

text \<open>
  C38: a registered miner is read back. From proposal 3 on, after a miner was written as new,
  reading it by its id and type returns it with its stake, account and status, and with the number
  of working miners that the database records. The slots of the id do not collide and the JSON codec
  reads back the description it wrote.
\<close>

theorem UpdateMiner_readback:
  assumes "E = storageDB db hsh dec enc sum3 kec sha p2 sub" "store_ok E trie_rep s" "slots_apart E (mi_Id m)"
    "IsProposal003 S" "GetMinerInfo L S m \<noteq> []"
    "json_Miner L (GetMinerInfo L S m) = Some (m\<lparr>mi_Status := 0, mi_Stake := 0, mi_Account := [], mi_WorkingMiners := 0\<rparr>)"
  shows "fst (GetMinerById L E (mi_Id m) (mi_Type m) (UpdateMiner L S E m True s)) =
    Some (m\<lparr>mi_WorkingMiners := ByteToUInt64 (slice_of (fst (GetData E DifficultyAddress TotalWorkingMiners s)))\<rparr>)"
proof -
  let ?s = "UpdateMiner L S E m True s"
  have ok: "store_ok E trie_rep ?s"
    using sstore.UpdateMiner_store(1)[OF assms(2)[unfolded assms(1)] refl refl assms(3)[unfolded assms(1)]] assms(1) by simp
  have "fst (GetMinerById L E (mi_Id m) (mi_Type m) ?s) = miner_at L E (data_at E ?s) (mi_Id m) (mi_Type m)"
    using sstore.GetMinerById_store[OF ok[unfolded assms(1)], folded assms(1)] by (metis prod.collapse)
  also have "\<dots> = Some (m\<lparr>mi_WorkingMiners :=
      (let tot = data_at E s DifficultyAddress TotalWorkingMiners in if tot \<noteq> [] then ByteToUInt64 tot else 0)\<rparr>)"
    using sstore.UpdateMiner_reads[OF assms(2)[unfolded assms(1)] assms(3)[unfolded assms(1)] assms(4,5,6), folded assms(1)] by simp
  also have "data_at E s DifficultyAddress TotalWorkingMiners = slice_of (fst (GetData E DifficultyAddress TotalWorkingMiners s))"
    using sstore.GetData_store(1)[OF assms(2)[unfolded assms(1)], folded assms(1)] by (metis prod.collapse)
  finally show ?thesis by (simp add: Let_def ByteToUInt64_def)
qed

definition sample_miner :: Miner where
  "sample_miner = \<lparr>mi_Id = [1], mi_PublicKey = [2], mi_VrfPublicKey = [3], mi_ApplyHeight = 5, mi_Status = MinerStatusNormal,
     mi_Type = MinerTypeProposer, mi_Stake = 3000, mi_Account = [9], mi_WorkingMiners = 0\<rparr>"

definition sample_miner_lib :: "'t MinerLib" where
  "sample_miner_lib = \<lparr>json_Info = (\<lambda>_. [123, 125]),
     json_Miner = (\<lambda>_. Some (sample_miner\<lparr>mi_Status := 0, mi_Stake := 0, mi_Account := [], mi_WorkingMiners := 0\<rparr>)),
     trie_entries = (\<lambda>_. [])\<rparr>"

definition sample_env :: "Trie AccountEnv" where
  "sample_env = storageDB (NewDatabase (\<lambda>_. None)) (\<lambda>t. (zero_hash, t)) (\<lambda>_. None) (\<lambda>_. None) id id (\<lambda>b. 7 # b) True False"

definition late_chain :: ChainState where
  "late_chain = SetBlockHeight 63100000 (initChainConfig ''mainnet'' None)"

lemma sample_facts:
  "slots_apart sample_env (mi_Id sample_miner)" "IsProposal003 late_chain" "IsProposal012 late_chain"
  "GetMinerInfo sample_miner_lib S m = [123, 125]"
  "json_Miner sample_miner_lib b = Some (sample_miner\<lparr>mi_Status := 0, mi_Stake := 0, mi_Account := [], mi_WorkingMiners := 0\<rparr>)"
proof -
  show "slots_apart sample_env (mi_Id sample_miner)"
    by (simp add: slots_apart_def stake_key_def account_key_def status_key_def sample_env_def storageDB_def sample_miner_def)
  show "IsProposal003 late_chain" "IsProposal012 late_chain" by code_simp+
qed (simp_all add: GetMinerInfo_def sample_miner_lib_def)

theorem UpdateMiner_readback_witness:
  "\<exists>s. store_ok sample_env trie_rep s \<and>
    fst (GetMinerById sample_miner_lib sample_env [1] MinerTypeProposer (UpdateMiner sample_miner_lib late_chain sample_env sample_miner True s))
      = Some (sample_miner\<lparr>mi_WorkingMiners := ByteToUInt64 (slice_of (fst (GetData sample_env DifficultyAddress TotalWorkingMiners s)))\<rparr>)"
proof -
  obtain s where s: "store_ok sample_env trie_rep s" using NewAccountDB_store unfolding sample_env_def by blast
  have "GetMinerInfo sample_miner_lib late_chain sample_miner \<noteq> []" by (simp add: sample_facts)
  from UpdateMiner_readback[OF sample_env_def s sample_facts(1,2) this sample_facts(5)] s
  show ?thesis by (auto simp: sample_miner_def)
qed

text \<open>
  C39: a refund takes from the stake exactly what it gives. When the owner of a miner takes stake
  back, the money returned is the amount taken, all of the stake for the largest number, never more
  than the stake; it goes to the miner's account, and the stake recorded afterwards is the rest,
  whether the miner stays, is set aside or is removed.
\<close>

theorem refund_takes_stake:
  assumes "E = storageDB db hsh dec enc sum3 kec sha p2 sub" "store_ok E trie_rep s" "slots_apart E i"
    "GetRefundStake L E groups now i account money situation S s = Some (Inr (h, v, a), S', s')"
    "fst (GetMiner L E i s) = Some m" "mi_Id m = i"
  shows "\<exists>taken. taken = (if money = - 1 then mi_Stake m else money) \<and> v = Uint64ToBigInt taken \<and> a = account \<and> account = mi_Account m \<and>
    unat taken + unat (fst (getMinerStake E i (mi_Type m) s')) = unat (mi_Stake m)"
proof -
  obtain s0 where g: "GetMiner L E i s = (Some m, s0)" using assms(5) by (metis prod.collapse)
  obtain taken where t: "v = Uint64ToBigInt taken" "taken = (if money = - 1 then mi_Stake m else money)" "taken \<le> mi_Stake m"
    "a = account" "account = mi_Account m"
    "ByteToUInt64 (data_at E s' (getMinerDatabaseAddress (mi_Type m)) (stake_key E i)) = mi_Stake m - taken"
    "store_ok E trie_rep s'"
    using sstore.GetRefundStake_keeps[OF assms(2)[unfolded assms(1)] assms(3)[unfolded assms(1)] assms(4)[unfolded assms(1)]
      g[unfolded assms(1)] assms(6), folded assms(1)] by blast
  have "fst (getMinerStake E i (mi_Type m) s') = mi_Stake m - taken"
    using sstore.getMinerStake_store(1)[OF t(7)[unfolded assms(1)], folded assms(1)] t(6) by (metis prod.collapse)
  then show ?thesis using t by (auto simp: unat_sub word_le_nat_alt)
qed

theorem refund_takes_stake_witness:
  "\<exists>s h v S' s'. GetRefundStake sample_miner_lib sample_env (\<lambda>_ _ _. []) 100 [1] [9] 500 ''block'' late_chain s = Some (Inr (h, v, [9]), S', s')
    \<and> v = Uint64ToBigInt 500 \<and> unat (500 :: u64) + unat (fst (getMinerStake sample_env [1] MinerTypeProposer s')) = 3000"
proof -
  let ?L = "sample_miner_lib" and ?E = sample_env and ?S = late_chain and ?m = sample_miner
  have id: "mi_Id ?m = [1]" "mi_Type ?m = MinerTypeProposer" "mi_Account ?m = [9]" "mi_Stake ?m = 3000" by (simp_all add: sample_miner_def)
  obtain s0 where s0: "store_ok ?E trie_rep s0" using NewAccountDB_store unfolding sample_env_def by blast
  have ne: "GetMinerInfo ?L ?S ?m \<noteq> []" by (simp add: sample_facts)
  let ?s = "UpdateMiner ?L ?S ?E ?m True s0"
  have s: "store_ok ?E trie_rep ?s"
    using sstore.UpdateMiner_store(1)[OF s0[unfolded sample_env_def] refl refl sample_facts(1)[unfolded sample_env_def]]
    unfolding sample_env_def by blast
  obtain w where w: "miner_at ?L ?E (data_at ?E ?s) [1] MinerTypeProposer = Some (?m\<lparr>mi_WorkingMiners := w\<rparr>)"
    using sstore.UpdateMiner_reads[OF s0[unfolded sample_env_def] sample_facts(1)[unfolded sample_env_def] sample_facts(2) ne sample_facts(5)]
    unfolding sample_env_def[symmetric] id by (auto simp: sample_miner_def)
  obtain r s1 where g: "GetMiner ?L ?E [1] ?s = (r, s1)" by (cases "GetMiner ?L ?E [1] ?s")
  have r: "r = Some (?m\<lparr>mi_WorkingMiners := w\<rparr>)"
    using sstore.GetMiner_store(1)[OF s[unfolded sample_env_def] g[unfolded sample_env_def]] w unfolding sample_env_def by simp
  have "\<exists>S' s'. GetRefundStake ?L ?E (\<lambda>_ _ _. []) 100 [1] [9] 500 ''block'' ?S ?s = Some (Inr (36100, Uint64ToBigInt 500, [9]), S', s')"
    using g r sample_facts(3) by (simp add: GetRefundStake_def Let_def id getRefundHeight_def refundHeight_def)
  then obtain S' s' where x: "GetRefundStake ?L ?E (\<lambda>_ _ _. []) 100 [1] [9] 500 ''block'' ?S ?s = Some (Inr (36100, Uint64ToBigInt 500, [9]), S', s')"
    by blast
  have f: "fst (GetMiner ?L ?E [1] ?s) = Some (?m\<lparr>mi_WorkingMiners := w\<rparr>)" using g r by simp
  have i: "mi_Id (?m\<lparr>mi_WorkingMiners := w\<rparr>) = [1]" by (simp add: id)
  from refund_takes_stake[OF sample_env_def s sample_facts(1)[unfolded id] x f i] x show ?thesis by (auto simp: id)
qed

text \<open>
  C40: refunds recorded for a height add up. After a batch of refunds is recorded, the amount due to
  an account at the address of a height is what was due before plus the amounts of the batch for
  that account at heights with this address.
\<close>

theorem refunds_add_up:
  assumes "E = storageDB db hsh dec enc sum3 kec sha p2 sub" "store_ok E trie_rep s"
    "\<forall>(h, lst) \<in> set data. \<forall>(i, v) \<in> set lst. 0 \<le> v"
  shows "big_SetBytes (slice_of (fst (GetData E (generateAddress E height) k (refund_Add E data s)))) =
    big_SetBytes (slice_of (fst (GetData E (generateAddress E height) k s))) +
    (\<Sum>(h, lst)\<leftarrow>data. if generateAddress E height = generateAddress E h then \<Sum>(i, v)\<leftarrow>lst. if i = k then v else 0 else 0)"
proof -
  note r = sstore.refund_Add_store[OF assms(2)[unfolded assms(1)] assms(3), folded assms(1)]
  have d: "slice_of (fst (GetData E a k u)) = data_at E u a k" if "store_ok E trie_rep u" for a u
    using sstore.GetData_store(1)[OF that[unfolded assms(1)], folded assms(1)] by (metis prod.collapse)
  show ?thesis using r d[OF assms(2)] d[of "refund_Add E data s"] by simp
qed

theorem refunds_add_up_witness:
  "\<exists>s. big_SetBytes (slice_of (fst (GetData sample_env (generateAddress sample_env 7) [9] (refund_Add sample_env [(7, [([9], 5), ([8], 1), ([9], 6)])] s)))) =
    big_SetBytes (slice_of (fst (GetData sample_env (generateAddress sample_env 7) [9] s))) + 11"
proof -
  obtain s where s: "store_ok sample_env trie_rep s" using NewAccountDB_store unfolding sample_env_def by blast
  have "\<forall>(h, lst) \<in> set [(7 :: u64, [([9 :: byte], 5 :: int), ([8], 1), ([9], 6)])]. \<forall>(i, v) \<in> set lst. 0 \<le> v" by simp
  from refunds_add_up[OF sample_env_def s this, of 7 "[9]"] show ?thesis by auto
qed

end
