(* ===== verification/Vm_Analysis.thy ===== *)
theory Vm_Analysis
  imports Common_Types
begin

text \<open>
  Jump destination analysis (\<^verbatim>\<open>src/vm/analysis.go\<close>): the bit vector that marks the data
  bytes of \<^verbatim>\<open>PUSH\<close> instructions, built eight bits at a time.
\<close>

section \<open>The bit vector\<close>

definition PUSH1 :: byte where "PUSH1 = 0x60"
definition PUSH32 :: byte where "PUSH32 = 0x7f"
definition JUMPDEST :: byte where "JUMPDEST = 0x5b"

type_synonym bitvec = bytes

text \<open>Or-assignment into the vector; out of range it panics.\<close>

definition bv_or :: "nat \<Rightarrow> byte \<Rightarrow> bitvec \<Rightarrow> bitvec option" where
  "bv_or i b bits = (if i < length bits then Some (bits[i := bits ! i OR b]) else None)"

definition bv_set :: "nat \<Rightarrow> bitvec \<Rightarrow> bitvec option" where
  "bv_set pos bits = bv_or (pos div 8) (drop_bit (pos mod 8) 0x80) bits"

definition bv_set8 :: "nat \<Rightarrow> bitvec \<Rightarrow> bitvec option" where
  "bv_set8 pos bits = do {
     bits \<leftarrow> bv_or (pos div 8) (drop_bit (pos mod 8) 0xFF) bits;
     bv_or (pos div 8 + 1) (NOT (drop_bit (pos mod 8) 0xFF)) bits
   }"

definition codeSegment :: "bitvec \<Rightarrow> nat \<Rightarrow> bool option" where
  "codeSegment bits pos = map_option (\<lambda>b. b AND drop_bit (pos mod 8) 0x80 = 0) (go_index bits (pos div 8))"

text \<open>The two inner loops; both return the program counter after the data.\<close>

fun mark8 :: "nat \<Rightarrow> nat \<Rightarrow> bitvec \<Rightarrow> (nat \<times> nat \<times> bitvec) option" where
  "mark8 numbits pc bits =
    (if numbits \<ge> 8 then do { bits \<leftarrow> bv_set8 pc bits; mark8 (numbits - 8) (pc + 8) bits }
     else Some (numbits, pc, bits))"

fun mark1 :: "nat \<Rightarrow> nat \<Rightarrow> bitvec \<Rightarrow> (nat \<times> bitvec) option" where
  "mark1 0 pc bits = Some (pc, bits)"
| "mark1 (Suc numbits) pc bits = do { bits \<leftarrow> bv_set pc bits; mark1 numbits (pc + 1) bits }"

declare mark8.simps [simp del]

definition push_size :: "byte \<Rightarrow> nat" where
  "push_size op = (if op \<ge> PUSH1 \<and> op \<le> PUSH32 then unat (op - PUSH1 + 1) else 0)"

text \<open>The outer loop. It runs at most once per code byte, which bounds the fuel.\<close>

fun bitmap_loop :: "nat \<Rightarrow> bytes \<Rightarrow> nat \<Rightarrow> bitvec \<Rightarrow> bitvec option" where
  "bitmap_loop 0 code pc bits = (if pc < length code then None else Some bits)"
| "bitmap_loop (Suc fuel) code pc bits =
     (if pc < length code then
        (let op = code ! pc in
         if op \<ge> PUSH1 \<and> op \<le> PUSH32 then do {
           (numbits, pc, bits) \<leftarrow> mark8 (push_size op) (pc + 1) bits;
           (pc, bits) \<leftarrow> mark1 numbits pc bits;
           bitmap_loop fuel code pc bits
         }
         else bitmap_loop fuel code (pc + 1) bits)
      else Some bits)"

definition codeBitmap :: "bytes \<Rightarrow> bitvec option" where
  "codeBitmap code = bitmap_loop (length code) code 0 (replicate (length code div 8 + 1 + 4) 0)"

section \<open>Where instructions start\<close>

text \<open>The reference: an instruction starts at 0 and after every instruction and its data.\<close>

inductive instr_start :: "bytes \<Rightarrow> nat \<Rightarrow> bool" for code where
  start_zero: "instr_start code 0"
| start_next: "instr_start code pc \<Longrightarrow> pc < length code \<Longrightarrow> instr_start code (pc + 1 + push_size (code ! pc))"

text \<open>The bit of a position.\<close>

definition marked :: "bitvec \<Rightarrow> nat \<Rightarrow> bool" where
  "marked bits q \<longleftrightarrow> bit (bits ! (q div 8)) (7 - q mod 8)"

lemma mask_bit: "j < 8 \<Longrightarrow> bit (drop_bit j (0x80 :: byte)) i \<longleftrightarrow> i + j = 7"
proof -
  have e: "(0x80 :: byte) = push_bit 7 1" by simp
  have "bit (0x80 :: byte) k \<longleftrightarrow> k = 7" for k
    unfolding e by (simp only: bit_push_bit_iff bit_1_iff possible_bit_word) auto
  then show ?thesis by (simp add: bit_drop_bit_eq add.commute)
qed

lemma ff_bit: "bit (drop_bit j (0xFF :: byte)) i \<longleftrightarrow> i + j < 8"
proof -
  have e: "(0xFF :: byte) = mask 8" by (simp add: mask_eq_exp_minus_1)
  have "bit (0xFF :: byte) k \<longleftrightarrow> k < 8" for k
    unfolding e by (simp only: bit_mask_iff possible_bit_word) auto
  then show ?thesis by (simp add: bit_drop_bit_eq add.commute)
qed

lemma codeSegment_marked:
  assumes "q div 8 < length bits"
  shows "codeSegment bits q = Some (\<not> marked bits q)"
proof -
  let ?b = "bits ! (q div 8)"
  have "?b AND drop_bit (q mod 8) 0x80 = 0 \<longleftrightarrow> \<not> bit ?b (7 - q mod 8)"
  proof
    assume "?b AND drop_bit (q mod 8) 0x80 = 0"
    then have "\<not> bit (?b AND drop_bit (q mod 8) 0x80) (7 - q mod 8)" by (metis bit_0_eq bot_apply bot_bool_def)
    then show "\<not> bit ?b (7 - q mod 8)" by (simp add: bit_and_iff mask_bit)
  next
    assume n: "\<not> bit ?b (7 - q mod 8)"
    show "?b AND drop_bit (q mod 8) 0x80 = 0"
    proof (rule bit_eqI)
      fix k show "bit (?b AND drop_bit (q mod 8) 0x80) k = bit 0 k"
        using n mask_bit[of "q mod 8" k] by (auto simp: bit_and_iff)
          (metis add_diff_cancel_right')
    qed
  qed
  with assms show ?thesis by (simp add: codeSegment_def marked_def)
qed

lemma bv_set_spec:
  assumes "p div 8 < length bits"
  shows "\<exists>bits'. bv_set p bits = Some bits' \<and> length bits' = length bits
    \<and> (\<forall>q. q div 8 < length bits \<longrightarrow> marked bits' q = (q = p \<or> marked bits q))"
proof -
  let ?bits = "bits[p div 8 := bits ! (p div 8) OR drop_bit (p mod 8) 0x80]"
  have "marked ?bits q = (q = p \<or> marked bits q)" if "q div 8 < length bits" for q
  proof (cases "q div 8 = p div 8")
    case True
    have "(7 - q mod 8) + p mod 8 = 7 \<longleftrightarrow> q mod 8 = p mod 8"
      using mod_less_divisor[of 8 p] mod_less_divisor[of 8 q] by linarith
    also have "\<dots> \<longleftrightarrow> q = p" using True by (metis div_mult_mod_eq)
    finally show ?thesis using True assms by (auto simp: marked_def bit_or_iff mask_bit)
  next
    case False
    then show ?thesis by (auto simp: marked_def)
  qed
  with assms show ?thesis by (auto simp: bv_set_def bv_or_def)
qed

text \<open>Positions within eight of \<open>p\<close>, by bytes of the bit vector.\<close>

lemma window8:
  fixes p q :: nat
  shows same_byte: "q div 8 = p div 8 \<Longrightarrow> p \<le> q \<and> q < p + 8 \<longleftrightarrow> p mod 8 \<le> q mod 8"
    and next_byte: "q div 8 = p div 8 + 1 \<Longrightarrow> p \<le> q \<and> q < p + 8 \<longleftrightarrow> q mod 8 < p mod 8"
    and other_byte: "q div 8 \<noteq> p div 8 \<Longrightarrow> q div 8 \<noteq> p div 8 + 1 \<Longrightarrow> \<not> (p \<le> q \<and> q < p + 8)"
proof -
  have p: "p = 8 * (p div 8) + p mod 8" "p mod 8 < 8" and q: "q = 8 * (q div 8) + q mod 8" "q mod 8 < 8"
    by simp_all
  show "p \<le> q \<and> q < p + 8 \<longleftrightarrow> p mod 8 \<le> q mod 8" if "q div 8 = p div 8" using p q that by linarith
  show "p \<le> q \<and> q < p + 8 \<longleftrightarrow> q mod 8 < p mod 8" if "q div 8 = p div 8 + 1" using p q that by linarith
  show "\<not> (p \<le> q \<and> q < p + 8)" if "q div 8 \<noteq> p div 8" "q div 8 \<noteq> p div 8 + 1" using p q that by linarith
qed

lemma bv_set8_spec:
  assumes "p div 8 + 1 < length bits"
  shows "\<exists>bits'. bv_set8 p bits = Some bits' \<and> length bits' = length bits
    \<and> (\<forall>q. q div 8 < length bits \<longrightarrow> marked bits' q = (p \<le> q \<and> q < p + 8 \<or> marked bits q))"
proof -
  let ?m = "drop_bit (p mod 8) (0xFF :: byte)"
  let ?b1 = "bits[p div 8 := bits ! (p div 8) OR ?m]"
  let ?bits = "?b1[p div 8 + 1 := ?b1 ! (p div 8 + 1) OR NOT ?m]"
  have "marked ?bits q = (p \<le> q \<and> q < p + 8 \<or> marked bits q)" if "q div 8 < length bits" for q
  proof -
    have m: "bit ?m (7 - q mod 8) \<longleftrightarrow> p mod 8 \<le> q mod 8"
      unfolding ff_bit using mod_less_divisor[of 8 p] mod_less_divisor[of 8 q] by linarith
    have nm: "bit (NOT ?m) (7 - q mod 8) \<longleftrightarrow> q mod 8 < p mod 8"
      using m by (auto simp: bit_not_iff not_le less_Suc_eq_le)
    consider "q div 8 = p div 8" | "q div 8 = p div 8 + 1" | "q div 8 \<noteq> p div 8" "q div 8 \<noteq> p div 8 + 1" by blast
    then show ?thesis
    proof cases
      case 1
      then have "p \<le> q \<and> q < p + 8 \<longleftrightarrow> p mod 8 \<le> q mod 8" by (rule same_byte)
      with 1 m assms show ?thesis by (auto simp: marked_def bit_or_iff)
    next
      case 2
      then have "p \<le> q \<and> q < p + 8 \<longleftrightarrow> q mod 8 < p mod 8" by (rule next_byte)
      with 2 nm assms show ?thesis by (auto simp: marked_def bit_or_iff)
    next
      case 3
      then have "\<not> (p \<le> q \<and> q < p + 8)" by (rule other_byte)
      with 3 show ?thesis by (auto simp: marked_def)
    qed
  qed
  with assms show ?thesis by (auto simp: bv_set8_def bv_or_def)
qed

text \<open>The inner loops mark exactly the data bytes.\<close>

definition marks :: "nat \<Rightarrow> nat \<Rightarrow> bitvec \<Rightarrow> bitvec \<Rightarrow> bool" where
  "marks p n bits bits' \<longleftrightarrow> length bits' = length bits
    \<and> (\<forall>q. q div 8 < length bits \<longrightarrow> marked bits' q = (p \<le> q \<and> q < p + n \<or> marked bits q))"

lemma marks_trans: "marks p n a b \<Longrightarrow> marks (p + n) m b c \<Longrightarrow> marks p (n + m) a c"
  by (auto simp: marks_def)

lemma mark8_spec:
  "(p + n) div 8 < length bits \<Longrightarrow>
   \<exists>bits'. mark8 n p bits = Some (n mod 8, p + n - n mod 8, bits') \<and> marks p (n - n mod 8) bits bits'"
proof (induction n p bits rule: mark8.induct)
  case (1 n p bits)
  show ?case
  proof (cases "n \<ge> 8")
    case False
    then show ?thesis by (subst mark8.simps) (auto simp: marks_def)
  next
    case True
    have "p div 8 + 1 < length bits" using 1(2) True div_le_mono[of "p + 8" "p + n" 8] by simp
    from bv_set8_spec[OF this] obtain b1 where b1: "bv_set8 p bits = Some b1" "marks p 8 bits b1"
      by (auto simp: marks_def)
    then have "length b1 = length bits" by (simp add: marks_def)
    with "1.IH"[OF True, of b1] b1(1) 1(2) True obtain b2 where
      b2: "mark8 (n - 8) (p + 8) b1 = Some ((n - 8) mod 8, p + 8 + (n - 8) - (n - 8) mod 8, b2)"
        "marks (p + 8) ((n - 8) - (n - 8) mod 8) b1 b2" by force
    have m: "(n - 8) mod 8 = n mod 8" using True by (simp add: le_mod_geq)
    have "n mod 8 \<le> n - 8" using m mod_less_eq_dividend[of "n - 8" 8] by simp
    with True have m': "8 + ((n - 8) - n mod 8) = n - n mod 8" by simp
    have "marks p (n - n mod 8) bits b2" using marks_trans[OF b1(2) b2(2)] m m' by simp
    moreover have "mark8 n p bits = Some (n mod 8, p + n - n mod 8, b2)"
      using True b1(1) b2(1) m by (subst mark8.simps) simp
    ultimately show ?thesis by blast
  qed
qed

lemma mark1_spec:
  "(p + n) div 8 < length bits \<Longrightarrow> \<exists>bits'. mark1 n p bits = Some (p + n, bits') \<and> marks p n bits bits'"
proof (induction n p bits rule: mark1.induct)
  case (1 p bits)
  then show ?case by (auto simp: marks_def)
next
  case (2 n p bits)
  have "p div 8 < length bits" using 2(2) div_le_mono[of p "p + Suc n" 8] by simp
  from bv_set_spec[OF this] obtain b1 where b1: "bv_set p bits = Some b1" "length b1 = length bits"
    "\<forall>q. q div 8 < length bits \<longrightarrow> marked b1 q = (q = p \<or> marked bits q)" by blast
  then have b1m: "marks p 1 bits b1" by (auto simp: marks_def le_less_Suc_eq)
  with "2.IH"[OF b1(1)] 2(2) b1(2) obtain b2 where "mark1 n (p + 1) b1 = Some (p + 1 + n, b2)" "marks (p + 1) n b1 b2" by auto
  with b1 marks_trans[OF b1m, of n b2] show ?case by auto
qed

lemma push_size_le: "push_size op \<le> 32"
proof (cases "op \<ge> PUSH1 \<and> op \<le> PUSH32")
  case True
  then have "unat op \<ge> 96" "unat op \<le> 127" by (simp_all add: PUSH1_def PUSH32_def word_le_nat_alt)
  have "op - PUSH1 + 1 = of_nat (unat op - 95)" using \<open>unat op \<ge> 96\<close> by (simp add: PUSH1_def of_nat_diff)
  then have "unat (op - PUSH1 + 1) = unat op - 95"
    using \<open>unat op \<le> 127\<close> by (simp add: unat_of_nat)
  with \<open>unat op \<le> 127\<close> True show ?thesis by (simp add: push_size_def)
qed (auto simp: push_size_def)

text \<open>No instruction starts inside another.\<close>

lemma instr_start_gap:
  "instr_start code p \<Longrightarrow> instr_start code q \<Longrightarrow> p < q \<Longrightarrow> p + 1 + push_size (code ! p) \<le> q"
proof (induction "p + q" arbitrary: p q rule: less_induct)
  case less
  from less.prems(2) show ?case
  proof cases
    case start_zero
    with less.prems(3) show ?thesis by simp
  next
    case (start_next q')
    show ?thesis
    proof (cases "p < q'")
      case True
      with less.hyps[of p q'] less.prems(1) start_next show ?thesis by auto
    next
      case False
      with less.hyps[of q' p] less.prems start_next show ?thesis by (cases "q' = p") auto
    qed
  qed
qed

lemma bitmap_loop_spec:
  assumes "instr_start code pc" "length bits = length code div 8 + 5" "length code \<le> pc + fuel"
    and "\<forall>q. q div 8 < length bits \<longrightarrow> marked bits q = (q < pc \<and> \<not> instr_start code q)"
  shows "\<exists>bits'. bitmap_loop fuel code pc bits = Some bits' \<and> length bits' = length code div 8 + 5
    \<and> (\<forall>q < length code. marked bits' q = (\<not> instr_start code q))"
  using assms
proof (induction fuel arbitrary: pc bits)
  case 0
  then show ?case by (auto simp: div_le_mono le_less_trans less_imp_le_nat)
next
  case (Suc fuel)
  show ?case
  proof (cases "pc < length code")
    case False
    with Suc.prems show ?thesis by (auto simp: div_le_mono le_less_trans less_imp_le_nat)
  next
    case True
    let ?op = "code ! pc" and ?n = "push_size (code ! pc)"
    have nx: "instr_start code (pc + 1 + ?n)" using start_next[OF Suc.prems(1) True] .
    have gap: "\<not> instr_start code q" if "pc < q" "q < pc + 1 + ?n" for q
      using instr_start_gap[OF Suc.prems(1) _ that(1)] that(2) by auto
    have len: "(pc + 1 + ?n) div 8 < length bits"
    proof -
      have "(pc + 1 + ?n) div 8 \<le> (length code + 32) div 8" using push_size_le[of ?op] True by (intro div_le_mono) simp
      then show ?thesis using Suc.prems(2) by simp
    qed
    have "\<exists>bits'. marks (pc + 1) ?n bits bits'
        \<and> bitmap_loop (Suc fuel) code pc bits = bitmap_loop fuel code (pc + 1 + ?n) bits'"
    proof (cases "?op \<ge> PUSH1 \<and> ?op \<le> PUSH32")
      case push: True
      obtain b1 where b1: "mark8 ?n (pc + 1) bits = Some (?n mod 8, pc + 1 + ?n - ?n mod 8, b1)"
        "marks (pc + 1) (?n - ?n mod 8) bits b1" using mark8_spec[OF len] by blast
      have "length b1 = length bits" using b1(2) by (simp add: marks_def)
      then obtain b2 where b2: "mark1 (?n mod 8) (pc + 1 + ?n - ?n mod 8) b1 = Some (pc + 1 + ?n, b2)"
        "marks (pc + 1 + ?n - ?n mod 8) (?n mod 8) b1 b2"
        using mark1_spec[of "pc + 1 + ?n - ?n mod 8" "?n mod 8" b1] len by auto
      have e: "pc + 1 + ?n - ?n mod 8 = pc + 1 + (?n - ?n mod 8)" by simp
      have "marks (pc + 1) ?n bits b2"
        using marks_trans[OF b1(2) b2(2)[unfolded e]] by simp
      with b1(1) b2(1) push True show ?thesis by (auto simp: Let_def)
    next
      case False
      then have "?n = 0" by (auto simp: push_size_def)
      with False True show ?thesis by (auto simp: Let_def marks_def)
    qed
    then obtain b where b: "marks (pc + 1) ?n bits b"
      "bitmap_loop (Suc fuel) code pc bits = bitmap_loop fuel code (pc + 1 + ?n) b" by blast
    have "marked b q = (q < pc + 1 + ?n \<and> \<not> instr_start code q)" if "q div 8 < length b" for q
    proof -
      have "marked b q = (pc + 1 \<le> q \<and> q < pc + 1 + ?n \<or> q < pc \<and> \<not> instr_start code q)"
        using b(1) that Suc.prems(4) by (simp add: marks_def)
      then show ?thesis using gap[of q] Suc.prems(1) by (cases "q = pc") auto
    qed
    with Suc.IH[OF nx, of b] b Suc.prems(2,3) show ?thesis by (auto simp: marks_def)
  qed
qed

lemma codeBitmap_spec:
  "\<exists>bits. codeBitmap code = Some bits \<and> length bits = length code div 8 + 5
    \<and> (\<forall>q < length code. marked bits q = (\<not> instr_start code q))"
proof -
  let ?b = "replicate (length code div 8 + 5) 0 :: bitvec"
  have "marked ?b q = (q < 0 \<and> \<not> instr_start code q)" if "q div 8 < length ?b" for q
    using that by (simp add: marked_def)
  with bitmap_loop_spec[OF start_zero, of ?b code "length code"] show ?thesis
    by (simp add: codeBitmap_def add.commute)
qed

section \<open>Properties\<close>

text \<open>
  C9: the jump analysis is exact. \<^verbatim>\<open>codeBitmap\<close> returns for every code, never indexing
  outside its vector, not even for a \<^verbatim>\<open>PUSH32\<close> cut off by the end of the code, and
  \<^verbatim>\<open>codeSegment\<close> then answers for every position of the code whether an instruction
  starts there.
\<close>

theorem codeBitmap_exact:
  "\<exists>bits. codeBitmap code = Some bits \<and> list_all (\<lambda>q. codeSegment bits q = Some (instr_start code q)) [0..<length code]"
proof -
  obtain bits where b: "codeBitmap code = Some bits" "length bits = length code div 8 + 5"
    "\<forall>q < length code. marked bits q = (\<not> instr_start code q)" using codeBitmap_spec by blast
  have "codeSegment bits q = Some (instr_start code q)" if "q < length code" for q
    using codeSegment_marked[of q bits] b(2,3) that by (simp add: div_le_mono le_less_trans less_imp_le_nat)
  with b(1) show ?thesis by (auto simp: list_all_iff)
qed

end
