(* ===== verification/Vm_Opcodes.thy ===== *)
theory Vm_Opcodes
  imports Vm_Analysis Common_Types
begin

text \<open>
  The opcodes of \<^verbatim>\<open>src/vm/opcodes.go\<close> and their names. An opcode is a byte; the
  constants are abbreviations of byte literals. Four names are infix operators of the
  bit operations and get a suffix.
\<close>

section \<open>Opcodes\<close>

abbreviation (input) STOP :: byte where "STOP \<equiv> 0x00"
abbreviation (input) ADD :: byte where "ADD \<equiv> 0x01"
abbreviation (input) MUL :: byte where "MUL \<equiv> 0x02"
abbreviation (input) SUB :: byte where "SUB \<equiv> 0x03"
abbreviation (input) DIV :: byte where "DIV \<equiv> 0x04"
abbreviation (input) SDIV :: byte where "SDIV \<equiv> 0x05"
abbreviation (input) MOD :: byte where "MOD \<equiv> 0x06"
abbreviation (input) SMOD :: byte where "SMOD \<equiv> 0x07"
abbreviation (input) ADDMOD :: byte where "ADDMOD \<equiv> 0x08"
abbreviation (input) MULMOD :: byte where "MULMOD \<equiv> 0x09"
abbreviation (input) EXP :: byte where "EXP \<equiv> 0x0a"
abbreviation (input) SIGNEXTEND :: byte where "SIGNEXTEND \<equiv> 0x0b"
abbreviation (input) LT :: byte where "LT \<equiv> 0x10"
abbreviation (input) GT :: byte where "GT \<equiv> 0x11"
abbreviation (input) SLT :: byte where "SLT \<equiv> 0x12"
abbreviation (input) SGT :: byte where "SGT \<equiv> 0x13"
abbreviation (input) EQ :: byte where "EQ \<equiv> 0x14"
abbreviation (input) ISZERO :: byte where "ISZERO \<equiv> 0x15"
abbreviation (input) AND_op :: byte where "AND_op \<equiv> 0x16"
abbreviation (input) OR_op :: byte where "OR_op \<equiv> 0x17"
abbreviation (input) XOR_op :: byte where "XOR_op \<equiv> 0x18"
abbreviation (input) NOT_op :: byte where "NOT_op \<equiv> 0x19"
abbreviation (input) BYTE :: byte where "BYTE \<equiv> 0x1a"
abbreviation (input) SHL :: byte where "SHL \<equiv> 0x1b"
abbreviation (input) SHR :: byte where "SHR \<equiv> 0x1c"
abbreviation (input) SAR :: byte where "SAR \<equiv> 0x1d"
abbreviation (input) SHA3 :: byte where "SHA3 \<equiv> 0x20"
abbreviation (input) ADDRESS :: byte where "ADDRESS \<equiv> 0x30"
abbreviation (input) BALANCE :: byte where "BALANCE \<equiv> 0x31"
abbreviation (input) ORIGIN :: byte where "ORIGIN \<equiv> 0x32"
abbreviation (input) CALLER :: byte where "CALLER \<equiv> 0x33"
abbreviation (input) CALLVALUE :: byte where "CALLVALUE \<equiv> 0x34"
abbreviation (input) CALLDATALOAD :: byte where "CALLDATALOAD \<equiv> 0x35"
abbreviation (input) CALLDATASIZE :: byte where "CALLDATASIZE \<equiv> 0x36"
abbreviation (input) CALLDATACOPY :: byte where "CALLDATACOPY \<equiv> 0x37"
abbreviation (input) CODESIZE :: byte where "CODESIZE \<equiv> 0x38"
abbreviation (input) CODECOPY :: byte where "CODECOPY \<equiv> 0x39"
abbreviation (input) GASPRICE :: byte where "GASPRICE \<equiv> 0x3a"
abbreviation (input) EXTCODESIZE :: byte where "EXTCODESIZE \<equiv> 0x3b"
abbreviation (input) EXTCODECOPY :: byte where "EXTCODECOPY \<equiv> 0x3c"
abbreviation (input) RETURNDATASIZE :: byte where "RETURNDATASIZE \<equiv> 0x3d"
abbreviation (input) RETURNDATACOPY :: byte where "RETURNDATACOPY \<equiv> 0x3e"
abbreviation (input) EXTCODEHASH :: byte where "EXTCODEHASH \<equiv> 0x3f"
abbreviation (input) BLOCKHASH :: byte where "BLOCKHASH \<equiv> 0x40"
abbreviation (input) COINBASE :: byte where "COINBASE \<equiv> 0x41"
abbreviation (input) TIMESTAMP :: byte where "TIMESTAMP \<equiv> 0x42"
abbreviation (input) NUMBER :: byte where "NUMBER \<equiv> 0x43"
abbreviation (input) DIFFICULTY :: byte where "DIFFICULTY \<equiv> 0x44"
abbreviation (input) GASLIMIT :: byte where "GASLIMIT \<equiv> 0x45"
abbreviation (input) CHAINID :: byte where "CHAINID \<equiv> 0x46"
abbreviation (input) SELFBALANCE :: byte where "SELFBALANCE \<equiv> 0x47"
abbreviation (input) BASEFEE :: byte where "BASEFEE \<equiv> 0x48"
abbreviation (input) BLOBHASH :: byte where "BLOBHASH \<equiv> 0x49"
abbreviation (input) BLOBBASEFEE :: byte where "BLOBBASEFEE \<equiv> 0x4a"
abbreviation (input) POP :: byte where "POP \<equiv> 0x50"
abbreviation (input) MLOAD :: byte where "MLOAD \<equiv> 0x51"
abbreviation (input) MSTORE :: byte where "MSTORE \<equiv> 0x52"
abbreviation (input) MSTORE8 :: byte where "MSTORE8 \<equiv> 0x53"
abbreviation (input) SLOAD :: byte where "SLOAD \<equiv> 0x54"
abbreviation (input) SSTORE :: byte where "SSTORE \<equiv> 0x55"
abbreviation (input) JUMP :: byte where "JUMP \<equiv> 0x56"
abbreviation (input) JUMPI :: byte where "JUMPI \<equiv> 0x57"
abbreviation (input) PC :: byte where "PC \<equiv> 0x58"
abbreviation (input) MSIZE :: byte where "MSIZE \<equiv> 0x59"
abbreviation (input) GAS :: byte where "GAS \<equiv> 0x5a"
abbreviation (input) TLOAD :: byte where "TLOAD \<equiv> 0x5c"
abbreviation (input) TSTORE :: byte where "TSTORE \<equiv> 0x5d"
abbreviation (input) MCOPY :: byte where "MCOPY \<equiv> 0x5e"
abbreviation (input) PUSH0 :: byte where "PUSH0 \<equiv> 0x5f"
abbreviation (input) PUSH2 :: byte where "PUSH2 \<equiv> 0x61"
abbreviation (input) PUSH3 :: byte where "PUSH3 \<equiv> 0x62"
abbreviation (input) PUSH4 :: byte where "PUSH4 \<equiv> 0x63"
abbreviation (input) PUSH5 :: byte where "PUSH5 \<equiv> 0x64"
abbreviation (input) PUSH6 :: byte where "PUSH6 \<equiv> 0x65"
abbreviation (input) PUSH7 :: byte where "PUSH7 \<equiv> 0x66"
abbreviation (input) PUSH8 :: byte where "PUSH8 \<equiv> 0x67"
abbreviation (input) PUSH9 :: byte where "PUSH9 \<equiv> 0x68"
abbreviation (input) PUSH10 :: byte where "PUSH10 \<equiv> 0x69"
abbreviation (input) PUSH11 :: byte where "PUSH11 \<equiv> 0x6a"
abbreviation (input) PUSH12 :: byte where "PUSH12 \<equiv> 0x6b"
abbreviation (input) PUSH13 :: byte where "PUSH13 \<equiv> 0x6c"
abbreviation (input) PUSH14 :: byte where "PUSH14 \<equiv> 0x6d"
abbreviation (input) PUSH15 :: byte where "PUSH15 \<equiv> 0x6e"
abbreviation (input) PUSH16 :: byte where "PUSH16 \<equiv> 0x6f"
abbreviation (input) PUSH17 :: byte where "PUSH17 \<equiv> 0x70"
abbreviation (input) PUSH18 :: byte where "PUSH18 \<equiv> 0x71"
abbreviation (input) PUSH19 :: byte where "PUSH19 \<equiv> 0x72"
abbreviation (input) PUSH20 :: byte where "PUSH20 \<equiv> 0x73"
abbreviation (input) PUSH21 :: byte where "PUSH21 \<equiv> 0x74"
abbreviation (input) PUSH22 :: byte where "PUSH22 \<equiv> 0x75"
abbreviation (input) PUSH23 :: byte where "PUSH23 \<equiv> 0x76"
abbreviation (input) PUSH24 :: byte where "PUSH24 \<equiv> 0x77"
abbreviation (input) PUSH25 :: byte where "PUSH25 \<equiv> 0x78"
abbreviation (input) PUSH26 :: byte where "PUSH26 \<equiv> 0x79"
abbreviation (input) PUSH27 :: byte where "PUSH27 \<equiv> 0x7a"
abbreviation (input) PUSH28 :: byte where "PUSH28 \<equiv> 0x7b"
abbreviation (input) PUSH29 :: byte where "PUSH29 \<equiv> 0x7c"
abbreviation (input) PUSH30 :: byte where "PUSH30 \<equiv> 0x7d"
abbreviation (input) PUSH31 :: byte where "PUSH31 \<equiv> 0x7e"
abbreviation (input) DUP1 :: byte where "DUP1 \<equiv> 0x80"
abbreviation (input) DUP2 :: byte where "DUP2 \<equiv> 0x81"
abbreviation (input) DUP3 :: byte where "DUP3 \<equiv> 0x82"
abbreviation (input) DUP4 :: byte where "DUP4 \<equiv> 0x83"
abbreviation (input) DUP5 :: byte where "DUP5 \<equiv> 0x84"
abbreviation (input) DUP6 :: byte where "DUP6 \<equiv> 0x85"
abbreviation (input) DUP7 :: byte where "DUP7 \<equiv> 0x86"
abbreviation (input) DUP8 :: byte where "DUP8 \<equiv> 0x87"
abbreviation (input) DUP9 :: byte where "DUP9 \<equiv> 0x88"
abbreviation (input) DUP10 :: byte where "DUP10 \<equiv> 0x89"
abbreviation (input) DUP11 :: byte where "DUP11 \<equiv> 0x8a"
abbreviation (input) DUP12 :: byte where "DUP12 \<equiv> 0x8b"
abbreviation (input) DUP13 :: byte where "DUP13 \<equiv> 0x8c"
abbreviation (input) DUP14 :: byte where "DUP14 \<equiv> 0x8d"
abbreviation (input) DUP15 :: byte where "DUP15 \<equiv> 0x8e"
abbreviation (input) DUP16 :: byte where "DUP16 \<equiv> 0x8f"
abbreviation (input) SWAP1 :: byte where "SWAP1 \<equiv> 0x90"
abbreviation (input) SWAP2 :: byte where "SWAP2 \<equiv> 0x91"
abbreviation (input) SWAP3 :: byte where "SWAP3 \<equiv> 0x92"
abbreviation (input) SWAP4 :: byte where "SWAP4 \<equiv> 0x93"
abbreviation (input) SWAP5 :: byte where "SWAP5 \<equiv> 0x94"
abbreviation (input) SWAP6 :: byte where "SWAP6 \<equiv> 0x95"
abbreviation (input) SWAP7 :: byte where "SWAP7 \<equiv> 0x96"
abbreviation (input) SWAP8 :: byte where "SWAP8 \<equiv> 0x97"
abbreviation (input) SWAP9 :: byte where "SWAP9 \<equiv> 0x98"
abbreviation (input) SWAP10 :: byte where "SWAP10 \<equiv> 0x99"
abbreviation (input) SWAP11 :: byte where "SWAP11 \<equiv> 0x9a"
abbreviation (input) SWAP12 :: byte where "SWAP12 \<equiv> 0x9b"
abbreviation (input) SWAP13 :: byte where "SWAP13 \<equiv> 0x9c"
abbreviation (input) SWAP14 :: byte where "SWAP14 \<equiv> 0x9d"
abbreviation (input) SWAP15 :: byte where "SWAP15 \<equiv> 0x9e"
abbreviation (input) SWAP16 :: byte where "SWAP16 \<equiv> 0x9f"
abbreviation (input) LOG0 :: byte where "LOG0 \<equiv> 0xa0"
abbreviation (input) LOG1 :: byte where "LOG1 \<equiv> 0xa1"
abbreviation (input) LOG2 :: byte where "LOG2 \<equiv> 0xa2"
abbreviation (input) LOG3 :: byte where "LOG3 \<equiv> 0xa3"
abbreviation (input) LOG4 :: byte where "LOG4 \<equiv> 0xa4"
abbreviation (input) CREATE :: byte where "CREATE \<equiv> 0xf0"
abbreviation (input) CALL :: byte where "CALL \<equiv> 0xf1"
abbreviation (input) CALLCODE :: byte where "CALLCODE \<equiv> 0xf2"
abbreviation (input) RETURN :: byte where "RETURN \<equiv> 0xf3"
abbreviation (input) DELEGATECALL :: byte where "DELEGATECALL \<equiv> 0xf4"
abbreviation (input) CREATE2 :: byte where "CREATE2 \<equiv> 0xf5"
abbreviation (input) STATICCALL :: byte where "STATICCALL \<equiv> 0xfa"
abbreviation (input) REVERT :: byte where "REVERT \<equiv> 0xfd"
abbreviation (input) INVALID :: byte where "INVALID \<equiv> 0xfe"
abbreviation (input) SELFDESTRUCT :: byte where "SELFDESTRUCT \<equiv> 0xff"
abbreviation (input) PRINTF :: byte where "PRINTF \<equiv> 0xed"
abbreviation (input) STAKE :: byte where "STAKE \<equiv> 0xee"
abbreviation (input) UNSTAKE :: byte where "UNSTAKE \<equiv> 0xef"
abbreviation (input) GETSTAKE :: byte where "GETSTAKE \<equiv> 0xec"
abbreviation (input) UNSTAKEALL :: byte where "UNSTAKEALL \<equiv> 0xeb"
abbreviation (input) STAKENUM :: byte where "STAKENUM \<equiv> 0xea"
abbreviation (input) AUTH :: byte where "AUTH \<equiv> 0xf6"
abbreviation (input) AUTHCALL :: byte where "AUTHCALL \<equiv> 0xf7"

definition IsPush :: "byte \<Rightarrow> bool" where
  "IsPush b = (PUSH0 \<le> b \<and> b \<le> PUSH32)"

section \<open>Names\<close>

definition opCodeToString :: "(byte \<times> string) list" where
  "opCodeToString =
    [
     (STOP, ''STOP''), (ADD, ''ADD''), (MUL, ''MUL''), (SUB, ''SUB''), (DIV, ''DIV''), (SDIV, ''SDIV''),
     (MOD, ''MOD''), (SMOD, ''SMOD''), (EXP, ''EXP''), (NOT_op, ''NOT''), (LT, ''LT''), (GT, ''GT''), (SLT, ''SLT''),
     (SGT, ''SGT''), (EQ, ''EQ''), (ISZERO, ''ISZERO''), (SIGNEXTEND, ''SIGNEXTEND''), (AND_op, ''AND''),
     (OR_op, ''OR''), (XOR_op, ''XOR''), (BYTE, ''BYTE''), (SHL, ''SHL''), (SHR, ''SHR''), (SAR, ''SAR''),
     (ADDMOD, ''ADDMOD''), (MULMOD, ''MULMOD''), (SHA3, ''SHA3''), (ADDRESS, ''ADDRESS''), (BALANCE, ''BALANCE''),
     (ORIGIN, ''ORIGIN''), (CALLER, ''CALLER''), (CALLVALUE, ''CALLVALUE''), (CALLDATALOAD, ''CALLDATALOAD''),
     (CALLDATASIZE, ''CALLDATASIZE''), (CALLDATACOPY, ''CALLDATACOPY''), (CODESIZE, ''CODESIZE''),
     (CODECOPY, ''CODECOPY''), (GASPRICE, ''GASPRICE''), (EXTCODESIZE, ''EXTCODESIZE''),
     (EXTCODECOPY, ''EXTCODECOPY''), (RETURNDATASIZE, ''RETURNDATASIZE''), (RETURNDATACOPY, ''RETURNDATACOPY''),
     (EXTCODEHASH, ''EXTCODEHASH''), (BLOCKHASH, ''BLOCKHASH''), (COINBASE, ''COINBASE''),
     (TIMESTAMP, ''TIMESTAMP''), (NUMBER, ''NUMBER''), (DIFFICULTY, ''DIFFICULTY''), (GASLIMIT, ''GASLIMIT''),
     (CHAINID, ''CHAINID''), (SELFBALANCE, ''SELFBALANCE''), (BASEFEE, ''BASEFEE''), (BLOBHASH, ''BLOBHASH''),
     (BLOBBASEFEE, ''BLOBBASEFEE''), (POP, ''POP''), (MLOAD, ''MLOAD''), (MSTORE, ''MSTORE''),
     (MSTORE8, ''MSTORE8''), (SLOAD, ''SLOAD''), (SSTORE, ''SSTORE''), (JUMP, ''JUMP''), (JUMPI, ''JUMPI''),
     (PC, ''PC''), (MSIZE, ''MSIZE''), (GAS, ''GAS''), (JUMPDEST, ''JUMPDEST''), (TLOAD, ''TLOAD''),
     (TSTORE, ''TSTORE''), (MCOPY, ''MCOPY''), (PUSH0, ''PUSH0''), (PUSH1, ''PUSH1''), (PUSH2, ''PUSH2''),
     (PUSH3, ''PUSH3''), (PUSH4, ''PUSH4''), (PUSH5, ''PUSH5''), (PUSH6, ''PUSH6''), (PUSH7, ''PUSH7''),
     (PUSH8, ''PUSH8''), (PUSH9, ''PUSH9''), (PUSH10, ''PUSH10''), (PUSH11, ''PUSH11''), (PUSH12, ''PUSH12''),
     (PUSH13, ''PUSH13''), (PUSH14, ''PUSH14''), (PUSH15, ''PUSH15''), (PUSH16, ''PUSH16''), (PUSH17, ''PUSH17''),
     (PUSH18, ''PUSH18''), (PUSH19, ''PUSH19''), (PUSH20, ''PUSH20''), (PUSH21, ''PUSH21''), (PUSH22, ''PUSH22''),
     (PUSH23, ''PUSH23''), (PUSH24, ''PUSH24''), (PUSH25, ''PUSH25''), (PUSH26, ''PUSH26''), (PUSH27, ''PUSH27''),
     (PUSH28, ''PUSH28''), (PUSH29, ''PUSH29''), (PUSH30, ''PUSH30''), (PUSH31, ''PUSH31''), (PUSH32, ''PUSH32''),
     (DUP1, ''DUP1''), (DUP2, ''DUP2''), (DUP3, ''DUP3''), (DUP4, ''DUP4''), (DUP5, ''DUP5''), (DUP6, ''DUP6''),
     (DUP7, ''DUP7''), (DUP8, ''DUP8''), (DUP9, ''DUP9''), (DUP10, ''DUP10''), (DUP11, ''DUP11''),
     (DUP12, ''DUP12''), (DUP13, ''DUP13''), (DUP14, ''DUP14''), (DUP15, ''DUP15''), (DUP16, ''DUP16''),
     (SWAP1, ''SWAP1''), (SWAP2, ''SWAP2''), (SWAP3, ''SWAP3''), (SWAP4, ''SWAP4''), (SWAP5, ''SWAP5''),
     (SWAP6, ''SWAP6''), (SWAP7, ''SWAP7''), (SWAP8, ''SWAP8''), (SWAP9, ''SWAP9''), (SWAP10, ''SWAP10''),
     (SWAP11, ''SWAP11''), (SWAP12, ''SWAP12''), (SWAP13, ''SWAP13''), (SWAP14, ''SWAP14''), (SWAP15, ''SWAP15''),
     (SWAP16, ''SWAP16''), (LOG0, ''LOG0''), (LOG1, ''LOG1''), (LOG2, ''LOG2''), (LOG3, ''LOG3''), (LOG4, ''LOG4''),
     (CREATE, ''CREATE''), (CALL, ''CALL''), (RETURN, ''RETURN''), (CALLCODE, ''CALLCODE''),
     (DELEGATECALL, ''DELEGATECALL''), (CREATE2, ''CREATE2''), (STATICCALL, ''STATICCALL''), (REVERT, ''REVERT''),
     (INVALID, ''INVALID''), (SELFDESTRUCT, ''SELFDESTRUCT'')]"

definition stringToOp :: "(string \<times> byte) list" where
  "stringToOp =
    [
     (''STOP'', STOP), (''ADD'', ADD), (''MUL'', MUL), (''SUB'', SUB), (''DIV'', DIV), (''SDIV'', SDIV),
     (''MOD'', MOD), (''SMOD'', SMOD), (''EXP'', EXP), (''NOT'', NOT_op), (''LT'', LT), (''GT'', GT), (''SLT'', SLT),
     (''SGT'', SGT), (''EQ'', EQ), (''ISZERO'', ISZERO), (''SIGNEXTEND'', SIGNEXTEND), (''AND'', AND_op),
     (''OR'', OR_op), (''XOR'', XOR_op), (''BYTE'', BYTE), (''SHL'', SHL), (''SHR'', SHR), (''SAR'', SAR),
     (''ADDMOD'', ADDMOD), (''MULMOD'', MULMOD), (''SHA3'', SHA3), (''ADDRESS'', ADDRESS), (''BALANCE'', BALANCE),
     (''ORIGIN'', ORIGIN), (''CALLER'', CALLER), (''CALLVALUE'', CALLVALUE), (''CALLDATALOAD'', CALLDATALOAD),
     (''CALLDATASIZE'', CALLDATASIZE), (''CALLDATACOPY'', CALLDATACOPY), (''CHAINID'', CHAINID),
     (''BASEFEE'', BASEFEE), (''BLOBHASH'', BLOBHASH), (''BLOBBASEFEE'', BLOBBASEFEE),
     (''DELEGATECALL'', DELEGATECALL), (''STATICCALL'', STATICCALL), (''CODESIZE'', CODESIZE),
     (''CODECOPY'', CODECOPY), (''GASPRICE'', GASPRICE), (''EXTCODESIZE'', EXTCODESIZE),
     (''EXTCODECOPY'', EXTCODECOPY), (''RETURNDATASIZE'', RETURNDATASIZE), (''RETURNDATACOPY'', RETURNDATACOPY),
     (''EXTCODEHASH'', EXTCODEHASH), (''BLOCKHASH'', BLOCKHASH), (''COINBASE'', COINBASE),
     (''TIMESTAMP'', TIMESTAMP), (''NUMBER'', NUMBER), (''DIFFICULTY'', DIFFICULTY), (''GASLIMIT'', GASLIMIT),
     (''SELFBALANCE'', SELFBALANCE), (''POP'', POP), (''MLOAD'', MLOAD), (''MSTORE'', MSTORE),
     (''MSTORE8'', MSTORE8), (''SLOAD'', SLOAD), (''SSTORE'', SSTORE), (''JUMP'', JUMP), (''JUMPI'', JUMPI),
     (''PC'', PC), (''MSIZE'', MSIZE), (''GAS'', GAS), (''JUMPDEST'', JUMPDEST), (''TLOAD'', TLOAD),
     (''TSTORE'', TSTORE), (''MCOPY'', MCOPY), (''PUSH0'', PUSH0), (''PUSH1'', PUSH1), (''PUSH2'', PUSH2),
     (''PUSH3'', PUSH3), (''PUSH4'', PUSH4), (''PUSH5'', PUSH5), (''PUSH6'', PUSH6), (''PUSH7'', PUSH7),
     (''PUSH8'', PUSH8), (''PUSH9'', PUSH9), (''PUSH10'', PUSH10), (''PUSH11'', PUSH11), (''PUSH12'', PUSH12),
     (''PUSH13'', PUSH13), (''PUSH14'', PUSH14), (''PUSH15'', PUSH15), (''PUSH16'', PUSH16), (''PUSH17'', PUSH17),
     (''PUSH18'', PUSH18), (''PUSH19'', PUSH19), (''PUSH20'', PUSH20), (''PUSH21'', PUSH21), (''PUSH22'', PUSH22),
     (''PUSH23'', PUSH23), (''PUSH24'', PUSH24), (''PUSH25'', PUSH25), (''PUSH26'', PUSH26), (''PUSH27'', PUSH27),
     (''PUSH28'', PUSH28), (''PUSH29'', PUSH29), (''PUSH30'', PUSH30), (''PUSH31'', PUSH31), (''PUSH32'', PUSH32),
     (''DUP1'', DUP1), (''DUP2'', DUP2), (''DUP3'', DUP3), (''DUP4'', DUP4), (''DUP5'', DUP5), (''DUP6'', DUP6),
     (''DUP7'', DUP7), (''DUP8'', DUP8), (''DUP9'', DUP9), (''DUP10'', DUP10), (''DUP11'', DUP11),
     (''DUP12'', DUP12), (''DUP13'', DUP13), (''DUP14'', DUP14), (''DUP15'', DUP15), (''DUP16'', DUP16),
     (''SWAP1'', SWAP1), (''SWAP2'', SWAP2), (''SWAP3'', SWAP3), (''SWAP4'', SWAP4), (''SWAP5'', SWAP5),
     (''SWAP6'', SWAP6), (''SWAP7'', SWAP7), (''SWAP8'', SWAP8), (''SWAP9'', SWAP9), (''SWAP10'', SWAP10),
     (''SWAP11'', SWAP11), (''SWAP12'', SWAP12), (''SWAP13'', SWAP13), (''SWAP14'', SWAP14), (''SWAP15'', SWAP15),
     (''SWAP16'', SWAP16), (''LOG0'', LOG0), (''LOG1'', LOG1), (''LOG2'', LOG2), (''LOG3'', LOG3), (''LOG4'', LOG4),
     (''CREATE'', CREATE), (''CREATE2'', CREATE2), (''CALL'', CALL), (''RETURN'', RETURN), (''CALLCODE'', CALLCODE),
     (''REVERT'', REVERT), (''INVALID'', INVALID), (''SELFDESTRUCT'', SELFDESTRUCT)]"

definition OpCode_String :: "byte \<Rightarrow> string" where
  "OpCode_String b =
    (case map_of opCodeToString b of
       Some s \<Rightarrow> s
     | None \<Rightarrow> ''opcode 0x'' @ map hex_digit (if unat b < 16 then [unat b] else [unat b div 16, unat b mod 16]) @ '' not defined'')"

definition StringToOp :: "string \<Rightarrow> byte" where
  "StringToOp str = (case map_of stringToOp str of Some b \<Rightarrow> b | None \<Rightarrow> 0)"

section \<open>Names are unambiguous\<close>

lemma codes_distinct: "distinct (map fst opCodeToString)"
  by (simp add: opCodeToString_def PUSH1_def PUSH32_def JUMPDEST_def)

lemma names_distinct: "distinct (map fst stringToOp)"
  by (simp add: stringToOp_def)

lemma names_subset: "list_all (\<lambda>(s, b). (b, s) \<in> set opCodeToString) stringToOp"
  by (simp add: stringToOp_def opCodeToString_def PUSH1_def PUSH32_def JUMPDEST_def)

lemma names_same: "prod.swap ` set stringToOp = set opCodeToString"
proof (rule card_seteq)
  show "prod.swap ` set stringToOp \<subseteq> set opCodeToString"
    using names_subset by (fastforce simp: list_all_iff)
  have "card (set opCodeToString) = length opCodeToString"
    using codes_distinct by (metis distinct_card distinct_map)
  moreover have "card (prod.swap ` set stringToOp) = length stringToOp"
    using names_distinct by (metis card_image distinct_card distinct_map inj_swap inj_on_subset subset_UNIV)
  moreover have "length opCodeToString = length stringToOp"
    by (simp add: opCodeToString_def stringToOp_def)
  ultimately show "card (set opCodeToString) \<le> card (prod.swap ` set stringToOp)" by simp
qed simp

lemma names_inverse: "(map_of opCodeToString b = Some s) = (map_of stringToOp s = Some b)"
proof -
  have "((b, s) \<in> set opCodeToString) = ((b, s) \<in> prod.swap ` set stringToOp)"
    by (simp only: names_same)
  also have "\<dots> = ((s, b) \<in> set stringToOp)" by force
  finally show ?thesis
    by (simp only: map_of_eq_Some_iff[OF codes_distinct] map_of_eq_Some_iff[OF names_distinct])
qed

text \<open>C23. The two name tables of the opcodes are inverse to each other: an opcode has the name \<open>s\<close>
  exactly if \<open>s\<close> stands for that opcode, so printing an opcode that has a name and looking the
  name up gives the opcode back.\<close>

theorem opcode_names_inverse:
  "(map_of opCodeToString b = Some s \<longleftrightarrow> map_of stringToOp s = Some b) \<and>
   (b \<in> fst ` set opCodeToString \<longrightarrow> StringToOp (OpCode_String b) = b)"
proof -
  have "StringToOp (OpCode_String b) = b" if "map_of opCodeToString b = Some t" for t
    using that names_inverse[of b t] by (simp add: OpCode_String_def StringToOp_def)
  then show ?thesis
    using names_inverse[of b s] by (metis map_of_eq_None_iff not_None_eq)
qed

theorem opcode_names_inverse_witness: "StringToOp (OpCode_String 0x01) = 0x01"
  by (rule opcode_names_inverse[THEN conjunct2, rule_format]) (simp add: opCodeToString_def)

end
