(* ===== verification/Vm_Uint256.thy ===== *)
theory Vm_Uint256
  imports Common_Types
begin

text \<open>
  The interface of the third-party package \<^verbatim>\<open>github.com/holiman/uint256\<close> as the VM uses
  it. A value of \<^verbatim>\<open>uint256.Int\<close> is four 64-bit words, here a 256-bit word; its methods
  are a record of functions that every definition of the VM takes as an argument. What the
  VM relies on are the laws of the locale \<open>uint256_laws\<close>.
\<close>

record uint256 =
  uAdd :: "u256 \<Rightarrow> u256 \<Rightarrow> u256"
  uSub :: "u256 \<Rightarrow> u256 \<Rightarrow> u256"
  uMul :: "u256 \<Rightarrow> u256 \<Rightarrow> u256"
  uDiv :: "u256 \<Rightarrow> u256 \<Rightarrow> u256"
  uSDiv :: "u256 \<Rightarrow> u256 \<Rightarrow> u256"
  uMod :: "u256 \<Rightarrow> u256 \<Rightarrow> u256"
  uSMod :: "u256 \<Rightarrow> u256 \<Rightarrow> u256"
  uExp :: "u256 \<Rightarrow> u256 \<Rightarrow> u256"
  uExtendSign :: "u256 \<Rightarrow> u256 \<Rightarrow> u256"
  uAddMod :: "u256 \<Rightarrow> u256 \<Rightarrow> u256 \<Rightarrow> u256"
  uMulMod :: "u256 \<Rightarrow> u256 \<Rightarrow> u256 \<Rightarrow> u256"
  uNot :: "u256 \<Rightarrow> u256"
  uAnd :: "u256 \<Rightarrow> u256 \<Rightarrow> u256"
  uOr :: "u256 \<Rightarrow> u256 \<Rightarrow> u256"
  uXor :: "u256 \<Rightarrow> u256 \<Rightarrow> u256"
  uByte :: "u256 \<Rightarrow> u256 \<Rightarrow> u256"
  uLsh :: "u256 \<Rightarrow> u64 \<Rightarrow> u256"
  uRsh :: "u256 \<Rightarrow> u64 \<Rightarrow> u256"
  uSRsh :: "u256 \<Rightarrow> u64 \<Rightarrow> u256"
  uLt :: "u256 \<Rightarrow> u256 \<Rightarrow> bool"
  uGt :: "u256 \<Rightarrow> u256 \<Rightarrow> bool"
  uSlt :: "u256 \<Rightarrow> u256 \<Rightarrow> bool"
  uSgt :: "u256 \<Rightarrow> u256 \<Rightarrow> bool"
  uEq :: "u256 \<Rightarrow> u256 \<Rightarrow> bool"
  uIsZero :: "u256 \<Rightarrow> bool"
  uSign :: "u256 \<Rightarrow> int"
  uLtUint64 :: "u256 \<Rightarrow> u64 \<Rightarrow> bool"
  uGtUint64 :: "u256 \<Rightarrow> u64 \<Rightarrow> bool"
  uIsUint64 :: "u256 \<Rightarrow> bool"
  uUint64 :: "u256 \<Rightarrow> u64"
  uUint64WithOverflow :: "u256 \<Rightarrow> u64 \<times> bool"
  uBitLen :: "u256 \<Rightarrow> nat"
  uClear :: u256
  uSetOne :: u256
  uSetAllOne :: u256
  uSetUint64 :: "u64 \<Rightarrow> u256"
  uSetBytes :: "bytes \<Rightarrow> u256"
  uSetBytes32 :: "bytes \<Rightarrow> u256 option"
  uFromBig :: "int \<Rightarrow> u256"
  uToBig :: "u256 \<Rightarrow> int"
  uBytes :: "u256 \<Rightarrow> bytes"
  uBytes20 :: "u256 \<Rightarrow> bytes"
  uBytes32 :: "u256 \<Rightarrow> bytes"
  uWriteToSlice :: "u256 \<Rightarrow> bytes \<Rightarrow> bytes"

locale uint256_laws =
  fixes U :: "('x) uint256_scheme"
  assumes Add_law: "uAdd U x y = x + y"
    and IsZero_law: "uIsZero U x = (x = 0)"
    and Gt_law: "uGt U x y = (x > y)"
    and Sign_law: "(uSign U x = 0) = (x = 0)"
    and IsUint64_law: "uIsUint64 U x = (uint x < 2 ^ 64)"
    and Uint64_law: "uUint64 U x = ucast x"
    and WithOverflow_law: "uUint64WithOverflow U x = (ucast x, \<not> uint x < 2 ^ 64)"
    and BitLen_law: "uBitLen U x \<le> 256"
    and Bytes20_law: "length (uBytes20 U x) = AddressLength"
    and Bytes32_law: "length (uBytes32 U x) = HashLength"
    and WriteToSlice_law: "HashLength \<le> length dest \<Longrightarrow> uWriteToSlice U x dest = go_copy dest (uBytes32 U x)"
    and SetBytes_law: "uSetBytes U (uBytes32 U x) = x"

section \<open>Words as an instance\<close>

text \<open>The documented behaviour on 256-bit words; it satisfies the laws.\<close>

definition word_be :: "nat \<Rightarrow> u256 \<Rightarrow> bytes" where
  "word_be n x = map (\<lambda>i. ucast (drop_bit (8 * (n - 1 - i)) x)) [0..<n]"

fun bits_len :: "nat \<Rightarrow> nat" where
  "bits_len n = (if n = 0 then 0 else Suc (bits_len (n div 2)))"

declare bits_len.simps [simp del]

definition word_uint256 :: uint256 where
  "word_uint256 =
    \<lparr>uAdd = (+), uSub = (-), uMul = (*),
     uDiv = (\<lambda>x y. if y = 0 then 0 else x div y),
     uSDiv = (\<lambda>x y. if y = 0 then 0 else word_of_int (sgn (sint x) * sgn (sint y) * (\<bar>sint x\<bar> div \<bar>sint y\<bar>))),
     uMod = (\<lambda>x y. if y = 0 then 0 else x mod y),
     uSMod = (\<lambda>x y. if y = 0 then 0 else word_of_int (sgn (sint x) * (\<bar>sint x\<bar> mod \<bar>sint y\<bar>))),
     uExp = (\<lambda>x y. x ^ unat y),
     uExtendSign = (\<lambda>x b. if b > 30 then x else signed_take_bit (8 * unat b + 7) x),
     uAddMod = (\<lambda>x y m. if m = 0 then 0 else word_of_int ((uint x + uint y) mod uint m)),
     uMulMod = (\<lambda>x y m. if m = 0 then 0 else word_of_int ((uint x * uint y) mod uint m)),
     uNot = NOT, uAnd = (AND), uOr = (OR), uXor = (XOR),
     uByte = (\<lambda>x n. if n < 32 then take_bit 8 (drop_bit (8 * (31 - unat n)) x) else 0),
     uLsh = (\<lambda>x n. push_bit (unat n) x), uRsh = (\<lambda>x n. drop_bit (unat n) x),
     uSRsh = (\<lambda>x n. signed_drop_bit (unat n) x),
     uLt = (<), uGt = (\<lambda>x y. y < x), uSlt = (\<lambda>x y. sint x < sint y), uSgt = (\<lambda>x y. sint y < sint x), uEq = (=),
     uIsZero = (\<lambda>x. x = 0), uSign = (\<lambda>x. sgn (sint x)),
     uLtUint64 = (\<lambda>x n. uint x < uint n), uGtUint64 = (\<lambda>x n. uint n < uint x),
     uIsUint64 = (\<lambda>x. uint x < 2 ^ 64), uUint64 = ucast, uUint64WithOverflow = (\<lambda>x. (ucast x, \<not> uint x < 2 ^ 64)),
     uBitLen = (\<lambda>x. bits_len (unat x)),
     uClear = 0, uSetOne = 1, uSetAllOne = - 1, uSetUint64 = ucast,
     uSetBytes = (\<lambda>b. word_of_nat (be_nat b)),
     uSetBytes32 = (\<lambda>b. if length b < 32 then None else Some (word_of_nat (be_nat (take 32 b)))),
     uFromBig = word_of_int, uToBig = uint,
     uBytes = (\<lambda>x. nat_be (unat x)), uBytes20 = word_be 20, uBytes32 = word_be 32,
     uWriteToSlice = (\<lambda>x dest. go_copy dest (word_be 32 x))\<rparr>"

lemma unat_bound: "unat (x :: 'a::len word) < 2 ^ LENGTH('a)"
  by (fact unsigned_less)

lemma length_word_be [simp]: "length (word_be n x) = n"
  by (simp add: word_be_def)

lemma bits_len_le: "n < 2 ^ k \<Longrightarrow> bits_len n \<le> k"
proof (induction n arbitrary: k rule: bits_len.induct)
  case (1 n)
  show ?case
  proof (cases "n = 0")
    case True
    then show ?thesis by (simp add: bits_len.simps)
  next
    case False
    with "1.prems" obtain j where j: "k = Suc j" by (cases k) auto
    with "1.prems" have "n div 2 < 2 ^ j" by (simp add: div_less_iff_less_mult mult.commute)
    with False 1 j show ?thesis by (subst bits_len.simps) simp
  qed
qed

lemma be_nat_Cons: "be_nat (b # bs) = unat b * 256 ^ length bs + be_nat bs"
  by (induction bs rule: rev_induct) (simp_all add: be_nat_def algebra_simps flip: append_Cons)

lemma word_be_Suc: "word_be (Suc n) x = ucast (drop_bit (8 * n) x) # word_be n x"
  by (simp add: word_be_def upt_conv_Cons map_Suc_upt[symmetric] comp_def del: upt_Suc)

lemma be_nat_word_be: "be_nat (word_be n x) = take_bit (8 * n) (unat x)"
proof (induction n)
  case 0
  show ?case by (simp add: word_be_def be_nat_def)
next
  case (Suc n)
  have "unat (ucast (drop_bit (8 * n) x) :: byte) = take_bit 8 (drop_bit (8 * n) (unat x))"
    using take_bit_nat_eq_self[of "unat x" 256] unat_bound[of x] by (simp add: unsigned_ucast_eq unsigned_drop_bit_eq)
  then have "be_nat (word_be (Suc n) x) = take_bit 8 (drop_bit (8 * n) (unat x)) * 256 ^ n + take_bit (8 * n) (unat x)"
    using Suc by (simp add: word_be_Suc be_nat_Cons)
  also have "\<dots> = take_bit (8 * n + 8) (unat x)"
  proof -
    have "(256 :: nat) ^ n = 2 ^ (8 * n)" by (simp add: power_mult)
    then show ?thesis unfolding take_bit_eq_mod drop_bit_eq_div power_add mod_mult2_eq by (simp add: mult.commute)
  qed
  finally show ?case by (simp add: add.commute)
qed

interpretation wu: uint256_laws word_uint256
proof
  show "uBitLen word_uint256 x \<le> 256" for x
    using bits_len_le[of "unat x" 256] unat_bound[of x] by (simp add: word_uint256_def)
  show "uSetBytes word_uint256 (uBytes32 word_uint256 x) = x" for x
    using be_nat_word_be[of 32 x] unat_bound[of x] by (simp add: word_uint256_def take_bit_nat_eq_self)
  show "(uSign word_uint256 x = 0) = (x = 0)" for x
    using signed_word_eqI[of x 0] by (auto simp: word_uint256_def sgn_0_0)
qed (simp_all add: word_uint256_def AddressLength_def HashLength_def)

end
