(* ===== verification/Vm_Base.thy ===== *)
theory Vm_Base
  imports Vm_Uint256
begin

text \<open>
  The small parts of \<^verbatim>\<open>src/vm/\<close>: the operand stack (\<^verbatim>\<open>stack.go\<close>), the memory
  (\<^verbatim>\<open>memory.go\<close>), memory sizes (\<^verbatim>\<open>common.go\<close>, \<^verbatim>\<open>memory_table.go\<close>), the call gas
  rules (\<^verbatim>\<open>gas.go\<close>) and the constants they use, with the checked arithmetic of
  \<^verbatim>\<open>utility/math.go\<close>.
\<close>

section \<open>Checked arithmetic\<close>

definition SafeAdd :: "u64 \<Rightarrow> u64 \<Rightarrow> u64 \<times> bool" where
  "SafeAdd x y = (x + y, 2 ^ 64 \<le> unat x + unat y)"

definition SafeMul :: "u64 \<Rightarrow> u64 \<Rightarrow> u64 \<times> bool" where
  "SafeMul x y = (x * y, 2 ^ 64 \<le> unat x * unat y)"

definition MaxUint64 :: u64 where
  "MaxUint64 = - 1"

section \<open>Errors\<close>

text \<open>The errors of \<^verbatim>\<open>errors.go\<close>, of \<^verbatim>\<open>contracts.go\<close> (\<open>errCurveLibrary\<close> is any error of the
  elliptic curve packages) and of the functions that make their own.\<close>

datatype precompile_error =
    errBadPairingInput
  | errBlake2FInvalidInputLength
  | errBlake2FInvalidFinalFlag
  | errBLS12381InvalidInputLength
  | errBLS12381InvalidFieldElementTopBytes
  | errBLS12381InvalidFieldElementLength
  | errBLS12381G1PointSubgroup
  | errBLS12381G2PointSubgroup
  | errCurveLibrary

datatype vm_error =
    ErrInvalidSubroutineEntry
  | ErrOutOfGas
  | ErrCodeStoreOutOfGas
  | ErrDepth
  | ErrInsufficientBalance
  | ErrContractAddressCollision
  | ErrExecutionReverted
  | ErrMaxCodeSizeExceeded
  | ErrInvalidJump
  | ErrWriteProtection
  | ErrReturnDataOutOfBounds
  | ErrGasUintOverflow
  | ErrInvalidRetsub
  | ErrReturnStackExceeded
  | ErrNonceTooLow
  | ErrNonceTooHigh
  | ErrStackUnderflow nat nat
  | ErrStackOverflow nat nat
  | ErrInvalidOpCode byte
  | ErrReentrancySentry
  | ErrNoMiner
  | ErrRefundStake
  | ErrSubChainNoCreate
  | ErrPrecompile precompile_error

section \<open>The stack\<close>

text \<open>The top of the stack is the head of the list, so \<^verbatim>\<open>Back(n)\<close> is index \<open>n\<close>. An index
  out of range panics.\<close>

type_synonym stack = "u256 list"

definition st_pop :: "stack \<Rightarrow> (u256 \<times> stack) option" where
  "st_pop st = (case st of [] \<Rightarrow> None | x # xs \<Rightarrow> Some (x, xs))"

definition st_push :: "u256 \<Rightarrow> stack \<Rightarrow> stack" where
  "st_push d st = d # st"

definition st_peek :: "stack \<Rightarrow> u256 option" where
  "st_peek st = go_index st 0"

definition st_Back :: "stack \<Rightarrow> nat \<Rightarrow> u256 option" where
  "st_Back st n = go_index st n"

definition st_dup :: "nat \<Rightarrow> stack \<Rightarrow> stack option" where
  "st_dup n st = (if 1 \<le> n then map_option (\<lambda>x. st_push x st) (go_index st (n - 1)) else None)"

definition st_swap :: "nat \<Rightarrow> stack \<Rightarrow> stack option" where
  "st_swap n st =
    (if 1 \<le> n \<and> n \<le> length st then Some (st[n - 1 := st ! 0, 0 := st ! (n - 1)]) else None)"

section \<open>Memory\<close>

record Memory =
  store :: bytes
  lastGasCost :: u64

definition NewMemory :: Memory where
  "NewMemory = \<lparr>store = [], lastGasCost = 0\<rparr>"

definition mem_Len :: "Memory \<Rightarrow> nat" where
  "mem_Len m = length (store m)"

text \<open>Overwriting \<^verbatim>\<open>m.store[i:j]\<close> from a slice.\<close>

definition store_copy :: "nat \<Rightarrow> nat \<Rightarrow> bytes \<Rightarrow> Memory \<Rightarrow> Memory option" where
  "store_copy i j value m =
    map_option (\<lambda>s. m\<lparr>store := take i (store m) @ go_copy s value @ drop j (store m)\<rparr>) (go_slice (store m) i j)"

definition mem_Set :: "u64 \<Rightarrow> u64 \<Rightarrow> bytes \<Rightarrow> Memory \<Rightarrow> Memory option" where
  "mem_Set offset sz value m =
    (if sz > 0 then
       (if offset + sz > of_nat (length (store m)) then None
        else store_copy (unat offset) (unat (offset + sz)) value m)
     else Some m)"

definition mem_Set32 :: "('x) uint256_scheme \<Rightarrow> u64 \<Rightarrow> u256 \<Rightarrow> Memory \<Rightarrow> Memory option" where
  "mem_Set32 U offset val m =
    (if offset + 32 > of_nat (length (store m)) then None
     else do {
       m \<leftarrow> store_copy (unat offset) (unat (offset + 32)) (replicate 32 0) m;
       Some (m\<lparr>store := take (unat offset) (store m) @ uWriteToSlice U val (drop (unat offset) (store m))\<rparr>)
     })"

definition mem_Resize :: "u64 \<Rightarrow> Memory \<Rightarrow> Memory" where
  "mem_Resize sz m =
    (if of_nat (length (store m)) < sz
     then m\<lparr>store := store m @ replicate (unat (sz - of_nat (length (store m)))) 0\<rparr> else m)"

text \<open>The offsets of \<^verbatim>\<open>GetCopy\<close> and \<^verbatim>\<open>GetPtr\<close> are \<^verbatim>\<open>int64\<close>. A slice beyond the length
  panics unless the buffer happens to have spare capacity; the model panics. Callers read
  the slice at once, so a copy and a pointer are the same value.\<close>

definition mem_GetPtr :: "Memory \<Rightarrow> int \<Rightarrow> int \<Rightarrow> bytes option" where
  "mem_GetPtr m offset sz =
    (if sz = 0 then Some []
     else if int (length (store m)) > offset then
       (if offset < 0 \<or> sz < 0 then None else go_slice (store m) (nat offset) (nat (offset + sz)))
     else Some [])"

definition mem_GetCopy :: "Memory \<Rightarrow> int \<Rightarrow> int \<Rightarrow> bytes option" where
  "mem_GetCopy m offset sz =
    (if sz = 0 then Some []
     else if int (length (store m)) > offset then
       (if offset < 0 \<or> sz < 0 then None
        else map_option (go_copy (replicate (nat sz) 0)) (go_slice (store m) (nat offset) (nat (offset + sz))))
     else Some [])"

definition mem_Copy :: "u64 \<Rightarrow> u64 \<Rightarrow> u64 \<Rightarrow> Memory \<Rightarrow> Memory option" where
  "mem_Copy dst src len m =
    (if len = 0 then Some m
     else do {
       s \<leftarrow> go_slice (store m) (unat src) (unat (src + len));
       d \<leftarrow> go_slice (store m) (unat dst) (length (store m));
       Some (m\<lparr>store := take (unat dst) (store m) @ go_copy d s\<rparr>)
     })"

text \<open>\<^verbatim>\<open>int64(x.Uint64())\<close>.\<close>

definition to_i64 :: "('x) uint256_scheme \<Rightarrow> u256 \<Rightarrow> int" where
  "to_i64 U x = sint (uUint64 U x)"

section \<open>Memory sizes\<close>

definition calcMemSize64WithUint :: "('x) uint256_scheme \<Rightarrow> u256 \<Rightarrow> u64 \<Rightarrow> u64 \<times> bool" where
  "calcMemSize64WithUint U off length64 =
    (if length64 = 0 then (0, False)
     else
       (let (offset64, overflow) = uUint64WithOverflow U off
        in if overflow then (0, True)
           else (let val = offset64 + length64 in (val, val < offset64))))"

definition calcMemSize64 :: "('x) uint256_scheme \<Rightarrow> u256 \<Rightarrow> u256 \<Rightarrow> u64 \<times> bool" where
  "calcMemSize64 U off l = (if \<not> uIsUint64 U l then (0, True) else calcMemSize64WithUint U off (uUint64 U l))"

text \<open>\<^verbatim>\<open>RightPadBytes\<close> gets \<^verbatim>\<open>int(size)\<close>, which is negative for large sizes.\<close>

definition getData :: "bytes \<Rightarrow> u64 \<Rightarrow> u64 \<Rightarrow> bytes option" where
  "getData data start sz =
    (let len = of_nat (length data);
         start = (if start > len then len else start);
         stop = start + sz;
         stop = (if stop > len then len else stop)
     in map_option (\<lambda>s. RightPadBytes s (nat (sint sz))) (go_slice data (unat start) (unat stop)))"

definition toWordSize :: "u64 \<Rightarrow> u64" where
  "toWordSize sz = (if sz > MaxUint64 - 31 then MaxUint64 div 32 + 1 else (sz + 31) div 32)"

definition allZero :: "bytes \<Rightarrow> bool" where
  "allZero b = list_all (\<lambda>x. x = 0) b"

text \<open>A memory size function reads its operands off the stack.\<close>

definition mem_at :: "('x) uint256_scheme \<Rightarrow> nat \<Rightarrow> nat \<Rightarrow> stack \<Rightarrow> (u64 \<times> bool) option" where
  "mem_at U i j st = do { off \<leftarrow> st_Back st i; len \<leftarrow> st_Back st j; Some (calcMemSize64 U off len) }"

definition mem_at_uint :: "('x) uint256_scheme \<Rightarrow> nat \<Rightarrow> u64 \<Rightarrow> stack \<Rightarrow> (u64 \<times> bool) option" where
  "mem_at_uint U i n st = do { off \<leftarrow> st_Back st i; Some (calcMemSize64WithUint U off n) }"

definition memorySha3 where "memorySha3 U = mem_at U 0 1"
definition memoryCallDataCopy where "memoryCallDataCopy U = mem_at U 0 2"
definition memoryReturnDataCopy where "memoryReturnDataCopy U = mem_at U 0 2"
definition memoryCodeCopy where "memoryCodeCopy U = mem_at U 0 2"
definition memoryExtCodeCopy where "memoryExtCodeCopy U = mem_at U 1 3"
definition memoryMLoad where "memoryMLoad U = mem_at_uint U 0 32"
definition memoryMStore8 where "memoryMStore8 U = mem_at_uint U 0 1"
definition memoryMStore where "memoryMStore U = mem_at_uint U 0 32"

definition memoryMcopy :: "('x) uint256_scheme \<Rightarrow> stack \<Rightarrow> (u64 \<times> bool) option" where
  "memoryMcopy U st = do {
     a \<leftarrow> st_Back st 0;
     b \<leftarrow> st_Back st 1;
     l \<leftarrow> st_Back st 2;
     Some (calcMemSize64 U (if uGt U b a then b else a) l)
   }"

definition memoryCreate where "memoryCreate U = mem_at U 1 2"
definition memoryCreate2 where "memoryCreate2 U = mem_at U 1 2"

definition mem_two :: "('x) uint256_scheme \<Rightarrow> nat \<Rightarrow> nat \<Rightarrow> nat \<Rightarrow> nat \<Rightarrow> stack \<Rightarrow> (u64 \<times> bool) option" where
  "mem_two U o1 l1 o2 l2 st = do {
     (x, ov) \<leftarrow> mem_at U o1 l1 st;
     if ov then Some (0, True)
     else do {
       (y, ov) \<leftarrow> mem_at U o2 l2 st;
       Some (if ov then (0, True) else if x > y then (x, False) else (y, False))
     }
   }"

definition memoryCall where "memoryCall U = mem_two U 5 6 3 4"
definition memoryDelegateCall where "memoryDelegateCall U = mem_two U 4 5 2 3"
definition memoryStaticCall where "memoryStaticCall U = mem_two U 4 5 2 3"
definition memoryReturn where "memoryReturn U = mem_at U 0 1"
definition memoryRevert where "memoryRevert U = mem_at U 0 1"
definition memoryLog where "memoryLog U = mem_at U 0 1"
definition memoryAuthCall where "memoryAuthCall U = mem_two U 7 8 5 6"

section \<open>Call gas\<close>

definition callGas :: "('x) uint256_scheme \<Rightarrow> bool \<Rightarrow> u64 \<Rightarrow> u64 \<Rightarrow> u256 \<Rightarrow> vm_error + u64" where
  "callGas U isEip150 availableGas base callCost =
    (let availableGas' = availableGas - base;
         gas = availableGas' - availableGas' div 64
     in if isEip150 \<and> (\<not> uIsUint64 U callCost \<or> gas < uUint64 U callCost) then Inr gas
        else if \<not> uIsUint64 U callCost then Inl ErrGasUintOverflow
        else Inr (uUint64 U callCost))"

definition authCallGas :: "('x) uint256_scheme \<Rightarrow> u64 \<Rightarrow> u64 \<Rightarrow> u256 \<Rightarrow> vm_error + u64" where
  "authCallGas U availableGas base callCost =
    (let availableGas = availableGas - base;
         gas = availableGas - availableGas div 64
     in if \<not> uIsUint64 U callCost \<or> uIsZero U callCost then Inr gas
        else if gas < uUint64 U callCost then Inr gas
        else Inr (uUint64 U callCost))"

section \<open>Stack limits\<close>

definition StackLimit :: nat where "StackLimit = 1024"

text \<open>The table computes limits as \<^verbatim>\<open>int\<close>; every use has at most \<open>StackLimit\<close> pushes.\<close>

definition maxStack :: "nat \<Rightarrow> nat \<Rightarrow> nat" where "maxStack pop push = StackLimit + pop - push"
definition minStack :: "nat \<Rightarrow> nat \<Rightarrow> nat" where "minStack pops push = pops"
definition minSwapStack :: "nat \<Rightarrow> nat" where "minSwapStack n = minStack n n"
definition maxSwapStack :: "nat \<Rightarrow> nat" where "maxSwapStack n = maxStack n n"
definition minDupStack :: "nat \<Rightarrow> nat" where "minDupStack n = minStack n (n + 1)"
definition maxDupStack :: "nat \<Rightarrow> nat" where "maxDupStack n = maxStack n (n + 1)"

section \<open>Gas prices\<close>

definition GasQuickStep :: u64 where "GasQuickStep = 2"
definition GasFastestStep :: u64 where "GasFastestStep = 3"
definition GasFastStep :: u64 where "GasFastStep = 5"
definition GasMidStep :: u64 where "GasMidStep = 8"
definition GasSlowStep :: u64 where "GasSlowStep = 10"
definition GasExtStep :: u64 where "GasExtStep = 20"

section \<open>Reading a slice extended by zeros\<close>

definition window :: "bytes \<Rightarrow> nat \<Rightarrow> nat \<Rightarrow> bytes" where
  "window data start n = map (\<lambda>i. if i < length data then data ! i else 0) [start..<start + n]"

lemma length_window [simp]: "length (window data start n) = n"
  by (simp add: window_def)

lemma window_take_pad: "window data start n = RightPadBytes (take n (drop start data)) n"
  by (rule nth_equalityI) (auto simp: window_def RightPadBytes_def go_copy_def nth_append)

lemma sint_small: "unat (x :: u64) < 2 ^ 63 \<Longrightarrow> sint x = int (unat x)"
  by (simp add: sint_uint signed_take_bit_int_eq_self uint_nat del: of_nat_unat)

lemma getData_exact:
  assumes "length d < 2 ^ 62" "unat sz < 2 ^ 63"
  shows "getData d start sz = Some (window d (unat start) (unat sz))"
proof -
  define n where "n = (of_nat (length d) :: u64)"
  have n: "unat n = length d" using assms(1) by (simp add: n_def unat_of_nat_small)
  define st where "st = (if start > n then n else start)"
  have st: "unat st = min (unat start) (length d)" using n by (auto simp: st_def word_less_nat_alt)
  have "unat (st + sz) = unat st + unat sz"
    using st assms by (intro unat_add_lem[THEN iffD1]) simp
  then have en: "unat (if st + sz > n then n else st + sz) = min (unat st + unat sz) (length d)"
    using n by (auto simp: word_less_nat_alt)
  have "getData d start sz = map_option (\<lambda>s. RightPadBytes s (nat (sint sz)))
      (go_slice d (unat st) (unat (if st + sz > n then n else st + sz)))"
    by (simp only: getData_def Let_def n_def st_def)
  also have "\<dots> = Some (RightPadBytes (take (unat sz) (drop (unat start) d)) (unat sz))"
    using st assms(2) by (simp add: en sint_small min_def)
  finally show ?thesis by (simp add: window_take_pad)
qed

end
