(* ===== verification/Vm_State.thy ===== *)
theory Vm_State
  imports Vm_Base Vm_Analysis Account_State Eth_Crypto
begin

text \<open>
  The state the EVM works on (\<^verbatim>\<open>interface.go\<close>, \<^verbatim>\<open>contract.go\<close>, \<^verbatim>\<open>interpreter.go\<close>,
  \<^verbatim>\<open>evm.go\<close>): the interface \<^verbatim>\<open>StateDB\<close> as a record of functions over a state type
  \<open>'s\<close>, the block context, the contract that runs, and the machine.

  An operation of the state that can panic returns an option. The block context also holds
  what the VM takes from outside: the hash function, signature recovery, precompiled
  contracts, the miner services and the fork switches.
\<close>

section \<open>The state interface\<close>

record 's StateDB =
  sd_CreateAccount :: "address \<Rightarrow> 's \<Rightarrow> 's"
  sd_AddBalance :: "address \<Rightarrow> int \<Rightarrow> 's \<Rightarrow> 's option"
  sd_GetBalance :: "address \<Rightarrow> 's \<Rightarrow> (int \<times> 's) option"
  sd_GetNonce :: "address \<Rightarrow> 's \<Rightarrow> u64 \<times> 's"
  sd_SetNonce :: "address \<Rightarrow> u64 \<Rightarrow> 's \<Rightarrow> 's"
  sd_GetCodeHash :: "address \<Rightarrow> 's \<Rightarrow> hash \<times> 's"
  sd_GetCode :: "address \<Rightarrow> 's \<Rightarrow> bytes \<times> 's"
  sd_SetCode :: "address \<Rightarrow> bytes \<Rightarrow> 's \<Rightarrow> 's"
  sd_GetCodeSize :: "address \<Rightarrow> 's \<Rightarrow> nat \<times> 's"
  sd_AddRefund :: "u64 \<Rightarrow> 's \<Rightarrow> 's"
  sd_SubRefund :: "u64 \<Rightarrow> 's \<Rightarrow> 's option"
  sd_GetCommittedState :: "address \<Rightarrow> hash \<Rightarrow> 's \<Rightarrow> hash \<times> 's"
  sd_GetState :: "address \<Rightarrow> hash \<Rightarrow> 's \<Rightarrow> hash \<times> 's"
  sd_SetState :: "address \<Rightarrow> hash \<Rightarrow> hash \<Rightarrow> 's \<Rightarrow> 's"
  sd_GetTransientState :: "address \<Rightarrow> hash \<Rightarrow> 's \<Rightarrow> hash"
  sd_SetTransientState :: "address \<Rightarrow> hash \<Rightarrow> hash \<Rightarrow> 's \<Rightarrow> 's"
  sd_Suicide :: "address \<Rightarrow> 's \<Rightarrow> (bool \<times> 's) option"
  sd_HasSuicided :: "address \<Rightarrow> 's \<Rightarrow> bool \<times> 's"
  sd_Exist :: "address \<Rightarrow> 's \<Rightarrow> bool \<times> 's"
  sd_Empty :: "address \<Rightarrow> 's \<Rightarrow> bool \<times> 's"
  sd_AddressInAccessList :: "address \<Rightarrow> 's \<Rightarrow> bool"
  sd_SlotInAccessList :: "address \<Rightarrow> hash \<Rightarrow> 's \<Rightarrow> (bool \<times> bool) option"
  sd_AddAddressToAccessList :: "address \<Rightarrow> 's \<Rightarrow> 's"
  sd_AddSlotToAccessList :: "address \<Rightarrow> hash \<Rightarrow> 's \<Rightarrow> 's option"
  sd_RevertToSnapshot :: "int \<Rightarrow> 's \<Rightarrow> 's option"
  sd_Snapshot :: "'s \<Rightarrow> int \<times> 's"
  sd_AddLog :: "Log \<Rightarrow> 's \<Rightarrow> 's"

text \<open>The miner and refund services that the staking instructions call
  (\<^verbatim>\<open>service/miner_manager.go\<close>, \<^verbatim>\<open>service/refund_manager.go\<close>).\<close>

record 's Services =
  sv_GetMinerIdByAccount :: "address \<Rightarrow> 's \<Rightarrow> bytes option \<times> 's"
  sv_GetMinerStake :: "bytes \<Rightarrow> 's \<Rightarrow> u64 option \<times> 's"
  sv_AddStake :: "address \<Rightarrow> bytes \<Rightarrow> u64 \<Rightarrow> 's \<Rightarrow> bool \<times> 's"
  sv_GetRefundStake :: "u64 \<Rightarrow> bytes \<Rightarrow> address \<Rightarrow> u64 \<Rightarrow> 's \<Rightarrow> (u64 \<times> int \<times> bytes) option \<times> 's"
  sv_AddRefunds :: "u64 \<Rightarrow> (bytes \<times> int) list \<Rightarrow> 's \<Rightarrow> 's"

text \<open>A precompiled contract (\<^verbatim>\<open>contracts.go\<close>): its price and its function. Both read
  slices and may panic.\<close>

record PrecompiledContract =
  RequiredGas :: "bytes \<Rightarrow> u64 option"
  pre_Run :: "bytes \<Rightarrow> (bytes \<times> vm_error option) option"

definition RunPrecompiledContract ::
  "PrecompiledContract \<Rightarrow> bytes \<Rightarrow> u64 \<Rightarrow> (bytes \<times> u64 \<times> vm_error option) option" where
  "RunPrecompiledContract p input suppliedGas = do {
     gasCost \<leftarrow> RequiredGas p input;
     if suppliedGas < gasCost then Some ([], 0, Some ErrOutOfGas)
     else do { (output, err) \<leftarrow> pre_Run p input; Some (output, suppliedGas - gasCost, err) }
   }"

text \<open>\<^verbatim>\<open>Context\<close> with the state interface, the libraries and the fork switches. The
  switches \<open>jt014\<close>, \<open>jt022\<close>, \<open>jt026\<close> compare the block number of the context, the others
  the global block height. \<open>f_abort\<close> says whether the flag \<^verbatim>\<open>abort\<close> is found set.\<close>

record 's VmEnv =
  U256 :: uint256
  SDB :: "'s StateDB"
  SVC :: "'s Services"
  f_CanTransfer :: "address \<Rightarrow> int \<Rightarrow> 's \<Rightarrow> (bool \<times> 's) option"
  f_Transfer :: "address \<Rightarrow> address \<Rightarrow> int \<Rightarrow> 's \<Rightarrow> 's option"
  f_GetHash :: "u64 \<Rightarrow> hash"
  f_GetData :: "address \<Rightarrow> bytes \<Rightarrow> 's \<Rightarrow> bytes \<times> 's"
  Origin :: address
  GasPrice :: int
  Coinbase :: address
  GasLimit :: u64
  ctx_BlockNumber :: int
  Time :: int
  Difficulty :: int
  chainID :: int
  f_Keccak256 :: "bytes \<Rightarrow> hash"
  f_Ecrecover :: "bytes \<Rightarrow> bytes \<Rightarrow> bytes option"
  f_precompile :: "address \<Rightarrow> PrecompiledContract option"
  f_abort :: "nat \<Rightarrow> 's \<Rightarrow> bool"
  CreateWhiteListAddr :: address
  CreateWhiteListPostion :: bytes
  subChain :: bool
  p006 :: bool
  p007 :: bool
  p015 :: bool
  p026 :: bool
  jt014 :: bool
  jt022 :: bool
  jt026 :: bool

section \<open>Contracts\<close>

text \<open>The pointer \<^verbatim>\<open>caller\<close> is used by \<^verbatim>\<open>AsDelegate\<close> only, which gets the parent as an
  argument here. The map \<^verbatim>\<open>jumpdests\<close> is shared with the parent contract; calls hand it
  back to the caller.\<close>

record Contract =
  CallerAddress :: address
  self :: address
  jumpdests :: "hash \<rightharpoonup> bitvec"
  analysis :: "bitvec option"
  Code :: bytes
  CodeHash :: hash
  CodeAddr :: "address option"
  Input :: bytes
  Gas :: u64
  c_value :: int

text \<open>\<open>parent\<close> is the analysis map of the caller if the caller is a contract.\<close>

definition NewContract :: "address \<Rightarrow> (hash \<rightharpoonup> bitvec) option \<Rightarrow> address \<Rightarrow> int \<Rightarrow> u64 \<Rightarrow> Contract" where
  "NewContract caller parent object value gas =
    \<lparr>CallerAddress = caller, self = object,
     jumpdests = (case parent of Some jd \<Rightarrow> jd | None \<Rightarrow> Map.empty),
     analysis = None, Code = [], CodeHash = zero_hash, CodeAddr = None, Input = [], Gas = gas, c_value = value\<rparr>"

definition AsDelegate :: "Contract \<Rightarrow> Contract \<Rightarrow> Contract" where
  "AsDelegate parent c = c\<lparr>CallerAddress := CallerAddress parent, c_value := c_value parent\<rparr>"

definition isCode :: "nat \<Rightarrow> Contract \<Rightarrow> (bool \<times> Contract) option" where
  "isCode udest c =
    (case analysis c of
       Some a \<Rightarrow> map_option (\<lambda>b. (b, c)) (codeSegment a udest)
     | None \<Rightarrow>
         if CodeHash c \<noteq> zero_hash then
           (case jumpdests c (CodeHash c) of
              Some a \<Rightarrow> map_option (\<lambda>b. (b, c\<lparr>analysis := Some a\<rparr>)) (codeSegment a udest)
            | None \<Rightarrow> do {
                a \<leftarrow> codeBitmap (Code c);
                b \<leftarrow> codeSegment a udest;
                Some (b, c\<lparr>jumpdests := (jumpdests c)(CodeHash c \<mapsto> a), analysis := Some a\<rparr>)
              })
         else do {
           a \<leftarrow> codeBitmap (Code c);
           b \<leftarrow> codeSegment a udest;
           Some (b, c\<lparr>analysis := Some a\<rparr>)
         })"

definition validJumpdest :: "uint256 \<Rightarrow> u256 \<Rightarrow> Contract \<Rightarrow> (bool \<times> Contract) option" where
  "validJumpdest U dest c =
    (let (udest, overflow) = uUint64WithOverflow U dest
     in if overflow \<or> udest \<ge> of_nat (length (Code c)) then Some (False, c)
        else (case go_index (Code c) (unat udest) of
                None \<Rightarrow> None
              | Some b \<Rightarrow> if b \<noteq> JUMPDEST then Some (False, c) else isCode (unat udest) c))"

definition GetOp :: "Contract \<Rightarrow> u64 \<Rightarrow> byte" where
  "GetOp c n = (if n < of_nat (length (Code c)) then Code c ! unat n else 0)"

definition UseGas :: "u64 \<Rightarrow> Contract \<Rightarrow> bool \<times> Contract" where
  "UseGas gas c = (if Gas c < gas then (False, c) else (True, c\<lparr>Gas := Gas c - gas\<rparr>))"

definition SetCallCode :: "address \<Rightarrow> hash \<Rightarrow> bytes \<Rightarrow> Contract \<Rightarrow> Contract" where
  "SetCallCode addr h code c = c\<lparr>Code := code, CodeHash := h, CodeAddr := Some addr\<rparr>"

section \<open>The machine\<close>

text \<open>The mutable fields of \<^verbatim>\<open>callCtx\<close>, \<^verbatim>\<open>EVMInterpreter\<close> and \<^verbatim>\<open>EVM\<close>, and the program
  counter. The return stack is never used by an instruction and is left out.\<close>

record 's Machine =
  pc :: u64
  memory :: Memory
  stk :: stack
  contract :: Contract
  authorized :: "address option"
  m_logs :: "Log list"
  readOnly :: bool
  returnData :: bytes
  callGasTemp :: u64
  depth :: nat
  state :: 's

text \<open>An instruction returns its result bytes and an error; \<open>None\<close> is a panic.\<close>

type_synonym 's exec = "'s Machine \<Rightarrow> ((bytes \<times> vm_error option) \<times> 's Machine) option"

text \<open>A gas function returns the cost or an error; it may change the memory's last fee, the
  call gas, the contract's gas and the state.\<close>

type_synonym 's gasFunc = "u64 \<Rightarrow> 's Machine \<Rightarrow> ((vm_error + u64) \<times> 's Machine) option"

definition pop :: "'s Machine \<Rightarrow> (u256 \<times> 's Machine) option" where
  "pop m = map_option (\<lambda>(x, st). (x, m\<lparr>stk := st\<rparr>)) (st_pop (stk m))"

definition push :: "u256 \<Rightarrow> 's Machine \<Rightarrow> 's Machine" where
  "push x m = m\<lparr>stk := st_push x (stk m)\<rparr>"

definition Back :: "nat \<Rightarrow> 's Machine \<Rightarrow> u256 option" where
  "Back n m = st_Back (stk m) n"

definition on_gas :: "(u64 \<Rightarrow> u64) \<Rightarrow> 's Machine \<Rightarrow> 's Machine" where
  "on_gas f m = m\<lparr>contract := (contract m)\<lparr>Gas := f (Gas (contract m))\<rparr>\<rparr>"

definition ok :: "'s Machine \<Rightarrow> ((bytes \<times> vm_error option) \<times> 's Machine) option" where
  "ok m = Some (([], None), m)"

end
