(* ===== verification/Vm_Precompiles.thy ===== *)
theory Vm_Precompiles
  imports Vm_State Blake2b
begin

text \<open>
  The precompiled contracts (\<^verbatim>\<open>src/vm/contracts.go\<close>): what each charges and what it
  returns, errors and panics included. The hash functions, signature recovery and the two
  elliptic curve packages are a record of functions that the contracts take as an argument;
  the compression function of BLAKE2b is the one of \<open>Blake2b\<close>.
\<close>

section \<open>Prices\<close>

definition EcrecoverGas :: u64 where "EcrecoverGas = 3000"
definition Sha256BaseGas :: u64 where "Sha256BaseGas = 60"
definition Sha256PerWordGas :: u64 where "Sha256PerWordGas = 12"
definition Ripemd160BaseGas :: u64 where "Ripemd160BaseGas = 600"
definition Ripemd160PerWordGas :: u64 where "Ripemd160PerWordGas = 120"
definition IdentityBaseGas :: u64 where "IdentityBaseGas = 15"
definition IdentityPerWordGas :: u64 where "IdentityPerWordGas = 3"
definition ModExpQuadCoeffDiv :: u64 where "ModExpQuadCoeffDiv = 20"
definition Bn256AddGasByzantium :: u64 where "Bn256AddGasByzantium = 500"
definition Bn256AddGasIstanbul :: u64 where "Bn256AddGasIstanbul = 150"
definition Bn256ScalarMulGasByzantium :: u64 where "Bn256ScalarMulGasByzantium = 40000"
definition Bn256ScalarMulGasIstanbul :: u64 where "Bn256ScalarMulGasIstanbul = 6000"
definition Bn256PairingBaseGasByzantium :: u64 where "Bn256PairingBaseGasByzantium = 100000"
definition Bn256PairingBaseGasIstanbul :: u64 where "Bn256PairingBaseGasIstanbul = 45000"
definition Bn256PairingPerPointGasByzantium :: u64 where "Bn256PairingPerPointGasByzantium = 80000"
definition Bn256PairingPerPointGasIstanbul :: u64 where "Bn256PairingPerPointGasIstanbul = 34000"
definition Bls12381G1AddGas :: u64 where "Bls12381G1AddGas = 600"
definition Bls12381G1MulGas :: u64 where "Bls12381G1MulGas = 12000"
definition Bls12381G2AddGas :: u64 where "Bls12381G2AddGas = 4500"
definition Bls12381G2MulGas :: u64 where "Bls12381G2MulGas = 55000"
definition Bls12381PairingBaseGas :: u64 where "Bls12381PairingBaseGas = 115000"
definition Bls12381PairingPerPairGas :: u64 where "Bls12381PairingPerPairGas = 23000"
definition Bls12381MapG1Gas :: u64 where "Bls12381MapG1Gas = 5500"
definition Bls12381MapG2Gas :: u64 where "Bls12381MapG2Gas = 110000"

definition Bls12381MultiExpDiscountTable :: "u64 list" where
  "Bls12381MultiExpDiscountTable =
    [1200, 888, 764, 641, 594, 547, 500, 453, 438, 423, 408, 394, 379, 364, 349, 334,
     330, 326, 322, 318, 314, 310, 306, 302, 298, 294, 289, 285, 281, 277, 273, 269,
     268, 266, 265, 263, 262, 260, 259, 257, 256, 254, 253, 251, 250, 248, 247, 245,
     244, 242, 241, 239, 238, 236, 235, 233, 232, 231, 229, 228, 226, 225, 223, 222,
     221, 220, 219, 219, 218, 217, 216, 216, 215, 214, 213, 213, 212, 211, 211, 210,
     209, 208, 208, 207, 206, 205, 205, 204, 203, 202, 202, 201, 200, 199, 199, 198,
     197, 196, 196, 195, 194, 193, 193, 192, 191, 191, 190, 189, 188, 188, 187, 186,
     185, 185, 184, 183, 182, 182, 181, 180, 179, 179, 178, 177, 176, 176, 175, 174]"

section \<open>Libraries\<close>

text \<open>\<^verbatim>\<open>bn256.G1\<close> and \<^verbatim>\<open>bn256.G2\<close> are the types \<open>'p\<close> and \<open>'q\<close>, \<^verbatim>\<open>bls12381.PointG1\<close> and
  \<^verbatim>\<open>bls12381.PointG2\<close> the types \<open>'r\<close> and \<open>'t\<close>. A function that reports an error gives \<open>None\<close>.\<close>

record ('p, 'q, 'r, 't) PreLib =
  l_Keccak256 :: "bytes \<Rightarrow> hash"
  l_Ecrecover :: "bytes \<Rightarrow> bytes \<Rightarrow> bytes option"
  l_sha256 :: "bytes \<Rightarrow> bytes"
  l_ripemd160 :: "bytes \<Rightarrow> bytes"
  bn_G1_Unmarshal :: "bytes \<Rightarrow> 'p option"
  bn_G1_Marshal :: "'p \<Rightarrow> bytes"
  bn_G1_Add :: "'p \<Rightarrow> 'p \<Rightarrow> 'p"
  bn_G1_ScalarMult :: "'p \<Rightarrow> int \<Rightarrow> 'p"
  bn_G2_Unmarshal :: "bytes \<Rightarrow> 'q option"
  bn_PairingCheck :: "'p list \<Rightarrow> 'q list \<Rightarrow> bool"
  bls_G1_DecodePoint :: "bytes \<Rightarrow> 'r option"
  bls_G1_EncodePoint :: "'r \<Rightarrow> bytes"
  bls_G1_Add :: "'r \<Rightarrow> 'r \<Rightarrow> 'r"
  bls_G1_MulScalar :: "'r \<Rightarrow> int \<Rightarrow> 'r"
  bls_G1_MultiExp :: "'r list \<Rightarrow> int list \<Rightarrow> 'r"
  bls_G1_InCorrectSubgroup :: "'r \<Rightarrow> bool"
  bls_G1_MapToCurve :: "bytes \<Rightarrow> 'r option"
  bls_G2_DecodePoint :: "bytes \<Rightarrow> 't option"
  bls_G2_EncodePoint :: "'t \<Rightarrow> bytes"
  bls_G2_Add :: "'t \<Rightarrow> 't \<Rightarrow> 't"
  bls_G2_MulScalar :: "'t \<Rightarrow> int \<Rightarrow> 't"
  bls_G2_MultiExp :: "'t list \<Rightarrow> int list \<Rightarrow> 't"
  bls_G2_InCorrectSubgroup :: "'t \<Rightarrow> bool"
  bls_G2_MapToCurve :: "bytes \<Rightarrow> 't option"
  bls_Check :: "('r \<times> 't) list \<Rightarrow> bool"

section \<open>Results\<close>

text \<open>A computation panics, ends with an error or gives a value.\<close>

type_synonym 'a pre = "(precompile_error + 'a) option"

definition pre_ok :: "'a \<Rightarrow> 'a pre" where
  "pre_ok x = Some (Inr x)"

definition pre_err :: "precompile_error \<Rightarrow> 'a pre" where
  "pre_err e = Some (Inl e)"

definition pre_get :: "'a option \<Rightarrow> 'a pre" where
  "pre_get r = (case r of None \<Rightarrow> None | Some x \<Rightarrow> pre_ok x)"

definition pre_try :: "'a option \<Rightarrow> 'a pre" where
  "pre_try r = (case r of None \<Rightarrow> pre_err errCurveLibrary | Some x \<Rightarrow> pre_ok x)"

definition pre_bind :: "'a pre \<Rightarrow> ('a \<Rightarrow> 'b pre) \<Rightarrow> 'b pre" where
  "pre_bind r f = (case r of None \<Rightarrow> None | Some (Inl e) \<Rightarrow> Some (Inl e) | Some (Inr x) \<Rightarrow> f x)"

primrec pre_map :: "('a \<Rightarrow> 'b pre) \<Rightarrow> 'a list \<Rightarrow> 'b list pre" where
  "pre_map f [] = pre_ok []"
| "pre_map f (x # xs) = pre_bind (f x) (\<lambda>y. pre_bind (pre_map f xs) (\<lambda>ys. pre_ok (y # ys)))"

definition pre_return :: "bytes pre \<Rightarrow> (bytes \<times> vm_error option) option" where
  "pre_return r = (case r of
     None \<Rightarrow> None
   | Some (Inl e) \<Rightarrow> Some ([], Some (ErrPrecompile e))
   | Some (Inr b) \<Rightarrow> Some (b, None))"

section \<open>Signature recovery and hashes\<close>

definition ecrecover_RequiredGas :: "bytes \<Rightarrow> u64 option" where
  "ecrecover_RequiredGas input = Some EcrecoverGas"

text \<open>The padded input has 128 bytes, so the slices are in range.\<close>

definition ecrecover_Run :: "('p, 'q, 'r, 't) PreLib \<Rightarrow> bytes \<Rightarrow> bytes pre" where
  "ecrecover_Run L input =
    (let input = RightPadBytes input 128;
         r = big_SetBytes (take 32 (drop 64 input));
         s = big_SetBytes (take 32 (drop 96 input));
         v = input ! 63 - 27
     in if \<not> allZero (take 31 (drop 32 input)) \<or> \<not> ValidateSignatureValues v r s False then pre_ok []
        else (let sig = (go_copy (replicate 65 0) (take 64 (drop 64 input)))[64 := v]
              in case l_Ecrecover L (take 32 input) sig of
                   None \<Rightarrow> pre_ok []
                 | Some pubKey \<Rightarrow>
                     pre_bind (pre_get (go_slice pubKey 1 (length pubKey))) (\<lambda>k.
                     pre_bind (pre_get (go_slice (l_Keccak256 L k) 12 (length (l_Keccak256 L k)))) (\<lambda>h.
                     pre_ok (LeftPadBytes h 32)))))"

definition word_gas :: "u64 \<Rightarrow> u64 \<Rightarrow> bytes \<Rightarrow> u64" where
  "word_gas per base input = of_nat (length input + 31) div 32 * per + base"

definition sha256hash_RequiredGas :: "bytes \<Rightarrow> u64 option" where
  "sha256hash_RequiredGas input = Some (word_gas Sha256PerWordGas Sha256BaseGas input)"

definition sha256hash_Run :: "('p, 'q, 'r, 't) PreLib \<Rightarrow> bytes \<Rightarrow> bytes pre" where
  "sha256hash_Run L input = pre_ok (l_sha256 L input)"

definition ripemd160hash_RequiredGas :: "bytes \<Rightarrow> u64 option" where
  "ripemd160hash_RequiredGas input = Some (word_gas Ripemd160PerWordGas Ripemd160BaseGas input)"

definition ripemd160hash_Run :: "('p, 'q, 'r, 't) PreLib \<Rightarrow> bytes \<Rightarrow> bytes pre" where
  "ripemd160hash_Run L input = pre_ok (LeftPadBytes (l_ripemd160 L input) 32)"

definition dataCopy_RequiredGas :: "bytes \<Rightarrow> u64 option" where
  "dataCopy_RequiredGas input = Some (word_gas IdentityPerWordGas IdentityBaseGas input)"

definition dataCopy_Run :: "bytes \<Rightarrow> bytes pre" where
  "dataCopy_Run inp = pre_ok inp"

section \<open>Modular exponentiation\<close>

fun bit_length :: "nat \<Rightarrow> nat" where
  "bit_length n = (if n = 0 then 0 else Suc (bit_length (n div 2)))"

declare bit_length.simps [simp del]

definition BitLen :: "int \<Rightarrow> nat" where
  "BitLen x = bit_length (nat \<bar>x\<bar>)"

definition BigMax :: "int \<Rightarrow> int \<Rightarrow> int" where
  "BigMax x y = (if x < y then y else x)"

definition big_getData :: "bytes \<Rightarrow> u64 \<Rightarrow> u64 \<Rightarrow> int option" where
  "big_getData data start sz = map_option big_SetBytes (getData data start sz)"

text \<open>\<^verbatim>\<open>input[96:]\<close>, empty if there is no such part.\<close>

definition modexp_args :: "bytes \<Rightarrow> bytes" where
  "modexp_args input = (if length input > 96 then drop 96 input else [])"

definition modexp_mult :: "int \<Rightarrow> int" where
  "modexp_mult x =
    (if x \<le> 64 then x * x
     else if x \<le> 1024 then x * x div 4 + (96 * x - 3072)
     else x * x div 16 + (480 * x - 199680))"

definition modexp_expHead :: "bytes \<Rightarrow> int \<Rightarrow> int \<Rightarrow> int option" where
  "modexp_expHead input baseLen expLen =
    (if int (length input) \<le> baseLen then Some 0
     else if expLen > 32 then big_getData input (of_int baseLen) 32
     else big_getData input (of_int baseLen) (of_int expLen))"

definition modexp_adjExpLen :: "int \<Rightarrow> int \<Rightarrow> int" where
  "modexp_adjExpLen expHead expLen =
    (let bitlen = BitLen expHead;
         msb = (if bitlen > 0 then bitlen - 1 else 0)
     in (if expLen > 32 then 8 * (expLen - 32) else 0) + int msb)"

definition bigModExp_RequiredGas :: "bytes \<Rightarrow> u64 option" where
  "bigModExp_RequiredGas input = do {
     baseLen \<leftarrow> big_getData input 0 32;
     expLen \<leftarrow> big_getData input 32 32;
     modLen \<leftarrow> big_getData input 64 32;
     expHead \<leftarrow> modexp_expHead (modexp_args input) baseLen expLen;
     let gas = modexp_mult (BigMax modLen baseLen) * BigMax (modexp_adjExpLen expHead expLen) 1 div uint ModExpQuadCoeffDiv;
     Some (if BitLen gas > 64 then MaxUint64 else of_int gas)
   }"

definition bigModExp_Run :: "bytes \<Rightarrow> bytes pre" where
  "bigModExp_Run input = pre_get (do {
     baseLen \<leftarrow> map_option of_int (big_getData input 0 32);
     expLen \<leftarrow> map_option of_int (big_getData input 32 32);
     modLen \<leftarrow> map_option of_int (big_getData input 64 32);
     let input = modexp_args input;
     if baseLen = 0 \<and> modLen = 0 then Some []
     else do {
       bas \<leftarrow> big_getData input 0 baseLen;
       ex \<leftarrow> big_getData input baseLen expLen;
       md \<leftarrow> big_getData input (baseLen + expLen) modLen;
       Some (if BitLen md = 0 then LeftPadBytes [] (nat (sint modLen))
             else LeftPadBytes (big_Bytes (bas ^ nat ex mod md)) (nat (sint modLen)))
     }
   })"

section \<open>The curve bn256\<close>

definition newCurvePoint :: "('p, 'q, 'r, 't) PreLib \<Rightarrow> bytes \<Rightarrow> 'p pre" where
  "newCurvePoint L blob = pre_try (bn_G1_Unmarshal L blob)"

definition newTwistPoint :: "('p, 'q, 'r, 't) PreLib \<Rightarrow> bytes \<Rightarrow> 'q pre" where
  "newTwistPoint L blob = pre_try (bn_G2_Unmarshal L blob)"

definition runBn256Add :: "('p, 'q, 'r, 't) PreLib \<Rightarrow> bytes \<Rightarrow> bytes pre" where
  "runBn256Add L input =
    pre_bind (pre_get (getData input 0 64)) (\<lambda>b0.
    pre_bind (newCurvePoint L b0) (\<lambda>x.
    pre_bind (pre_get (getData input 64 64)) (\<lambda>b1.
    pre_bind (newCurvePoint L b1) (\<lambda>y.
    pre_ok (bn_G1_Marshal L (bn_G1_Add L x y))))))"

definition bn256AddIstanbul_RequiredGas :: "bytes \<Rightarrow> u64 option" where
  "bn256AddIstanbul_RequiredGas input = Some Bn256AddGasIstanbul"

definition bn256AddByzantium_RequiredGas :: "bytes \<Rightarrow> u64 option" where
  "bn256AddByzantium_RequiredGas input = Some Bn256AddGasByzantium"

definition runBn256ScalarMul :: "('p, 'q, 'r, 't) PreLib \<Rightarrow> bytes \<Rightarrow> bytes pre" where
  "runBn256ScalarMul L input =
    pre_bind (pre_get (getData input 0 64)) (\<lambda>b0.
    pre_bind (newCurvePoint L b0) (\<lambda>p.
    pre_bind (pre_get (getData input 64 32)) (\<lambda>b1.
    pre_ok (bn_G1_Marshal L (bn_G1_ScalarMult L p (big_SetBytes b1))))))"

definition bn256ScalarMulIstanbul_RequiredGas :: "bytes \<Rightarrow> u64 option" where
  "bn256ScalarMulIstanbul_RequiredGas input = Some Bn256ScalarMulGasIstanbul"

definition bn256ScalarMulByzantium_RequiredGas :: "bytes \<Rightarrow> u64 option" where
  "bn256ScalarMulByzantium_RequiredGas input = Some Bn256ScalarMulGasByzantium"

definition true32Byte :: bytes where
  "true32Byte = replicate 31 0 @ [1]"

definition false32Byte :: bytes where
  "false32Byte = replicate 32 0"

text \<open>The loop over the input in steps of \<open>n\<close> bytes, whose body gets the offset.\<close>

definition runBn256Pairing_point :: "('p, 'q, 'r, 't) PreLib \<Rightarrow> bytes \<Rightarrow> nat \<Rightarrow> ('p \<times> 'q) pre" where
  "runBn256Pairing_point L input i =
    pre_bind (pre_get (go_slice input i (i + 64))) (\<lambda>b0.
    pre_bind (newCurvePoint L b0) (\<lambda>c.
    pre_bind (pre_get (go_slice input (i + 64) (i + 192))) (\<lambda>b1.
    pre_bind (newTwistPoint L b1) (\<lambda>t.
    pre_ok (c, t)))))"

definition runBn256Pairing :: "('p, 'q, 'r, 't) PreLib \<Rightarrow> bytes \<Rightarrow> bytes pre" where
  "runBn256Pairing L input =
    (if length input mod 192 > 0 then pre_err errBadPairingInput
     else pre_bind (pre_map (\<lambda>k. runBn256Pairing_point L input (192 * k)) [0..<length input div 192]) (\<lambda>ps.
       pre_ok (if bn_PairingCheck L (map fst ps) (map snd ps) then true32Byte else false32Byte)))"

definition bn256PairingIstanbul_RequiredGas :: "bytes \<Rightarrow> u64 option" where
  "bn256PairingIstanbul_RequiredGas input =
    Some (Bn256PairingBaseGasIstanbul + of_nat (length input div 192) * Bn256PairingPerPointGasIstanbul)"

definition bn256PairingByzantium_RequiredGas :: "bytes \<Rightarrow> u64 option" where
  "bn256PairingByzantium_RequiredGas input =
    Some (Bn256PairingBaseGasByzantium + of_nat (length input div 192) * Bn256PairingPerPointGasByzantium)"

section \<open>BLAKE2b\<close>

definition blake2FInputLength :: nat where "blake2FInputLength = 213"
definition blake2FFinalBlockBytes :: byte where "blake2FFinalBlockBytes = 1"
definition blake2FNonFinalBlockBytes :: byte where "blake2FNonFinalBlockBytes = 0"

definition be_Uint32 :: "bytes \<Rightarrow> u32" where
  "be_Uint32 b = ucast (be_word (take 4 b))"

definition blake2F_RequiredGas :: "bytes \<Rightarrow> u64 option" where
  "blake2F_RequiredGas input =
    (if length input \<noteq> blake2FInputLength then Some 0 else Some (ucast (be_Uint32 (take 4 input))))"

definition blake2F_Run :: "bytes \<Rightarrow> bytes pre" where
  "blake2F_Run input =
    (if length input \<noteq> blake2FInputLength then pre_err errBlake2FInvalidInputLength
     else if input ! 212 \<noteq> blake2FNonFinalBlockBytes \<and> input ! 212 \<noteq> blake2FFinalBlockBytes then pre_err errBlake2FInvalidFinalFlag
     else (let rounds = be_Uint32 (take 4 input); final = (input ! 212 = blake2FFinalBlockBytes)
           in pre_bind (pre_get (le_words 8 (drop 4 input))) (\<lambda>(h, _).
              pre_bind (pre_get (le_words 16 (drop 68 input))) (\<lambda>(m, _).
              pre_bind (pre_get (le_words 2 (drop 196 input))) (\<lambda>(t, _).
              pre_ok (concat (map le_PutUint64 (blake_F h m (t ! 0, t ! 1) final rounds))))))))"

section \<open>The curve BLS12-381\<close>

definition multi_exp_gas :: "nat \<Rightarrow> u64 \<Rightarrow> u64" where
  "multi_exp_gas k mulGas =
    (if k = 0 then 0
     else (let dLen = length Bls12381MultiExpDiscountTable;
               discount = (if k < dLen then Bls12381MultiExpDiscountTable ! (k - 1) else Bls12381MultiExpDiscountTable ! (dLen - 1))
           in of_nat k * mulGas * discount div 1000))"

definition bls12381G1Add_RequiredGas :: "bytes \<Rightarrow> u64 option" where
  "bls12381G1Add_RequiredGas input = Some Bls12381G1AddGas"

definition bls12381G1Add_Run :: "('p, 'q, 'r, 't) PreLib \<Rightarrow> bytes \<Rightarrow> bytes pre" where
  "bls12381G1Add_Run L input =
    (if length input \<noteq> 256 then pre_err errBLS12381InvalidInputLength
     else pre_bind (pre_try (bls_G1_DecodePoint L (take 128 input))) (\<lambda>p0.
          pre_bind (pre_try (bls_G1_DecodePoint L (drop 128 input))) (\<lambda>p1.
          pre_ok (bls_G1_EncodePoint L (bls_G1_Add L p0 p1)))))"

definition bls12381G1Mul_RequiredGas :: "bytes \<Rightarrow> u64 option" where
  "bls12381G1Mul_RequiredGas input = Some Bls12381G1MulGas"

definition bls12381G1Mul_Run :: "('p, 'q, 'r, 't) PreLib \<Rightarrow> bytes \<Rightarrow> bytes pre" where
  "bls12381G1Mul_Run L input =
    (if length input \<noteq> 160 then pre_err errBLS12381InvalidInputLength
     else pre_bind (pre_try (bls_G1_DecodePoint L (take 128 input))) (\<lambda>p0.
          pre_ok (bls_G1_EncodePoint L (bls_G1_MulScalar L p0 (big_SetBytes (drop 128 input))))))"

definition bls12381G1MultiExp_RequiredGas :: "bytes \<Rightarrow> u64 option" where
  "bls12381G1MultiExp_RequiredGas input = Some (multi_exp_gas (length input div 160) Bls12381G1MulGas)"

definition bls12381G1MultiExp_pair :: "('p, 'q, 'r, 't) PreLib \<Rightarrow> bytes \<Rightarrow> nat \<Rightarrow> ('r \<times> int) pre" where
  "bls12381G1MultiExp_pair L input i =
    (let off = 160 * i; t0 = off; t1 = off + 128; t2 = off + 160
     in pre_bind (pre_get (go_slice input t0 t1)) (\<lambda>b0.
        pre_bind (pre_try (bls_G1_DecodePoint L b0)) (\<lambda>p.
        pre_bind (pre_get (go_slice input t1 t2)) (\<lambda>b1.
        pre_ok (p, big_SetBytes b1)))))"

definition bls12381G1MultiExp_Run :: "('p, 'q, 'r, 't) PreLib \<Rightarrow> bytes \<Rightarrow> bytes pre" where
  "bls12381G1MultiExp_Run L input =
    (let k = length input div 160
     in if length input = 0 \<or> length input mod 160 \<noteq> 0 then pre_err errBLS12381InvalidInputLength
        else pre_bind (pre_map (bls12381G1MultiExp_pair L input) [0..<k]) (\<lambda>ps.
             pre_ok (bls_G1_EncodePoint L (bls_G1_MultiExp L (map fst ps) (map snd ps)))))"

definition bls12381G2Add_RequiredGas :: "bytes \<Rightarrow> u64 option" where
  "bls12381G2Add_RequiredGas input = Some Bls12381G2AddGas"

definition bls12381G2Add_Run :: "('p, 'q, 'r, 't) PreLib \<Rightarrow> bytes \<Rightarrow> bytes pre" where
  "bls12381G2Add_Run L input =
    (if length input \<noteq> 512 then pre_err errBLS12381InvalidInputLength
     else pre_bind (pre_try (bls_G2_DecodePoint L (take 256 input))) (\<lambda>p0.
          pre_bind (pre_try (bls_G2_DecodePoint L (drop 256 input))) (\<lambda>p1.
          pre_ok (bls_G2_EncodePoint L (bls_G2_Add L p0 p1)))))"

definition bls12381G2Mul_RequiredGas :: "bytes \<Rightarrow> u64 option" where
  "bls12381G2Mul_RequiredGas input = Some Bls12381G2MulGas"

definition bls12381G2Mul_Run :: "('p, 'q, 'r, 't) PreLib \<Rightarrow> bytes \<Rightarrow> bytes pre" where
  "bls12381G2Mul_Run L input =
    (if length input \<noteq> 288 then pre_err errBLS12381InvalidInputLength
     else pre_bind (pre_try (bls_G2_DecodePoint L (take 256 input))) (\<lambda>p0.
          pre_ok (bls_G2_EncodePoint L (bls_G2_MulScalar L p0 (big_SetBytes (drop 256 input))))))"

definition bls12381G2MultiExp_RequiredGas :: "bytes \<Rightarrow> u64 option" where
  "bls12381G2MultiExp_RequiredGas input = Some (multi_exp_gas (length input div 288) Bls12381G2MulGas)"

definition bls12381G2MultiExp_pair :: "('p, 'q, 'r, 't) PreLib \<Rightarrow> bytes \<Rightarrow> nat \<Rightarrow> ('t \<times> int) pre" where
  "bls12381G2MultiExp_pair L input i =
    (let off = 288 * i; t0 = off; t1 = off + 256; t2 = off + 288
     in pre_bind (pre_get (go_slice input t0 t1)) (\<lambda>b0.
        pre_bind (pre_try (bls_G2_DecodePoint L b0)) (\<lambda>p.
        pre_bind (pre_get (go_slice input t1 t2)) (\<lambda>b1.
        pre_ok (p, big_SetBytes b1)))))"

definition bls12381G2MultiExp_Run :: "('p, 'q, 'r, 't) PreLib \<Rightarrow> bytes \<Rightarrow> bytes pre" where
  "bls12381G2MultiExp_Run L input =
    (let k = length input div 288
     in if length input = 0 \<or> length input mod 288 \<noteq> 0 then pre_err errBLS12381InvalidInputLength
        else pre_bind (pre_map (bls12381G2MultiExp_pair L input) [0..<k]) (\<lambda>ps.
             pre_ok (bls_G2_EncodePoint L (bls_G2_MultiExp L (map fst ps) (map snd ps)))))"

definition bls12381Pairing_RequiredGas :: "bytes \<Rightarrow> u64 option" where
  "bls12381Pairing_RequiredGas input =
    Some (Bls12381PairingBaseGas + of_nat (length input div 384) * Bls12381PairingPerPairGas)"

definition bls12381Pairing_pair :: "('p, 'q, 'r, 't) PreLib \<Rightarrow> bytes \<Rightarrow> nat \<Rightarrow> ('r \<times> 't) pre" where
  "bls12381Pairing_pair L input i =
    (let off = 384 * i; t0 = off; t1 = off + 128; t2 = off + 384
     in pre_bind (pre_get (go_slice input t0 t1)) (\<lambda>b0.
        pre_bind (pre_try (bls_G1_DecodePoint L b0)) (\<lambda>p1.
        pre_bind (pre_get (go_slice input t1 t2)) (\<lambda>b1.
        pre_bind (pre_try (bls_G2_DecodePoint L b1)) (\<lambda>p2.
        if \<not> bls_G1_InCorrectSubgroup L p1 then pre_err errBLS12381G1PointSubgroup
        else if \<not> bls_G2_InCorrectSubgroup L p2 then pre_err errBLS12381G2PointSubgroup
        else pre_ok (p1, p2))))))"

definition bls12381Pairing_Run :: "('p, 'q, 'r, 't) PreLib \<Rightarrow> bytes \<Rightarrow> bytes pre" where
  "bls12381Pairing_Run L input =
    (let k = length input div 384
     in if length input = 0 \<or> length input mod 384 \<noteq> 0 then pre_err errBLS12381InvalidInputLength
        else pre_bind (pre_map (bls12381Pairing_pair L input) [0..<k]) (\<lambda>ps.
             let out = replicate 32 0 in pre_ok (if bls_Check L ps then out[31 := 1] else out)))"

definition decodeBLS12381FieldElement :: "bytes \<Rightarrow> bytes pre" where
  "decodeBLS12381FieldElement inp =
    (if length inp \<noteq> 64 then pre_err errBLS12381InvalidFieldElementLength
     else if \<not> list_all (\<lambda>i. inp ! i = 0) [0..<16] then pre_err errBLS12381InvalidFieldElementTopBytes
     else pre_ok (go_copy (replicate 48 0) (drop 16 inp)))"

definition bls12381MapG1_RequiredGas :: "bytes \<Rightarrow> u64 option" where
  "bls12381MapG1_RequiredGas input = Some Bls12381MapG1Gas"

definition bls12381MapG1_Run :: "('p, 'q, 'r, 't) PreLib \<Rightarrow> bytes \<Rightarrow> bytes pre" where
  "bls12381MapG1_Run L input =
    (if length input \<noteq> 64 then pre_err errBLS12381InvalidInputLength
     else pre_bind (decodeBLS12381FieldElement input) (\<lambda>fe.
          pre_bind (pre_try (bls_G1_MapToCurve L fe)) (\<lambda>r.
          pre_ok (bls_G1_EncodePoint L r))))"

definition bls12381MapG2_RequiredGas :: "bytes \<Rightarrow> u64 option" where
  "bls12381MapG2_RequiredGas input = Some Bls12381MapG2Gas"

definition bls12381MapG2_Run :: "('p, 'q, 'r, 't) PreLib \<Rightarrow> bytes \<Rightarrow> bytes pre" where
  "bls12381MapG2_Run L input =
    (if length input \<noteq> 128 then pre_err errBLS12381InvalidInputLength
     else (let fe = replicate 96 0
           in pre_bind (decodeBLS12381FieldElement (take 64 input)) (\<lambda>c0.
              let fe = take 48 fe @ go_copy (drop 48 fe) c0
              in pre_bind (decodeBLS12381FieldElement (drop 64 input)) (\<lambda>c1.
                 let fe = go_copy (take 48 fe) c1 @ drop 48 fe
                 in pre_bind (pre_try (bls_G2_MapToCurve L fe)) (\<lambda>r.
                    pre_ok (bls_G2_EncodePoint L r))))))"

section \<open>The table of precompiled contracts\<close>

definition contract_of :: "(bytes \<Rightarrow> u64 option) \<Rightarrow> (bytes \<Rightarrow> bytes pre) \<Rightarrow> PrecompiledContract" where
  "contract_of gas f = \<lparr>RequiredGas = gas, pre_Run = (\<lambda>input. pre_return (f input))\<rparr>"

definition precompile_table :: "('p, 'q, 'r, 't) PreLib \<Rightarrow> PrecompiledContract list" where
  "precompile_table L =
    [contract_of ecrecover_RequiredGas (ecrecover_Run L),
     contract_of sha256hash_RequiredGas (sha256hash_Run L),
     contract_of ripemd160hash_RequiredGas (ripemd160hash_Run L),
     contract_of dataCopy_RequiredGas dataCopy_Run,
     contract_of bigModExp_RequiredGas bigModExp_Run,
     contract_of bn256AddIstanbul_RequiredGas (runBn256Add L),
     contract_of bn256ScalarMulIstanbul_RequiredGas (runBn256ScalarMul L),
     contract_of bn256PairingIstanbul_RequiredGas (runBn256Pairing L),
     contract_of blake2F_RequiredGas blake2F_Run,
     contract_of bls12381G1Add_RequiredGas (bls12381G1Add_Run L),
     contract_of bls12381G1Mul_RequiredGas (bls12381G1Mul_Run L),
     contract_of bls12381G1MultiExp_RequiredGas (bls12381G1MultiExp_Run L),
     contract_of bls12381G2Add_RequiredGas (bls12381G2Add_Run L),
     contract_of bls12381G2Mul_RequiredGas (bls12381G2Mul_Run L),
     contract_of bls12381G2MultiExp_RequiredGas (bls12381G2MultiExp_Run L),
     contract_of bls12381Pairing_RequiredGas (bls12381Pairing_Run L),
     contract_of bls12381MapG1_RequiredGas (bls12381MapG1_Run L),
     contract_of bls12381MapG2_RequiredGas (bls12381MapG2_Run L)]"

definition PrecompiledAddresses :: "address list" where
  "PrecompiledAddresses = map (\<lambda>i. BytesToAddress (replicate 19 0 @ [of_nat i])) [1..<19]"

definition PrecompiledContracts :: "('p, 'q, 'r, 't) PreLib \<Rightarrow> address \<Rightarrow> PrecompiledContract option" where
  "PrecompiledContracts L = map_of (zip PrecompiledAddresses (precompile_table L))"

end
