(* ===== verification/Vm_Precompiles_Safe.thy ===== *)
theory Vm_Precompiles_Safe
  imports Vm_Precompiles Blake2b_Correct
begin

text \<open>
  The precompiled contracts return. A computation that reads its input through
  \<^verbatim>\<open>getData\<close> sees the input extended by zeros; the only contract whose lengths come from
  the input, \<^verbatim>\<open>bigModExp\<close>, charges so much for large ones that a call that can be paid
  for never panics, and computes the power modulo the modulus.
\<close>

section \<open>Computations that return\<close>

text \<open>What the contracts rely on: a recovered public key has its prefix byte and a hash has
  at least twelve bytes.\<close>

definition lib_ok :: "('p, 'q, 'r, 't) PreLib \<Rightarrow> bool" where
  "lib_ok L = ((\<forall>h sig pub. l_Ecrecover L h sig = Some pub \<longrightarrow> pub \<noteq> []) \<and> (\<forall>b. 12 \<le> length (l_Keccak256 L b)))"

definition returns :: "'a option \<Rightarrow> bool" where
  "returns r = (r \<noteq> None)"

named_theorems returns_intro \<open>computations that do not panic\<close>

lemma returns_basic [returns_intro]:
  "returns (Some x)" "returns (pre_ok y)" "returns (pre_err e)" "returns (pre_try r)"
  by (auto simp: returns_def pre_ok_def pre_err_def pre_try_def split: option.splits)

lemma returns_get [returns_intro]: "returns r \<Longrightarrow> returns (pre_get r)"
  by (auto simp: returns_def pre_ok_def pre_get_def split: option.splits)

lemma returns_bind [returns_intro]: "returns r \<Longrightarrow> (\<And>x. returns (f x)) \<Longrightarrow> returns (pre_bind r f)"
  by (auto simp: returns_def pre_bind_def split: option.splits sum.splits)

lemma returns_map: "(\<And>x. x \<in> set xs \<Longrightarrow> returns (f x)) \<Longrightarrow> returns (pre_map f xs)"
  by (induction xs) (auto intro: returns_intro)

lemma returns_return [returns_intro]: "returns r \<Longrightarrow> returns (pre_return r)"
  by (auto simp: returns_def pre_return_def split: option.splits sum.splits)

lemma returns_slice [returns_intro]: "i \<le> j \<Longrightarrow> j \<le> length b \<Longrightarrow> returns (go_slice b i j)"
  by (simp add: returns_def)

lemma returns_getData [returns_intro]: "length d < 2 ^ 62 \<Longrightarrow> unat sz < 2 ^ 63 \<Longrightarrow> returns (getData d start sz)"
  by (simp add: returns_def getData_exact)

lemma returns_words [returns_intro]: "8 * n \<le> length b \<Longrightarrow> returns (le_words n b)"
  by (simp add: returns_def le_words_exact)

lemma chunk_end: "length input mod n = 0 \<Longrightarrow> k < length input div n \<Longrightarrow> n * k + n \<le> length input"
proof -
  assume "length input mod n = 0" "k < length input div n"
  then have "n * (k + 1) \<le> n * (length input div n)" by (intro mult_le_mono) simp_all
  also have "\<dots> \<le> length input" by simp
  finally show ?thesis by simp
qed

section \<open>All contracts but one\<close>

lemma ecrecover_returns: "lib_ok L \<Longrightarrow> returns (ecrecover_Run L input)"
  by (auto simp: ecrecover_Run_def Let_def lib_ok_def Suc_le_eq intro!: returns_intro split: option.splits)

lemma bn256_returns:
  assumes "length input < 2 ^ 62"
  shows "returns (runBn256Add L input)" "returns (runBn256ScalarMul L input)" "returns (runBn256Pairing L input)"
proof -
  show "returns (runBn256Add L input)" "returns (runBn256ScalarMul L input)"
    using assms by (auto simp: runBn256Add_def runBn256ScalarMul_def newCurvePoint_def intro!: returns_intro)
  have "returns (runBn256Pairing_point L input (192 * k))" if "length input mod 192 = 0" "k < length input div 192" for k
    using chunk_end[OF that] by (auto simp: runBn256Pairing_point_def newCurvePoint_def newTwistPoint_def intro!: returns_intro)
  then show "returns (runBn256Pairing L input)"
    by (auto simp: runBn256Pairing_def intro!: returns_intro returns_map)
qed

lemma blake2F_returns: "returns (blake2F_Run input)"
  by (auto simp: blake2F_Run_def blake2FInputLength_def Let_def intro!: returns_intro split: prod.splits)

lemma bls_pairs_return:
  "length input mod 160 = 0 \<Longrightarrow> k < length input div 160 \<Longrightarrow> returns (bls12381G1MultiExp_pair L input k)"
  "length input mod 288 = 0 \<Longrightarrow> k < length input div 288 \<Longrightarrow> returns (bls12381G2MultiExp_pair L input k)"
  "length input mod 384 = 0 \<Longrightarrow> k < length input div 384 \<Longrightarrow> returns (bls12381Pairing_pair L input k)"
  by (auto simp: bls12381G1MultiExp_pair_def bls12381G2MultiExp_pair_def bls12381Pairing_pair_def Let_def
      intro!: returns_intro dest!: chunk_end)

lemma decode_returns [returns_intro]: "returns (decodeBLS12381FieldElement b)"
  by (auto simp: decodeBLS12381FieldElement_def intro: returns_intro)

lemma bls_returns:
  "returns (bls12381G1Add_Run L input)" "returns (bls12381G1Mul_Run L input)" "returns (bls12381G1MultiExp_Run L input)"
  "returns (bls12381G2Add_Run L input)" "returns (bls12381G2Mul_Run L input)" "returns (bls12381G2MultiExp_Run L input)"
  "returns (bls12381Pairing_Run L input)" "returns (bls12381MapG1_Run L input)" "returns (bls12381MapG2_Run L input)"
  by (auto simp: bls12381G1Add_Run_def bls12381G1Mul_Run_def bls12381G1MultiExp_Run_def bls12381G2Add_Run_def
      bls12381G2Mul_Run_def bls12381G2MultiExp_Run_def bls12381Pairing_Run_def bls12381MapG1_Run_def bls12381MapG2_Run_def Let_def
      intro!: returns_intro returns_map bls_pairs_return)

section \<open>Modular exponentiation\<close>

lemma bit_length_le: "bit_length n \<le> k \<longleftrightarrow> n < 2 ^ k"
proof (induction n arbitrary: k rule: bit_length.induct)
  case (1 n)
  show ?case
  proof (cases "n = 0 \<or> k = 0")
    case True
    then show ?thesis by (subst bit_length.simps) auto
  next
    case False
    then obtain j where k: "k = Suc j" by (cases k) auto
    have "bit_length n \<le> k \<longleftrightarrow> bit_length (n div 2) \<le> j" using False by (subst bit_length.simps) (simp add: k)
    also have "\<dots> \<longleftrightarrow> n div 2 < 2 ^ j" using 1 False by simp
    also have "\<dots> \<longleftrightarrow> n < 2 ^ k" by (simp add: k div_less_iff_less_mult mult.commute)
    finally show ?thesis .
  qed
qed

lemma big_getData_exact:
  "length d < 2 ^ 62 \<Longrightarrow> unat sz < 2 ^ 63 \<Longrightarrow> big_getData d start sz = Some (int (be_nat (window d (unat start) (unat sz))))"
  by (simp add: big_getData_def getData_exact big_SetBytes_def)

lemma modexp_args_length: "length (modexp_args input) \<le> length input"
  by (simp add: modexp_args_def)

lemma window_args: "window (modexp_args input) s n = window input (96 + s) n"
  by (rule nth_equalityI) (auto simp: window_def modexp_args_def add.assoc)

text \<open>The three lengths at the start of the input.\<close>

definition modexp_baseLen :: "bytes \<Rightarrow> nat" where
  "modexp_baseLen input = be_nat (window input 0 32)"

definition modexp_expLen :: "bytes \<Rightarrow> nat" where
  "modexp_expLen input = be_nat (window input 32 32)"

definition modexp_modLen :: "bytes \<Rightarrow> nat" where
  "modexp_modLen input = be_nat (window input 64 32)"

lemma big_getData_lengths:
  assumes "length input < 2 ^ 62"
  shows "big_getData input 0 32 = Some (int (modexp_baseLen input))" "big_getData input 32 32 = Some (int (modexp_expLen input))"
    "big_getData input 64 32 = Some (int (modexp_modLen input))"
  using assms by (simp_all add: big_getData_exact modexp_baseLen_def modexp_expLen_def modexp_modLen_def)

lemma unat_of_int_small: "k < 2 ^ 64 \<Longrightarrow> unat (of_int (int k) :: u64) = k"
  by (simp add: unat_of_nat_small)

lemma modexp_expHead_returns:
  assumes "length input < 2 ^ 62"
  obtains hd where "modexp_expHead input (int b) (int e) = Some hd"
proof -
  have "\<exists>hd. big_getData input (of_int (int b)) (of_int (int e)) = Some hd" if "\<not> 32 < e"
    using that assms by (subst big_getData_exact) (auto simp: unat_of_int_small simp del: of_int_of_nat_eq)
  moreover have "\<exists>hd. big_getData input (of_int (int b)) 32 = Some hd"
    using assms by (subst big_getData_exact) auto
  ultimately have "\<exists>hd. modexp_expHead input (int b) (int e) = Some hd" by (auto simp: modexp_expHead_def)
  then show thesis using that by blast
qed

lemma modexp_mult_ge: "0 \<le> x \<Longrightarrow> x \<le> modexp_mult x"
proof -
  assume x: "0 \<le> x"
  then have "x \<le> x * x" using mult_left_mono[of 1 x x] by (cases "x = 0") simp_all
  moreover have "0 \<le> x * x div 4" "0 \<le> x * x div 16" by (simp_all add: pos_imp_zdiv_nonneg_iff)
  ultimately show ?thesis by (simp add: modexp_mult_def)
qed

lemma bigModExp_gas:
  assumes "length input < 2 ^ 62"
  obtains g where "bigModExp_RequiredGas input = Some g"
    "unat g < 2 ^ 58 \<Longrightarrow> modexp_baseLen input < 2 ^ 63 \<and> modexp_modLen input < 2 ^ 63
       \<and> (modexp_baseLen input = 0 \<and> modexp_modLen input = 0 \<or> modexp_expLen input < 2 ^ 61)"
proof -
  define b e m where "b = modexp_baseLen input" "e = modexp_expLen input" "m = modexp_modLen input"
  note bem = this
  have "length (modexp_args input) < 2 ^ 62" using assms modexp_args_length[of input] by linarith
  from modexp_expHead_returns[OF this, of b e] obtain hd where hd: "modexp_expHead (modexp_args input) (int b) (int e) = Some hd" .
  define X where "X = BigMax (int m) (int b)"
  define A where "A = BigMax (modexp_adjExpLen hd (int e)) 1"
  define gas where "gas = modexp_mult X * A div 20"
  define g :: u64 where "g = (if BitLen gas > 64 then MaxUint64 else of_int gas)"
  have r: "bigModExp_RequiredGas input = Some g"
    using big_getData_lengths[OF assms] hd
    by (simp add: bigModExp_RequiredGas_def Let_def g_def gas_def A_def X_def bem ModExpQuadCoeffDiv_def)
  have X: "0 \<le> X" "int b \<le> X" "int m \<le> X" by (auto simp: X_def BigMax_def)
  have A: "1 \<le> A" "8 * (int e - 32) \<le> A" by (auto simp: A_def BigMax_def modexp_adjExpLen_def Let_def)
  have mx: "X \<le> modexp_mult X" using X(1) by (rule modexp_mult_ge)
  have "0 \<le> modexp_mult X * A" using mx X(1) A(1) by (intro mult_nonneg_nonneg) linarith+
  then have gas0: "0 \<le> gas" by (simp add: gas_def pos_imp_zdiv_nonneg_iff)
  show thesis
  proof (rule that[OF r])
    assume small: "unat g < 2 ^ 58"
    have "BitLen gas \<le> 64" using small by (rule_tac ccontr) (simp add: g_def MaxUint64_def unsigned_minus_1_eq_mask mask_eq_exp_minus_1)
    then have "nat gas < 2 ^ 64" using gas0 by (simp add: BitLen_def bit_length_le)
    then have "unat (of_int gas :: u64) = nat gas" using gas0 unat_of_int_small[of "nat gas"] by simp
    with small \<open>BitLen gas \<le> 64\<close> have "gas < 2 ^ 58" by (simp add: g_def)
    then have bound: "modexp_mult X * A < 5764607523034234880" unfolding gas_def by simp
    have "X * 1 \<le> modexp_mult X * A" using mx X A by (intro mult_mono) auto
    with bound X have "b < 9223372036854775808" "m < 9223372036854775808" by linarith+
    moreover have "e < 2305843009213693952" if "\<not> (b = 0 \<and> m = 0)"
    proof -
      have "1 \<le> X" using that X by linarith
      then have "1 * A \<le> modexp_mult X * A" using mx A by (intro mult_right_mono) auto
      with bound have "A < 5764607523034234880" by simp
      with A(2) have "int e < 2305843009213693952" by simp
      then show ?thesis by simp
    qed
    ultimately have "b < 2 ^ 63 \<and> m < 2 ^ 63 \<and> (b = 0 \<and> m = 0 \<or> e < 2 ^ 61)" by (cases "b = 0 \<and> m = 0") simp_all
    then show "modexp_baseLen input < 2 ^ 63 \<and> modexp_modLen input < 2 ^ 63
       \<and> (modexp_baseLen input = 0 \<and> modexp_modLen input = 0 \<or> modexp_expLen input < 2 ^ 61)"
      unfolding bem .
  qed
qed

text \<open>The operands follow the three lengths.\<close>

definition modexp_base :: "bytes \<Rightarrow> nat" where
  "modexp_base input = be_nat (window input 96 (modexp_baseLen input))"

definition modexp_exp :: "bytes \<Rightarrow> nat" where
  "modexp_exp input = be_nat (window input (96 + modexp_baseLen input) (modexp_expLen input))"

definition modexp_mod :: "bytes \<Rightarrow> nat" where
  "modexp_mod input = be_nat (window input (96 + (modexp_baseLen input + modexp_expLen input)) (modexp_modLen input))"

definition modexp_value :: "bytes \<Rightarrow> nat" where
  "modexp_value input =
    (if modexp_mod input = 0 then 0 else modexp_base input ^ modexp_exp input mod modexp_mod input)"

lemma modexp_value_bound: "modexp_value input < 256 ^ modexp_modLen input"
proof -
  have "modexp_mod input < 256 ^ modexp_modLen input"
    unfolding modexp_mod_def
    using be_nat_bound[of "window input (96 + (modexp_baseLen input + modexp_expLen input)) (modexp_modLen input)"] by simp
  moreover have "modexp_base input ^ modexp_exp input mod modexp_mod input < modexp_mod input" if "modexp_mod input \<noteq> 0"
    using that by simp
  ultimately show ?thesis unfolding modexp_value_def using less_trans by fastforce
qed

lemma BitLen_zero [simp]: "BitLen 0 = 0"
  by (simp add: BitLen_def bit_length.simps[of 0])

lemma BitLen_0 [simp]: "BitLen x = 0 \<longleftrightarrow> x = 0"
  using bit_length_le[of "nat \<bar>x\<bar>" 0] by (auto simp: BitLen_def)

lemma bigModExp_Run_eq:
  assumes "length input < 2 ^ 62" "modexp_baseLen input < 2 ^ 63" "modexp_modLen input < 2 ^ 63"
    "modexp_baseLen input = 0 \<and> modexp_modLen input = 0 \<or> modexp_expLen input < 2 ^ 61"
  shows "bigModExp_Run input = pre_ok (LeftPadBytes (nat_be (modexp_value input)) (modexp_modLen input))"
proof (cases "modexp_baseLen input = 0 \<and> modexp_modLen input = 0")
  case True
  then have "modexp_mod input = 0" by (simp add: modexp_base_def modexp_exp_def modexp_mod_def window_def)
  with True show ?thesis using big_getData_lengths[OF assms(1)]
    by (simp add: bigModExp_Run_def pre_get_def LeftPadBytes_def modexp_value_def)
next
  case False
  define B E M :: u64 where "B = of_int (int (modexp_baseLen input))" "E = of_int (int (modexp_expLen input))"
    "M = of_int (int (modexp_modLen input))"
  note BEM = this
  have u: "unat B = modexp_baseLen input" "unat E = modexp_expLen input" "unat M = modexp_modLen input"
    unfolding BEM using assms False by (simp_all only: unat_of_int_small) (auto simp: unat_of_int_small simp del: of_int_of_nat_eq)
  have s: "unat (B + E) = modexp_baseLen input + modexp_expLen input"
    using u assms False by (subst unat_add_lem[THEN iffD1]) auto
  have len: "length (modexp_args input) < 2 ^ 62" using assms(1) modexp_args_length[of input] by linarith
  have args: "big_getData (modexp_args input) 0 B = Some (int (modexp_base input))"
    "big_getData (modexp_args input) B E = Some (int (modexp_exp input))"
    "big_getData (modexp_args input) (B + E) M = Some (int (modexp_mod input))"
    using assms False u s len by (auto simp: big_getData_exact window_args modexp_base_def modexp_exp_def modexp_mod_def)
  have M: "nat (sint M) = modexp_modLen input" using u assms(3) by (simp add: sint_small)
  have "(B = 0 \<and> M = 0) = False" using False u by auto
  then have "bigModExp_Run input = pre_ok (if int (modexp_mod input) = 0 then LeftPadBytes [] (modexp_modLen input)
      else LeftPadBytes (big_Bytes (int (modexp_base input) ^ modexp_exp input mod int (modexp_mod input))) (modexp_modLen input))"
    using big_getData_lengths[OF assms(1)] args M
    by (auto simp: bigModExp_Run_def pre_get_def BEM[symmetric] Let_def simp del: of_int_of_nat_eq)
  also have "\<dots> = pre_ok (LeftPadBytes (nat_be (modexp_value input)) (modexp_modLen input))"
    by (simp add: modexp_value_def big_Bytes_def nat_mod_distrib flip: of_nat_power of_nat_mod)
  finally show ?thesis .
qed


section \<open>The table\<close>

lemma gas_returns [returns_intro]:
  "returns (ecrecover_RequiredGas i)" "returns (sha256hash_RequiredGas i)" "returns (ripemd160hash_RequiredGas i)"
  "returns (dataCopy_RequiredGas i)" "returns (bn256AddIstanbul_RequiredGas i)" "returns (bn256ScalarMulIstanbul_RequiredGas i)"
  "returns (bn256PairingIstanbul_RequiredGas i)" "returns (blake2F_RequiredGas i)"
  "returns (bls12381G1Add_RequiredGas i)" "returns (bls12381G1Mul_RequiredGas i)" "returns (bls12381G1MultiExp_RequiredGas i)"
  "returns (bls12381G2Add_RequiredGas i)" "returns (bls12381G2Mul_RequiredGas i)" "returns (bls12381G2MultiExp_RequiredGas i)"
  "returns (bls12381Pairing_RequiredGas i)" "returns (bls12381MapG1_RequiredGas i)" "returns (bls12381MapG2_RequiredGas i)"
  by (simp_all add: returns_def ecrecover_RequiredGas_def sha256hash_RequiredGas_def ripemd160hash_RequiredGas_def
      dataCopy_RequiredGas_def bn256AddIstanbul_RequiredGas_def bn256ScalarMulIstanbul_RequiredGas_def
      bn256PairingIstanbul_RequiredGas_def blake2F_RequiredGas_def bls12381G1Add_RequiredGas_def bls12381G1Mul_RequiredGas_def
      bls12381G1MultiExp_RequiredGas_def bls12381G2Add_RequiredGas_def bls12381G2Mul_RequiredGas_def
      bls12381G2MultiExp_RequiredGas_def bls12381Pairing_RequiredGas_def bls12381MapG1_RequiredGas_def bls12381MapG2_RequiredGas_def)

lemma contract_of_returns:
  assumes "returns (g input)" "\<And>c. g input = Some c \<Longrightarrow> unat c < 2 ^ 58 \<Longrightarrow> returns (f input)" "unat gas < 2 ^ 58"
  shows "returns (RunPrecompiledContract (contract_of g f) input gas)"
proof -
  obtain c where c: "g input = Some c" using assms(1) by (auto simp: returns_def)
  have "returns (pre_return (f input))" if "\<not> gas < c"
    using that assms(2)[OF c] assms(3) by (intro returns_return) (simp add: word_less_nat_alt)
  with c show ?thesis by (auto simp: RunPrecompiledContract_def contract_of_def returns_def)
qed

lemma hash_returns:
  "returns (sha256hash_Run L input)" "returns (ripemd160hash_Run L input)" "returns (dataCopy_Run input)"
  by (simp_all add: sha256hash_Run_def ripemd160hash_Run_def dataCopy_Run_def returns_intro)

lemma bigModExp_returns:
  assumes "length input < 2 ^ 62"
  shows "returns (bigModExp_RequiredGas input)"
    and "bigModExp_RequiredGas input = Some c \<Longrightarrow> unat c < 2 ^ 58 \<Longrightarrow> returns (bigModExp_Run input)"
proof -
  obtain g where g: "bigModExp_RequiredGas input = Some g"
    "unat g < 2 ^ 58 \<Longrightarrow> modexp_baseLen input < 2 ^ 63 \<and> modexp_modLen input < 2 ^ 63
       \<and> (modexp_baseLen input = 0 \<and> modexp_modLen input = 0 \<or> modexp_expLen input < 2 ^ 61)"
    using bigModExp_gas[OF assms] by blast
  then show "returns (bigModExp_RequiredGas input)" by (simp add: returns_intro)
  show "returns (bigModExp_Run input)" if "bigModExp_RequiredGas input = Some c" "unat c < 2 ^ 58"
    using g that bigModExp_Run_eq[OF assms] by (simp add: returns_intro)
qed

lemma precompile_in_table: "PrecompiledContracts L a = Some p \<Longrightarrow> p \<in> set (precompile_table L)"
  unfolding PrecompiledContracts_def by (meson map_of_SomeD set_zip_rightD)

lemma precompiles_run:
  assumes "lib_ok L" "PrecompiledContracts L a = Some p" "length input < 2 ^ 62" "unat gas < 2 ^ 58"
  shows "returns (RunPrecompiledContract p input gas)"
  using precompile_in_table[OF assms(2)] unfolding precompile_table_def set_simps insert_iff empty_iff
  by (elim disjE FalseE; hypsubst; intro contract_of_returns returns_intro ecrecover_returns[OF assms(1)] hash_returns
      bigModExp_returns[OF assms(3)] bn256_returns[OF assms(3)] blake2F_returns bls_returns assms(4))




definition huge_exponent :: bytes where
  "huge_exponent = replicate 31 0 @ [1] @ replicate 24 0 @ [0xff, 0xff, 0xff, 0xff, 0xff, 0xff, 0xff, 0xff] @ replicate 32 0 @ [1]"

lemma huge_exponent_parts:
  "length huge_exponent = 97" "drop 96 huge_exponent = [1]"
  "take 32 huge_exponent = replicate 31 0 @ [1]" "take 32 (drop 32 huge_exponent) = replicate 24 0 @ [0xff, 0xff, 0xff, 0xff, 0xff, 0xff, 0xff, 0xff]"
  "take 32 (drop 64 huge_exponent) = replicate 32 0"
  by (simp_all add: huge_exponent_def)

lemma huge_exponent_lengths:
  "modexp_args huge_exponent = [1]"
  "modexp_baseLen huge_exponent = 1" "modexp_expLen huge_exponent = 18446744073709551615" "modexp_modLen huge_exponent = 0"
  by (simp_all add: huge_exponent_parts modexp_args_def modexp_baseLen_def modexp_expLen_def modexp_modLen_def window_take_pad
      RightPadBytes_def) (simp_all add: be_nat_def)


end
