(* ===== verification/Vm_Gas.thy ===== *)
theory Vm_Gas
  imports Vm_State
begin

text \<open>
  Dynamic gas (\<^verbatim>\<open>src/vm/gas_table.go\<close>, \<^verbatim>\<open>operations_acl.go\<close>, \<^verbatim>\<open>param.go\<close>).
  All costs are 64-bit words with wrap-around, as in the code.
\<close>

section \<open>Prices\<close>

definition MemoryGas :: u64 where "MemoryGas = 3"
definition QuadCoeffDiv :: u64 where "QuadCoeffDiv = 512"
definition CopyGas :: u64 where "CopyGas = 3"
definition LogGas :: u64 where "LogGas = 375"
definition LogTopicGas :: u64 where "LogTopicGas = 375"
definition LogDataGas :: u64 where "LogDataGas = 8"
definition Sha3Gas :: u64 where "Sha3Gas = 30"
definition Sha3WordGas :: u64 where "Sha3WordGas = 6"
definition SstoreSetGas :: u64 where "SstoreSetGas = 20000"
definition SstoreSetGasEIP2200 :: u64 where "SstoreSetGasEIP2200 = 20000"
definition SstoreResetGasEIP2200 :: u64 where "SstoreResetGasEIP2200 = 5000"
definition SstoreSentryGasEIP2200 :: u64 where "SstoreSentryGasEIP2200 = 2300"
definition SstoreClearsScheduleRefundEIP2200 :: u64 where "SstoreClearsScheduleRefundEIP2200 = 15000"
definition ExpGas :: u64 where "ExpGas = 10"
definition ExpByteFrontier :: u64 where "ExpByteFrontier = 10"
definition ExpByteEIP158 :: u64 where "ExpByteEIP158 = 50"
definition CallValueTransferGas :: u64 where "CallValueTransferGas = 9000"
definition CallNewAccountGas :: u64 where "CallNewAccountGas = 25000"
definition CallStipend :: u64 where "CallStipend = 2300"
definition SelfdestructGasEIP150 :: u64 where "SelfdestructGasEIP150 = 5000"
definition CreateBySelfdestructGas :: u64 where "CreateBySelfdestructGas = 25000"
definition SelfdestructRefundGas :: u64 where "SelfdestructRefundGas = 24000"
definition AuthCallValueTransferGas :: u64 where "AuthCallValueTransferGas = 6700"
definition ColdAccountAccessCostEIP2929 :: u64 where "ColdAccountAccessCostEIP2929 = 2600"
definition ColdSloadCostEIP2929 :: u64 where "ColdSloadCostEIP2929 = 2100"
definition WarmStorageReadCostEIP2929 :: u64 where "WarmStorageReadCostEIP2929 = 100"
definition GasMagnification :: u64 where "GasMagnification = 30"

lemmas gas_prices =
  MemoryGas_def QuadCoeffDiv_def CopyGas_def LogGas_def LogTopicGas_def LogDataGas_def Sha3Gas_def Sha3WordGas_def
  SstoreSetGas_def SstoreSetGasEIP2200_def SstoreResetGasEIP2200_def SstoreSentryGasEIP2200_def
  SstoreClearsScheduleRefundEIP2200_def ExpGas_def ExpByteFrontier_def ExpByteEIP158_def CallValueTransferGas_def
  CallNewAccountGas_def CallStipend_def SelfdestructGasEIP150_def CreateBySelfdestructGas_def
  SelfdestructRefundGas_def AuthCallValueTransferGas_def ColdAccountAccessCostEIP2929_def ColdSloadCostEIP2929_def
  WarmStorageReadCostEIP2929_def GasMagnification_def GasQuickStep_def GasFastestStep_def GasFastStep_def
  GasMidStep_def GasSlowStep_def GasExtStep_def

section \<open>Memory\<close>

text \<open>The fee for growing the memory; it is charged once per word and remembered.\<close>

definition memoryGasCost :: "bool \<Rightarrow> Memory \<Rightarrow> u64 \<Rightarrow> vm_error + (u64 \<times> Memory)" where
  "memoryGasCost prop026 mem newMemSize =
    (if newMemSize = 0 then Inr (0, mem)
     else if newMemSize > 0x1FFFFFFFE0 then Inl ErrGasUintOverflow
     else
       (let newMemSizeWords = toWordSize newMemSize;
            newMemSize = newMemSizeWords * 32
        in if newMemSize > of_nat (length (store mem)) then
             (let square = newMemSizeWords * newMemSizeWords;
                  linCoef = newMemSizeWords * MemoryGas;
                  quadCoef = square div QuadCoeffDiv;
                  newTotalFee = linCoef + quadCoef;
                  fee = newTotalFee - lastGasCost mem
              in Inr (if prop026 then fee * GasMagnification else fee, mem\<lparr>lastGasCost := newTotalFee\<rparr>))
           else Inr (0, mem)))"

text \<open>Gas results are threaded with the machine: an error ends the function.\<close>

definition gas_memory :: "'s VmEnv \<Rightarrow> u64 \<Rightarrow> 's Machine \<Rightarrow> (u64 \<Rightarrow> 's Machine \<Rightarrow> ((vm_error + u64) \<times> 's Machine) option) \<Rightarrow>
    ((vm_error + u64) \<times> 's Machine) option" where
  "gas_memory E memorySize m k =
    (case memoryGasCost (p026 E) (memory m) memorySize of
       Inl e \<Rightarrow> Some (Inl e, m)
     | Inr (gas, mem) \<Rightarrow> k gas (m\<lparr>memory := mem\<rparr>))"

definition gas_checked :: "u64 \<times> bool \<Rightarrow> 's Machine \<Rightarrow> (u64 \<Rightarrow> ((vm_error + u64) \<times> 's Machine) option) \<Rightarrow>
    ((vm_error + u64) \<times> 's Machine) option" where
  "gas_checked r m k = (if snd r then Some (Inl ErrGasUintOverflow, m) else k (fst r))"

definition magnified :: "'s VmEnv \<Rightarrow> u64 \<Rightarrow> u64" where
  "magnified E gas = (if p026 E then gas * GasMagnification else gas)"

definition memoryCopierGas :: "nat \<Rightarrow> 's VmEnv \<Rightarrow> 's gasFunc" where
  "memoryCopierGas stackpos E memorySize m =
    gas_memory E memorySize m (\<lambda>gas m.
      case Back stackpos m of
        None \<Rightarrow> None
      | Some x \<Rightarrow>
          gas_checked (uUint64WithOverflow (U256 E) x) m (\<lambda>words.
          gas_checked (SafeMul (toWordSize words) CopyGas) m (\<lambda>words.
          gas_checked (SafeAdd gas words) m (\<lambda>gas. Some (Inr (magnified E gas), m)))))"

definition gasCallDataCopy where "gasCallDataCopy = memoryCopierGas 2"
definition gasCodeCopy where "gasCodeCopy = memoryCopierGas 2"
definition gasExtCodeCopy where "gasExtCodeCopy = memoryCopierGas 3"
definition gasReturnDataCopy where "gasReturnDataCopy = memoryCopierGas 2"
definition gasMcopy where "gasMcopy = memoryCopierGas 2"

definition gasSStore :: "'s VmEnv \<Rightarrow> 's gasFunc" where
  "gasSStore E memorySize m =
    Some (Inr (if p026 E then SstoreSetGas * GasMagnification else if p015 E then SstoreSetGas else 0), m)"

definition gasSStoreEIP2200 :: "'s VmEnv \<Rightarrow> 's gasFunc" where
  "gasSStoreEIP2200 E memorySize m =
    Some (Inr (if p026 E then SstoreSetGasEIP2200 * GasMagnification else if p015 E then SstoreSetGasEIP2200 else 0), m)"

definition makeGasLog :: "u64 \<Rightarrow> 's VmEnv \<Rightarrow> 's gasFunc" where
  "makeGasLog n E memorySize m =
    (case Back 1 m of
       None \<Rightarrow> None
     | Some x \<Rightarrow>
         gas_checked (uUint64WithOverflow (U256 E) x) m (\<lambda>requestedSize.
         gas_memory E memorySize m (\<lambda>gas m.
         gas_checked (SafeAdd gas LogGas) m (\<lambda>gas.
         gas_checked (SafeAdd gas (n * LogTopicGas)) m (\<lambda>gas.
         gas_checked (SafeMul requestedSize LogDataGas) m (\<lambda>memorySizeGas.
         gas_checked (SafeAdd gas memorySizeGas) m (\<lambda>gas. Some (Inr (magnified E gas), m))))))))"

text \<open>\<^verbatim>\<open>gasSha3\<close> and \<^verbatim>\<open>gasCreate2\<close> differ in the position of the length only.\<close>

definition gas_hash_words :: "nat \<Rightarrow> 's VmEnv \<Rightarrow> 's gasFunc" where
  "gas_hash_words stackpos E memorySize m =
    gas_memory E memorySize m (\<lambda>gas m.
      case Back stackpos m of
        None \<Rightarrow> None
      | Some x \<Rightarrow>
          gas_checked (uUint64WithOverflow (U256 E) x) m (\<lambda>wordGas.
          gas_checked (SafeMul (toWordSize wordGas) Sha3WordGas) m (\<lambda>wordGas.
          gas_checked (SafeAdd gas wordGas) m (\<lambda>gas. Some (Inr (magnified E gas), m)))))"

definition gasSha3 where "gasSha3 = gas_hash_words 1"
definition gasCreate2 where "gasCreate2 = gas_hash_words 2"

definition pureMemoryGascost :: "'s VmEnv \<Rightarrow> 's gasFunc" where
  "pureMemoryGascost E memorySize m = gas_memory E memorySize m (\<lambda>gas m. Some (Inr gas, m))"

definition gasReturn where "gasReturn = pureMemoryGascost"
definition gasRevert where "gasRevert = pureMemoryGascost"
definition gasMLoad where "gasMLoad = pureMemoryGascost"
definition gasMStore8 where "gasMStore8 = pureMemoryGascost"
definition gasMStore where "gasMStore = pureMemoryGascost"
definition gasCreate where "gasCreate = pureMemoryGascost"
definition gasAuth where "gasAuth = pureMemoryGascost"

definition gasExp :: "u64 \<Rightarrow> 's VmEnv \<Rightarrow> 's gasFunc" where
  "gasExp perByte E memorySize m =
    (case Back 1 m of
       None \<Rightarrow> None
     | Some x \<Rightarrow>
         (let expByteLen = of_nat ((uBitLen (U256 E) x + 7) div 8)
          in gas_checked (SafeAdd (expByteLen * perByte) ExpGas) m (\<lambda>gas. Some (Inr (magnified E gas), m))))"

definition gasExpFrontier where "gasExpFrontier = gasExp ExpByteFrontier"
definition gasExpEIP158 where "gasExpEIP158 = gasExp ExpByteEIP158"

section \<open>Calls\<close>

text \<open>The common end: the gas given to the callee is computed from what is left after
  \<open>base\<close> and added to the cost.\<close>

definition gas_call_end :: "'s VmEnv \<Rightarrow> u64 \<Rightarrow> u256 \<Rightarrow> 's Machine \<Rightarrow> ((vm_error + u64) \<times> 's Machine) option" where
  "gas_call_end E base requested m =
    (case callGas (U256 E) True (Gas (contract m)) base requested of
       Inl e \<Rightarrow> Some (Inl e, m\<lparr>callGasTemp := 0\<rparr>)
     | Inr g \<Rightarrow>
         (let m = m\<lparr>callGasTemp := g\<rparr>
          in gas_checked (SafeAdd base g) m (\<lambda>gas. Some (Inr gas, m))))"

definition gasCall :: "'s VmEnv \<Rightarrow> 's gasFunc" where
  "gasCall E memorySize m = do {
     v \<leftarrow> Back 2 m;
     a \<leftarrow> Back 1 m;
     let transfersValue = \<not> uIsZero (U256 E) v;
     let address = uBytes20 (U256 E) a;
     let (empty, st) = (if transfersValue then sd_Empty (SDB E) address (state m) else (False, state m));
     let m = m\<lparr>state := st\<rparr>;
     let gas = (if transfersValue \<and> empty then CallNewAccountGas else 0);
     let gas = (if transfersValue then gas + CallValueTransferGas else gas);
     gas_memory E memorySize m (\<lambda>memoryGas m.
       gas_checked (SafeAdd gas memoryGas) m (\<lambda>gas.
         case Back 0 m of None \<Rightarrow> None | Some req \<Rightarrow> gas_call_end E gas req m))
   }"

definition gasCallCode :: "'s VmEnv \<Rightarrow> 's gasFunc" where
  "gasCallCode E memorySize m =
    gas_memory E memorySize m (\<lambda>memoryGas m. do {
      v \<leftarrow> Back 2 m;
      let gas = (if uSign (U256 E) v \<noteq> 0 then CallValueTransferGas else 0);
      gas_checked (SafeAdd gas memoryGas) m (\<lambda>gas.
        case Back 0 m of None \<Rightarrow> None | Some req \<Rightarrow> gas_call_end E gas req m)
    })"

definition gasDelegateCall :: "'s VmEnv \<Rightarrow> 's gasFunc" where
  "gasDelegateCall E memorySize m =
    gas_memory E memorySize m (\<lambda>gas m.
      case Back 0 m of None \<Rightarrow> None | Some req \<Rightarrow> gas_call_end E gas req m)"

definition gasStaticCall :: "'s VmEnv \<Rightarrow> 's gasFunc" where
  "gasStaticCall E memorySize m =
    gas_memory E memorySize m (\<lambda>gas m.
      case Back 0 m of None \<Rightarrow> None | Some req \<Rightarrow> gas_call_end E gas req m)"

definition add_refund_once :: "'s VmEnv \<Rightarrow> 's Machine \<Rightarrow> 's Machine" where
  "add_refund_once E m =
    (let (suicided, st) = sd_HasSuicided (SDB E) (self (contract m)) (state m)
     in m\<lparr>state := if suicided then st else sd_AddRefund (SDB E) SelfdestructRefundGas st\<rparr>)"

text \<open>Empty beneficiary and a balance to move: the balance is read only if the account is empty.\<close>

definition creates_account :: "'s VmEnv \<Rightarrow> address \<Rightarrow> 's Machine \<Rightarrow> (bool \<times> 's Machine) option" where
  "creates_account E address m =
    (let (empty, st) = sd_Empty (SDB E) address (state m);
         m = m\<lparr>state := st\<rparr>
     in if empty then
          map_option (\<lambda>(bal, st). (bal \<noteq> 0, m\<lparr>state := st\<rparr>)) (sd_GetBalance (SDB E) (self (contract m)) (state m))
        else Some (False, m))"

definition gasSelfdestruct :: "'s VmEnv \<Rightarrow> 's gasFunc" where
  "gasSelfdestruct E memorySize m = do {
     b \<leftarrow> Back 0 m;
     (create, m) \<leftarrow> creates_account E (uBytes20 (U256 E) b) m;
     let gas = (if create then SelfdestructGasEIP150 + CreateBySelfdestructGas else SelfdestructGasEIP150);
     Some (Inr gas, add_refund_once E m)
   }"

definition gasAuthCall :: "'s VmEnv \<Rightarrow> 's gasFunc" where
  "gasAuthCall E memorySize m = do {
     v \<leftarrow> Back 3 m;
     a \<leftarrow> Back 2 m;
     req \<leftarrow> Back 1 m;
     let transfersValue = \<not> uIsZero (U256 E) v;
     let address = uBytes20 (U256 E) a;
     gas_memory E memorySize m (\<lambda>memoryGas m.
     gas_checked (SafeAdd 0 memoryGas) m (\<lambda>dynamicGas.
       let (cold, m) = (if sd_AddressInAccessList (SDB E) address (state m) then (False, m)
                        else (True, m\<lparr>state := sd_AddAddressToAccessList (SDB E) address (state m)\<rparr>));
           dynamicGas = (if cold then dynamicGas + (ColdAccountAccessCostEIP2929 - WarmStorageReadCostEIP2929) else dynamicGas);
           (empty, st) = (if transfersValue then sd_Empty (SDB E) address (state m) else (False, state m));
           m = m\<lparr>state := st\<rparr>;
           dynamicGas = (if transfersValue then dynamicGas + AuthCallValueTransferGas else dynamicGas);
           dynamicGas = (if transfersValue \<and> empty then dynamicGas + CallNewAccountGas else dynamicGas)
       in (case authCallGas (U256 E) (Gas (contract m)) dynamicGas req of
             Inl e \<Rightarrow> Some (Inl e, m)
           | Inr g \<Rightarrow>
               (let m = m\<lparr>callGasTemp := g\<rparr>
                in gas_checked (SafeAdd dynamicGas g) m (\<lambda>gas. Some (Inr gas, m))))))
   }"

section \<open>Access-list pricing\<close>

text \<open>\<^verbatim>\<open>operations_acl.go\<close>, EIP-2929; the instruction table does not use these yet.\<close>

definition gasSLoadEIP2929 :: "'s VmEnv \<Rightarrow> 's gasFunc" where
  "gasSLoadEIP2929 E memorySize m = do {
     loc \<leftarrow> Back 0 m;
     let slot = uBytes32 (U256 E) loc;
     (_, slotPresent) \<leftarrow> sd_SlotInAccessList (SDB E) (self (contract m)) slot (state m);
     if \<not> slotPresent then
       map_option (\<lambda>st. (Inr ColdSloadCostEIP2929, m\<lparr>state := st\<rparr>))
         (sd_AddSlotToAccessList (SDB E) (self (contract m)) slot (state m))
     else Some (Inr WarmStorageReadCostEIP2929, m)
   }"

definition touch_address :: "'s VmEnv \<Rightarrow> address \<Rightarrow> 's Machine \<Rightarrow> bool \<times> 's Machine" where
  "touch_address E addr m =
    (if sd_AddressInAccessList (SDB E) addr (state m) then (False, m)
     else (True, m\<lparr>state := sd_AddAddressToAccessList (SDB E) addr (state m)\<rparr>))"

definition gasExtCodeCopyEIP2929 :: "'s VmEnv \<Rightarrow> 's gasFunc" where
  "gasExtCodeCopyEIP2929 E memorySize m =
    (case gasExtCodeCopy E memorySize m of
       None \<Rightarrow> None
     | Some (Inl e, m) \<Rightarrow> Some (Inl e, m)
     | Some (Inr gas, m) \<Rightarrow> do {
         a \<leftarrow> Back 0 m;
         let (cold, m) = touch_address E (uBytes20 (U256 E) a) m;
         if cold then gas_checked (SafeAdd gas (ColdAccountAccessCostEIP2929 - WarmStorageReadCostEIP2929)) m (\<lambda>gas. Some (Inr gas, m))
         else Some (Inr gas, m)
       })"

definition gasEip2929AccountCheck :: "'s VmEnv \<Rightarrow> 's gasFunc" where
  "gasEip2929AccountCheck E memorySize m = do {
     a \<leftarrow> Back 0 m;
     let (cold, m) = touch_address E (uBytes20 (U256 E) a) m;
     Some (Inr (if cold then ColdAccountAccessCostEIP2929 - WarmStorageReadCostEIP2929 else 0), m)
   }"

definition makeCallVariantGasCallEIP2929 :: "('s VmEnv \<Rightarrow> 's gasFunc) \<Rightarrow> 's VmEnv \<Rightarrow> 's gasFunc" where
  "makeCallVariantGasCallEIP2929 oldCalculator E memorySize m = do {
     a \<leftarrow> Back 1 m;
     let (cold, m) = touch_address E (uBytes20 (U256 E) a) m;
     if cold then
       (case UseGas (ColdAccountAccessCostEIP2929 - WarmStorageReadCostEIP2929) (contract m) of
          (False, _) \<Rightarrow> Some (Inl ErrOutOfGas, m)
        | (True, c) \<Rightarrow> oldCalculator E memorySize (m\<lparr>contract := c\<rparr>))
     else oldCalculator E memorySize m
   }"

definition gasSelfdestructEIP2929 :: "'s VmEnv \<Rightarrow> 's gasFunc" where
  "gasSelfdestructEIP2929 E memorySize m = do {
     a \<leftarrow> Back 0 m;
     let address = uBytes20 (U256 E) a;
     let (cold, m) = touch_address E address m;
     let gas = (if cold then ColdAccountAccessCostEIP2929 else 0);
     (create, m) \<leftarrow> creates_account E address m;
     let gas = (if create then gas + CreateBySelfdestructGas else gas);
     Some (Inr gas, add_refund_once E m)
   }"

text \<open>The storage cost of EIP-2200 with the access list: what the write does to the slot
  decides cost and refund.\<close>

definition sstore_cost :: "'s VmEnv \<Rightarrow> u64 \<Rightarrow> hash \<Rightarrow> hash \<Rightarrow> hash \<Rightarrow> 's \<Rightarrow> (u64 \<times> 's) option" where
  "sstore_cost E cost original current value st =
    (if original = current then
       (if original = zero_hash then Some (cost + SstoreSetGasEIP2200, st)
        else Some (cost + (SstoreResetGasEIP2200 - ColdSloadCostEIP2929),
               if value = zero_hash then sd_AddRefund (SDB E) SstoreClearsScheduleRefundEIP2200 st else st))
     else do {
       st \<leftarrow> (if original \<noteq> zero_hash then
               (if current = zero_hash then sd_SubRefund (SDB E) SstoreClearsScheduleRefundEIP2200 st
                else if value = zero_hash then Some (sd_AddRefund (SDB E) SstoreClearsScheduleRefundEIP2200 st)
                else Some st)
             else Some st);
       let st = (if original = value then
                   (if original = zero_hash
                    then sd_AddRefund (SDB E) (SstoreSetGasEIP2200 - WarmStorageReadCostEIP2929) st
                    else sd_AddRefund (SDB E) ((SstoreResetGasEIP2200 - ColdSloadCostEIP2929) - WarmStorageReadCostEIP2929) st)
                 else st);
       Some (cost + WarmStorageReadCostEIP2929, st)
     })"

definition gasSStoreEIP2929 :: "'s VmEnv \<Rightarrow> 's gasFunc" where
  "gasSStoreEIP2929 E memorySize m =
    (if Gas (contract m) \<le> SstoreSentryGasEIP2200 then Some (Inl ErrReentrancySentry, m)
     else do {
       y \<leftarrow> Back 1 m;
       x \<leftarrow> Back 0 m;
       let addr = self (contract m);
       let slot = uBytes32 (U256 E) x;
       let (current, st) = sd_GetState (SDB E) addr slot (state m);
       (addrPresent, slotPresent) \<leftarrow> sd_SlotInAccessList (SDB E) addr slot st;
       (cost, st) \<leftarrow>
         (if \<not> slotPresent then do {
            st \<leftarrow> sd_AddSlotToAccessList (SDB E) addr slot st;
            if \<not> addrPresent then None else Some (ColdSloadCostEIP2929, st)
          } else Some (0, st));
       let value = uBytes32 (U256 E) y;
       if current = value then Some (Inr (cost + WarmStorageReadCostEIP2929), m\<lparr>state := st\<rparr>)
       else do {
         let (original, st) = sd_GetCommittedState (SDB E) addr slot st;
         (cost, st) \<leftarrow> sstore_cost E cost original current value st;
         Some (Inr cost, m\<lparr>state := st\<rparr>)
       }
     })"

end
