(* ===== verification/Vm_Instr.thy ===== *)
theory Vm_Instr
  imports Vm_Gas Utility_Convert
begin

text \<open>
  The instructions of \<^verbatim>\<open>src/vm/instructions.go\<close> and \<^verbatim>\<open>eips.go\<close>. Each is a function of
  the environment and the machine. An instruction that reads the top with \<^verbatim>\<open>peek\<close> and
  overwrites it in place is a pop and a push here.
\<close>

section \<open>Sub-calls\<close>

text \<open>The part of the EVM that a sub-call shares with its caller.\<close>

record 's Evm =
  e_state :: 's
  e_callGasTemp :: u64
  e_depth :: nat
  e_readOnly :: bool
  e_returnData :: bytes

definition evm_of :: "'s Machine \<Rightarrow> 's Evm" where
  "evm_of m = \<lparr>e_state = state m, e_callGasTemp = callGasTemp m, e_depth = depth m,
     e_readOnly = readOnly m, e_returnData = returnData m\<rparr>"

definition with_evm :: "'s Evm \<Rightarrow> 's Machine \<Rightarrow> 's Machine" where
  "with_evm e m = m\<lparr>state := e_state e, callGasTemp := e_callGasTemp e, depth := e_depth e,
     readOnly := e_readOnly e, returnData := e_returnData e\<rparr>"

record CallResult =
  r_ret :: bytes
  r_gas :: u64
  r_logs :: "Log list"
  r_err :: "vm_error option"
  r_addr :: address
  r_jumpdests :: "hash \<rightharpoonup> bitvec"

text \<open>The methods of \<^verbatim>\<open>EVM\<close> that the call instructions use (\<^verbatim>\<open>evm.go\<close>).\<close>

record 's Calls =
  do_Call :: "Contract \<Rightarrow> address \<Rightarrow> bytes \<Rightarrow> u64 \<Rightarrow> int \<Rightarrow> 's Evm \<Rightarrow> (CallResult \<times> 's Evm) option"
  do_CallCode :: "Contract \<Rightarrow> address \<Rightarrow> bytes \<Rightarrow> u64 \<Rightarrow> int \<Rightarrow> 's Evm \<Rightarrow> (CallResult \<times> 's Evm) option"
  do_DelegateCall :: "Contract \<Rightarrow> address \<Rightarrow> bytes \<Rightarrow> u64 \<Rightarrow> 's Evm \<Rightarrow> (CallResult \<times> 's Evm) option"
  do_StaticCall :: "Contract \<Rightarrow> address \<Rightarrow> bytes \<Rightarrow> u64 \<Rightarrow> 's Evm \<Rightarrow> (CallResult \<times> 's Evm) option"
  do_Create :: "Contract \<Rightarrow> bytes \<Rightarrow> u64 \<Rightarrow> int \<Rightarrow> 's Evm \<Rightarrow> (CallResult \<times> 's Evm) option"
  do_Create2 :: "Contract \<Rightarrow> bytes \<Rightarrow> u64 \<Rightarrow> int \<Rightarrow> u256 \<Rightarrow> 's Evm \<Rightarrow> (CallResult \<times> 's Evm) option"
  do_AuthCall :: "address \<Rightarrow> address \<Rightarrow> address \<Rightarrow> bytes \<Rightarrow> u64 \<Rightarrow> int \<Rightarrow> 's Evm \<Rightarrow> (CallResult \<times> 's Evm) option"

section \<open>Arithmetic and comparison\<close>

definition bin_op :: "(u256 \<Rightarrow> u256 \<Rightarrow> u256) \<Rightarrow> 's exec" where
  "bin_op f m = do { (x, m) \<leftarrow> pop m; (y, m) \<leftarrow> pop m; ok (push (f x y) m) }"

definition cmp_op :: "uint256 \<Rightarrow> (u256 \<Rightarrow> u256 \<Rightarrow> bool) \<Rightarrow> 's exec" where
  "cmp_op U f = bin_op (\<lambda>x y. if f x y then uSetOne U else uClear U)"

definition un_op :: "(u256 \<Rightarrow> u256) \<Rightarrow> 's exec" where
  "un_op f m = do { (x, m) \<leftarrow> pop m; ok (push (f x) m) }"

definition opAdd :: "'s VmEnv \<Rightarrow> 's exec" where "opAdd E = bin_op (uAdd (U256 E))"
definition opSub :: "'s VmEnv \<Rightarrow> 's exec" where "opSub E = bin_op (uSub (U256 E))"
definition opMul :: "'s VmEnv \<Rightarrow> 's exec" where "opMul E = bin_op (uMul (U256 E))"
definition opDiv :: "'s VmEnv \<Rightarrow> 's exec" where "opDiv E = bin_op (uDiv (U256 E))"
definition opSdiv :: "'s VmEnv \<Rightarrow> 's exec" where "opSdiv E = bin_op (uSDiv (U256 E))"
definition opMod :: "'s VmEnv \<Rightarrow> 's exec" where "opMod E = bin_op (uMod (U256 E))"
definition opSmod :: "'s VmEnv \<Rightarrow> 's exec" where "opSmod E = bin_op (uSMod (U256 E))"
definition opExp :: "'s VmEnv \<Rightarrow> 's exec" where "opExp E = bin_op (uExp (U256 E))"
definition opSignExtend :: "'s VmEnv \<Rightarrow> 's exec" where
  "opSignExtend E = bin_op (\<lambda>b num. uExtendSign (U256 E) num b)"
definition opNot :: "'s VmEnv \<Rightarrow> 's exec" where "opNot E = un_op (uNot (U256 E))"
definition opLt :: "'s VmEnv \<Rightarrow> 's exec" where "opLt E = cmp_op (U256 E) (uLt (U256 E))"
definition opGt :: "'s VmEnv \<Rightarrow> 's exec" where "opGt E = cmp_op (U256 E) (uGt (U256 E))"
definition opSlt :: "'s VmEnv \<Rightarrow> 's exec" where "opSlt E = cmp_op (U256 E) (uSlt (U256 E))"
definition opSgt :: "'s VmEnv \<Rightarrow> 's exec" where "opSgt E = cmp_op (U256 E) (uSgt (U256 E))"
definition opEq :: "'s VmEnv \<Rightarrow> 's exec" where "opEq E = cmp_op (U256 E) (uEq (U256 E))"
definition opIszero :: "'s VmEnv \<Rightarrow> 's exec" where
  "opIszero E = un_op (\<lambda>x. if uIsZero (U256 E) x then uSetOne (U256 E) else uClear (U256 E))"
definition opAnd :: "'s VmEnv \<Rightarrow> 's exec" where "opAnd E = bin_op (uAnd (U256 E))"
definition opOr :: "'s VmEnv \<Rightarrow> 's exec" where "opOr E = bin_op (uOr (U256 E))"
definition opXor :: "'s VmEnv \<Rightarrow> 's exec" where "opXor E = bin_op (uXor (U256 E))"
definition opByte :: "'s VmEnv \<Rightarrow> 's exec" where "opByte E = bin_op (\<lambda>th val. uByte (U256 E) val th)"

definition opAddmod :: "'s VmEnv \<Rightarrow> 's exec" where
  "opAddmod E m = do {
     (x, m) \<leftarrow> pop m; (y, m) \<leftarrow> pop m; (z, m) \<leftarrow> pop m;
     ok (push (if uIsZero (U256 E) z then uClear (U256 E) else uAddMod (U256 E) x y z) m)
   }"

definition opMulmod :: "'s VmEnv \<Rightarrow> 's exec" where
  "opMulmod E m = do {
     (x, m) \<leftarrow> pop m; (y, m) \<leftarrow> pop m; (z, m) \<leftarrow> pop m;
     ok (push (uMulMod (U256 E) x y z) m)
   }"

definition opSHL :: "'s VmEnv \<Rightarrow> 's exec" where
  "opSHL E = bin_op (\<lambda>shift value.
     if uLtUint64 (U256 E) shift 256 then uLsh (U256 E) value (uUint64 (U256 E) shift) else uClear (U256 E))"

definition opSHR :: "'s VmEnv \<Rightarrow> 's exec" where
  "opSHR E = bin_op (\<lambda>shift value.
     if uLtUint64 (U256 E) shift 256 then uRsh (U256 E) value (uUint64 (U256 E) shift) else uClear (U256 E))"

definition opSAR :: "'s VmEnv \<Rightarrow> 's exec" where
  "opSAR E = bin_op (\<lambda>shift value.
     if uGtUint64 (U256 E) shift 256 then
       (if uSign (U256 E) value \<ge> 0 then uClear (U256 E) else uSetAllOne (U256 E))
     else uSRsh (U256 E) value (uUint64 (U256 E) shift))"

definition opSha3 :: "'s VmEnv \<Rightarrow> 's exec" where
  "opSha3 E m = do {
     (offset, m) \<leftarrow> pop m; (sz, m) \<leftarrow> pop m;
     data \<leftarrow> mem_GetPtr (memory m) (to_i64 (U256 E) offset) (to_i64 (U256 E) sz);
     ok (push (uSetBytes (U256 E) (f_Keccak256 E data)) m)
   }"

section \<open>Environment\<close>

definition push_op :: "u256 \<Rightarrow> 's exec" where
  "push_op x m = ok (push x m)"

definition opAddress :: "'s VmEnv \<Rightarrow> 's exec" where
  "opAddress E m = push_op (uSetBytes (U256 E) (self (contract m))) m"

definition opBalance :: "'s VmEnv \<Rightarrow> 's exec" where
  "opBalance E m = do {
     (slot, m) \<leftarrow> pop m;
     (bal, st) \<leftarrow> sd_GetBalance (SDB E) (uBytes20 (U256 E) slot) (state m);
     ok (push (uFromBig (U256 E) bal) (m\<lparr>state := st\<rparr>))
   }"

definition opOrigin :: "'s VmEnv \<Rightarrow> 's exec" where
  "opOrigin E = push_op (uSetBytes (U256 E) (Origin E))"
definition opCaller :: "'s VmEnv \<Rightarrow> 's exec" where
  "opCaller E m = push_op (uSetBytes (U256 E) (CallerAddress (contract m))) m"
definition opCallValue :: "'s VmEnv \<Rightarrow> 's exec" where
  "opCallValue E m = push_op (uFromBig (U256 E) (c_value (contract m))) m"

definition opCallDataLoad :: "'s VmEnv \<Rightarrow> 's exec" where
  "opCallDataLoad E m = do {
     (x, m) \<leftarrow> pop m;
     let (offset, overflow) = uUint64WithOverflow (U256 E) x;
     if \<not> overflow then do {
       data \<leftarrow> getData (Input (contract m)) offset 32;
       ok (push (uSetBytes (U256 E) data) m)
     } else ok (push (uClear (U256 E)) m)
   }"

definition opCallDataSize :: "'s VmEnv \<Rightarrow> 's exec" where
  "opCallDataSize E m = push_op (uSetUint64 (U256 E) (of_nat (length (Input (contract m))))) m"

definition capped :: "uint256 \<Rightarrow> u256 \<Rightarrow> u64" where
  "capped U x = (let (v, overflow) = uUint64WithOverflow U x in if overflow then 0xffffffffffffffff else v)"

definition copy_to_memory :: "'s VmEnv \<Rightarrow> u256 \<Rightarrow> u256 \<Rightarrow> bytes \<Rightarrow> u256 \<Rightarrow> 's exec" where
  "copy_to_memory E memOffset dataOffset src len m = do {
     data \<leftarrow> getData src (capped (U256 E) dataOffset) (uUint64 (U256 E) len);
     mem \<leftarrow> mem_Set (uUint64 (U256 E) memOffset) (uUint64 (U256 E) len) data (memory m);
     ok (m\<lparr>memory := mem\<rparr>)
   }"

definition opCallDataCopy :: "'s VmEnv \<Rightarrow> 's exec" where
  "opCallDataCopy E m = do {
     (memOffset, m) \<leftarrow> pop m; (dataOffset, m) \<leftarrow> pop m; (len, m) \<leftarrow> pop m;
     copy_to_memory E memOffset dataOffset (Input (contract m)) len m
   }"

definition opReturnDataSize :: "'s VmEnv \<Rightarrow> 's exec" where
  "opReturnDataSize E m = push_op (uSetUint64 (U256 E) (of_nat (length (returnData m)))) m"

definition opReturnDataCopy :: "'s VmEnv \<Rightarrow> 's exec" where
  "opReturnDataCopy E m = do {
     (memOffset, m) \<leftarrow> pop m; (dataOffset, m) \<leftarrow> pop m; (len, m) \<leftarrow> pop m;
     let (offset64, overflow) = uUint64WithOverflow (U256 E) dataOffset;
     if overflow then Some (([], Some ErrReturnDataOutOfBounds), m)
     else
       (let (end64, overflow) = uUint64WithOverflow (U256 E) (uAdd (U256 E) dataOffset len)
        in if overflow \<or> of_nat (length (returnData m)) < end64 then Some (([], Some ErrReturnDataOutOfBounds), m)
           else do {
             data \<leftarrow> go_slice (returnData m) (unat offset64) (unat end64);
             mem \<leftarrow> mem_Set (uUint64 (U256 E) memOffset) (uUint64 (U256 E) len) data (memory m);
             ok (m\<lparr>memory := mem\<rparr>)
           })
   }"

definition opExtCodeSize :: "'s VmEnv \<Rightarrow> 's exec" where
  "opExtCodeSize E m = do {
     (slot, m) \<leftarrow> pop m;
     let (n, st) = sd_GetCodeSize (SDB E) (uBytes20 (U256 E) slot) (state m);
     ok (push (uSetUint64 (U256 E) (of_nat n)) (m\<lparr>state := st\<rparr>))
   }"

definition opCodeSize :: "'s VmEnv \<Rightarrow> 's exec" where
  "opCodeSize E m = push_op (uSetUint64 (U256 E) (of_nat (length (Code (contract m))))) m"

definition opCodeCopy :: "'s VmEnv \<Rightarrow> 's exec" where
  "opCodeCopy E m = do {
     (memOffset, m) \<leftarrow> pop m; (codeOffset, m) \<leftarrow> pop m; (len, m) \<leftarrow> pop m;
     copy_to_memory E memOffset codeOffset (Code (contract m)) len m
   }"

definition opExtCodeCopy :: "'s VmEnv \<Rightarrow> 's exec" where
  "opExtCodeCopy E m = do {
     (a, m) \<leftarrow> pop m; (memOffset, m) \<leftarrow> pop m; (codeOffset, m) \<leftarrow> pop m; (len, m) \<leftarrow> pop m;
     let (code, st) = sd_GetCode (SDB E) (uBytes20 (U256 E) a) (state m);
     copy_to_memory E memOffset codeOffset code len (m\<lparr>state := st\<rparr>)
   }"

definition opExtCodeHash :: "'s VmEnv \<Rightarrow> 's exec" where
  "opExtCodeHash E m = do {
     (slot, m) \<leftarrow> pop m;
     let address = uBytes20 (U256 E) slot;
     let (empty, st) = sd_Empty (SDB E) address (state m);
     if empty then ok (push (uClear (U256 E)) (m\<lparr>state := st\<rparr>))
     else (let (h, st) = sd_GetCodeHash (SDB E) address st
           in ok (push (uSetBytes (U256 E) h) (m\<lparr>state := st\<rparr>)))
   }"

definition opGasprice :: "'s VmEnv \<Rightarrow> 's exec" where
  "opGasprice E = push_op (uFromBig (U256 E) (GasPrice E))"

definition opBlockhash :: "'s VmEnv \<Rightarrow> 's exec" where
  "opBlockhash E m = do {
     (num, m) \<leftarrow> pop m;
     let (num64, overflow) = uUint64WithOverflow (U256 E) num;
     let upper = (word_of_int (ctx_BlockNumber E) :: u64);
     let lower = (if upper < 257 then 0 else upper - 256);
     ok (push (if overflow then uClear (U256 E)
               else if num64 \<ge> lower \<and> num64 < upper then uSetBytes (U256 E) (f_GetHash E num64)
               else uClear (U256 E)) m)
   }"

definition opCoinbase :: "'s VmEnv \<Rightarrow> 's exec" where
  "opCoinbase E = push_op (uSetBytes (U256 E) (Coinbase E))"
definition opTimestamp :: "'s VmEnv \<Rightarrow> 's exec" where
  "opTimestamp E = push_op (uFromBig (U256 E) (Time E))"
definition opNumber :: "'s VmEnv \<Rightarrow> 's exec" where
  "opNumber E = push_op (uFromBig (U256 E) (ctx_BlockNumber E))"
definition opDifficulty :: "'s VmEnv \<Rightarrow> 's exec" where
  "opDifficulty E = push_op (uFromBig (U256 E) (Difficulty E))"
definition opGasLimit :: "'s VmEnv \<Rightarrow> 's exec" where
  "opGasLimit E = push_op (uSetUint64 (U256 E) (GasLimit E))"

section \<open>Stack, memory, storage, control\<close>

definition opPop :: "'s VmEnv \<Rightarrow> 's exec" where
  "opPop E m = do { (_, m) \<leftarrow> pop m; ok m }"

definition opMload :: "'s VmEnv \<Rightarrow> 's exec" where
  "opMload E m = do {
     (v, m) \<leftarrow> pop m;
     b \<leftarrow> mem_GetPtr (memory m) (to_i64 (U256 E) v) 32;
     ok (push (uSetBytes (U256 E) b) m)
   }"

definition opMstore :: "'s VmEnv \<Rightarrow> 's exec" where
  "opMstore E m = do {
     (mStart, m) \<leftarrow> pop m; (val, m) \<leftarrow> pop m;
     mem \<leftarrow> mem_Set32 (U256 E) (uUint64 (U256 E) mStart) val (memory m);
     ok (m\<lparr>memory := mem\<rparr>)
   }"

definition opMstore8 :: "'s VmEnv \<Rightarrow> 's exec" where
  "opMstore8 E m = do {
     (off, m) \<leftarrow> pop m; (val, m) \<leftarrow> pop m;
     let i = unat (uUint64 (U256 E) off);
     if i < length (store (memory m))
     then ok (m\<lparr>memory := (memory m)\<lparr>store := (store (memory m))[i := ucast (uUint64 (U256 E) val)]\<rparr>\<rparr>)
     else None
   }"

definition opSload :: "'s VmEnv \<Rightarrow> 's exec" where
  "opSload E m = do {
     (loc, m) \<leftarrow> pop m;
     let (val, st) = sd_GetState (SDB E) (self (contract m)) (uBytes32 (U256 E) loc) (state m);
     ok (push (uSetBytes (U256 E) val) (m\<lparr>state := st\<rparr>))
   }"

definition opSstore :: "'s VmEnv \<Rightarrow> 's exec" where
  "opSstore E m = do {
     (loc, m) \<leftarrow> pop m; (val, m) \<leftarrow> pop m;
     ok (m\<lparr>state := sd_SetState (SDB E) (self (contract m)) (uBytes32 (U256 E) loc) (uBytes32 (U256 E) val) (state m)\<rparr>)
   }"

definition jump_to :: "'s VmEnv \<Rightarrow> u256 \<Rightarrow> 's exec" where
  "jump_to E pos m = do {
     (valid, c) \<leftarrow> validJumpdest (U256 E) pos (contract m);
     let m = m\<lparr>contract := c\<rparr>;
     if \<not> valid then Some (([], Some ErrInvalidJump), m) else ok (m\<lparr>pc := uUint64 (U256 E) pos\<rparr>)
   }"

definition opJump :: "'s VmEnv \<Rightarrow> 's exec" where
  "opJump E m = do { (pos, m) \<leftarrow> pop m; jump_to E pos m }"

definition opJumpi :: "'s VmEnv \<Rightarrow> 's exec" where
  "opJumpi E m = do {
     (pos, m) \<leftarrow> pop m; (cond, m) \<leftarrow> pop m;
     if \<not> uIsZero (U256 E) cond then jump_to E pos m else ok (m\<lparr>pc := pc m + 1\<rparr>)
   }"

definition opJumpdest :: "'s VmEnv \<Rightarrow> 's exec" where "opJumpdest E m = ok m"
definition opPc :: "'s VmEnv \<Rightarrow> 's exec" where "opPc E m = push_op (uSetUint64 (U256 E) (pc m)) m"
definition opMsize :: "'s VmEnv \<Rightarrow> 's exec" where
  "opMsize E m = push_op (uSetUint64 (U256 E) (of_nat (mem_Len (memory m)))) m"
definition opGas :: "'s VmEnv \<Rightarrow> 's exec" where "opGas E m = push_op (uSetUint64 (U256 E) (Gas (contract m))) m"

section \<open>Calls\<close>

text \<open>What the call instructions do with the result of a sub-call.\<close>

definition after_call :: "CallResult \<Rightarrow> 's Evm \<Rightarrow> 's Machine \<Rightarrow> 's Machine" where
  "after_call r e m =
    (let m = with_evm e m
     in m\<lparr>m_logs := m_logs m @ r_logs r, contract := (contract m)\<lparr>jumpdests := r_jumpdests r\<rparr>\<rparr>)"

definition finish_call :: "'s VmEnv \<Rightarrow> u256 \<Rightarrow> u256 \<Rightarrow> u256 \<Rightarrow> CallResult \<Rightarrow> 's Evm \<Rightarrow> 's exec" where
  "finish_call E status retOffset retSize r e m =
    (let m = push status (after_call r e m)
     in do {
       mem \<leftarrow> (if r_err r = None \<or> r_err r = Some ErrExecutionReverted
              then mem_Set (uUint64 (U256 E) retOffset) (uUint64 (U256 E) retSize) (r_ret r) (memory m)
              else Some (memory m));
       Some ((r_ret r, None), on_gas (\<lambda>g. g + r_gas r) (m\<lparr>memory := mem\<rparr>))
     })"

definition args_of :: "'s VmEnv \<Rightarrow> u256 \<Rightarrow> u256 \<Rightarrow> 's Machine \<Rightarrow> bytes option" where
  "args_of E off sz m = mem_GetPtr (memory m) (to_i64 (U256 E) off) (to_i64 (U256 E) sz)"

definition finish_create :: "'s VmEnv \<Rightarrow> CallResult \<Rightarrow> 's Evm \<Rightarrow> 's exec" where
  "finish_create E r e m =
    (let m = after_call r e m;
         m = push (if r_err r \<noteq> None then uClear (U256 E) else uSetBytes (U256 E) (r_addr r)) m;
         m = on_gas (\<lambda>g. g + r_gas r) m
     in Some ((if r_err r = Some ErrExecutionReverted then r_ret r else [], None), m))"

definition opCreate :: "'s VmEnv \<Rightarrow> 's Calls \<Rightarrow> 's exec" where
  "opCreate E C m = do {
     (value, m) \<leftarrow> pop m; (offset, m) \<leftarrow> pop m; (sz, m) \<leftarrow> pop m;
     input \<leftarrow> mem_GetCopy (memory m) (to_i64 (U256 E) offset) (to_i64 (U256 E) sz);
     let gas = Gas (contract m) - Gas (contract m) div 64;
     let m = m\<lparr>contract := snd (UseGas gas (contract m))\<rparr>;
     let bigVal = (if \<not> uIsZero (U256 E) value then uToBig (U256 E) value else 0);
     (r, e) \<leftarrow> do_Create C (contract m) input gas bigVal (evm_of m);
     finish_create E r e m
   }"

definition opCreate2 :: "'s VmEnv \<Rightarrow> 's Calls \<Rightarrow> 's exec" where
  "opCreate2 E C m = do {
     (endowment, m) \<leftarrow> pop m; (offset, m) \<leftarrow> pop m; (sz, m) \<leftarrow> pop m; (salt, m) \<leftarrow> pop m;
     input \<leftarrow> mem_GetCopy (memory m) (to_i64 (U256 E) offset) (to_i64 (U256 E) sz);
     let gas = Gas (contract m) - Gas (contract m) div 64;
     let m = m\<lparr>contract := snd (UseGas gas (contract m))\<rparr>;
     let bigEndowment = (if \<not> uIsZero (U256 E) endowment then uToBig (U256 E) endowment else 0);
     (r, e) \<leftarrow> do_Create2 C (contract m) input gas bigEndowment salt (evm_of m);
     finish_create E r e m
   }"

text \<open>\<^verbatim>\<open>opCall\<close> and \<^verbatim>\<open>opCallCode\<close> run the same code around different calls, and so do
  \<^verbatim>\<open>opDelegateCall\<close> and \<^verbatim>\<open>opStaticCall\<close>.\<close>

definition value_call ::
  "'s VmEnv \<Rightarrow> (Contract \<Rightarrow> address \<Rightarrow> bytes \<Rightarrow> u64 \<Rightarrow> int \<Rightarrow> 's Evm \<Rightarrow> (CallResult \<times> 's Evm) option) \<Rightarrow> 's exec" where
  "value_call E call m = do {
     (_, m) \<leftarrow> pop m;
     let gas = callGasTemp m;
     (addr, m) \<leftarrow> pop m; (value, m) \<leftarrow> pop m; (inOffset, m) \<leftarrow> pop m; (inSize, m) \<leftarrow> pop m;
     (retOffset, m) \<leftarrow> pop m; (retSize, m) \<leftarrow> pop m;
     args \<leftarrow> args_of E inOffset inSize m;
     let (gas, bigVal) = (if \<not> uIsZero (U256 E) value then (gas + CallStipend, uToBig (U256 E) value) else (gas, 0));
     (r, e) \<leftarrow> call (contract m) (uBytes20 (U256 E) addr) args gas bigVal (evm_of m);
     finish_call E (if r_err r \<noteq> None then uClear (U256 E) else uSetOne (U256 E)) retOffset retSize r e m
   }"

definition opCall :: "'s VmEnv \<Rightarrow> 's Calls \<Rightarrow> 's exec" where "opCall E C = value_call E (do_Call C)"
definition opCallCode :: "'s VmEnv \<Rightarrow> 's Calls \<Rightarrow> 's exec" where "opCallCode E C = value_call E (do_CallCode C)"

definition plain_call ::
  "'s VmEnv \<Rightarrow> (Contract \<Rightarrow> address \<Rightarrow> bytes \<Rightarrow> u64 \<Rightarrow> 's Evm \<Rightarrow> (CallResult \<times> 's Evm) option) \<Rightarrow> 's exec" where
  "plain_call E call m = do {
     (_, m) \<leftarrow> pop m;
     let gas = callGasTemp m;
     (addr, m) \<leftarrow> pop m; (inOffset, m) \<leftarrow> pop m; (inSize, m) \<leftarrow> pop m;
     (retOffset, m) \<leftarrow> pop m; (retSize, m) \<leftarrow> pop m;
     args \<leftarrow> args_of E inOffset inSize m;
     (r, e) \<leftarrow> call (contract m) (uBytes20 (U256 E) addr) args gas (evm_of m);
     finish_call E (if r_err r \<noteq> None then uClear (U256 E) else uSetOne (U256 E)) retOffset retSize r e m
   }"

definition opDelegateCall :: "'s VmEnv \<Rightarrow> 's Calls \<Rightarrow> 's exec" where "opDelegateCall E C = plain_call E (do_DelegateCall C)"
definition opStaticCall :: "'s VmEnv \<Rightarrow> 's Calls \<Rightarrow> 's exec" where "opStaticCall E C = plain_call E (do_StaticCall C)"

definition return_memory :: "'s VmEnv \<Rightarrow> 's exec" where
  "return_memory E m = do {
     (offset, m) \<leftarrow> pop m; (sz, m) \<leftarrow> pop m;
     ret \<leftarrow> args_of E offset sz m;
     Some ((ret, None), m)
   }"

definition opReturn :: "'s VmEnv \<Rightarrow> 's exec" where "opReturn E = return_memory E"
definition opRevert :: "'s VmEnv \<Rightarrow> 's exec" where "opRevert E = return_memory E"
definition opStop :: "'s VmEnv \<Rightarrow> 's exec" where "opStop E m = ok m"

definition opSuicide :: "'s VmEnv \<Rightarrow> 's exec" where
  "opSuicide E m = do {
     (beneficiary, m) \<leftarrow> pop m;
     (balance, st) \<leftarrow> sd_GetBalance (SDB E) (self (contract m)) (state m);
     st \<leftarrow> sd_AddBalance (SDB E) (uBytes20 (U256 E) beneficiary) balance st;
     (_, st) \<leftarrow> sd_Suicide (SDB E) (self (contract m)) st;
     ok (m\<lparr>state := st\<rparr>)
   }"

fun pops :: "nat \<Rightarrow> 's Machine \<Rightarrow> (u256 list \<times> 's Machine) option" where
  "pops 0 m = Some ([], m)"
| "pops (Suc n) m = do { (x, m) \<leftarrow> pop m; (xs, m) \<leftarrow> pops n m; Some (x # xs, m) }"

definition makeLog :: "nat \<Rightarrow> 's VmEnv \<Rightarrow> 's exec" where
  "makeLog n E m = do {
     (mStart, m) \<leftarrow> pop m; (mSize, m) \<leftarrow> pop m;
     (ts, m) \<leftarrow> pops n m;
     d \<leftarrow> mem_GetCopy (memory m) (to_i64 (U256 E) mStart) (to_i64 (U256 E) mSize);
     let lg = \<lparr>log_Address = self (contract m), Topics = map (uBytes32 (U256 E)) ts, log_Data = d,
               BlockNumber = word_of_int (ctx_BlockNumber E), log_TxHash = zero_hash, log_TxIndex = 0,
               log_BlockHash = zero_hash, log_Index = 0, Removed = False\<rparr>;
     ok (m\<lparr>state := sd_AddLog (SDB E) lg (state m), m_logs := m_logs m @ [lg]\<rparr>)
   }"

definition opPush1 :: "'s VmEnv \<Rightarrow> 's exec" where
  "opPush1 E m =
    (let m = m\<lparr>pc := pc m + 1\<rparr>
     in push_op (if pc m < of_nat (length (Code (contract m)))
                 then uSetUint64 (U256 E) (ucast (Code (contract m) ! unat (pc m))) else uClear (U256 E)) m)"

definition opChainID :: "'s VmEnv \<Rightarrow> 's exec" where "opChainID E = push_op (uFromBig (U256 E) (chainID E))"

definition opSelfBalance :: "'s VmEnv \<Rightarrow> 's exec" where
  "opSelfBalance E m = do {
     (bal, st) \<leftarrow> sd_GetBalance (SDB E) (self (contract m)) (state m);
     ok (push (uFromBig (U256 E) bal) (m\<lparr>state := st\<rparr>))
   }"

definition makePush :: "u64 \<Rightarrow> nat \<Rightarrow> 's VmEnv \<Rightarrow> 's exec" where
  "makePush sz pushByteSize E m =
    (let codeLen = int (length (Code (contract m)));
         startMin = (if sint (pc m + 1) < codeLen then sint (pc m + 1) else codeLen);
         endMin = (if startMin + int pushByteSize < codeLen then startMin + int pushByteSize else codeLen)
     in if startMin < 0 then None
        else do {
          data \<leftarrow> go_slice (Code (contract m)) (nat startMin) (nat endMin);
          let m = push (uSetBytes (U256 E) (RightPadBytes data pushByteSize)) m;
          ok (m\<lparr>pc := pc m + sz\<rparr>)
        })"

definition makeDup :: "nat \<Rightarrow> 's VmEnv \<Rightarrow> 's exec" where
  "makeDup n E m = do { st \<leftarrow> st_dup n (stk m); ok (m\<lparr>stk := st\<rparr>) }"

definition makeSwap :: "nat \<Rightarrow> 's VmEnv \<Rightarrow> 's exec" where
  "makeSwap n E m = do { st \<leftarrow> st_swap (n + 1) (stk m); ok (m\<lparr>stk := st\<rparr>) }"

section \<open>Later proposals\<close>

definition opBaseFee :: "'s VmEnv \<Rightarrow> 's exec" where "opBaseFee E = push_op 0"
definition opBlobBaseFee :: "'s VmEnv \<Rightarrow> 's exec" where "opBlobBaseFee E = push_op 0"
definition opPush0 :: "'s VmEnv \<Rightarrow> 's exec" where "opPush0 E = push_op 0"

text \<open>\<^verbatim>\<open>index.SetBytes32([]byte{})\<close> hands an empty slice to a function for 32 bytes.\<close>

definition opBlobHash :: "'s VmEnv \<Rightarrow> 's exec" where
  "opBlobHash E m = do {
     (_, m) \<leftarrow> pop m;
     v \<leftarrow> uSetBytes32 (U256 E) [];
     ok (push v m)
   }"

definition opTload :: "'s VmEnv \<Rightarrow> 's exec" where
  "opTload E m = do {
     (loc, m) \<leftarrow> pop m;
     ok (push (uSetBytes (U256 E) (sd_GetTransientState (SDB E) (self (contract m)) (uBytes32 (U256 E) loc) (state m))) m)
   }"

definition opTstore :: "'s VmEnv \<Rightarrow> 's exec" where
  "opTstore E m =
    (if readOnly m then Some (([], Some ErrWriteProtection), m)
     else do {
       (loc, m) \<leftarrow> pop m; (val, m) \<leftarrow> pop m;
       ok (m\<lparr>state := sd_SetTransientState (SDB E) (self (contract m)) (uBytes32 (U256 E) loc) (uBytes32 (U256 E) val) (state m)\<rparr>)
     })"

definition opMcopy :: "'s VmEnv \<Rightarrow> 's exec" where
  "opMcopy E m = do {
     (dst, m) \<leftarrow> pop m; (src, m) \<leftarrow> pop m; (len, m) \<leftarrow> pop m;
     mem \<leftarrow> mem_Copy (uUint64 (U256 E) dst) (uUint64 (U256 E) src) (uUint64 (U256 E) len) (memory m);
     ok (m\<lparr>memory := mem\<rparr>)
   }"

section \<open>Staking\<close>

text \<open>\<^verbatim>\<open>strconv.ParseUint(s, 10, 0)\<close>: the value and whether there was an error; a value out of
  range gives the largest one.\<close>

definition ParseUint :: "string \<Rightarrow> u64 \<times> bool" where
  "ParseUint s =
    (if s = [] \<or> \<not> list_all is_digit s then (0, True)
     else if digits_val s < 2 ^ 64 then (of_nat (digits_val s), False) else (MaxUint64, True))"

definition popAddress :: "'s VmEnv \<Rightarrow> 's Machine \<Rightarrow> (address \<times> 's Machine) option" where
  "popAddress E m = do {
     (x, m) \<leftarrow> pop m;
     Some (BytesToAddress (LeftPadBytes (uBytes (U256 E) x) 20), m)
   }"

definition pushBool :: "bool \<Rightarrow> 's Machine \<Rightarrow> 's Machine" where
  "pushBool b m = push (if b then 1 else 0) m"

text \<open>\<^verbatim>\<open>types.RefundInfoList.AddRefundInfo\<close>: amounts of one account are added up.\<close>

fun AddRefundInfo :: "bytes \<Rightarrow> int \<Rightarrow> (bytes \<times> int) list \<Rightarrow> (bytes \<times> int) list" where
  "AddRefundInfo i v [] = [(i, big_SetBytes (big_Bytes v))]"
| "AddRefundInfo i v ((j, w) # l) = (if i = j then (j, w + v) # l else (j, w) # AddRefundInfo i v l)"

definition opPrintF :: "'s VmEnv \<Rightarrow> 's exec" where "opPrintF E m = ok m"

definition opStake :: "'s VmEnv \<Rightarrow> 's exec" where
  "opStake E m = do {
     (argValue, m) \<leftarrow> pop m; (_, m) \<leftarrow> popAddress E m;
     let thisAddress = self (contract m);
     let (target, err) = ParseUint (BigIntToStrWithoutDot (big_SetBytes (uBytes (U256 E) argValue)));
     let (ret, st) =
       (if \<not> err then
          (case sv_GetMinerIdByAccount (SVC E) thisAddress (state m) of
             (None, st) \<Rightarrow> (False, st)
           | (Some miner, st) \<Rightarrow> sv_AddStake (SVC E) thisAddress miner target st)
        else (False, state m));
     ok (pushBool ret (m\<lparr>state := st\<rparr>))
   }"

definition opUnStake :: "'s VmEnv \<Rightarrow> 's exec" where
  "opUnStake E m = do {
     (argValue, m) \<leftarrow> pop m; (_, m) \<leftarrow> popAddress E m;
     let thisAddress = self (contract m);
     let (ret, st) =
       (case sv_GetMinerIdByAccount (SVC E) thisAddress (state m) of
          (None, st) \<Rightarrow> (False, st)
        | (Some miner, st) \<Rightarrow>
            (let money = big_SetBytes (uBytes (U256 E) argValue);
                 moneyWithoutDecimal = fst (ParseUint (BigIntToStrWithoutDot money))
             in case sv_GetRefundStake (SVC E) (word_of_int (ctx_BlockNumber E)) miner thisAddress moneyWithoutDecimal st of
                  (None, st) \<Rightarrow> (False, st)
                | (Some (refundHeight, realMoney, addr), st) \<Rightarrow>
                    (let refundInfo = (if realMoney > money then AddRefundInfo addr (realMoney - money) [] else []);
                         refundInfo = AddRefundInfo (Origin E) money refundInfo
                     in (True, sv_AddRefunds (SVC E) refundHeight refundInfo st))));
     ok (pushBool ret (m\<lparr>state := st\<rparr>))
   }"

definition opGetStake :: "'s VmEnv \<Rightarrow> 's exec" where
  "opGetStake E m = do {
     (pointerAddress, m) \<leftarrow> popAddress E m;
     let (minerId, st) = sv_GetMinerIdByAccount (SVC E) pointerAddress (state m);
     let (stake, st) = (case minerId of None \<Rightarrow> (None, st) | Some i \<Rightarrow> sv_GetMinerStake (SVC E) i st);
     let ret = (case stake of
                  None \<Rightarrow> uSetUint64 (U256 E) 10
                | Some stake \<Rightarrow>
                    (case StrToBigInt (itoa (unat stake)) of
                       None \<Rightarrow> uSetUint64 (U256 E) 10
                     | Some b \<Rightarrow> uSetBytes (U256 E) (big_Bytes b)));
     ok (push ret (m\<lparr>state := st\<rparr>))
   }"

definition opUnStakeAll :: "'s VmEnv \<Rightarrow> 's exec" where
  "opUnStakeAll E m = do {
     (_, m) \<leftarrow> popAddress E m;
     let thisAddress = self (contract m);
     (case sv_GetMinerIdByAccount (SVC E) thisAddress (state m) of
        (None, st) \<Rightarrow> Some (([], Some ErrNoMiner), m\<lparr>state := st\<rparr>)
      | (Some miner, st) \<Rightarrow>
          (case sv_GetRefundStake (SVC E) (word_of_int (ctx_BlockNumber E)) miner thisAddress MaxUint64 st of
             (None, st) \<Rightarrow> Some (([], Some ErrRefundStake), m\<lparr>state := st\<rparr>)
           | (Some (refundHeight, realMoney, addr), st) \<Rightarrow>
               ok (push (uSetBytes (U256 E) (big_Bytes realMoney))
                 (m\<lparr>state := sv_AddRefunds (SVC E) refundHeight (AddRefundInfo addr realMoney []) st\<rparr>))))
   }"

definition opStakeNum :: "'s VmEnv \<Rightarrow> 's exec" where
  "opStakeNum E m = do {
     (pointerAddress, m) \<leftarrow> popAddress E m;
     (case sv_GetMinerIdByAccount (SVC E) pointerAddress (state m) of
        (None, st) \<Rightarrow> Some (([], Some ErrNoMiner), m\<lparr>state := st\<rparr>)
      | (Some minerId, st) \<Rightarrow>
          (case sv_GetMinerStake (SVC E) minerId st of
             (None, st) \<Rightarrow> Some (([], Some ErrNoMiner), m\<lparr>state := st\<rparr>)
           | (Some stake, st) \<Rightarrow> ok (push (uSetUint64 (U256 E) stake) (m\<lparr>state := st\<rparr>))))
   }"

section \<open>Authorized calls\<close>

definition AUTHMAGIC :: byte where "AUTHMAGIC = 3"

definition eip191Prefix :: bytes where
  "eip191Prefix = 0x19 # map (\<lambda>c. of_nat (of_char c)) (''Ethereum Signed Message:'' @ [CHR 0x0A] @ ''32'')"

definition calAuthHash :: "'s VmEnv \<Rightarrow> int \<Rightarrow> address \<Rightarrow> bytes \<Rightarrow> hash" where
  "calAuthHash E chainId contractAddress commit =
    f_Keccak256 E (AUTHMAGIC # go_copy (replicate 32 0) (LeftPadBytes (big_Bytes chainId) 32)
      @ go_copy (replicate 32 0) (LeftPadBytes contractAddress 32) @ go_copy (replicate 32 0) commit)"

text \<open>The address check returns no error beside \<open>False\<close>: the caller treats both alike. The slice
  \<^verbatim>\<open>pub[1:]\<close> panics on an empty key.\<close>

definition originValidateAuthAddr :: "'s VmEnv \<Rightarrow> bytes \<Rightarrow> bytes \<Rightarrow> address \<Rightarrow> bool option" where
  "originValidateAuthAddr E h sig authorityAddr =
    (case f_Ecrecover E h sig of
       None \<Rightarrow> Some False
     | Some pub \<Rightarrow> do {
         p \<leftarrow> go_slice pub 1 (length pub);
         let k = f_Keccak256 E p;
         r \<leftarrow> go_slice k 12 (length k);
         Some (go_copy zero_address r = authorityAddr)
       })"

definition eip191ValidateAuthAddr :: "'s VmEnv \<Rightarrow> bytes \<Rightarrow> bytes \<Rightarrow> address \<Rightarrow> bool option" where
  "eip191ValidateAuthAddr E h sig authorityAddr =
    originValidateAuthAddr E (f_Keccak256 E (eip191Prefix @ h)) sig authorityAddr"

definition validateAuthAddr :: "'s VmEnv \<Rightarrow> bytes \<Rightarrow> bytes \<Rightarrow> address \<Rightarrow> bool option" where
  "validateAuthAddr E h sig authorityAddr = do {
     eip191Result \<leftarrow> eip191ValidateAuthAddr E h sig authorityAddr;
     if eip191Result then Some True else originValidateAuthAddr E h sig authorityAddr
   }"

definition opAuth :: "'s VmEnv \<Rightarrow> 's exec" where
  "opAuth E m = do {
     (authorityAddr, m) \<leftarrow> popAddress E m; (offset, m) \<leftarrow> pop m; (len, m) \<leftarrow> pop m;
     if uUint64 (U256 E) len < 128 then ok (pushBool False m)
     else do {
       let off = uUint64 (U256 E) offset;
       vb \<leftarrow> mem_GetPtr (memory m) (sint off) 32;
       rb \<leftarrow> mem_GetPtr (memory m) (sint (off + 32)) 32;
       sb \<leftarrow> mem_GetPtr (memory m) (sint (off + 64)) 32;
       cb \<leftarrow> mem_GetPtr (memory m) (sint (off + 96)) 32;
       let v = uSetBytes (U256 E) vb;
       let r = uSetBytes (U256 E) rb;
       let s = uSetBytes (U256 E) sb;
       let commit = uBytes32 (U256 E) (uSetBytes (U256 E) cb);
       let m = m\<lparr>authorized := None\<rparr>;
       let h = calAuthHash E (chainID E) (self (contract m)) commit;
       let vAdapt = (ucast (uUint64 (U256 E) v) :: byte);
       let vAdapt = (if vAdapt > 26 then vAdapt - 27 else vAdapt);
       if \<not> ValidateSignatureValues vAdapt (uToBig (U256 E) r) (uToBig (U256 E) s) True then ok (pushBool False m)
       else do {
         let sig = uWriteToSlice (U256 E) r (replicate 32 0) @ uWriteToSlice (U256 E) s (replicate 32 0) @ [vAdapt];
         valid \<leftarrow> validateAuthAddr E h sig authorityAddr;
         if valid then ok (pushBool True (m\<lparr>authorized := Some authorityAddr\<rparr>)) else ok (pushBool False m)
       }
     }
   }"

definition err_text :: "string \<Rightarrow> bytes" where
  "err_text s = map (\<lambda>c. of_nat (of_char c)) s"

definition opAuthCall :: "'s VmEnv \<Rightarrow> 's Calls \<Rightarrow> 's exec" where
  "opAuthCall E C m = do {
     (authorizedNonce, m) \<leftarrow> pop m; (_, m) \<leftarrow> pop m; (addr, m) \<leftarrow> popAddress E m;
     (value, m) \<leftarrow> pop m; (valueExt, m) \<leftarrow> pop m; (argsOffset, m) \<leftarrow> pop m; (argsLength, m) \<leftarrow> pop m;
     (retOffset, m) \<leftarrow> pop m; (retLength, m) \<leftarrow> pop m;
     let callgas = callGasTemp m;
     data \<leftarrow> args_of E argsOffset argsLength m;
     if \<not> uIsZero (U256 E) valueExt then ok (pushBool False m)
     else (case authorized m of
       None \<Rightarrow> ok (pushBool False m)
     | Some caller \<Rightarrow> do {
         let (expected, st) = sd_GetNonce (SDB E) caller (state m);
         let m = m\<lparr>state := st\<rparr>;
         let given = uUint64 (U256 E) authorizedNonce;
         if expected \<noteq> given then do {
           let m = pushBool False m;
           mem \<leftarrow> mem_Set (uUint64 (U256 E) retOffset) (uUint64 (U256 E) retLength)
                   (err_text (if expected < given then ''nonce too high'' else ''nonce too low'')) (memory m);
           ok (m\<lparr>memory := mem\<rparr>)
         } else do {
           let bigVal = (if \<not> uIsZero (U256 E) value then uToBig (U256 E) value else 0);
           (r, e) \<leftarrow> do_AuthCall C (Origin E) caller addr data callgas bigVal (evm_of m);
           finish_call E (if r_err r \<noteq> None then 0 else 1) retOffset retLength
             (r\<lparr>r_jumpdests := jumpdests (contract m)\<rparr>) e m
         }
       })
   }"

end
