(* ===== verification/Vm_Table.thy ===== *)
theory Vm_Table
  imports Vm_Opcodes Vm_Instr "HOL-Library.AList"
begin

text \<open>
  The instruction table (\<^verbatim>\<open>src/vm/jump_table.go\<close>, \<^verbatim>\<open>eips.go\<close>): what each opcode runs,
  costs and needs, and the changes that later rule sets make. The array of pointers is an
  association list; an opcode without entry is a nil pointer. The constant \<open>C\<close> holds the
  methods of the EVM that the call instructions use.
\<close>

section \<open>Prices\<close>

definition JumpdestGas :: u64 where "JumpdestGas = 1"
definition CallGasFrontier :: u64 where "CallGasFrontier = 40"
definition CallGasEIP150 :: u64 where "CallGasEIP150 = 700"
definition BalanceGasFrontier :: u64 where "BalanceGasFrontier = 20"
definition BalanceGasEIP150 :: u64 where "BalanceGasEIP150 = 400"
definition BalanceGasEIP1884 :: u64 where "BalanceGasEIP1884 = 700"
definition ExtcodeSizeGasFrontier :: u64 where "ExtcodeSizeGasFrontier = 20"
definition ExtcodeSizeGasEIP150 :: u64 where "ExtcodeSizeGasEIP150 = 700"
definition SloadGasFrontier :: u64 where "SloadGasFrontier = 50"
definition SloadGasEIP150 :: u64 where "SloadGasEIP150 = 200"
definition SloadGasEIP1884 :: u64 where "SloadGasEIP1884 = 800"
definition SloadGasEIP2200 :: u64 where "SloadGasEIP2200 = 800"
definition ExtcodeHashGasConstantinople :: u64 where "ExtcodeHashGasConstantinople = 400"
definition ExtcodeHashGasEIP1884 :: u64 where "ExtcodeHashGasEIP1884 = 700"
definition ExtcodeCopyBaseFrontier :: u64 where "ExtcodeCopyBaseFrontier = 20"
definition ExtcodeCopyBaseEIP150 :: u64 where "ExtcodeCopyBaseEIP150 = 700"
definition CreateGas :: u64 where "CreateGas = 32000"
definition Create2Gas :: u64 where "Create2Gas = 32000"
definition AuthGas :: u64 where "AuthGas = 3100"
definition PrintGas :: u64 where "PrintGas = 1000"
definition StakeGas :: u64 where "StakeGas = 20000"
definition UnStakeGas :: u64 where "UnStakeGas = 20000"
definition UnStakeAllGas :: u64 where "UnStakeAllGas = 100000"
definition GetStake :: u64 where "GetStake = 1000"
definition StakeNumGas :: u64 where "StakeNumGas = 5000"

lemmas table_prices =
  JumpdestGas_def CallGasFrontier_def CallGasEIP150_def BalanceGasFrontier_def BalanceGasEIP150_def
  BalanceGasEIP1884_def ExtcodeSizeGasFrontier_def ExtcodeSizeGasEIP150_def SloadGasFrontier_def SloadGasEIP150_def
  SloadGasEIP1884_def SloadGasEIP2200_def ExtcodeHashGasConstantinople_def ExtcodeHashGasEIP1884_def ExtcodeCopyBaseFrontier_def
  ExtcodeCopyBaseEIP150_def CreateGas_def Create2Gas_def AuthGas_def PrintGas_def
  StakeGas_def UnStakeGas_def UnStakeAllGas_def GetStake_def StakeNumGas_def

section \<open>Operations\<close>

record 's operation =
  execute :: "'s exec"
  constantGas :: u64
  dynamicGas :: "'s gasFunc option"
  op_minStack :: nat
  op_maxStack :: nat
  memorySize :: "(stack \<Rightarrow> (u64 \<times> bool) option) option"
  halts :: bool
  jumps :: bool
  writes :: bool
  reverts :: bool
  returns :: bool

text \<open>A composite literal leaves the other fields at their zero values.\<close>

definition new_operation :: "'s exec \<Rightarrow> u64 \<Rightarrow> nat \<Rightarrow> nat \<Rightarrow> 's operation" where
  "new_operation ex gas lo hi =
    \<lparr>execute = ex, constantGas = gas, dynamicGas = None, op_minStack = lo, op_maxStack = hi, memorySize = None,
     halts = False, jumps = False, writes = False, reverts = False, returns = False\<rparr>"

type_synonym 's JumpTable = "(byte \<times> 's operation) list"

definition set_op :: "byte \<Rightarrow> 's operation \<Rightarrow> 's JumpTable \<Rightarrow> 's JumpTable" where
  "set_op b opn jt = AList.update b opn jt"

definition upd_op :: "byte \<Rightarrow> ('s operation \<Rightarrow> 's operation) \<Rightarrow> 's JumpTable \<Rightarrow> 's JumpTable" where
  "upd_op b f jt = AList.map_entry b f jt"

section \<open>The instruction set\<close>

definition frontier_arith :: "'s VmEnv \<Rightarrow> 's Calls \<Rightarrow> 's JumpTable" where
  "frontier_arith E C =
    [(STOP, (new_operation (opStop E) 0 (minStack 0 0) (maxStack 0 0))\<lparr>halts := True\<rparr>),
     (ADD, (new_operation (opAdd E) GasFastestStep (minStack 2 1) (maxStack 2 1))),
     (MUL, (new_operation (opMul E) GasFastStep (minStack 2 1) (maxStack 2 1))),
     (SUB, (new_operation (opSub E) GasFastestStep (minStack 2 1) (maxStack 2 1))),
     (DIV, (new_operation (opDiv E) GasFastStep (minStack 2 1) (maxStack 2 1))),
     (SDIV, (new_operation (opSdiv E) GasFastStep (minStack 2 1) (maxStack 2 1))),
     (MOD, (new_operation (opMod E) GasFastStep (minStack 2 1) (maxStack 2 1))),
     (SMOD, (new_operation (opSmod E) GasFastStep (minStack 2 1) (maxStack 2 1))),
     (ADDMOD, (new_operation (opAddmod E) GasMidStep (minStack 3 1) (maxStack 3 1))),
     (MULMOD, (new_operation (opMulmod E) GasMidStep (minStack 3 1) (maxStack 3 1))),
     (EXP, (new_operation (opExp E) 0 (minStack 2 1) (maxStack 2 1))\<lparr>dynamicGas := Some (gasExpFrontier E)\<rparr>),
     (SIGNEXTEND, (new_operation (opSignExtend E) GasFastStep (minStack 2 1) (maxStack 2 1))),
     (LT, (new_operation (opLt E) GasFastestStep (minStack 2 1) (maxStack 2 1))),
     (GT, (new_operation (opGt E) GasFastestStep (minStack 2 1) (maxStack 2 1))),
     (SLT, (new_operation (opSlt E) GasFastestStep (minStack 2 1) (maxStack 2 1))),
     (SGT, (new_operation (opSgt E) GasFastestStep (minStack 2 1) (maxStack 2 1))),
     (EQ, (new_operation (opEq E) GasFastestStep (minStack 2 1) (maxStack 2 1))),
     (ISZERO, (new_operation (opIszero E) GasFastestStep (minStack 1 1) (maxStack 1 1))),
     (AND_op, (new_operation (opAnd E) GasFastestStep (minStack 2 1) (maxStack 2 1))),
     (XOR_op, (new_operation (opXor E) GasFastestStep (minStack 2 1) (maxStack 2 1))),
     (OR_op, (new_operation (opOr E) GasFastestStep (minStack 2 1) (maxStack 2 1))),
     (NOT_op, (new_operation (opNot E) GasFastestStep (minStack 1 1) (maxStack 1 1))),
     (BYTE, (new_operation (opByte E) GasFastestStep (minStack 2 1) (maxStack 2 1))),
     (SHA3, (new_operation (opSha3 E) Sha3Gas (minStack 2 1) (maxStack 2 1))\<lparr>dynamicGas := Some (gasSha3 E), memorySize := Some (memorySha3 (U256 E))\<rparr>)]"

definition frontier_env :: "'s VmEnv \<Rightarrow> 's Calls \<Rightarrow> 's JumpTable" where
  "frontier_env E C =
    [(ADDRESS, (new_operation (opAddress E) GasQuickStep (minStack 0 1) (maxStack 0 1))),
     (BALANCE, (new_operation (opBalance E) BalanceGasFrontier (minStack 1 1) (maxStack 1 1))),
     (ORIGIN, (new_operation (opOrigin E) GasQuickStep (minStack 0 1) (maxStack 0 1))),
     (CALLER, (new_operation (opCaller E) GasQuickStep (minStack 0 1) (maxStack 0 1))),
     (CALLVALUE, (new_operation (opCallValue E) GasQuickStep (minStack 0 1) (maxStack 0 1))),
     (CALLDATALOAD, (new_operation (opCallDataLoad E) GasFastestStep (minStack 1 1) (maxStack 1 1))),
     (CALLDATASIZE, (new_operation (opCallDataSize E) GasQuickStep (minStack 0 1) (maxStack 0 1))),
     (CALLDATACOPY, (new_operation (opCallDataCopy E) GasFastestStep (minStack 3 0) (maxStack 3 0))\<lparr>dynamicGas := Some (gasCallDataCopy E), memorySize := Some (memoryCallDataCopy (U256 E))\<rparr>),
     (CODESIZE, (new_operation (opCodeSize E) GasQuickStep (minStack 0 1) (maxStack 0 1))),
     (CODECOPY, (new_operation (opCodeCopy E) GasFastestStep (minStack 3 0) (maxStack 3 0))\<lparr>dynamicGas := Some (gasCodeCopy E), memorySize := Some (memoryCodeCopy (U256 E))\<rparr>),
     (GASPRICE, (new_operation (opGasprice E) GasQuickStep (minStack 0 1) (maxStack 0 1))),
     (EXTCODESIZE, (new_operation (opExtCodeSize E) ExtcodeSizeGasFrontier (minStack 1 1) (maxStack 1 1))),
     (EXTCODECOPY, (new_operation (opExtCodeCopy E) ExtcodeCopyBaseFrontier (minStack 4 0) (maxStack 4 0))\<lparr>dynamicGas := Some (gasExtCodeCopy E), memorySize := Some (memoryExtCodeCopy (U256 E))\<rparr>)]"

definition frontier_block :: "'s VmEnv \<Rightarrow> 's Calls \<Rightarrow> 's JumpTable" where
  "frontier_block E C =
    [(BLOCKHASH, (new_operation (opBlockhash E) GasExtStep (minStack 1 1) (maxStack 1 1))),
     (COINBASE, (new_operation (opCoinbase E) GasQuickStep (minStack 0 1) (maxStack 0 1))),
     (TIMESTAMP, (new_operation (opTimestamp E) GasQuickStep (minStack 0 1) (maxStack 0 1))),
     (NUMBER, (new_operation (opNumber E) GasQuickStep (minStack 0 1) (maxStack 0 1))),
     (DIFFICULTY, (new_operation (opDifficulty E) GasQuickStep (minStack 0 1) (maxStack 0 1))),
     (GASLIMIT, (new_operation (opGasLimit E) GasQuickStep (minStack 0 1) (maxStack 0 1)))]"

definition frontier_flow :: "'s VmEnv \<Rightarrow> 's Calls \<Rightarrow> 's JumpTable" where
  "frontier_flow E C =
    [(POP, (new_operation (opPop E) GasQuickStep (minStack 1 0) (maxStack 1 0))),
     (MLOAD, (new_operation (opMload E) GasFastestStep (minStack 1 1) (maxStack 1 1))\<lparr>dynamicGas := Some (gasMLoad E), memorySize := Some (memoryMLoad (U256 E))\<rparr>),
     (MSTORE, (new_operation (opMstore E) GasFastestStep (minStack 2 0) (maxStack 2 0))\<lparr>dynamicGas := Some (gasMStore E), memorySize := Some (memoryMStore (U256 E))\<rparr>),
     (MSTORE8, (new_operation (opMstore8 E) GasFastestStep (minStack 2 0) (maxStack 2 0))\<lparr>dynamicGas := Some (gasMStore8 E), memorySize := Some (memoryMStore8 (U256 E))\<rparr>),
     (SLOAD, (new_operation (opSload E) SloadGasFrontier (minStack 1 1) (maxStack 1 1))),
     (SSTORE, (new_operation (opSstore E) 0 (minStack 2 0) (maxStack 2 0))\<lparr>dynamicGas := Some (gasSStore E), writes := True\<rparr>),
     (JUMP, (new_operation (opJump E) GasMidStep (minStack 1 0) (maxStack 1 0))\<lparr>jumps := True\<rparr>),
     (JUMPI, (new_operation (opJumpi E) GasSlowStep (minStack 2 0) (maxStack 2 0))\<lparr>jumps := True\<rparr>),
     (PC, (new_operation (opPc E) GasQuickStep (minStack 0 1) (maxStack 0 1))),
     (MSIZE, (new_operation (opMsize E) GasQuickStep (minStack 0 1) (maxStack 0 1))),
     (GAS, (new_operation (opGas E) GasQuickStep (minStack 0 1) (maxStack 0 1))),
     (JUMPDEST, (new_operation (opJumpdest E) JumpdestGas (minStack 0 0) (maxStack 0 0)))]"

definition frontier_push :: "'s VmEnv \<Rightarrow> 's Calls \<Rightarrow> 's JumpTable" where
  "frontier_push E C =
    [(PUSH1, (new_operation (opPush1 E) GasFastestStep (minStack 0 1) (maxStack 0 1))),
     (PUSH2, (new_operation (makePush 2 2 E) GasFastestStep (minStack 0 1) (maxStack 0 1))),
     (PUSH3, (new_operation (makePush 3 3 E) GasFastestStep (minStack 0 1) (maxStack 0 1))),
     (PUSH4, (new_operation (makePush 4 4 E) GasFastestStep (minStack 0 1) (maxStack 0 1))),
     (PUSH5, (new_operation (makePush 5 5 E) GasFastestStep (minStack 0 1) (maxStack 0 1))),
     (PUSH6, (new_operation (makePush 6 6 E) GasFastestStep (minStack 0 1) (maxStack 0 1))),
     (PUSH7, (new_operation (makePush 7 7 E) GasFastestStep (minStack 0 1) (maxStack 0 1))),
     (PUSH8, (new_operation (makePush 8 8 E) GasFastestStep (minStack 0 1) (maxStack 0 1))),
     (PUSH9, (new_operation (makePush 9 9 E) GasFastestStep (minStack 0 1) (maxStack 0 1))),
     (PUSH10, (new_operation (makePush 10 10 E) GasFastestStep (minStack 0 1) (maxStack 0 1))),
     (PUSH11, (new_operation (makePush 11 11 E) GasFastestStep (minStack 0 1) (maxStack 0 1))),
     (PUSH12, (new_operation (makePush 12 12 E) GasFastestStep (minStack 0 1) (maxStack 0 1))),
     (PUSH13, (new_operation (makePush 13 13 E) GasFastestStep (minStack 0 1) (maxStack 0 1))),
     (PUSH14, (new_operation (makePush 14 14 E) GasFastestStep (minStack 0 1) (maxStack 0 1))),
     (PUSH15, (new_operation (makePush 15 15 E) GasFastestStep (minStack 0 1) (maxStack 0 1))),
     (PUSH16, (new_operation (makePush 16 16 E) GasFastestStep (minStack 0 1) (maxStack 0 1)))]"

definition frontier_push_high :: "'s VmEnv \<Rightarrow> 's Calls \<Rightarrow> 's JumpTable" where
  "frontier_push_high E C =
    [(PUSH17, (new_operation (makePush 17 17 E) GasFastestStep (minStack 0 1) (maxStack 0 1))),
     (PUSH18, (new_operation (makePush 18 18 E) GasFastestStep (minStack 0 1) (maxStack 0 1))),
     (PUSH19, (new_operation (makePush 19 19 E) GasFastestStep (minStack 0 1) (maxStack 0 1))),
     (PUSH20, (new_operation (makePush 20 20 E) GasFastestStep (minStack 0 1) (maxStack 0 1))),
     (PUSH21, (new_operation (makePush 21 21 E) GasFastestStep (minStack 0 1) (maxStack 0 1))),
     (PUSH22, (new_operation (makePush 22 22 E) GasFastestStep (minStack 0 1) (maxStack 0 1))),
     (PUSH23, (new_operation (makePush 23 23 E) GasFastestStep (minStack 0 1) (maxStack 0 1))),
     (PUSH24, (new_operation (makePush 24 24 E) GasFastestStep (minStack 0 1) (maxStack 0 1))),
     (PUSH25, (new_operation (makePush 25 25 E) GasFastestStep (minStack 0 1) (maxStack 0 1))),
     (PUSH26, (new_operation (makePush 26 26 E) GasFastestStep (minStack 0 1) (maxStack 0 1))),
     (PUSH27, (new_operation (makePush 27 27 E) GasFastestStep (minStack 0 1) (maxStack 0 1))),
     (PUSH28, (new_operation (makePush 28 28 E) GasFastestStep (minStack 0 1) (maxStack 0 1))),
     (PUSH29, (new_operation (makePush 29 29 E) GasFastestStep (minStack 0 1) (maxStack 0 1))),
     (PUSH30, (new_operation (makePush 30 30 E) GasFastestStep (minStack 0 1) (maxStack 0 1))),
     (PUSH31, (new_operation (makePush 31 31 E) GasFastestStep (minStack 0 1) (maxStack 0 1))),
     (PUSH32, (new_operation (makePush 32 32 E) GasFastestStep (minStack 0 1) (maxStack 0 1)))]"

definition frontier_dup :: "'s VmEnv \<Rightarrow> 's Calls \<Rightarrow> 's JumpTable" where
  "frontier_dup E C =
    [(DUP1, (new_operation (makeDup 1 E) GasFastestStep (minDupStack 1) (maxDupStack 1))),
     (DUP2, (new_operation (makeDup 2 E) GasFastestStep (minDupStack 2) (maxDupStack 2))),
     (DUP3, (new_operation (makeDup 3 E) GasFastestStep (minDupStack 3) (maxDupStack 3))),
     (DUP4, (new_operation (makeDup 4 E) GasFastestStep (minDupStack 4) (maxDupStack 4))),
     (DUP5, (new_operation (makeDup 5 E) GasFastestStep (minDupStack 5) (maxDupStack 5))),
     (DUP6, (new_operation (makeDup 6 E) GasFastestStep (minDupStack 6) (maxDupStack 6))),
     (DUP7, (new_operation (makeDup 7 E) GasFastestStep (minDupStack 7) (maxDupStack 7))),
     (DUP8, (new_operation (makeDup 8 E) GasFastestStep (minDupStack 8) (maxDupStack 8))),
     (DUP9, (new_operation (makeDup 9 E) GasFastestStep (minDupStack 9) (maxDupStack 9))),
     (DUP10, (new_operation (makeDup 10 E) GasFastestStep (minDupStack 10) (maxDupStack 10))),
     (DUP11, (new_operation (makeDup 11 E) GasFastestStep (minDupStack 11) (maxDupStack 11))),
     (DUP12, (new_operation (makeDup 12 E) GasFastestStep (minDupStack 12) (maxDupStack 12))),
     (DUP13, (new_operation (makeDup 13 E) GasFastestStep (minDupStack 13) (maxDupStack 13))),
     (DUP14, (new_operation (makeDup 14 E) GasFastestStep (minDupStack 14) (maxDupStack 14))),
     (DUP15, (new_operation (makeDup 15 E) GasFastestStep (minDupStack 15) (maxDupStack 15))),
     (DUP16, (new_operation (makeDup 16 E) GasFastestStep (minDupStack 16) (maxDupStack 16)))]"

definition frontier_swap :: "'s VmEnv \<Rightarrow> 's Calls \<Rightarrow> 's JumpTable" where
  "frontier_swap E C =
    [(SWAP1, (new_operation (makeSwap 1 E) GasFastestStep (minSwapStack 2) (maxSwapStack 2))),
     (SWAP2, (new_operation (makeSwap 2 E) GasFastestStep (minSwapStack 3) (maxSwapStack 3))),
     (SWAP3, (new_operation (makeSwap 3 E) GasFastestStep (minSwapStack 4) (maxSwapStack 4))),
     (SWAP4, (new_operation (makeSwap 4 E) GasFastestStep (minSwapStack 5) (maxSwapStack 5))),
     (SWAP5, (new_operation (makeSwap 5 E) GasFastestStep (minSwapStack 6) (maxSwapStack 6))),
     (SWAP6, (new_operation (makeSwap 6 E) GasFastestStep (minSwapStack 7) (maxSwapStack 7))),
     (SWAP7, (new_operation (makeSwap 7 E) GasFastestStep (minSwapStack 8) (maxSwapStack 8))),
     (SWAP8, (new_operation (makeSwap 8 E) GasFastestStep (minSwapStack 9) (maxSwapStack 9))),
     (SWAP9, (new_operation (makeSwap 9 E) GasFastestStep (minSwapStack 10) (maxSwapStack 10))),
     (SWAP10, (new_operation (makeSwap 10 E) GasFastestStep (minSwapStack 11) (maxSwapStack 11))),
     (SWAP11, (new_operation (makeSwap 11 E) GasFastestStep (minSwapStack 12) (maxSwapStack 12))),
     (SWAP12, (new_operation (makeSwap 12 E) GasFastestStep (minSwapStack 13) (maxSwapStack 13))),
     (SWAP13, (new_operation (makeSwap 13 E) GasFastestStep (minSwapStack 14) (maxSwapStack 14))),
     (SWAP14, (new_operation (makeSwap 14 E) GasFastestStep (minSwapStack 15) (maxSwapStack 15))),
     (SWAP15, (new_operation (makeSwap 15 E) GasFastestStep (minSwapStack 16) (maxSwapStack 16))),
     (SWAP16, (new_operation (makeSwap 16 E) GasFastestStep (minSwapStack 17) (maxSwapStack 17)))]"

definition frontier_log :: "'s VmEnv \<Rightarrow> 's Calls \<Rightarrow> 's JumpTable" where
  "frontier_log E C =
    [(LOG0, (new_operation (makeLog 0 E) 0 (minStack 2 0) (maxStack 2 0))\<lparr>dynamicGas := Some (makeGasLog 0 E), memorySize := Some (memoryLog (U256 E)), writes := True\<rparr>),
     (LOG1, (new_operation (makeLog 1 E) 0 (minStack 3 0) (maxStack 3 0))\<lparr>dynamicGas := Some (makeGasLog 1 E), memorySize := Some (memoryLog (U256 E)), writes := True\<rparr>),
     (LOG2, (new_operation (makeLog 2 E) 0 (minStack 4 0) (maxStack 4 0))\<lparr>dynamicGas := Some (makeGasLog 2 E), memorySize := Some (memoryLog (U256 E)), writes := True\<rparr>),
     (LOG3, (new_operation (makeLog 3 E) 0 (minStack 5 0) (maxStack 5 0))\<lparr>dynamicGas := Some (makeGasLog 3 E), memorySize := Some (memoryLog (U256 E)), writes := True\<rparr>),
     (LOG4, (new_operation (makeLog 4 E) 0 (minStack 6 0) (maxStack 6 0))\<lparr>dynamicGas := Some (makeGasLog 4 E), memorySize := Some (memoryLog (U256 E)), writes := True\<rparr>)]"

definition frontier_call :: "'s VmEnv \<Rightarrow> 's Calls \<Rightarrow> 's JumpTable" where
  "frontier_call E C =
    [(CREATE, (new_operation (opCreate E C) CreateGas (minStack 3 1) (maxStack 3 1))\<lparr>dynamicGas := Some (gasCreate E), memorySize := Some (memoryCreate (U256 E)), writes := True, returns := True\<rparr>),
     (CALL, (new_operation (opCall E C) CallGasFrontier (minStack 7 1) (maxStack 7 1))\<lparr>dynamicGas := Some (gasCall E), memorySize := Some (memoryCall (U256 E)), returns := True\<rparr>),
     (CALLCODE, (new_operation (opCallCode E C) CallGasFrontier (minStack 7 1) (maxStack 7 1))\<lparr>dynamicGas := Some (gasCallCode E), memorySize := Some (memoryCall (U256 E)), returns := True\<rparr>),
     (RETURN, (new_operation (opReturn E) 0 (minStack 2 0) (maxStack 2 0))\<lparr>dynamicGas := Some (gasReturn E), memorySize := Some (memoryReturn (U256 E)), halts := True\<rparr>),
     (SELFDESTRUCT, (new_operation (opSuicide E) 0 (minStack 1 0) (maxStack 1 0))\<lparr>dynamicGas := Some (gasSelfdestruct E), halts := True, writes := True\<rparr>)]"

definition frontier :: "'s VmEnv \<Rightarrow> 's Calls \<Rightarrow> 's JumpTable" where
  "frontier E C = frontier_arith E C @ frontier_env E C @ frontier_block E C @ frontier_flow E C @ frontier_push E C @ frontier_push_high E C @ frontier_dup E C @ frontier_swap E C @ frontier_log E C @ frontier_call E C"

definition newInstructionSet :: "'s VmEnv \<Rightarrow> 's Calls \<Rightarrow> 's JumpTable" where
  "newInstructionSet E C =
    (let jt = frontier E C;
         jt = set_op DELEGATECALL ((new_operation (opDelegateCall E C) CallGasFrontier (minStack 6 1) (maxStack 6 1))\<lparr>dynamicGas := Some (gasDelegateCall E), memorySize := Some (memoryDelegateCall (U256 E)), returns := True\<rparr>) jt;
         jt = upd_op BALANCE (constantGas_update (\<lambda>_. BalanceGasEIP150)) jt;
         jt = upd_op EXTCODESIZE (constantGas_update (\<lambda>_. ExtcodeSizeGasEIP150)) jt;
         jt = upd_op SLOAD (constantGas_update (\<lambda>_. SloadGasEIP150)) jt;
         jt = upd_op EXTCODECOPY (constantGas_update (\<lambda>_. ExtcodeCopyBaseEIP150)) jt;
         jt = upd_op CALL (constantGas_update (\<lambda>_. CallGasEIP150)) jt;
         jt = upd_op CALLCODE (constantGas_update (\<lambda>_. CallGasEIP150)) jt;
         jt = upd_op DELEGATECALL (constantGas_update (\<lambda>_. CallGasEIP150)) jt;
         jt = upd_op EXP (dynamicGas_update (\<lambda>_. Some (gasExpEIP158 E))) jt;
         jt = set_op STATICCALL ((new_operation (opStaticCall E C) CallGasEIP150 (minStack 6 1) (maxStack 6 1))\<lparr>dynamicGas := Some (gasStaticCall E), memorySize := Some (memoryStaticCall (U256 E)), returns := True\<rparr>) jt;
         jt = set_op RETURNDATASIZE ((new_operation (opReturnDataSize E) GasQuickStep (minStack 0 1) (maxStack 0 1))) jt;
         jt = set_op RETURNDATACOPY ((new_operation (opReturnDataCopy E) GasFastestStep (minStack 3 0) (maxStack 3 0))\<lparr>dynamicGas := Some (gasReturnDataCopy E), memorySize := Some (memoryReturnDataCopy (U256 E))\<rparr>) jt;
         jt = set_op REVERT ((new_operation (opRevert E) 0 (minStack 2 0) (maxStack 2 0))\<lparr>dynamicGas := Some (gasRevert E), memorySize := Some (memoryRevert (U256 E)), reverts := True, returns := True\<rparr>) jt;
         jt = set_op SHL ((new_operation (opSHL E) GasFastestStep (minStack 2 1) (maxStack 2 1))) jt;
         jt = set_op SHR ((new_operation (opSHR E) GasFastestStep (minStack 2 1) (maxStack 2 1))) jt;
         jt = set_op SAR ((new_operation (opSAR E) GasFastestStep (minStack 2 1) (maxStack 2 1))) jt;
         jt = set_op EXTCODEHASH ((new_operation (opExtCodeHash E) ExtcodeHashGasConstantinople (minStack 1 1) (maxStack 1 1))) jt;
         jt = set_op CREATE2 ((new_operation (opCreate2 E C) Create2Gas (minStack 4 1) (maxStack 4 1))\<lparr>dynamicGas := Some (gasCreate2 E), memorySize := Some (memoryCreate2 (U256 E)), writes := True, returns := True\<rparr>) jt;
         jt = set_op CHAINID ((new_operation (opChainID E) GasQuickStep (minStack 0 1) (maxStack 0 1))) jt;
         jt = upd_op SLOAD (constantGas_update (\<lambda>_. SloadGasEIP1884)) jt;
         jt = upd_op BALANCE (constantGas_update (\<lambda>_. BalanceGasEIP1884)) jt;
         jt = upd_op EXTCODEHASH (constantGas_update (\<lambda>_. ExtcodeHashGasEIP1884)) jt;
         jt = set_op SELFBALANCE ((new_operation (opSelfBalance E) GasFastStep (minStack 0 1) (maxStack 0 1))) jt;
         jt = upd_op SLOAD (constantGas_update (\<lambda>_. SloadGasEIP2200)) jt;
         jt = upd_op SSTORE (dynamicGas_update (\<lambda>_. Some (gasSStoreEIP2200 E))) jt
     in jt)"

definition doProposal014 :: "'s VmEnv \<Rightarrow> 's Calls \<Rightarrow> 's JumpTable \<Rightarrow> 's JumpTable" where
  "doProposal014 E C jt =
    (let jt = set_op PRINTF ((new_operation (opPrintF E) PrintGas (minStack 0 0) (maxStack 0 0))) jt;
         jt = set_op STAKE ((new_operation (opStake E) StakeGas (minStack 2 1) (maxStack 2 1))) jt;
         jt = set_op UNSTAKE ((new_operation (opUnStake E) UnStakeGas (minStack 2 1) (maxStack 2 1))) jt;
         jt = set_op GETSTAKE ((new_operation (opGetStake E) GetStake (minStack 1 1) (maxStack 1 1))) jt;
         jt = set_op UNSTAKEALL ((new_operation (opUnStakeAll E) UnStakeAllGas (minStack 1 1) (maxStack 1 1))) jt;
         jt = set_op STAKENUM ((new_operation (opStakeNum E) StakeNumGas (minStack 1 1) (maxStack 1 1))) jt;
         jt = set_op AUTH ((new_operation (opAuth E) AuthGas (minStack 3 1) (maxStack 3 1))\<lparr>dynamicGas := Some (gasAuth E)\<rparr>) jt;
         jt = set_op AUTHCALL ((new_operation (opAuthCall E C) WarmStorageReadCostEIP2929 (minStack 9 1) (maxStack 9 1))\<lparr>dynamicGas := Some (gasAuthCall E), memorySize := Some (memoryAuthCall (U256 E))\<rparr>) jt
     in jt)"

definition doProposal022 :: "'s VmEnv \<Rightarrow> 's Calls \<Rightarrow> 's JumpTable \<Rightarrow> 's JumpTable" where
  "doProposal022 E C jt =
    (let jt = set_op BASEFEE ((new_operation (opBaseFee E) GasQuickStep (minStack 0 1) (maxStack 0 1))) jt;
         jt = set_op BLOBHASH ((new_operation (opBlobHash E) GasFastestStep (minStack 1 1) (maxStack 1 1))) jt;
         jt = set_op BLOBBASEFEE ((new_operation (opBlobBaseFee E) GasQuickStep (minStack 0 1) (maxStack 0 1))) jt;
         jt = set_op TLOAD ((new_operation (opTload E) WarmStorageReadCostEIP2929 (minStack 1 1) (maxStack 1 1))) jt;
         jt = set_op TSTORE ((new_operation (opTstore E) WarmStorageReadCostEIP2929 (minStack 2 0) (maxStack 2 0))) jt;
         jt = set_op MCOPY ((new_operation (opMcopy E) GasFastestStep (minStack 3 0) (maxStack 3 0))\<lparr>dynamicGas := Some (gasMcopy E), memorySize := Some (memoryMcopy (U256 E))\<rparr>) jt;
         jt = set_op PUSH0 ((new_operation (opPush0 E) GasQuickStep (minStack 0 1) (maxStack 0 1))) jt
     in jt)"

definition doProposal026 :: "'s JumpTable \<Rightarrow> 's JumpTable" where
  "doProposal026 jt = map (\<lambda>(b, opn). (b, opn\<lparr>constantGas := constantGas opn * GasMagnification\<rparr>)) jt"

text \<open>\<^verbatim>\<open>NewEVMInterpreter\<close> builds the table for the height of the block.\<close>

definition jumpTable :: "'s VmEnv \<Rightarrow> 's Calls \<Rightarrow> 's JumpTable" where
  "jumpTable E C =
    (let jt = newInstructionSet E C;
         jt = (if jt014 E then doProposal014 E C jt else jt);
         jt = (if jt022 E then doProposal022 E C jt else jt)
     in if jt026 E then doProposal026 jt else jt)"

end
