(* ===== verification/Vm_Interp.thy ===== *)
theory Vm_Interp
  imports Vm_Table
begin

text \<open>
  The interpreter loop (\<^verbatim>\<open>src/vm/interpreter.go\<close>). One round of the loop is \<open>step\<close>: it
  checks the stack, write protection and gas, grows the memory and executes. \<open>run_loop\<close>
  repeats it; its fuel is never used up if it exceeds \<open>loop_fuel\<close> (shown in
  \<^verbatim>\<open>Vm_Loop_Safe\<close>), and \<open>Run\<close> uses that amount. A result \<open>None\<close> is a panic.
\<close>

section \<open>One round\<close>

datatype 's round =
    Return bytes "Log list" "vm_error option" "'s Machine"
  | Continue "'s Machine"

text \<open>The memory size in bytes that the operation needs, rounded up to words.\<close>

definition required_memory :: "'s operation \<Rightarrow> stack \<Rightarrow> (u64 \<times> bool) option" where
  "required_memory opn st =
    (case memorySize opn of
       None \<Rightarrow> Some (0, False)
     | Some f \<Rightarrow>
         map_option (\<lambda>(memSize, overflow). if overflow then (0, True) else SafeMul (toWordSize memSize) 32) (f st))"

definition set_gas :: "Contract \<Rightarrow> 's Machine \<Rightarrow> 's Machine" where
  "set_gas c m = m\<lparr>contract := c\<rparr>"

text \<open>The dynamic portion of gas; every failure becomes \<^verbatim>\<open>ErrOutOfGas\<close>.\<close>

definition charge_dynamic :: "'s operation \<Rightarrow> u64 \<Rightarrow> 's Machine \<Rightarrow> (bool \<times> 's Machine) option" where
  "charge_dynamic opn memSize m =
    (case dynamicGas opn of
       None \<Rightarrow> Some (True, m)
     | Some f \<Rightarrow>
         (case f memSize m of
            None \<Rightarrow> None
          | Some (Inl _, m) \<Rightarrow> Some (False, m)
          | Some (Inr cost, m) \<Rightarrow> (let (paid, c) = UseGas cost (contract m) in Some (paid, set_gas c m))))"

text \<open>What the loop does with the result of an operation.\<close>

definition after_execute :: "'s operation \<Rightarrow> bytes \<Rightarrow> vm_error option \<Rightarrow> 's Machine \<Rightarrow> 's round" where
  "after_execute opn res err m =
    (let m = (if returns opn then m\<lparr>returnData := res\<rparr> else m)
     in case err of
          Some e \<Rightarrow> Return [] [] (Some e) m
        | None \<Rightarrow>
            if reverts opn then Return res (m_logs m) (Some ErrExecutionReverted) m
            else if halts opn then Return res (m_logs m) None m
            else Continue (if jumps opn then m else m\<lparr>pc := pc m + 1\<rparr>))"

definition step_op :: "'s operation \<Rightarrow> 's Machine \<Rightarrow> 's round option" where
  "step_op opn m =
    (let (paid, c) = UseGas (constantGas opn) (contract m);
         m = set_gas c m
     in if \<not> paid then Some (Return [] [] (Some ErrOutOfGas) m)
        else do {
          (memSize, overflow) \<leftarrow> required_memory opn (stk m);
          if overflow then Some (Return [] [] (Some ErrGasUintOverflow) m)
          else do {
            (paid, m) \<leftarrow> charge_dynamic opn memSize m;
            if \<not> paid then Some (Return [] [] (Some ErrOutOfGas) m)
            else do {
              let m = (if memSize > 0 then m\<lparr>memory := mem_Resize memSize (memory m)\<rparr> else m);
              ((res, err), m) \<leftarrow> execute opn m;
              Some (after_execute opn res err m)
            }
          }
        })"

text \<open>Write protection: \<^verbatim>\<open>operation.writes || (op == CALL && stack.Back(2).Sign() != 0)\<close>.\<close>

definition write_protected :: "'s VmEnv \<Rightarrow> byte \<Rightarrow> 's operation \<Rightarrow> 's Machine \<Rightarrow> bool option" where
  "write_protected E b opn m =
    (if \<not> readOnly m then Some False
     else if writes opn then Some True
     else if b = CALL then map_option (\<lambda>v. uSign (U256 E) v \<noteq> 0) (Back 2 m)
     else Some False)"

definition step :: "'s VmEnv \<Rightarrow> 's JumpTable \<Rightarrow> 's Machine \<Rightarrow> 's round option" where
  "step E jt m =
    (let b = GetOp (contract m) (pc m)
     in case map_of jt b of
          None \<Rightarrow> Some (Return [] [] (Some (ErrInvalidOpCode b)) m)
        | Some opn \<Rightarrow>
            (let sLen = length (stk m)
             in if sLen < op_minStack opn then Some (Return [] [] (Some (ErrStackUnderflow sLen (op_minStack opn))) m)
                else if sLen > op_maxStack opn then Some (Return [] [] (Some (ErrStackOverflow sLen (op_maxStack opn))) m)
                else do {
                  protected \<leftarrow> write_protected E b opn m;
                  if protected then Some (Return [] [] (Some ErrWriteProtection) m)
                  else step_op opn m
                }))"

section \<open>The loop\<close>

primrec run_loop :: "'s VmEnv \<Rightarrow> 's JumpTable \<Rightarrow> nat \<Rightarrow> nat \<Rightarrow> 's Machine \<Rightarrow>
    ((bytes \<times> Log list \<times> vm_error option) \<times> 's Machine) option" where
  "run_loop E jt 0 steps m = None"
| "run_loop E jt (Suc fuel) steps m =
    (let steps = steps + 1
     in if steps mod 1000 = 0 \<and> f_abort E steps (state m) then Some (([], [], None), m)
        else (case step E jt m of
                None \<Rightarrow> None
              | Some (Return ret lgs err m) \<Rightarrow> Some ((ret, lgs, err), m)
              | Some (Continue m) \<Rightarrow> run_loop E jt fuel steps m))"

definition loop_fuel :: "Contract \<Rightarrow> nat" where
  "loop_fuel c = unat (Gas c) * (length (Code c) + 1) + length (Code c) + 1"

definition init_machine :: "Contract \<Rightarrow> 's Evm \<Rightarrow> 's Machine" where
  "init_machine c e =
    \<lparr>pc = 0, memory = NewMemory, stk = [], contract = c, authorized = None, m_logs = [],
     readOnly = e_readOnly e, returnData = e_returnData e, callGasTemp = e_callGasTemp e,
     depth = e_depth e, state = e_state e\<rparr>"

text \<open>\<^verbatim>\<open>Run\<close> with its deferred functions: the depth is lowered again, and the read-only flag is
  cleared by the call that set it.\<close>

definition Run :: "'s VmEnv \<Rightarrow> 's Calls \<Rightarrow> Contract \<Rightarrow> bytes \<Rightarrow> bool \<Rightarrow> 's Evm \<Rightarrow>
    ((bytes \<times> Log list \<times> vm_error option) \<times> Contract \<times> 's Evm) option" where
  "Run E C c input ro e =
    (let sets = (ro \<and> \<not> e_readOnly e);
         e = e\<lparr>e_depth := e_depth e + 1, e_readOnly := e_readOnly e \<or> ro, e_returnData := []\<rparr>;
         leave = (\<lambda>e. e\<lparr>e_depth := e_depth e - 1, e_readOnly := (if sets then False else e_readOnly e)\<rparr>)
     in if Code c = [] then Some (([], [], None), c, leave e)
        else map_option (\<lambda>(r, m). (r, contract m, leave (evm_of m)))
               (run_loop E (jumpTable E C) (loop_fuel c) 0 (init_machine (c\<lparr>Input := input\<rparr>) e)))"

end
