(* ===== verification/Vm_EVM.thy ===== *)
theory Vm_EVM
  imports Vm_Interp
begin

text \<open>
  The message calls of \<^verbatim>\<open>src/vm/evm.go\<close>. A call checks depth and balance, takes a
  snapshot, moves the value, runs a precompiled contract or the code, and on an error goes
  back to the snapshot. The interpreter is an argument \<open>run\<close>; \<open>evm_calls\<close> ties the
  mutual recursion of calls and interpreter, with fuel for the nesting. The depth limit of
  the code makes \<open>CallCreateDepth + 2\<close> enough.
\<close>

type_synonym 's runner = "Contract \<Rightarrow> bytes \<Rightarrow> bool \<Rightarrow> 's Evm \<Rightarrow>
    ((bytes \<times> Log list \<times> vm_error option) \<times> Contract \<times> 's Evm) option"

type_synonym jumpmap = "hash \<rightharpoonup> bitvec"

definition CallCreateDepth :: nat where "CallCreateDepth = 1024"
definition MaxCodeSize :: nat where "MaxCodeSize = 245760"
definition CreateDataGas :: u64 where "CreateDataGas = 200"

section \<open>Shared parts\<close>

text \<open>A caller is an address and, if it is a contract, its analysis map.\<close>

type_synonym caller = "address \<times> jumpmap option"

definition jumpmap_of :: "jumpmap option \<Rightarrow> jumpmap" where
  "jumpmap_of p = (case p of Some jd \<Rightarrow> jd | None \<Rightarrow> Map.empty)"

definition result :: "bytes \<Rightarrow> u64 \<Rightarrow> Log list \<Rightarrow> vm_error option \<Rightarrow> address \<Rightarrow> jumpmap \<Rightarrow> CallResult" where
  "result ret gas lgs err addr jd =
    \<lparr>r_ret = ret, r_gas = gas, r_logs = lgs, r_err = err, r_addr = addr, r_jumpdests = jd\<rparr>"

definition put_state :: "'s \<Rightarrow> 's Evm \<Rightarrow> 's Evm" where
  "put_state st e = e\<lparr>e_state := st\<rparr>"

text \<open>The common end of the calls: revert on an error, and take the gas unless the code asked
  for the revert.\<close>

definition settle :: "'s VmEnv \<Rightarrow> int \<Rightarrow> CallResult \<Rightarrow> 's Evm \<Rightarrow> (CallResult \<times> 's Evm) option" where
  "settle E snapshot r e =
    (if r_err r \<noteq> None then do {
       st \<leftarrow> sd_RevertToSnapshot (SDB E) snapshot (e_state e);
       Some (if r_err r \<noteq> Some ErrExecutionReverted then r\<lparr>r_gas := 0\<rparr> else r, put_state st e)
     } else Some (r, e))"

definition run_precompile :: "PrecompiledContract \<Rightarrow> jumpmap option \<Rightarrow> bytes \<Rightarrow> u64 \<Rightarrow> 's Evm \<Rightarrow> (CallResult \<times> 's Evm) option" where
  "run_precompile p parent input gas e =
    map_option (\<lambda>(ret, gas, err). (result ret gas [] err zero_address (jumpmap_of parent), e))
      (RunPrecompiledContract p input gas)"

definition run_code :: "'s runner \<Rightarrow> Contract \<Rightarrow> bytes \<Rightarrow> bool \<Rightarrow> 's Evm \<Rightarrow> (CallResult \<times> 's Evm) option" where
  "run_code run c input ro e =
    map_option (\<lambda>((ret, lgs, err), c, e). (result ret (Gas c) lgs err zero_address (jumpdests c), e))
      (run c input ro e)"

text \<open>\<^verbatim>\<open>contract.SetCallCode(&addr, GetCodeHash(addr), GetCode(addr))\<close> with the state they leave.\<close>

definition load_code :: "'s VmEnv \<Rightarrow> address \<Rightarrow> Contract \<Rightarrow> 's Evm \<Rightarrow> Contract \<times> 's Evm" where
  "load_code E addr c e =
    (let (h, st) = sd_GetCodeHash (SDB E) addr (e_state e);
         (code, st) = sd_GetCode (SDB E) addr st
     in (SetCallCode addr h code c, put_state st e))"

section \<open>Calls\<close>

text \<open>\<^verbatim>\<open>Call\<close> and \<^verbatim>\<open>AuthCall\<close> share all that follows the balance check; the payer differs.\<close>

definition call_body :: "'s VmEnv \<Rightarrow> 's runner \<Rightarrow> address \<Rightarrow> caller \<Rightarrow> address \<Rightarrow> bytes \<Rightarrow> u64 \<Rightarrow> int \<Rightarrow> 's Evm \<Rightarrow>
    (CallResult \<times> 's Evm) option" where
  "call_body E run payer caller addr input gas value e = do {
     let (snapshot, st) = sd_Snapshot (SDB E) (e_state e);
     let p = f_precompile E addr;
     let (exist, st) = sd_Exist (SDB E) addr st;
     if \<not> exist \<and> p = None \<and> value = 0
     then Some (result [] gas [] None zero_address (jumpmap_of (snd caller)), put_state st e)
     else do {
       let st = (if \<not> exist then sd_CreateAccount (SDB E) addr st else st);
       st \<leftarrow> f_Transfer E payer addr value st;
       (r, e) \<leftarrow>
         (case p of
            Some p \<Rightarrow> run_precompile p (snd caller) input gas (put_state st e)
          | None \<Rightarrow>
              (let (code, st) = sd_GetCode (SDB E) addr st
               in if code = [] then Some (result [] gas [] None zero_address (jumpmap_of (snd caller)), put_state st e)
                  else
                    (let (h, st) = sd_GetCodeHash (SDB E) addr st;
                         c = SetCallCode addr h code (NewContract (fst caller) (snd caller) addr value gas)
                     in run_code run c input False (put_state st e))));
       settle E snapshot r e
     }
   }"

definition no_call :: "caller \<Rightarrow> u64 \<Rightarrow> vm_error \<Rightarrow> 's Evm \<Rightarrow> (CallResult \<times> 's Evm) option" where
  "no_call caller gas err e = Some (result [] gas [] (Some err) zero_address (jumpmap_of (snd caller)), e)"

text \<open>\<^verbatim>\<open>value.Sign() != 0 && !CanTransfer(...)\<close>.\<close>

definition too_poor :: "'s VmEnv \<Rightarrow> address \<Rightarrow> int \<Rightarrow> 's Evm \<Rightarrow> (bool \<times> 's Evm) option" where
  "too_poor E payer value e =
    (if value \<noteq> 0 then map_option (\<lambda>(can, st). (\<not> can, put_state st e)) (f_CanTransfer E payer value (e_state e))
     else Some (False, e))"

definition Call :: "'s VmEnv \<Rightarrow> 's runner \<Rightarrow> caller \<Rightarrow> address \<Rightarrow> bytes \<Rightarrow> u64 \<Rightarrow> int \<Rightarrow> 's Evm \<Rightarrow> (CallResult \<times> 's Evm) option" where
  "Call E run caller addr input gas value e =
    (if e_depth e > CallCreateDepth then no_call caller gas ErrDepth e
     else do {
       (poor, e) \<leftarrow> too_poor E (fst caller) value e;
       if poor then no_call caller gas ErrInsufficientBalance e
       else call_body E run (fst caller) caller addr input gas value e
     })"

definition AuthCall :: "'s VmEnv \<Rightarrow> 's runner \<Rightarrow> address \<Rightarrow> caller \<Rightarrow> address \<Rightarrow> bytes \<Rightarrow> u64 \<Rightarrow> int \<Rightarrow> 's Evm \<Rightarrow>
    (CallResult \<times> 's Evm) option" where
  "AuthCall E run sponsor caller addr input gas value e =
    (if e_depth e > CallCreateDepth then no_call caller gas ErrDepth e
     else do {
       (poor, e) \<leftarrow> too_poor E sponsor value e;
       if poor then no_call caller gas ErrInsufficientBalance e
       else
         (let (nonce, st) = sd_GetNonce (SDB E) (fst caller) (e_state e);
              st = sd_SetNonce (SDB E) (fst caller) (nonce + 1) st
          in call_body E run sponsor caller addr input gas value (put_state st e))
     })"

text \<open>\<^verbatim>\<open>CallCode\<close> drops the logs of the code it runs.\<close>

definition CallCode :: "'s VmEnv \<Rightarrow> 's runner \<Rightarrow> caller \<Rightarrow> address \<Rightarrow> bytes \<Rightarrow> u64 \<Rightarrow> int \<Rightarrow> 's Evm \<Rightarrow> (CallResult \<times> 's Evm) option" where
  "CallCode E run caller addr input gas value e =
    (if e_depth e > CallCreateDepth then no_call caller gas ErrDepth e
     else do {
       (can, st) \<leftarrow> f_CanTransfer E (fst caller) value (e_state e);
       let e = put_state st e;
       if \<not> can then no_call caller gas ErrInsufficientBalance e
       else do {
         let (snapshot, st) = sd_Snapshot (SDB E) (e_state e);
         let e = put_state st e;
         (r, e) \<leftarrow>
           (case f_precompile E addr of
              Some p \<Rightarrow> run_precompile p (snd caller) input gas e
            | None \<Rightarrow>
                (let (c, e) = load_code E addr (NewContract (fst caller) (snd caller) (fst caller) value gas) e
                 in run_code run c input False e));
         (r, e) \<leftarrow> settle E snapshot r e;
         Some (r\<lparr>r_logs := []\<rparr>, e)
       }
     })"

definition DelegateCall :: "'s VmEnv \<Rightarrow> 's runner \<Rightarrow> Contract \<Rightarrow> address \<Rightarrow> bytes \<Rightarrow> u64 \<Rightarrow> 's Evm \<Rightarrow> (CallResult \<times> 's Evm) option" where
  "DelegateCall E run parent addr input gas e =
    (let caller = (self parent, Some (jumpdests parent))
     in if e_depth e > CallCreateDepth then no_call caller gas ErrDepth e
        else do {
          let (snapshot, st) = sd_Snapshot (SDB E) (e_state e);
          let e = put_state st e;
          (r, e) \<leftarrow>
            (case f_precompile E addr of
               Some p \<Rightarrow> run_precompile p (snd caller) input gas e
             | None \<Rightarrow>
                 (let (c, e) = load_code E addr
                        (AsDelegate parent (NewContract (fst caller) (snd caller) (fst caller) 0 gas)) e
                  in run_code run c input False e));
          settle E snapshot r e
        })"

definition StaticCall :: "'s VmEnv \<Rightarrow> 's runner \<Rightarrow> caller \<Rightarrow> address \<Rightarrow> bytes \<Rightarrow> u64 \<Rightarrow> 's Evm \<Rightarrow> (CallResult \<times> 's Evm) option" where
  "StaticCall E run caller addr input gas e =
    (if e_depth e > CallCreateDepth then no_call caller gas ErrDepth e
     else do {
       let (snapshot, st) = sd_Snapshot (SDB E) (e_state e);
       st \<leftarrow> sd_AddBalance (SDB E) addr 0 st;
       let e = put_state st e;
       (r, e) \<leftarrow>
         (case f_precompile E addr of
            Some p \<Rightarrow> run_precompile p (snd caller) input gas e
          | None \<Rightarrow>
              (let (c, e) = load_code E addr (NewContract (fst caller) (snd caller) addr 0 gas) e
               in run_code run c input True e));
       settle E snapshot r e
     })"

section \<open>Contract creation\<close>

text \<open>The white list of a sub chain: the storage key is the hash of the creator and the
  position of the list, each in 32 bytes.\<close>

definition whitelist_key :: "'s VmEnv \<Rightarrow> address \<Rightarrow> hash" where
  "whitelist_key E creator =
    (let pos = CreateWhiteListPostion E;
         data = replicate 12 0 @ go_copy (replicate 52 0) creator
     in f_Keccak256 E (take (64 - length pos) data @ pos))"

definition may_create :: "'s VmEnv \<Rightarrow> address \<Rightarrow> 's Evm \<Rightarrow> bool \<times> 's Evm" where
  "may_create E creator e =
    (if subChain E \<and> (word_of_int (ctx_BlockNumber E) :: u64) \<noteq> 0 then
       (let (value, st) = f_GetData E (CreateWhiteListAddr E) (whitelist_key E creator) (e_state e)
        in (value \<noteq> [] \<and> last value = 1, put_state st e))
     else (True, e))"

text \<open>After the code ran: store it if it is not too large and the gas is enough.\<close>

definition store_code :: "'s VmEnv \<Rightarrow> int \<Rightarrow> address \<Rightarrow> CallResult \<Rightarrow> 's Evm \<Rightarrow> (CallResult \<times> 's Evm) option" where
  "store_code E snapshot address r e =
    (let maxCodeSizeExceeded = (length (r_ret r) > MaxCodeSize);
         createDataGas = of_nat (length (r_ret r)) * CreateDataGas;
         createDataGas = (if p026 E then createDataGas * GasMagnification else createDataGas);
         (r, e) =
           (if r_err r = None \<and> \<not> maxCodeSizeExceeded then
              (if r_gas r < createDataGas then (r\<lparr>r_err := Some ErrCodeStoreOutOfGas\<rparr>, e)
               else (r\<lparr>r_gas := r_gas r - createDataGas\<rparr>, put_state (sd_SetCode (SDB E) address (r_ret r) (e_state e)) e))
            else (r, e))
     in do {
       (r, e) \<leftarrow>
         (if maxCodeSizeExceeded \<or> (r_err r \<noteq> None \<and> r_err r \<noteq> Some ErrCodeStoreOutOfGas) then do {
            st \<leftarrow> sd_RevertToSnapshot (SDB E) snapshot (e_state e);
            Some (if r_err r \<noteq> Some ErrExecutionReverted then r\<lparr>r_gas := 0\<rparr> else r, put_state st e)
          } else Some (r, e));
       Some (if maxCodeSizeExceeded \<and> r_err r = None then r\<lparr>r_err := Some ErrMaxCodeSizeExceeded\<rparr> else r, e)
     })"

text \<open>\<open>h\<close> is the field \<^verbatim>\<open>hash\<close> of \<^verbatim>\<open>codeAndHash\<close>: \<^verbatim>\<open>Create\<close> leaves it zero, \<^verbatim>\<open>Create2\<close> has
  computed it.\<close>

definition create :: "'s VmEnv \<Rightarrow> 's runner \<Rightarrow> caller \<Rightarrow> bytes \<Rightarrow> hash \<Rightarrow> u64 \<Rightarrow> int \<Rightarrow> address \<Rightarrow> 's Evm \<Rightarrow>
    (CallResult \<times> 's Evm) option" where
  "create E run caller code h gas value address e = do {
     let (allowed, e) = may_create E (fst caller) e;
     if \<not> allowed then no_call caller 0 ErrSubChainNoCreate e
     else if e_depth e > CallCreateDepth then no_call caller gas ErrDepth e
     else do {
       (can, st) \<leftarrow> f_CanTransfer E (fst caller) value (e_state e);
       if \<not> can then no_call caller gas ErrInsufficientBalance (put_state st e)
       else do {
         let (nonce, st) = sd_GetNonce (SDB E) (fst caller) st;
         let st = (if \<not> p006 E \<or> p007 E then sd_SetNonce (SDB E) (fst caller) (nonce + 1) st else st);
         let st = sd_AddAddressToAccessList (SDB E) address st;
         let (contractHash, st) = sd_GetCodeHash (SDB E) address st;
         let (n, st) = sd_GetNonce (SDB E) address st;
         if n \<noteq> 0 \<or> (contractHash \<noteq> zero_hash \<and> contractHash \<noteq> f_Keccak256 E [])
         then no_call caller 0 ErrContractAddressCollision (put_state st e)
         else do {
           let (snapshot, st) = sd_Snapshot (SDB E) st;
           let st = sd_CreateAccount (SDB E) address st;
           let st = sd_SetNonce (SDB E) address 1 st;
           st \<leftarrow> f_Transfer E (fst caller) address value st;
           let c = SetCallCode address h code (NewContract (fst caller) (snd caller) address value gas);
           (r, e) \<leftarrow> run_code run c [] False (put_state st e);
           store_code E snapshot address (r\<lparr>r_addr := address\<rparr>) e
         }
       }
     }
   }"

definition Create :: "'s VmEnv \<Rightarrow> 's runner \<Rightarrow> caller \<Rightarrow> bytes \<Rightarrow> u64 \<Rightarrow> int \<Rightarrow> 's Evm \<Rightarrow> (CallResult \<times> 's Evm) option" where
  "Create E run caller code gas value e =
    (let (nonce, st) = sd_GetNonce (SDB E) (fst caller) (e_state e)
     in create E run caller code zero_hash gas value (CreateAddress (f_Keccak256 E) (fst caller) nonce) (put_state st e))"

definition Create2 :: "'s VmEnv \<Rightarrow> 's runner \<Rightarrow> caller \<Rightarrow> bytes \<Rightarrow> u64 \<Rightarrow> int \<Rightarrow> u256 \<Rightarrow> 's Evm \<Rightarrow> (CallResult \<times> 's Evm) option" where
  "Create2 E run caller code gas endowment salt e =
    (let h = f_Keccak256 E code
     in create E run caller code h gas endowment
          (CreateAddress2 (f_Keccak256 E) (fst caller) (uBytes32 (U256 E) salt) h) e)"

section \<open>The machine as a whole\<close>

definition caller_of :: "Contract \<Rightarrow> caller" where
  "caller_of c = (self c, Some (jumpdests c))"

definition calls_with :: "'s VmEnv \<Rightarrow> 's runner \<Rightarrow> 's Calls" where
  "calls_with E run =
    \<lparr>do_Call = (\<lambda>c. Call E run (caller_of c)),
     do_CallCode = (\<lambda>c. CallCode E run (caller_of c)),
     do_DelegateCall = DelegateCall E run,
     do_StaticCall = (\<lambda>c. StaticCall E run (caller_of c)),
     do_Create = (\<lambda>c. Create E run (caller_of c)),
     do_Create2 = (\<lambda>c. Create2 E run (caller_of c)),
     do_AuthCall = (\<lambda>sponsor a. AuthCall E run sponsor (a, None))\<rparr>"

primrec evm_run :: "'s VmEnv \<Rightarrow> nat \<Rightarrow> 's runner" where
  "evm_run E 0 = (\<lambda>c input ro e. None)"
| "evm_run E (Suc n) = Run E (calls_with E (evm_run E n))"

text \<open>\<^verbatim>\<open>run\<close> as the outermost call uses it.\<close>

definition run :: "'s VmEnv \<Rightarrow> 's runner" where
  "run E = evm_run E (CallCreateDepth + 2)"

definition evm_calls :: "'s VmEnv \<Rightarrow> 's Calls" where
  "evm_calls E = calls_with E (run E)"

end
