(* ===== verification/Vm_World.thy ===== *)
theory Vm_World
  imports Vm_EVM
begin

text \<open>
  The contract between the VM and the world it runs on. The locale \<open>vm_world\<close> states what
  the VM relies on: an operation of the state on a good state returns, and leaves a state
  \<open>ext\<close>ended from it, one whose snapshots can still be reverted to; the code of an account
  is the code with its hash. On top of it the notions that the safety proofs use. The
  parameter \<open>low\<close> is a lower bound on the call depth; the proof that nested calls return
  lowers it step by step.
\<close>

section \<open>Laws of the world\<close>

text \<open>A precompiled contract need only return if it is called with less gas than this.\<close>

definition gas_cap :: nat where
  "gas_cap = 2 ^ 58"

locale vm_world = uint256_laws "U256 E"
  for E :: "'s VmEnv" +
  fixes ext :: "'s \<Rightarrow> 's \<Rightarrow> bool" and good :: "'s \<Rightarrow> bool" and code_of :: "hash \<Rightarrow> bytes" and low :: nat
  assumes ext_refl: "good s \<Longrightarrow> ext s s"
    and ext_trans: "ext s1 s2 \<Longrightarrow> ext s2 s3 \<Longrightarrow> ext s1 s3"
    and ext_good: "ext s1 s2 \<Longrightarrow> good s2"
    and CreateAccount_law: "good s \<Longrightarrow> ext s (sd_CreateAccount (SDB E) a s)"
    and AddBalance_law: "good s \<Longrightarrow> \<exists>s'. sd_AddBalance (SDB E) a amt s = Some s' \<and> ext s s'"
    and GetBalance_law: "good s \<Longrightarrow> \<exists>bal s'. sd_GetBalance (SDB E) a s = Some (bal, s') \<and> ext s s'"
    and GetNonce_law: "good s \<Longrightarrow> ext s (snd (sd_GetNonce (SDB E) a s))"
    and SetNonce_law: "good s \<Longrightarrow> ext s (sd_SetNonce (SDB E) a n s)"
    and GetCodeHash_law: "good s \<Longrightarrow> ext s (snd (sd_GetCodeHash (SDB E) a s))"
    and GetCode_law: "good s \<Longrightarrow> ext s (snd (sd_GetCode (SDB E) a s))"
    and Code_size: "good s \<Longrightarrow> length (fst (sd_GetCode (SDB E) a s)) < 2 ^ 61"
    and Code_then_hash: "good s \<Longrightarrow> sd_GetCode (SDB E) a s = (code, s1) \<Longrightarrow> sd_GetCodeHash (SDB E) a s1 = (h, s2) \<Longrightarrow>
      h \<noteq> zero_hash \<Longrightarrow> code_of h = code"
    and Hash_then_code: "good s \<Longrightarrow> sd_GetCodeHash (SDB E) a s = (h, s1) \<Longrightarrow> sd_GetCode (SDB E) a s1 = (code, s2) \<Longrightarrow>
      h \<noteq> zero_hash \<Longrightarrow> code_of h = code"
    and Keccak_code: "code_of (f_Keccak256 E code) = code"
    and SetCode_law: "good s \<Longrightarrow> length code < 2 ^ 61 \<Longrightarrow> ext s (sd_SetCode (SDB E) a code s)"
    and GetCodeSize_law: "good s \<Longrightarrow> ext s (snd (sd_GetCodeSize (SDB E) a s))"
    and AddRefund_law: "good s \<Longrightarrow> ext s (sd_AddRefund (SDB E) g s)"
    and GetState_law: "good s \<Longrightarrow> ext s (snd (sd_GetState (SDB E) a k s))"
    and SetState_law: "good s \<Longrightarrow> length k = HashLength \<Longrightarrow> length v = HashLength \<Longrightarrow> ext s (sd_SetState (SDB E) a k v s)"
    and SetTransientState_law: "good s \<Longrightarrow> length k = HashLength \<Longrightarrow> length v = HashLength \<Longrightarrow>
      ext s (sd_SetTransientState (SDB E) a k v s)"
    and Suicide_law: "good s \<Longrightarrow> \<exists>did s'. sd_Suicide (SDB E) a s = Some (did, s') \<and> ext s s'"
    and HasSuicided_law: "good s \<Longrightarrow> ext s (snd (sd_HasSuicided (SDB E) a s))"
    and Exist_law: "good s \<Longrightarrow> ext s (snd (sd_Exist (SDB E) a s))"
    and Empty_law: "good s \<Longrightarrow> ext s (snd (sd_Empty (SDB E) a s))"
    and AddAddressToAccessList_law: "good s \<Longrightarrow> ext s (sd_AddAddressToAccessList (SDB E) a s)"
    and AddLog_law: "good s \<Longrightarrow> ext s (sd_AddLog (SDB E) l s)"
    and Snapshot_law: "good s \<Longrightarrow> ext s (snd (sd_Snapshot (SDB E) s))"
    and Revert_law: "good s \<Longrightarrow> ext (snd (sd_Snapshot (SDB E) s)) s1 \<Longrightarrow>
      \<exists>s2. sd_RevertToSnapshot (SDB E) (fst (sd_Snapshot (SDB E) s)) s1 = Some s2 \<and> ext s s2"
    and CanTransfer_law: "good s \<Longrightarrow> \<exists>can s'. f_CanTransfer E a amt s = Some (can, s') \<and> ext s s'"
    and Transfer_law: "good s \<Longrightarrow> \<exists>s'. f_Transfer E a b amt s = Some s' \<and> ext s s'"
    and GetData_law: "good s \<Longrightarrow> ext s (snd (f_GetData E a k s))"
    and Precompile_law: "f_precompile E a = Some p \<Longrightarrow> length input < 2 ^ 62 \<Longrightarrow> unat gas < gas_cap \<Longrightarrow>
      \<exists>r. RunPrecompiledContract p input gas = Some r"
begin

lemmas ext_laws = CreateAccount_law GetNonce_law SetNonce_law GetCodeHash_law GetCode_law GetCodeSize_law AddRefund_law
  GetState_law HasSuicided_law Exist_law Empty_law AddAddressToAccessList_law AddLog_law Snapshot_law GetData_law

lemmas u_laws = IsZero_law Gt_law Sign_law IsUint64_law Uint64_law WithOverflow_law Bytes20_law Bytes32_law

section \<open>Contracts and machines in order\<close>

text \<open>An analysis map holds the analysis of the code with each hash.\<close>

definition jumpmap_ok :: "jumpmap \<Rightarrow> bool" where
  "jumpmap_ok jd = (\<forall>h bits. jd h = Some bits \<longrightarrow> codeBitmap (code_of h) = Some bits)"

definition contract_ok :: "Contract \<Rightarrow> bool" where
  "contract_ok c = (length (Code c) < 2 ^ 61 \<and> length (Input c) < 2 ^ 62 \<and> jumpmap_ok (jumpdests c)
     \<and> (CodeHash c \<noteq> zero_hash \<longrightarrow> code_of (CodeHash c) = Code c)
     \<and> (\<forall>bits. analysis c = Some bits \<longrightarrow> codeBitmap (Code c) = Some bits))"

definition mem_max :: nat where
  "mem_max = 0x1FFFFFFFE0"

definition machine_ok :: "'s Machine \<Rightarrow> bool" where
  "machine_ok m = (length (stk m) \<le> StackLimit \<and> length (store (memory m)) \<le> mem_max
     \<and> contract_ok (contract m) \<and> good (state m) \<and> low \<le> depth m)"

text \<open>What an instruction never changes.\<close>

definition same_frame :: "'s Machine \<Rightarrow> 's Machine \<Rightarrow> bool" where
  "same_frame m m' = (length (store (memory m')) = length (store (memory m))
     \<and> Code (contract m') = Code (contract m) \<and> contract_ok (contract m')
     \<and> ext (state m) (state m') \<and> depth m' = depth m \<and> readOnly m' = readOnly m)"

section \<open>Contracts of instructions and gas functions\<close>

text \<open>The memory an instruction asked for is there.\<close>

definition fits :: "(stack \<Rightarrow> (u64 \<times> bool) option) option \<Rightarrow> 's Machine \<Rightarrow> bool" where
  "fits ms m = (case ms of
     None \<Rightarrow> True
   | Some f \<Rightarrow> (\<exists>sz. f (stk m) = Some (sz, False) \<and> unat sz \<le> length (store (memory m))))"

text \<open>\<open>give\<close> bounds the gas an instruction hands back.\<close>

definition exec_ok :: "'s exec \<Rightarrow> nat \<Rightarrow> nat \<Rightarrow> (stack \<Rightarrow> (u64 \<times> bool) option) option \<Rightarrow> bool \<Rightarrow> (stack \<Rightarrow> u64 \<Rightarrow> nat) \<Rightarrow> bool" where
  "exec_ok ex lo hi ms jmp give =
    (\<forall>m. machine_ok m \<and> lo \<le> length (stk m) \<and> length (stk m) \<le> hi \<and> fits ms m \<and> unat (pc m) < 2 ^ 62
       \<and> unat (Gas (contract m)) + give (stk m) (callGasTemp m) < gas_cap \<longrightarrow>
     (\<exists>ret err m'. ex m = Some ((ret, err), m') \<and> same_frame m m'
        \<and> (err = None \<longrightarrow> length (stk m') + hi = length (stk m) + StackLimit)
        \<and> unat (Gas (contract m')) \<le> unat (Gas (contract m)) + give (stk m) (callGasTemp m)
        \<and> (jmp \<or> unat (pc m) \<le> unat (pc m'))
        \<and> (err = None \<longrightarrow> unat (pc m') \<le> unat (pc m) + 255 \<or> unat (pc m') < length (Code (contract m)))))"

definition gas_ok :: "'s gasFunc \<Rightarrow> nat \<Rightarrow> (stack \<Rightarrow> u64 \<Rightarrow> nat) \<Rightarrow> bool" where
  "gas_ok f lo give =
    (\<forall>sz m. machine_ok m \<and> lo \<le> length (stk m) \<longrightarrow>
     (\<exists>r m'. f sz m = Some (r, m') \<and> stk m' = stk m \<and> store (memory m') = store (memory m)
        \<and> contract m' = contract m \<and> pc m' = pc m \<and> depth m' = depth m \<and> readOnly m' = readOnly m
        \<and> ext (state m) (state m')
        \<and> (\<forall>cost. r = Inr cost \<longrightarrow> give (stk m') (callGasTemp m') \<le> unat cost)))"

definition gas_bounds_memory :: "'s gasFunc \<Rightarrow> bool" where
  "gas_bounds_memory f = (\<forall>sz m cost m'. f sz m = Some (Inr cost, m') \<longrightarrow> unat sz \<le> mem_max)"

definition no_give :: "stack \<Rightarrow> u64 \<Rightarrow> nat" where
  "no_give st g = 0"

end

end
