(* ===== verification/Vm_Exec_Safe.thy ===== *)
theory Vm_Exec_Safe
  imports Vm_World
begin

text \<open>
  Every instruction keeps its contract: on a machine in order with the operands the table
  asks for and the memory it was granted, it returns, moves the stack by what the table
  says, and touches neither the size of the memory nor the code.
\<close>

section \<open>Stack and memory\<close>

text \<open>A machine with other operands and another state: the form the instructions are simplified to.\<close>

definition upd :: "stack \<Rightarrow> 's \<Rightarrow> 's Machine \<Rightarrow> 's Machine" where
  "upd st s m = m\<lparr>stk := st, state := s\<rparr>"

lemma upd_simps [simp]:
  "stk (upd st s m) = st" "state (upd st s m) = s" "memory (upd st s m) = memory m" "contract (upd st s m) = contract m"
  "pc (upd st s m) = pc m" "depth (upd st s m) = depth m" "readOnly (upd st s m) = readOnly m"
  "returnData (upd st s m) = returnData m" "callGasTemp (upd st s m) = callGasTemp m" "authorized (upd st s m) = authorized m"
  "m_logs (upd st s m) = m_logs m"
  "upd st s (upd st' s' m) = upd st s m" "push x (upd st s m) = upd (x # st) s m" "(upd st s m)\<lparr>state := s'\<rparr> = upd st s' m"
  by (simp_all add: upd_def push_def st_push_def)

lemma upd_inject [simp]: "upd a b m = upd c d m \<longleftrightarrow> a = c \<and> b = d"
  by (metis upd_simps(1,2))

lemma upd_id [simp]: "m = upd st s m \<longleftrightarrow> st = stk m \<and> s = state m"
  by (auto simp: upd_def) (metis upd_def upd_simps(1,2))+

lemma pop_Cons: "stk m = x # xs \<Longrightarrow> pop m = Some (x, upd xs (state m) m)"
  by (simp add: pop_def st_pop_def upd_def)

lemma push_upd: "push x m = upd (x # stk m) (state m) m"
  by (simp add: upd_def push_def st_push_def)

lemma state_upd: "m\<lparr>state := s\<rparr> = upd (stk m) s m"
  by (simp add: upd_def)

lemma length_ge [simp]:
  "Suc n \<le> length xs \<longleftrightarrow> (\<exists>x ys. xs = x # ys \<and> n \<le> length ys)"
  by (rule Suc_le_length_iff)

lemma length_go_slice: "go_slice xs i j = Some ys \<Longrightarrow> length ys = j - i \<and> i \<le> j \<and> j \<le> length xs"
  by (auto simp: go_slice_def split: if_splits)

lemma store_copy_ok:
  assumes "i \<le> j" "j \<le> length (store m)"
  shows "\<exists>m'. store_copy i j v m = Some m' \<and> length (store m') = length (store m) \<and> lastGasCost m' = lastGasCost m"
  using assms by (auto simp: store_copy_def)

lemma mem_Set_ok:
  assumes "unat off + unat sz \<le> length (store m) \<or> sz = 0" "length (store m) < 2 ^ 63"
  shows "\<exists>m'. mem_Set off sz v m = Some m' \<and> length (store m') = length (store m) \<and> lastGasCost m' = lastGasCost m"
proof (cases "sz = 0")
  case False
  with assms have a: "unat off + unat sz \<le> length (store m)" by simp
  with assms(2) have u: "unat (off + sz) = unat off + unat sz" by (intro unat_add_lem[THEN iffD1]) simp
  have "\<not> off + sz > of_nat (length (store m))"
    using a u assms(2) by (simp add: word_less_nat_alt unat_of_nat_small)
  then show ?thesis
    using False store_copy_ok[of "unat off" "unat (off + sz)" m v] a u by (simp add: mem_Set_def)
qed (simp add: mem_Set_def)

lemma unat_ucast_u64: "uint (x :: u256) < 2 ^ 64 \<Longrightarrow> unat (ucast x :: u64) = unat x"
proof -
  assume "uint x < 2 ^ 64"
  then have "unat x < 2 ^ 64" by (simp only: uint_nat of_nat_less_numeral_power_cancel_iff)
  then show ?thesis by (simp add: unsigned_ucast_eq take_bit_nat_eq_self)
qed

text \<open>The range \<open>off\<close>, \<open>len\<close> lies inside the memory; an empty range always does.\<close>

definition in_range :: "u64 \<Rightarrow> u64 \<Rightarrow> Memory \<Rightarrow> bool" where
  "in_range off len m = (len = 0 \<or> unat off + unat len \<le> length (store m))"

lemma mem_GetPtr_ok:
  assumes "in_range off len m" "length (store m) < 2 ^ 63"
  shows "\<exists>b. mem_GetPtr m (sint off) (sint len) = Some b \<and> length b = unat len"
proof (cases "len = 0")
  case False
  then have a: "unat off + unat len \<le> length (store m)" "0 < unat len"
    using assms(1) by (auto simp: in_range_def unat_gt_0)
  then have "sint off = int (unat off)" "sint len = int (unat len)"
    using assms(2) by (simp_all add: sint_small)
  moreover from a have "uint off + uint len \<le> int (length (store m))" "0 < uint len"
    by (simp_all only: uint_nat of_nat_add[symmetric] of_nat_le_iff of_nat_0_less_iff)
  ultimately show ?thesis using a by (simp add: mem_GetPtr_def nat_add_distrib)
qed (simp add: mem_GetPtr_def)

lemma mem_GetCopy_ok:
  assumes "in_range off len m" "length (store m) < 2 ^ 63"
  shows "\<exists>b. mem_GetCopy m (sint off) (sint len) = Some b \<and> length b = unat len"
proof (cases "len = 0")
  case False
  then have a: "unat off + unat len \<le> length (store m)" "0 < unat len"
    using assms(1) by (auto simp: in_range_def unat_gt_0)
  then have "sint off = int (unat off)" "sint len = int (unat len)"
    using assms(2) by (simp_all add: sint_small)
  moreover from a have "uint off + uint len \<le> int (length (store m))" "0 < uint len"
    by (simp_all only: uint_nat of_nat_add[symmetric] of_nat_le_iff of_nat_0_less_iff)
  ultimately show ?thesis using a by (simp add: mem_GetCopy_def nat_add_distrib)
qed (simp add: mem_GetCopy_def)

context vm_world
begin

lemma calcMemSize64_range:
  assumes "calcMemSize64 (U256 E) off len = (sz, False)" "unat sz \<le> length (store mem)" "length (store mem) < 2 ^ 63"
  shows "in_range (uUint64 (U256 E) off) (uUint64 (U256 E) len) mem"
proof (cases "uUint64 (U256 E) len = 0")
  case False
  then have u: "\<not> \<not> uint off < 2 ^ 64" "sz = ucast off + ucast len" "\<not> ucast off + ucast len < (ucast off :: u64)"
    using assms(1) by (auto simp: calcMemSize64_def calcMemSize64WithUint_def u_laws Let_def split: if_splits)
  then have "unat sz = unat (ucast off :: u64) + unat (ucast len :: u64)"
    by (metis (no_types, lifting) linorder_not_less unat_plus_simple)
  with assms(2) show ?thesis by (simp add: in_range_def u_laws)
qed (simp add: in_range_def)

lemma calcMemSize64WithUint_range:
  assumes "calcMemSize64WithUint (U256 E) off len = (sz, False)" "unat sz \<le> length (store mem)"
  shows "in_range (uUint64 (U256 E) off) len mem"
proof (cases "len = 0")
  case False
  then have u: "sz = ucast off + len" "\<not> ucast off + len < (ucast off :: u64)"
    using assms(1) by (auto simp: calcMemSize64WithUint_def u_laws Let_def split: if_splits)
  then have "unat sz = unat (ucast off :: u64) + unat len"
    by (metis (no_types, lifting) linorder_not_less unat_plus_simple)
  with assms(2) show ?thesis by (simp add: in_range_def u_laws)
qed (simp add: in_range_def)

end

section \<open>Instructions on operands and state\<close>

context vm_world
begin

lemma exec_ok_simple:
  assumes "\<And>m. machine_ok m \<Longrightarrow> lo \<le> length (stk m) \<Longrightarrow>
     \<exists>ret err st s. ex m = Some ((ret, err), upd st s m) \<and> ext (state m) s
       \<and> (err = None \<longrightarrow> length st + hi = length (stk m) + StackLimit)"
  shows "exec_ok ex lo hi ms jmp give"
  unfolding exec_ok_def
proof (intro allI impI)
  fix m assume m: "machine_ok m \<and> lo \<le> length (stk m) \<and> length (stk m) \<le> hi \<and> fits ms m \<and> unat (pc m) < 2 ^ 62
       \<and> unat (Gas (contract m)) + give (stk m) (callGasTemp m) < gas_cap"
  with assms[of m] obtain ret err st s where "ex m = Some ((ret, err), upd st s m)" "ext (state m) s"
    "err = None \<longrightarrow> length st + hi = length (stk m) + StackLimit" by blast
  with m show "\<exists>ret err m'. ex m = Some ((ret, err), m') \<and> same_frame m m'
        \<and> (err = None \<longrightarrow> length (stk m') + hi = length (stk m) + StackLimit)
        \<and> unat (Gas (contract m')) \<le> unat (Gas (contract m)) + give (stk m) (callGasTemp m)
        \<and> (jmp \<or> unat (pc m) \<le> unat (pc m'))
        \<and> (err = None \<longrightarrow> unat (pc m') \<le> unat (pc m) + 255 \<or> unat (pc m') < length (Code (contract m)))"
    by (auto simp: same_frame_def machine_ok_def)
qed

lemmas stack_limits = minStack_def maxStack_def minSwapStack_def maxSwapStack_def minDupStack_def maxDupStack_def StackLimit_def

lemma machine_good: "machine_ok m \<Longrightarrow> good (state m)"
  by (simp add: machine_ok_def)

lemma bin_op_ok: "exec_ok (bin_op f) (minStack 2 1) (maxStack 2 1) ms jmp give"
  by (rule exec_ok_simple) (auto simp: bin_op_def pop_Cons ok_def stack_limits numeral_eq_Suc ext_refl machine_good)

lemma un_op_ok: "exec_ok (un_op f) (minStack 1 1) (maxStack 1 1) ms jmp give"
  by (rule exec_ok_simple) (auto simp: un_op_def pop_Cons ok_def stack_limits numeral_eq_Suc ext_refl machine_good)

lemmas simple_simps = pop_Cons push_upd state_upd ok_def push_op_def stack_limits numeral_eq_Suc ext_refl machine_good

lemmas bin_ops = opAdd_def opSub_def opMul_def opDiv_def opSdiv_def opMod_def opSmod_def opExp_def opSignExtend_def opLt_def
  opGt_def opSlt_def opSgt_def opEq_def opAnd_def opOr_def opXor_def opByte_def opSHL_def opSHR_def opSAR_def cmp_op_def

lemma bin_ops_ok [simp, intro!]:
  "exec_ok (opAdd E) (minStack 2 1) (maxStack 2 1) ms jmp give" "exec_ok (opSub E) (minStack 2 1) (maxStack 2 1) ms jmp give"
  "exec_ok (opMul E) (minStack 2 1) (maxStack 2 1) ms jmp give" "exec_ok (opDiv E) (minStack 2 1) (maxStack 2 1) ms jmp give"
  "exec_ok (opSdiv E) (minStack 2 1) (maxStack 2 1) ms jmp give" "exec_ok (opMod E) (minStack 2 1) (maxStack 2 1) ms jmp give"
  "exec_ok (opSmod E) (minStack 2 1) (maxStack 2 1) ms jmp give" "exec_ok (opExp E) (minStack 2 1) (maxStack 2 1) ms jmp give"
  "exec_ok (opSignExtend E) (minStack 2 1) (maxStack 2 1) ms jmp give" "exec_ok (opLt E) (minStack 2 1) (maxStack 2 1) ms jmp give"
  "exec_ok (opGt E) (minStack 2 1) (maxStack 2 1) ms jmp give" "exec_ok (opSlt E) (minStack 2 1) (maxStack 2 1) ms jmp give"
  "exec_ok (opSgt E) (minStack 2 1) (maxStack 2 1) ms jmp give" "exec_ok (opEq E) (minStack 2 1) (maxStack 2 1) ms jmp give"
  "exec_ok (opAnd E) (minStack 2 1) (maxStack 2 1) ms jmp give" "exec_ok (opOr E) (minStack 2 1) (maxStack 2 1) ms jmp give"
  "exec_ok (opXor E) (minStack 2 1) (maxStack 2 1) ms jmp give" "exec_ok (opByte E) (minStack 2 1) (maxStack 2 1) ms jmp give"
  "exec_ok (opSHL E) (minStack 2 1) (maxStack 2 1) ms jmp give" "exec_ok (opSHR E) (minStack 2 1) (maxStack 2 1) ms jmp give"
  "exec_ok (opSAR E) (minStack 2 1) (maxStack 2 1) ms jmp give"
  by (simp_all only: bin_ops bin_op_ok)

lemma un_ops_ok [simp, intro!]:
  "exec_ok (opNot E) (minStack 1 1) (maxStack 1 1) ms jmp give" "exec_ok (opIszero E) (minStack 1 1) (maxStack 1 1) ms jmp give"
  by (simp_all only: opNot_def opIszero_def un_op_ok)

lemma ter_ops_ok [simp, intro!]:
  "exec_ok (opAddmod E) (minStack 3 1) (maxStack 3 1) ms jmp give" "exec_ok (opMulmod E) (minStack 3 1) (maxStack 3 1) ms jmp give"
  by (rule exec_ok_simple; auto simp: opAddmod_def opMulmod_def simple_simps)+

lemma push_ops_ok [simp, intro!]:
  "exec_ok (opAddress E) (minStack 0 1) (maxStack 0 1) ms jmp give" "exec_ok (opOrigin E) (minStack 0 1) (maxStack 0 1) ms jmp give"
  "exec_ok (opCaller E) (minStack 0 1) (maxStack 0 1) ms jmp give" "exec_ok (opCallValue E) (minStack 0 1) (maxStack 0 1) ms jmp give"
  "exec_ok (opCallDataSize E) (minStack 0 1) (maxStack 0 1) ms jmp give" "exec_ok (opCodeSize E) (minStack 0 1) (maxStack 0 1) ms jmp give"
  "exec_ok (opReturnDataSize E) (minStack 0 1) (maxStack 0 1) ms jmp give" "exec_ok (opGasprice E) (minStack 0 1) (maxStack 0 1) ms jmp give"
  "exec_ok (opCoinbase E) (minStack 0 1) (maxStack 0 1) ms jmp give" "exec_ok (opTimestamp E) (minStack 0 1) (maxStack 0 1) ms jmp give"
  "exec_ok (opNumber E) (minStack 0 1) (maxStack 0 1) ms jmp give" "exec_ok (opDifficulty E) (minStack 0 1) (maxStack 0 1) ms jmp give"
  "exec_ok (opGasLimit E) (minStack 0 1) (maxStack 0 1) ms jmp give" "exec_ok (opPc E) (minStack 0 1) (maxStack 0 1) ms jmp give"
  "exec_ok (opMsize E) (minStack 0 1) (maxStack 0 1) ms jmp give" "exec_ok (opGas E) (minStack 0 1) (maxStack 0 1) ms jmp give"
  "exec_ok (opChainID E) (minStack 0 1) (maxStack 0 1) ms jmp give" "exec_ok (opBaseFee E) (minStack 0 1) (maxStack 0 1) ms jmp give"
  "exec_ok (opBlobBaseFee E) (minStack 0 1) (maxStack 0 1) ms jmp give" "exec_ok (opPush0 E) (minStack 0 1) (maxStack 0 1) ms jmp give"
  by (rule exec_ok_simple; simp add: opAddress_def opOrigin_def opCaller_def opCallValue_def opCallDataSize_def opCodeSize_def
      opReturnDataSize_def opGasprice_def opCoinbase_def opTimestamp_def opNumber_def opDifficulty_def opGasLimit_def opPc_def
      opMsize_def opGas_def opChainID_def opBaseFee_def opBlobBaseFee_def opPush0_def simple_simps)+

lemma noop_ok [simp, intro!]:
  "exec_ok (opStop E) (minStack 0 0) (maxStack 0 0) ms jmp give" "exec_ok (opJumpdest E) (minStack 0 0) (maxStack 0 0) ms jmp give"
  "exec_ok (opPrintF E) (minStack 0 0) (maxStack 0 0) ms jmp give" "exec_ok (opPop E) (minStack 1 0) (maxStack 1 0) ms jmp give"
  by (rule exec_ok_simple; auto simp: opStop_def opJumpdest_def opPrintF_def opPop_def simple_simps)+

lemma state_ops_ok [simp, intro!]:
  "exec_ok (opExtCodeSize E) (minStack 1 1) (maxStack 1 1) ms jmp give"
  "exec_ok (opBlockhash E) (minStack 1 1) (maxStack 1 1) ms jmp give"
  "exec_ok (opSload E) (minStack 1 1) (maxStack 1 1) ms jmp give"
  "exec_ok (opTload E) (minStack 1 1) (maxStack 1 1) ms jmp give"
  by (rule exec_ok_simple; auto simp: opExtCodeSize_def opBlockhash_def opSload_def opTload_def simple_simps case_prod_unfold
      Let_def ext_laws)+

lemma opExtCodeHash_ok [simp, intro!]: "exec_ok (opExtCodeHash E) (minStack 1 1) (maxStack 1 1) ms jmp give"
  by (rule exec_ok_simple) (auto simp: opExtCodeHash_def simple_simps case_prod_unfold Let_def
      ext_laws ext_trans[OF Empty_law GetCodeHash_law] ext_good[OF Empty_law])

lemma store_ops_ok [simp, intro!]:
  "exec_ok (opSstore E) (minStack 2 0) (maxStack 2 0) ms jmp give"
  "exec_ok (opTstore E) (minStack 2 0) (maxStack 2 0) ms jmp give"
  by (rule exec_ok_simple; auto simp: opSstore_def opTstore_def simple_simps Bytes32_law SetState_law SetTransientState_law)+

lemma balance_ops_ok [simp, intro!]:
  "exec_ok (opBalance E) (minStack 1 1) (maxStack 1 1) ms jmp give"
  "exec_ok (opSelfBalance E) (minStack 0 1) (maxStack 0 1) ms jmp give"
proof -
  have b: "\<exists>bal s'. sd_GetBalance (SDB E) a (state m) = Some (bal, s') \<and> ext (state m) s'" if "machine_ok m" for a m
    using GetBalance_law machine_good that by blast
  show "exec_ok (opBalance E) (minStack 1 1) (maxStack 1 1) ms jmp give"
  proof (rule exec_ok_simple)
    fix m assume m: "machine_ok m" "minStack 1 1 \<le> length (stk m)"
    then obtain x ys where s: "stk m = x # ys" by (auto simp: minStack_def)
    with b[OF m(1), of "uBytes20 (U256 E) x"] show "\<exists>ret err st s. opBalance E m = Some ((ret, err), upd st s m)
        \<and> ext (state m) s \<and> (err = None \<longrightarrow> length st + maxStack 1 1 = length (stk m) + StackLimit)"
      by (auto simp: opBalance_def simple_simps)
  qed
  show "exec_ok (opSelfBalance E) (minStack 0 1) (maxStack 0 1) ms jmp give"
  proof (rule exec_ok_simple)
    fix m assume m: "machine_ok m" "minStack 0 1 \<le> length (stk m)"
    with b[OF m(1), of "self (contract m)"] show "\<exists>ret err st s. opSelfBalance E m = Some ((ret, err), upd st s m)
        \<and> ext (state m) s \<and> (err = None \<longrightarrow> length st + maxStack 0 1 = length (stk m) + StackLimit)"
      by (auto simp: opSelfBalance_def simple_simps)
  qed
qed

lemma opSuicide_ok [simp, intro!]: "exec_ok (opSuicide E) (minStack 1 0) (maxStack 1 0) ms jmp give"
proof (rule exec_ok_simple)
  fix m assume m: "machine_ok m" "minStack 1 0 \<le> length (stk m)"
  then obtain x ys where s: "stk m = x # ys" by (auto simp: minStack_def)
  obtain bal s1 where 1: "sd_GetBalance (SDB E) (self (contract m)) (state m) = Some (bal, s1)" "ext (state m) s1"
    using GetBalance_law machine_good m(1) by blast
  obtain s2 where 2: "sd_AddBalance (SDB E) (uBytes20 (U256 E) x) bal s1 = Some s2" "ext s1 s2"
    using AddBalance_law ext_good 1(2) by blast
  obtain d s3 where 3: "sd_Suicide (SDB E) (self (contract m)) s2 = Some (d, s3)" "ext s2 s3"
    using Suicide_law ext_good 2(2) by blast
  have "ext (state m) s3" using 1(2) 2(2) 3(2) ext_trans by blast
  with s 1(1) 2(1) 3(1) show "\<exists>ret err st s. opSuicide E m = Some ((ret, err), upd st s m) \<and> ext (state m) s
      \<and> (err = None \<longrightarrow> length st + maxStack 1 0 = length (stk m) + StackLimit)"
    by (auto simp: opSuicide_def simple_simps)
qed

lemma dup_ok: "1 \<le> n \<Longrightarrow> exec_ok (makeDup n E) (minDupStack n) (maxDupStack n) ms jmp give"
proof (rule exec_ok_simple)
  fix m assume m: "1 \<le> n" "machine_ok m" "minDupStack n \<le> length (stk m)"
  then have "go_index (stk m) (n - 1) = Some (stk m ! (n - 1))" by (simp add: stack_limits)
  with m show "\<exists>ret err st s. makeDup n E m = Some ((ret, err), upd st s m) \<and> ext (state m) s
      \<and> (err = None \<longrightarrow> length st + maxDupStack n = length (stk m) + StackLimit)"
    by (intro exI[of _ "[]"] exI[of _ None] exI[of _ "stk m ! (n - 1) # stk m"] exI[of _ "state m"])
      (auto simp: makeDup_def st_dup_def st_push_def ok_def upd_def stack_limits ext_refl machine_good)
qed

lemma swap_ok: "exec_ok (makeSwap n E) (minSwapStack (n + 1)) (maxSwapStack (n + 1)) ms jmp give"
proof (rule exec_ok_simple)
  fix m assume m: "machine_ok m" "minSwapStack (n + 1) \<le> length (stk m)"
  then show "\<exists>ret err st s. makeSwap n E m = Some ((ret, err), upd st s m) \<and> ext (state m) s
      \<and> (err = None \<longrightarrow> length st + maxSwapStack (n + 1) = length (stk m) + StackLimit)"
    by (intro exI[of _ "[]"] exI[of _ None] exI[of _ "(stk m)[n := stk m ! 0, 0 := stk m ! n]"] exI[of _ "state m"])
      (simp add: makeSwap_def st_swap_def ok_def upd_def stack_limits ext_refl machine_good del: length_ge)
qed

end

section \<open>Instructions on memory\<close>

lemma mem_Set_range:
  "in_range off sz m \<Longrightarrow> length (store m) < 2 ^ 63 \<Longrightarrow>
    \<exists>m'. mem_Set off sz v m = Some m' \<and> length (store m') = length (store m) \<and> lastGasCost m' = lastGasCost m"
  using mem_Set_ok by (auto simp: in_range_def)

lemma mem_Copy_range:
  assumes "in_range dst len m" "in_range src len m" "length (store m) < 2 ^ 63"
  shows "\<exists>m'. mem_Copy dst src len m = Some m' \<and> length (store m') = length (store m)"
proof (cases "len = 0")
  case False
  with assms have a: "unat dst + unat len \<le> length (store m)" "unat src + unat len \<le> length (store m)"
    by (auto simp: in_range_def)
  then have "unat (src + len) = unat src + unat len" using assms(3) by (intro unat_add_lem[THEN iffD1]) simp
  with a False show ?thesis by (simp add: mem_Copy_def)
qed (simp add: mem_Copy_def)

context vm_world
begin

lemma mem_Set32_range:
  assumes "in_range off 32 m" "length (store m) < 2 ^ 63"
  shows "\<exists>m'. mem_Set32 (U256 E) off v m = Some m' \<and> length (store m') = length (store m)"
proof -
  have a: "unat off + 32 \<le> length (store m)" using assms(1) by (simp add: in_range_def)
  then have u: "unat (off + 32) = unat off + 32" using assms(2) unat_add_lem[of off 32] by simp
  then have "\<not> off + 32 > of_nat (length (store m))"
    using a assms(2) by (simp add: word_less_nat_alt unat_of_nat_small)
  moreover obtain m1 where m1: "store_copy (unat off) (unat (off + 32)) (replicate 32 0) m = Some m1" "length (store m1) = length (store m)"
    using store_copy_ok[of "unat off" "unat (off + 32)" m] a u by auto
  moreover have "length (uWriteToSlice (U256 E) v (drop (unat off) (store m1))) = length (store m1) - unat off"
    using a m1(2) by (simp add: WriteToSlice_law HashLength_def)
  ultimately show ?thesis using a by (auto simp: mem_Set32_def)
qed

text \<open>An instruction that leaves program counter and contract alone.\<close>

definition quiet :: "'s Machine \<Rightarrow> 's Machine \<Rightarrow> bool" where
  "quiet m m' = (contract m' = contract m \<and> pc m' = pc m \<and> depth m' = depth m \<and> readOnly m' = readOnly m
     \<and> length (store (memory m')) = length (store (memory m)) \<and> ext (state m) (state m'))"

lemma exec_ok_mem:
  assumes "\<And>m. machine_ok m \<Longrightarrow> lo \<le> length (stk m) \<Longrightarrow> fits ms m \<Longrightarrow>
     \<exists>ret err m'. ex m = Some ((ret, err), m') \<and> quiet m m' \<and> (err = None \<longrightarrow> length (stk m') + hi = length (stk m) + StackLimit)"
  shows "exec_ok ex lo hi ms jmp give"
  using assms unfolding exec_ok_def by (fastforce simp: same_frame_def machine_ok_def quiet_def)

lemma mem_small: "machine_ok m \<Longrightarrow> length (store (memory m)) < 2 ^ 63"
  by (simp add: machine_ok_def mem_max_def)

lemma fits_mem_at:
  assumes "fits (Some (mem_at (U256 E) i j)) m" "machine_ok m" "i < length (stk m)" "j < length (stk m)"
  shows "in_range (uUint64 (U256 E) (stk m ! i)) (uUint64 (U256 E) (stk m ! j)) (memory m)"
  using assms mem_small[OF assms(2)]
  by (auto simp: fits_def mem_at_def st_Back_def intro: calcMemSize64_range)

lemma fits_mem_at_word:
  assumes "fits (Some (mem_at (U256 E) i j)) m" "i < length (stk m)" "j < length (stk m)"
  shows "uint (stk m ! j) < 2 ^ 64"
  using assms by (auto simp: fits_def mem_at_def st_Back_def calcMemSize64_def IsUint64_law split: if_splits)

lemma fits_mem_at_uint:
  assumes "fits (Some (mem_at_uint (U256 E) i n)) m" "machine_ok m" "i < length (stk m)"
  shows "in_range (uUint64 (U256 E) (stk m ! i)) n (memory m)"
  using assms by (auto simp: fits_def mem_at_uint_def st_Back_def intro: calcMemSize64WithUint_range)

lemma fits_mem_two:
  assumes "fits (Some (mem_two (U256 E) i j k l)) m" "machine_ok m"
    "i < length (stk m)" "j < length (stk m)" "k < length (stk m)" "l < length (stk m)"
  shows "in_range (uUint64 (U256 E) (stk m ! i)) (uUint64 (U256 E) (stk m ! j)) (memory m)"
    "in_range (uUint64 (U256 E) (stk m ! k)) (uUint64 (U256 E) (stk m ! l)) (memory m)"
proof -
  obtain x where x: "calcMemSize64 (U256 E) (stk m ! i) (stk m ! j) = (x, False)"
    using assms by (cases "calcMemSize64 (U256 E) (stk m ! i) (stk m ! j)")
      (auto simp: fits_def mem_two_def mem_at_def st_Back_def split: if_splits)
  obtain y where y: "calcMemSize64 (U256 E) (stk m ! k) (stk m ! l) = (y, False)"
    using assms x by (cases "calcMemSize64 (U256 E) (stk m ! k) (stk m ! l)")
      (auto simp: fits_def mem_two_def mem_at_def st_Back_def split: if_splits)
  have "unat x \<le> length (store (memory m))" "unat y \<le> length (store (memory m))"
    using assms x y by (auto simp: fits_def mem_two_def mem_at_def st_Back_def word_less_nat_alt split: if_splits)
  then show "in_range (uUint64 (U256 E) (stk m ! i)) (uUint64 (U256 E) (stk m ! j)) (memory m)"
    "in_range (uUint64 (U256 E) (stk m ! k)) (uUint64 (U256 E) (stk m ! l)) (memory m)"
    using x y calcMemSize64_range mem_small[OF assms(2)] by blast+
qed

lemma range_GetPtr:
  assumes "in_range (uUint64 (U256 E) x) (uUint64 (U256 E) y) (memory m)" "machine_ok m"
  shows "\<exists>b. mem_GetPtr (memory m) (to_i64 (U256 E) x) (to_i64 (U256 E) y) = Some b \<and> length b \<le> mem_max"
    and "\<exists>b. mem_GetCopy (memory m) (to_i64 (U256 E) x) (to_i64 (U256 E) y) = Some b \<and> length b \<le> mem_max"
proof -
  have l: "unat (uUint64 (U256 E) y) \<le> mem_max"
    using assms by (auto simp: in_range_def machine_ok_def)
  show "\<exists>b. mem_GetPtr (memory m) (to_i64 (U256 E) x) (to_i64 (U256 E) y) = Some b \<and> length b \<le> mem_max"
    using mem_GetPtr_ok[OF assms(1) mem_small[OF assms(2)]] l by (auto simp: to_i64_def)
  show "\<exists>b. mem_GetCopy (memory m) (to_i64 (U256 E) x) (to_i64 (U256 E) y) = Some b \<and> length b \<le> mem_max"
    using mem_GetCopy_ok[OF assms(1) mem_small[OF assms(2)]] l by (auto simp: to_i64_def)
qed

lemma two_operands: "minStack 2 k \<le> length (stk m) \<Longrightarrow> \<exists>x y ys. stk m = x # y # ys"
  by (auto simp: minStack_def numeral_eq_Suc)

lemma three_operands: "minStack 3 k \<le> length (stk m) \<Longrightarrow> \<exists>x y z ys. stk m = x # y # z # ys"
  by (auto simp: minStack_def numeral_eq_Suc)

lemma four_operands: "minStack 4 k \<le> length (stk m) \<Longrightarrow> \<exists>w x y z ys. stk m = w # x # y # z # ys"
  by (auto simp: minStack_def numeral_eq_Suc)

lemma opSha3_ok [simp, intro!]:
  "exec_ok (opSha3 E) (minStack 2 1) (maxStack 2 1) (Some (memorySha3 (U256 E))) jmp give"
proof (rule exec_ok_mem)
  fix m assume m: "machine_ok m" "minStack 2 1 \<le> length (stk m)" "fits (Some (memorySha3 (U256 E))) m"
  from two_operands[OF m(2)] obtain x y ys where s: "stk m = x # y # ys" by blast
  have "in_range (uUint64 (U256 E) x) (uUint64 (U256 E) y) (memory m)"
    using fits_mem_at[of 0 1 m] m s by (simp add: memorySha3_def)
  from range_GetPtr(1)[OF this m(1)] s m(1)
  show "\<exists>ret err m'. opSha3 E m = Some ((ret, err), m') \<and> quiet m m'
       \<and> (err = None \<longrightarrow> length (stk m') + maxStack 2 1 = length (stk m) + StackLimit)"
    by (auto simp: opSha3_def simple_simps quiet_def)
qed

text \<open>Returning and logging read a range named by the first two operands.\<close>

lemma return_memory_ok:
  assumes "ms = mem_at (U256 E) 0 1"
  shows "exec_ok (return_memory E) (minStack 2 0) (maxStack 2 0) (Some ms) jmp give"
proof (rule exec_ok_mem)
  fix m assume m: "machine_ok m" "minStack 2 0 \<le> length (stk m)" "fits (Some ms) m"
  from two_operands[OF m(2)] obtain x y ys where s: "stk m = x # y # ys" by blast
  have "in_range (uUint64 (U256 E) x) (uUint64 (U256 E) y) (memory m)"
    using fits_mem_at[of 0 1 m] m s assms by simp
  from range_GetPtr(1)[OF this m(1)] s m(1)
  show "\<exists>ret err m'. return_memory E m = Some ((ret, err), m') \<and> quiet m m'
       \<and> (err = None \<longrightarrow> length (stk m') + maxStack 2 0 = length (stk m) + StackLimit)"
    by (auto simp: return_memory_def args_of_def simple_simps quiet_def)
qed

lemma return_ops_ok [simp, intro!]:
  "exec_ok (opReturn E) (minStack 2 0) (maxStack 2 0) (Some (memoryReturn (U256 E))) jmp give"
  "exec_ok (opRevert E) (minStack 2 0) (maxStack 2 0) (Some (memoryRevert (U256 E))) jmp give"
  unfolding opReturn_def opRevert_def by (rule return_memory_ok; simp add: memoryReturn_def memoryRevert_def)+

lemma pops_ok: "n \<le> length (stk m) \<Longrightarrow> pops n m = Some (take n (stk m), upd (drop n (stk m)) (state m) m)"
proof (induction n arbitrary: m)
  case (Suc n)
  then obtain x ys where s: "stk m = x # ys" "n \<le> length ys" by auto
  with Suc.IH[of "upd ys (state m) m"] show ?case by (simp add: pop_Cons)
qed simp

lemma makeLog_ok:
  "exec_ok (makeLog n E) (minStack (n + 2) 0) (maxStack (n + 2) 0) (Some (memoryLog (U256 E))) jmp give"
proof (rule exec_ok_mem)
  fix m assume m: "machine_ok m" "minStack (n + 2) 0 \<le> length (stk m)" "fits (Some (memoryLog (U256 E))) m"
  then obtain x y ys where s: "stk m = x # y # ys" "n \<le> length ys" by (auto simp: minStack_def)
  have "in_range (uUint64 (U256 E) x) (uUint64 (U256 E) y) (memory m)"
    using fits_mem_at[of 0 1 m] m s by (simp add: memoryLog_def)
  from range_GetPtr(2)[OF this m(1)] obtain b where
    b: "mem_GetCopy (memory m) (to_i64 (U256 E) x) (to_i64 (U256 E) y) = Some b" by blast
  from b s m(1) show "\<exists>ret err m'. makeLog n E m = Some ((ret, err), m') \<and> quiet m m'
       \<and> (err = None \<longrightarrow> length (stk m') + maxStack (n + 2) 0 = length (stk m) + StackLimit)"
    by (auto simp: makeLog_def pop_Cons pops_ok ok_def stack_limits AddLog_law machine_good quiet_def Let_def)
qed

text \<open>Copies from a byte string into memory.\<close>

lemma copy_to_memory_ok:
  assumes "in_range (uUint64 (U256 E) memOffset) (uUint64 (U256 E) len) (memory m)" "machine_ok m" "length src < 2 ^ 62"
  shows "\<exists>mem. copy_to_memory E memOffset off src len (upd st s m) = Some (([], None), (upd st s m)\<lparr>memory := mem\<rparr>)
     \<and> length (store mem) = length (store (memory m))"
proof -
  have "unat (uUint64 (U256 E) len) < 2 ^ 63"
    using assms(1) mem_small[OF assms(2)] by (auto simp: in_range_def)
  with getData_exact[OF assms(3)] obtain b where "getData src (capped (U256 E) off) (uUint64 (U256 E) len) = Some b" by blast
  with mem_Set_range[OF assms(1) mem_small[OF assms(2)], of b] show ?thesis
    by (auto simp: copy_to_memory_def ok_def)
qed

lemma contract_small: "machine_ok m \<Longrightarrow> length (Code (contract m)) < 2 ^ 62" "machine_ok m \<Longrightarrow> length (Input (contract m)) < 2 ^ 62"
  by (simp_all add: machine_ok_def contract_ok_def)

lemma copy_ops_ok:
  assumes "\<And>m x y z ys. stk m = x # y # z # ys \<Longrightarrow> machine_ok m \<Longrightarrow> \<exists>src. length src < 2 ^ 62 \<and>
      ex m = copy_to_memory E x y src z (upd ys (state m) m)"
    and "ms = mem_at (U256 E) 0 2"
  shows "exec_ok ex (minStack 3 0) (maxStack 3 0) (Some ms) jmp give"
proof (rule exec_ok_mem)
  fix m assume m: "machine_ok m" "minStack 3 0 \<le> length (stk m)" "fits (Some ms) m"
  from three_operands[OF m(2)] obtain x y z ys where s: "stk m = x # y # z # ys" by blast
  have r: "in_range (uUint64 (U256 E) x) (uUint64 (U256 E) z) (memory m)"
    using fits_mem_at[of 0 2 m] m s assms(2) by (simp add: numeral_eq_Suc)
  obtain src where "length src < 2 ^ 62" "ex m = copy_to_memory E x y src z (upd ys (state m) m)"
    using assms(1)[OF s m(1)] by blast
  with copy_to_memory_ok[OF r m(1), of src y ys "state m"] s m(1)
  show "\<exists>ret err m'. ex m = Some ((ret, err), m') \<and> quiet m m'
       \<and> (err = None \<longrightarrow> length (stk m') + maxStack 3 0 = length (stk m) + StackLimit)"
    by (auto simp: quiet_def stack_limits ext_refl machine_good)
qed

lemma data_copies_ok [simp, intro!]:
  "exec_ok (opCallDataCopy E) (minStack 3 0) (maxStack 3 0) (Some (memoryCallDataCopy (U256 E))) jmp give"
  "exec_ok (opCodeCopy E) (minStack 3 0) (maxStack 3 0) (Some (memoryCodeCopy (U256 E))) jmp give"
  by (rule copy_ops_ok; use contract_small in \<open>force simp: opCallDataCopy_def opCodeCopy_def pop_Cons
      memoryCallDataCopy_def memoryCodeCopy_def\<close>)+

lemma opExtCodeCopy_ok [simp, intro!]:
  "exec_ok (opExtCodeCopy E) (minStack 4 0) (maxStack 4 0) (Some (memoryExtCodeCopy (U256 E))) jmp give"
proof (rule exec_ok_mem)
  fix m assume m: "machine_ok m" "minStack 4 0 \<le> length (stk m)" "fits (Some (memoryExtCodeCopy (U256 E))) m"
  from four_operands[OF m(2)] obtain w x y z ys where s: "stk m = w # x # y # z # ys" by blast
  have r: "in_range (uUint64 (U256 E) x) (uUint64 (U256 E) z) (memory m)"
    using fits_mem_at[of 1 3 m] m s by (simp add: numeral_eq_Suc memoryExtCodeCopy_def)
  obtain code st where c: "sd_GetCode (SDB E) (uBytes20 (U256 E) w) (state m) = (code, st)" by fastforce
  then have "length code < 2 ^ 62" "ext (state m) st"
    using Code_size[OF machine_good[OF m(1)], of "uBytes20 (U256 E) w"]
      GetCode_law[OF machine_good[OF m(1)], of "uBytes20 (U256 E) w"] by simp_all
  with copy_to_memory_ok[OF r m(1), of code y ys st] s c
  show "\<exists>ret err m'. opExtCodeCopy E m = Some ((ret, err), m') \<and> quiet m m'
       \<and> (err = None \<longrightarrow> length (stk m') + maxStack 4 0 = length (stk m) + StackLimit)"
    by (auto simp: quiet_def stack_limits opExtCodeCopy_def pop_Cons)
qed

lemma opReturnDataCopy_ok [simp, intro!]:
  "exec_ok (opReturnDataCopy E) (minStack 3 0) (maxStack 3 0) (Some (memoryReturnDataCopy (U256 E))) jmp give"
proof (rule exec_ok_mem)
  fix m assume m: "machine_ok m" "minStack 3 0 \<le> length (stk m)" "fits (Some (memoryReturnDataCopy (U256 E))) m"
  from three_operands[OF m(2)] obtain x y z ys where s: "stk m = x # y # z # ys" by blast
  have r: "in_range (uUint64 (U256 E) x) (uUint64 (U256 E) z) (memory m)"
    using fits_mem_at[of 0 2 m] m s by (simp add: numeral_eq_Suc memoryReturnDataCopy_def)
  have z: "uint z < 2 ^ 64"
    using fits_mem_at_word[of 0 2 m] m s by (simp add: numeral_eq_Suc memoryReturnDataCopy_def)
  have slice: "\<exists>d. go_slice (returnData m) (unat (ucast y :: u64)) (unat (ucast (y + z) :: u64)) = Some d"
    if "uint y < 2 ^ 64" "uint (y + z) < 2 ^ 64" "\<not> of_nat (length (returnData m)) < (ucast (y + z) :: u64)"
  proof -
    have "uint (y + z) = uint y + uint z" using that(1) z by (simp add: uint_word_ariths)
    then have "y \<le> y + z" by (simp add: word_le_def)
    with that(1,2) have "unat (ucast y :: u64) \<le> unat (ucast (y + z) :: u64)"
      by (simp add: unat_ucast_u64 word_le_nat_alt)
    moreover have "unat (ucast (y + z) :: u64) \<le> length (returnData m)"
      using that(3) by (simp add: word_less_nat_alt not_less unat_of_nat)
    ultimately show ?thesis by simp
  qed
  have set: "\<exists>mem. mem_Set (uUint64 (U256 E) x) (uUint64 (U256 E) z) d (memory m) = Some mem
      \<and> length (store mem) = length (store (memory m))" for d
    using mem_Set_range[OF r mem_small[OF m(1)]] by blast
  show "\<exists>ret err m'. opReturnDataCopy E m = Some ((ret, err), m') \<and> quiet m m'
       \<and> (err = None \<longrightarrow> length (stk m') + maxStack 3 0 = length (stk m) + StackLimit)"
  proof (cases "uint y < 2 ^ 64 \<and> uint (y + z) < 2 ^ 64 \<and> \<not> of_nat (length (returnData m)) < (ucast (y + z) :: u64)")
    case True
    with slice obtain d where "go_slice (returnData m) (unat (ucast y :: u64)) (unat (ucast (y + z) :: u64)) = Some d" by blast
    with set[of d] True s m(1) show ?thesis
      by (auto simp: opReturnDataCopy_def pop_Cons WithOverflow_law Add_law ok_def quiet_def stack_limits ext_refl machine_good)
  next
    case False
    with s m(1) show ?thesis
      by (auto simp: opReturnDataCopy_def pop_Cons WithOverflow_law Add_law quiet_def ext_refl machine_good)
  qed
qed

lemma mload_ok [simp, intro!]:
  "exec_ok (opMload E) (minStack 1 1) (maxStack 1 1) (Some (memoryMLoad (U256 E))) jmp give"
proof (rule exec_ok_mem)
  fix m assume m: "machine_ok m" "minStack 1 1 \<le> length (stk m)" "fits (Some (memoryMLoad (U256 E))) m"
  then obtain x ys where s: "stk m = x # ys" by (auto simp: minStack_def)
  have "in_range (uUint64 (U256 E) x) 32 (memory m)"
    using fits_mem_at_uint[of 0 32 m] m s by (simp add: memoryMLoad_def)
  from mem_GetPtr_ok[OF this mem_small[OF m(1)]] s m(1)
  show "\<exists>ret err m'. opMload E m = Some ((ret, err), m') \<and> quiet m m'
       \<and> (err = None \<longrightarrow> length (stk m') + maxStack 1 1 = length (stk m) + StackLimit)"
    by (auto simp: opMload_def pop_Cons ok_def quiet_def stack_limits ext_refl machine_good to_i64_def)
qed

lemma mstore_ok [simp, intro!]:
  "exec_ok (opMstore E) (minStack 2 0) (maxStack 2 0) (Some (memoryMStore (U256 E))) jmp give"
proof (rule exec_ok_mem)
  fix m assume m: "machine_ok m" "minStack 2 0 \<le> length (stk m)" "fits (Some (memoryMStore (U256 E))) m"
  from two_operands[OF m(2)] obtain x y ys where s: "stk m = x # y # ys" by blast
  have "in_range (uUint64 (U256 E) x) 32 (memory m)"
    using fits_mem_at_uint[of 0 32 m] m s by (simp add: memoryMStore_def)
  from mem_Set32_range[OF this mem_small[OF m(1)], of y] s m(1)
  show "\<exists>ret err m'. opMstore E m = Some ((ret, err), m') \<and> quiet m m'
       \<and> (err = None \<longrightarrow> length (stk m') + maxStack 2 0 = length (stk m) + StackLimit)"
    by (auto simp: opMstore_def pop_Cons ok_def quiet_def stack_limits ext_refl machine_good)
qed

lemma mstore8_ok [simp, intro!]:
  "exec_ok (opMstore8 E) (minStack 2 0) (maxStack 2 0) (Some (memoryMStore8 (U256 E))) jmp give"
proof (rule exec_ok_mem)
  fix m assume m: "machine_ok m" "minStack 2 0 \<le> length (stk m)" "fits (Some (memoryMStore8 (U256 E))) m"
  from two_operands[OF m(2)] obtain x y ys where s: "stk m = x # y # ys" by blast
  have "in_range (uUint64 (U256 E) x) 1 (memory m)"
    using fits_mem_at_uint[of 0 1 m] m s by (simp add: memoryMStore8_def)
  then have "unat (uUint64 (U256 E) x) < length (store (memory m))" by (simp add: in_range_def del: length_ge)
  with s m(1) show "\<exists>ret err m'. opMstore8 E m = Some ((ret, err), m') \<and> quiet m m'
       \<and> (err = None \<longrightarrow> length (stk m') + maxStack 2 0 = length (stk m) + StackLimit)"
    by (auto simp: opMstore8_def pop_Cons ok_def quiet_def stack_limits ext_refl machine_good Let_def)
qed

lemma mcopy_ok [simp, intro!]:
  "exec_ok (opMcopy E) (minStack 3 0) (maxStack 3 0) (Some (memoryMcopy (U256 E))) jmp give"
proof (rule exec_ok_mem)
  fix m assume m: "machine_ok m" "minStack 3 0 \<le> length (stk m)" "fits (Some (memoryMcopy (U256 E))) m"
  from three_operands[OF m(2)] obtain x y z ys where s: "stk m = x # y # z # ys" by blast
  let ?t = "if y > x then y else x"
  obtain sz where sz: "calcMemSize64 (U256 E) ?t z = (sz, False)" "unat sz \<le> length (store (memory m))"
    using m(3) s by (auto simp: fits_def memoryMcopy_def st_Back_def Gt_law numeral_eq_Suc split: if_splits)
  have r: "in_range (uUint64 (U256 E) ?t) (uUint64 (U256 E) z) (memory m)"
    using calcMemSize64_range[OF sz mem_small[OF m(1)]] .
  have "in_range (uUint64 (U256 E) v) (uUint64 (U256 E) z) (memory m)" if "v \<le> ?t" for v
  proof (cases "uUint64 (U256 E) z = 0")
    case False
    with sz(1) have "uint ?t < 2 ^ 64"
      by (auto simp: calcMemSize64_def calcMemSize64WithUint_def u_laws split: if_splits)
    moreover from this that have "uint v < 2 ^ 64" unfolding word_le_def by linarith
    ultimately have "unat (uUint64 (U256 E) v) \<le> unat (uUint64 (U256 E) ?t)"
      using that by (simp only: Uint64_law unat_ucast_u64 word_le_nat_alt)
    with r show ?thesis by (auto simp: in_range_def simp del: if_split)
  qed (simp add: in_range_def)
  then have "in_range (uUint64 (U256 E) x) (uUint64 (U256 E) z) (memory m)"
    "in_range (uUint64 (U256 E) y) (uUint64 (U256 E) z) (memory m)" by (simp_all add: not_less less_imp_le)
  from mem_Copy_range[OF this mem_small[OF m(1)]] s m(1)
  show "\<exists>ret err m'. opMcopy E m = Some ((ret, err), m') \<and> quiet m m'
       \<and> (err = None \<longrightarrow> length (stk m') + maxStack 3 0 = length (stk m) + StackLimit)"
    by (auto simp: opMcopy_def pop_Cons ok_def quiet_def stack_limits ext_refl machine_good)
qed

lemma opCallDataLoad_ok [simp, intro!]: "exec_ok (opCallDataLoad E) (minStack 1 1) (maxStack 1 1) ms jmp give"
proof (rule exec_ok_simple)
  fix m assume m: "machine_ok m" "minStack 1 1 \<le> length (stk m)"
  then obtain x ys where s: "stk m = x # ys" by (auto simp: minStack_def)
  obtain b where "getData (Input (contract m)) (ucast x) 32 = Some b"
    using getData_exact[OF contract_small(2)[OF m(1)], of 32 "ucast x"] by auto
  with s m(1) show "\<exists>ret err st s. opCallDataLoad E m = Some ((ret, err), upd st s m)
        \<and> ext (state m) s \<and> (err = None \<longrightarrow> length st + maxStack 1 1 = length (stk m) + StackLimit)"
    by (auto simp: opCallDataLoad_def pop_Cons WithOverflow_law ok_def stack_limits ext_refl machine_good)
qed

end

section \<open>Jumps and pushes\<close>

lemma codeBitmap_segment:
  assumes "codeBitmap code = Some bits" "q < length code"
  shows "codeSegment bits q = Some (instr_start code q)"
proof -
  obtain b where b: "codeBitmap code = Some b" "length b = length code div 8 + 5"
    "\<forall>q < length code. marked b q = (\<not> instr_start code q)" using codeBitmap_spec by blast
  then show ?thesis
    using codeSegment_marked[of q b] assms by (simp add: div_le_mono le_less_trans less_imp_le_nat)
qed

lemma codeBitmap_ex: "\<exists>bits. codeBitmap code = Some bits"
  using codeBitmap_spec by blast

context vm_world
begin

lemma isCode_ok:
  assumes "contract_ok c" "q < length (Code c)"
  shows "\<exists>c'. isCode q c = Some (instr_start (Code c) q, c') \<and> contract_ok c' \<and> Code c' = Code c \<and> Gas c' = Gas c"
proof -
  obtain bits where b: "codeBitmap (Code c) = Some bits" using codeBitmap_ex by blast
  have seg: "codeSegment bits q = Some (instr_start (Code c) q)" using codeBitmap_segment[OF b assms(2)] .
  have known: "a = bits" if "analysis c = Some a" for a
    using assms(1) b that by (simp add: contract_ok_def)
  have shared: "a = bits" if "jumpdests c (CodeHash c) = Some a" "CodeHash c \<noteq> zero_hash" for a
    using assms(1) b that by (metis contract_ok_def jumpmap_ok_def option.inject)
  have add: "jumpmap_ok ((jumpdests c)(CodeHash c \<mapsto> bits))" if "CodeHash c \<noteq> zero_hash"
    using assms(1) b that by (auto simp: contract_ok_def jumpmap_ok_def)
  show ?thesis
    using b seg known shared add assms(1)
    by (auto simp: isCode_def contract_ok_def split: option.splits)
qed

lemma validJumpdest_ok:
  assumes "contract_ok c"
  shows "\<exists>c'. validJumpdest (U256 E) dest c =
      Some (uint dest < int (length (Code c)) \<and> Code c ! unat dest = JUMPDEST \<and> instr_start (Code c) (unat dest), c')
    \<and> contract_ok c' \<and> Code c' = Code c \<and> Gas c' = Gas c"
proof (cases "uint dest < int (length (Code c))")
  case True
  then have d: "uint dest < 2 ^ 64" "unat dest < length (Code c)"
    using assms by (simp_all add: contract_ok_def uint_nat del: of_nat_unat)
  then have u: "unat (ucast dest :: u64) = unat dest" by (simp add: unat_ucast_u64)
  have "\<not> of_nat (length (Code c)) \<le> (ucast dest :: u64)"
    using d(2) u assms by (simp add: word_le_nat_alt contract_ok_def unat_of_nat_small)
  with d u isCode_ok[OF assms d(2)] assms True show ?thesis
    by (auto simp: validJumpdest_def WithOverflow_law Let_def)
next
  case False
  have "of_nat (length (Code c)) \<le> (ucast dest :: u64)" if "uint dest < 2 ^ 64"
    using False unat_ucast_u64[OF that] assms
    by (simp add: word_le_nat_alt contract_ok_def unat_of_nat_small uint_nat del: of_nat_unat)
  with False assms show ?thesis by (auto simp: validJumpdest_def WithOverflow_law Let_def)
qed

lemma jump_to_ok:
  assumes "machine_ok m"
  shows "\<exists>err m'. jump_to E pos (upd st s m) = Some (([], err), m') \<and> contract_ok (contract m')
    \<and> Code (contract m') = Code (contract m) \<and> Gas (contract m') = Gas (contract m) \<and> stk m' = st \<and> state m' = s
    \<and> memory m' = memory m \<and> depth m' = depth m \<and> readOnly m' = readOnly m
    \<and> (err = None \<longrightarrow> unat (pc m') < length (Code (contract m)))"
proof -
  have c: "contract_ok (contract m)" using assms by (simp add: machine_ok_def)
  have "unat (ucast pos :: u64) < length (Code (contract m))" if "uint pos < int (length (Code (contract m)))"
  proof -
    have p: "unat pos < length (Code (contract m))" using that by (simp only: uint_nat of_nat_less_iff)
    moreover from that c have "uint pos < 2 ^ 64" by (simp add: contract_ok_def)
    ultimately show ?thesis by (simp add: unat_ucast_u64)
  qed
  with validJumpdest_ok[OF c, of pos] show ?thesis
    by (auto simp: jump_to_def ok_def Let_def Uint64_law)
qed

lemma jumps_ok [simp, intro!]:
  "exec_ok (opJump E) (minStack 1 0) (maxStack 1 0) ms True give"
  "exec_ok (opJumpi E) (minStack 2 0) (maxStack 2 0) ms True give"
proof -
  show "exec_ok (opJump E) (minStack 1 0) (maxStack 1 0) ms True give"
    unfolding exec_ok_def
  proof (intro allI impI, elim conjE)
    fix m assume m: "machine_ok m" "minStack 1 0 \<le> length (stk m)"
    then obtain x ys where s: "stk m = x # ys" by (auto simp: minStack_def)
    from jump_to_ok[OF m(1), of x ys "state m"] s m(1)
    show "\<exists>ret err m'. opJump E m = Some ((ret, err), m') \<and> same_frame m m'
        \<and> (err = None \<longrightarrow> length (stk m') + maxStack 1 0 = length (stk m) + StackLimit)
        \<and> unat (Gas (contract m')) \<le> unat (Gas (contract m)) + give (stk m) (callGasTemp m)
        \<and> (True \<or> unat (pc m) \<le> unat (pc m'))
        \<and> (err = None \<longrightarrow> unat (pc m') \<le> unat (pc m) + 255 \<or> unat (pc m') < length (Code (contract m)))"
      by (auto simp: opJump_def pop_Cons same_frame_def stack_limits ext_refl machine_good)
  qed
  show "exec_ok (opJumpi E) (minStack 2 0) (maxStack 2 0) ms True give"
    unfolding exec_ok_def
  proof (intro allI impI, elim conjE)
    fix m assume m: "machine_ok m" "minStack 2 0 \<le> length (stk m)"
    from two_operands[OF m(2)] obtain x y ys where s: "stk m = x # y # ys" by blast
    have "unat (pc m + 1) \<le> unat (pc m) + 255"
      by (rule order_trans[of _ "unat (pc m) + 1"]) (simp_all add: unat_word_ariths)
    with jump_to_ok[OF m(1), of x ys "state m"] s m(1)
    show "\<exists>ret err m'. opJumpi E m = Some ((ret, err), m') \<and> same_frame m m'
        \<and> (err = None \<longrightarrow> length (stk m') + maxStack 2 0 = length (stk m) + StackLimit)
        \<and> unat (Gas (contract m')) \<le> unat (Gas (contract m)) + give (stk m) (callGasTemp m)
        \<and> (True \<or> unat (pc m) \<le> unat (pc m'))
        \<and> (err = None \<longrightarrow> unat (pc m') \<le> unat (pc m) + 255 \<or> unat (pc m') < length (Code (contract m)))"
      by (auto simp: opJumpi_def pop_Cons same_frame_def stack_limits ext_refl machine_good ok_def machine_ok_def)
  qed
qed

text \<open>A push moves the program counter over its data.\<close>

lemma exec_ok_push:
  assumes "\<And>m. machine_ok m \<Longrightarrow> unat (pc m) < 2 ^ 62 \<Longrightarrow>
    \<exists>x n. ex m = Some (([], None), (upd (x # stk m) (state m) m)\<lparr>pc := pc m + n\<rparr>) \<and> unat n < 256"
  shows "exec_ok ex (minStack 0 1) (maxStack 0 1) ms jmp give"
  unfolding exec_ok_def
proof (intro allI impI, elim conjE)
  fix m assume m: "machine_ok m" "unat (pc m) < 2 ^ 62"
  from assms[OF m] obtain x n where ex: "ex m = Some (([], None), (upd (x # stk m) (state m) m)\<lparr>pc := pc m + n\<rparr>)"
    "unat n < 256" by blast
  have "unat (pc m + n) = unat (pc m) + unat n" using m(2) ex(2) unat_add_lem[of "pc m" n] by simp
  with ex m show "\<exists>ret err m'. ex m = Some ((ret, err), m') \<and> same_frame m m'
        \<and> (err = None \<longrightarrow> length (stk m') + maxStack 0 1 = length (stk m) + StackLimit)
        \<and> unat (Gas (contract m')) \<le> unat (Gas (contract m)) + give (stk m) (callGasTemp m)
        \<and> (jmp \<or> unat (pc m) \<le> unat (pc m'))
        \<and> (err = None \<longrightarrow> unat (pc m') \<le> unat (pc m) + 255 \<or> unat (pc m') < length (Code (contract m)))"
    by (auto simp: same_frame_def stack_limits ext_refl machine_good machine_ok_def)
qed

lemma opPush1_ok [simp, intro!]: "exec_ok (opPush1 E) (minStack 0 1) (maxStack 0 1) ms jmp give"
proof (rule exec_ok_push)
  fix m :: "'s Machine"
  let ?x = "if pc m + 1 < of_nat (length (Code (contract m)))
    then uSetUint64 (U256 E) (ucast (Code (contract m) ! unat (pc m + 1))) else uClear (U256 E)"
  show "\<exists>x n. opPush1 E m = Some (([], None), (upd (x # stk m) (state m) m)\<lparr>pc := pc m + n\<rparr>) \<and> unat n < 256"
    by (intro exI[of _ ?x] exI[of _ 1]) (simp add: opPush1_def push_op_def ok_def Let_def upd_def push_def st_push_def)
qed

lemma makePush_ok: "unat sz < 256 \<Longrightarrow> exec_ok (makePush sz n E) (minStack 0 1) (maxStack 0 1) ms jmp give"
proof (rule exec_ok_push)
  fix m assume m: "unat sz < 256" "machine_ok m" "unat (pc m) < 2 ^ 62"
  have "unat (pc m + 1) = unat (pc m) + 1" using m(3) unat_add_lem[of "pc m" 1] by simp
  then have p: "sint (pc m + 1) = int (unat (pc m) + 1)" using m(3) by (simp add: sint_small del: of_nat_add)
  let ?n = "length (Code (contract m))"
  define a where "a = min (unat (pc m) + 1) ?n"
  define b where "b = min (a + n) ?n"
  have ab: "a \<le> b" "b \<le> ?n" by (auto simp: a_def b_def)
  have a: "(if sint (pc m + 1) < int ?n then sint (pc m + 1) else int ?n) = int a"
    unfolding p of_nat_less_iff a_def by (auto simp: min_def simp del: length_ge)
  have b: "(if int a + int n < int ?n then int a + int n else int ?n) = int b" by (auto simp: b_def)
  show "\<exists>x na. makePush sz n E m = Some (([], None), (upd (x # stk m) (state m) m)\<lparr>pc := pc m + na\<rparr>) \<and> unat na < 256"
    using m(1) ab
    by (auto simp: makePush_def Let_def a b ok_def push_upd intro!: exI[of _ sz])
qed

end

end
