(* ===== verification/Vm_Call_Safe.thy ===== *)
theory Vm_Call_Safe
  imports Vm_Exec_Safe
begin

text \<open>
  The call and create instructions keep their contract if the calls they make do: a call
  returns, gives back no more gas than it got, and restores depth and write protection.
\<close>

context vm_world
begin

section \<open>Calls in order\<close>

definition evm_kept :: "'s Evm \<Rightarrow> 's Evm \<Rightarrow> bool" where
  "evm_kept e e' = (ext (e_state e) (e_state e') \<and> e_depth e' = e_depth e \<and> e_readOnly e' = e_readOnly e)"

text \<open>The outcome of a call that was given \<open>gas\<close>.\<close>

definition call_result_ok :: "u64 \<Rightarrow> 's Evm \<Rightarrow> (CallResult \<times> 's Evm) option \<Rightarrow> bool" where
  "call_result_ok gas e res =
    (\<exists>r e'. res = Some (r, e') \<and> r_gas r \<le> gas \<and> evm_kept e e' \<and> jumpmap_ok (r_jumpdests r))"

definition calls_ok :: "'s Calls \<Rightarrow> bool" where
  "calls_ok C = (\<forall>c a input gas e. contract_ok c \<and> length input < 2 ^ 61 \<and> good (e_state e) \<and> low \<le> e_depth e
       \<and> unat gas < gas_cap \<longrightarrow>
     (\<forall>v. call_result_ok gas e (do_Call C c a input gas v e)) \<and>
     (\<forall>v. call_result_ok gas e (do_CallCode C c a input gas v e)) \<and>
     call_result_ok gas e (do_DelegateCall C c a input gas e) \<and>
     call_result_ok gas e (do_StaticCall C c a input gas e) \<and>
     (\<forall>v. call_result_ok gas e (do_Create C c input gas v e)) \<and>
     (\<forall>v salt. call_result_ok gas e (do_Create2 C c input gas v salt e)))"

section \<open>After a call\<close>

lemma kept_frame:
  assumes "evm_kept (evm_of m) e" "jumpmap_ok jd" "contract_ok (contract m)"
  shows "ext (state m) (e_state e)" "e_depth e = depth m" "e_readOnly e = readOnly m"
    "contract_ok ((contract m)\<lparr>jumpdests := jd\<rparr>)"
  using assms by (auto simp: evm_kept_def evm_of_def contract_ok_def)

lemma contract_ok_Gas [simp]: "contract_ok (c\<lparr>Gas := g\<rparr>) = contract_ok c"
  by (simp add: contract_ok_def)

lemma gas_back: "unat (g :: u64) + unat k < 2 ^ 64 \<Longrightarrow> r \<le> k \<Longrightarrow> unat (g + r) \<le> unat g + unat k"
  using unat_add_lem[of g r] by (simp add: word_le_nat_alt)

lemma finish_call_ok:
  assumes "machine_ok m0" "contract m = contract m0" "memory m = memory m0" "depth m = depth m0" "readOnly m = readOnly m0"
    "state m = state m0" "pc m = pc m0" "stk m = ys"
    "evm_kept (evm_of m) e" "jumpmap_ok (r_jumpdests r)" "r_gas r \<le> k" "unat (Gas (contract m0)) + unat k < 2 ^ 64"
    "in_range (uUint64 (U256 E) x) (uUint64 (U256 E) y) (memory m0)"
  shows "\<exists>ret m'. finish_call E status x y r e m = Some ((ret, None), m') \<and> same_frame m0 m' \<and> length (stk m') = length ys + 1
    \<and> unat (Gas (contract m')) \<le> unat (Gas (contract m0)) + unat k \<and> pc m' = pc m0"
proof -
  let ?m = "push status (after_call r e m)"
  have c: "contract_ok (contract m0)" using assms(1) by (simp add: machine_ok_def)
  note k = kept_frame[OF assms(9,10)]
  have mem: "memory ?m = memory m0" using assms(3)
    by (simp add: after_call_def with_evm_def push_def st_push_def Let_def)
  obtain mem where "(if r_err r = None \<or> r_err r = Some ErrExecutionReverted
      then mem_Set (uUint64 (U256 E) x) (uUint64 (U256 E) y) (r_ret r) (memory ?m) else Some (memory ?m)) = Some mem"
    "length (store mem) = length (store (memory m0))"
    using mem_Set_range[OF assms(13) mem_small[OF assms(1)], of "r_ret r"] mem
    by (cases "r_err r = None \<or> r_err r = Some ErrExecutionReverted") auto
  moreover have "unat (Gas (contract m0) + r_gas r) \<le> unat (Gas (contract m0)) + unat k"
    using gas_back assms(11,12) by blast
  ultimately show ?thesis
    using assms k c
    by (auto simp: finish_call_def Let_def after_call_def with_evm_def push_def st_push_def on_gas_def same_frame_def)
qed

section \<open>The call instructions\<close>

text \<open>What a call instruction can give back: the gas set aside, and the stipend of a call that
  moves value.\<close>

definition call_give :: "stack \<Rightarrow> u64 \<Rightarrow> nat" where
  "call_give st g = unat g"

definition value_give :: "stack \<Rightarrow> u64 \<Rightarrow> nat" where
  "value_give st g = unat g + (if st ! 2 \<noteq> 0 then 2300 else 0)"

lemma seven_operands: "minStack 7 k \<le> length (stk m) \<Longrightarrow> \<exists>a b c d e f g ys. stk m = a # b # c # d # e # f # g # ys"
  by (auto simp: minStack_def numeral_eq_Suc)

lemma six_operands: "minStack 6 k \<le> length (stk m) \<Longrightarrow> \<exists>a b c d e f ys. stk m = a # b # c # d # e # f # ys"
  by (auto simp: minStack_def numeral_eq_Suc)

lemma evm_of_upd [simp]: "evm_of (upd st s m) = (evm_of m)\<lparr>e_state := s\<rparr>"
  by (simp add: evm_of_def)

lemma args_ok:
  assumes "in_range (uUint64 (U256 E) x) (uUint64 (U256 E) y) (memory m)" "machine_ok m"
  shows "\<exists>b. args_of E x y (upd st s m) = Some b \<and> length b < 2 ^ 61"
  using range_GetPtr(1)[OF assms] by (auto simp: args_of_def mem_max_def)

lemma value_call_ok:
  assumes call: "\<And>c a input gas v e. contract_ok c \<Longrightarrow> length input < 2 ^ 61 \<Longrightarrow> good (e_state e) \<Longrightarrow> low \<le> e_depth e \<Longrightarrow>
      unat gas < gas_cap \<Longrightarrow> call_result_ok gas e (call c a input gas v e)"
  shows "exec_ok (value_call E call) (minStack 7 1) (maxStack 7 1) (Some (memoryCall (U256 E))) jmp value_give"
  unfolding exec_ok_def
proof (intro allI impI, elim conjE)
  fix m assume m: "machine_ok m" "minStack 7 1 \<le> length (stk m)" "fits (Some (memoryCall (U256 E))) m"
    "unat (pc m) < 2 ^ 62" "unat (Gas (contract m)) + value_give (stk m) (callGasTemp m) < gas_cap"
  from seven_operands[OF m(2)] obtain g a v io il ro rs ys where s: "stk m = g # a # v # io # il # ro # rs # ys" by blast
  let ?m = "upd ys (state m) m"
  have r: "in_range (uUint64 (U256 E) ro) (uUint64 (U256 E) rs) (memory m)"
    "in_range (uUint64 (U256 E) io) (uUint64 (U256 E) il) (memory m)"
    using fits_mem_two[of 5 6 3 4 m] m s by (simp_all add: memoryCall_def)
  obtain args where args: "args_of E io il ?m = Some args" "length args < 2 ^ 61"
    using args_ok[OF r(2) m(1)] by blast
  let ?k = "if v \<noteq> 0 then callGasTemp m + CallStipend else callGasTemp m"
  have k: "unat ?k \<le> value_give (stk m) (callGasTemp m)" "unat (Gas (contract m)) + unat ?k < 2 ^ 64" "unat ?k < gas_cap"
    using m(5) s unat_add_lem[of "callGasTemp m" CallStipend]
    by (auto simp: value_give_def CallStipend_def gas_cap_def)
  let ?v = "if v \<noteq> 0 then uToBig (U256 E) v else 0"
  from call[of "contract m" args "evm_of ?m" ?k "uBytes20 (U256 E) a" ?v] m(1) args(2) k(3)
  obtain res e where res: "call (contract m) (uBytes20 (U256 E) a) args ?k ?v (evm_of ?m) = Some (res, e)"
    "r_gas res \<le> ?k" "evm_kept (evm_of ?m) e" "jumpmap_ok (r_jumpdests res)"
    by (auto simp: call_result_ok_def machine_ok_def evm_of_def)
  let ?st = "if r_err res \<noteq> None then uClear (U256 E) else uSetOne (U256 E)"
  have "value_call E call m = finish_call E ?st ro rs res e ?m"
    using args(1) res(1) s by (cases "v = 0") (simp_all add: value_call_def pop_Cons IsZero_law Let_def)
  moreover from finish_call_ok[OF m(1) _ _ _ _ _ _ _ res(3,4,2) k(2) r(1), of ys ?st]
  obtain ret m' where "finish_call E ?st ro rs res e ?m = Some ((ret, None), m')" "same_frame m m'" "length (stk m') = length ys + 1"
    "unat (Gas (contract m')) \<le> unat (Gas (contract m)) + unat ?k" "pc m' = pc m" by auto
  ultimately show "\<exists>ret err m'. value_call E call m = Some ((ret, err), m') \<and> same_frame m m'
        \<and> (err = None \<longrightarrow> length (stk m') + maxStack 7 1 = length (stk m) + StackLimit)
        \<and> unat (Gas (contract m')) \<le> unat (Gas (contract m)) + value_give (stk m) (callGasTemp m)
        \<and> (jmp \<or> unat (pc m) \<le> unat (pc m'))
        \<and> (err = None \<longrightarrow> unat (pc m') \<le> unat (pc m) + 255 \<or> unat (pc m') < length (Code (contract m)))"
    using k(1) s m(4) by (auto simp: stack_limits)
qed

lemma plain_call_ok:
  assumes call: "\<And>c a input gas e. contract_ok c \<Longrightarrow> length input < 2 ^ 61 \<Longrightarrow> good (e_state e) \<Longrightarrow> low \<le> e_depth e \<Longrightarrow>
      unat gas < gas_cap \<Longrightarrow> call_result_ok gas e (call c a input gas e)"
    and ms: "ms = mem_two (U256 E) 4 5 2 3"
  shows "exec_ok (plain_call E call) (minStack 6 1) (maxStack 6 1) (Some ms) jmp call_give"
  unfolding exec_ok_def
proof (intro allI impI, elim conjE)
  fix m assume m: "machine_ok m" "minStack 6 1 \<le> length (stk m)" "fits (Some ms) m"
    "unat (pc m) < 2 ^ 62" "unat (Gas (contract m)) + call_give (stk m) (callGasTemp m) < gas_cap"
  from six_operands[OF m(2)] obtain g a io il ro rs ys where s: "stk m = g # a # io # il # ro # rs # ys" by blast
  let ?m = "upd ys (state m) m"
  have r: "in_range (uUint64 (U256 E) ro) (uUint64 (U256 E) rs) (memory m)"
    "in_range (uUint64 (U256 E) io) (uUint64 (U256 E) il) (memory m)"
    using fits_mem_two[of 4 5 2 3 m] m s ms by simp_all
  obtain args where args: "args_of E io il ?m = Some args" "length args < 2 ^ 61"
    using args_ok[OF r(2) m(1)] by blast
  have k: "unat (Gas (contract m)) + unat (callGasTemp m) < 2 ^ 64" "unat (callGasTemp m) < gas_cap"
    using m(5) by (simp_all add: call_give_def gas_cap_def)
  from call[of "contract m" args "evm_of ?m" "callGasTemp m" "uBytes20 (U256 E) a"] m(1) args(2) k(2)
  obtain res e where res: "call (contract m) (uBytes20 (U256 E) a) args (callGasTemp m) (evm_of ?m) = Some (res, e)"
    "r_gas res \<le> callGasTemp m" "evm_kept (evm_of ?m) e" "jumpmap_ok (r_jumpdests res)"
    by (auto simp: call_result_ok_def machine_ok_def evm_of_def)
  let ?st = "if r_err res \<noteq> None then uClear (U256 E) else uSetOne (U256 E)"
  have "plain_call E call m = finish_call E ?st ro rs res e ?m"
    using args(1) res(1) s by (simp add: plain_call_def pop_Cons)
  moreover from finish_call_ok[OF m(1) _ _ _ _ _ _ _ res(3,4,2) k(1) r(1), of ys ?st]
  obtain ret m' where "finish_call E ?st ro rs res e ?m = Some ((ret, None), m')" "same_frame m m'" "length (stk m') = length ys + 1"
    "unat (Gas (contract m')) \<le> unat (Gas (contract m)) + unat (callGasTemp m)" "pc m' = pc m" by auto
  ultimately show "\<exists>ret err m'. plain_call E call m = Some ((ret, err), m') \<and> same_frame m m'
        \<and> (err = None \<longrightarrow> length (stk m') + maxStack 6 1 = length (stk m) + StackLimit)
        \<and> unat (Gas (contract m')) \<le> unat (Gas (contract m)) + call_give (stk m) (callGasTemp m)
        \<and> (jmp \<or> unat (pc m) \<le> unat (pc m'))
        \<and> (err = None \<longrightarrow> unat (pc m') \<le> unat (pc m) + 255 \<or> unat (pc m') < length (Code (contract m)))"
    using s m(4) by (auto simp: stack_limits call_give_def)
qed

lemma call_ops_ok:
  assumes "calls_ok C"
  shows "exec_ok (opCall E C) (minStack 7 1) (maxStack 7 1) (Some (memoryCall (U256 E))) jmp value_give"
    "exec_ok (opCallCode E C) (minStack 7 1) (maxStack 7 1) (Some (memoryCall (U256 E))) jmp value_give"
    "exec_ok (opDelegateCall E C) (minStack 6 1) (maxStack 6 1) (Some (memoryDelegateCall (U256 E))) jmp call_give"
    "exec_ok (opStaticCall E C) (minStack 6 1) (maxStack 6 1) (Some (memoryStaticCall (U256 E))) jmp call_give"
  unfolding opCall_def opCallCode_def opDelegateCall_def opStaticCall_def
  by (rule value_call_ok plain_call_ok; use assms in \<open>simp add: calls_ok_def memoryDelegateCall_def memoryStaticCall_def\<close>)+

section \<open>The create instructions\<close>

lemma create_part:
  assumes "machine_ok m" "contract_ok c" "length input < 2 ^ 61"
    and res: "call_result_ok (Gas (contract m) - Gas (contract m) div 64) (evm_of m1) res"
    and m1: "m1 = (upd ys (state m) m)\<lparr>contract := snd (UseGas (Gas (contract m) - Gas (contract m) div 64) (contract m))\<rparr>"
  shows "\<exists>ret m'. (case res of None \<Rightarrow> None | Some (r, e) \<Rightarrow> finish_create E r e m1) = Some ((ret, None), m')
    \<and> same_frame m m' \<and> length (stk m') = length ys + 1 \<and> unat (Gas (contract m')) \<le> unat (Gas (contract m)) \<and> pc m' = pc m"
proof -
  let ?G = "Gas (contract m)"
  have d: "?G div 64 \<le> ?G" by (simp add: word_le_nat_alt unat_div)
  then have u: "unat (?G - ?G div 64) = unat ?G - unat ?G div 64" by (simp add: unat_sub unat_div)
  have gas: "contract m1 = (contract m)\<lparr>Gas := ?G div 64\<rparr>"
    using d by (simp add: m1 UseGas_def word_less_nat_alt u)
  obtain r e where r: "res = Some (r, e)" "r_gas r \<le> ?G - ?G div 64" "evm_kept (evm_of m1) e" "jumpmap_ok (r_jumpdests r)"
    using res by (auto simp: call_result_ok_def)
  have c: "contract_ok (contract m1)" using assms(1) gas by (simp add: machine_ok_def)
  have "unat (?G div 64) + unat (?G - ?G div 64) = unat ?G" by (simp add: u unat_div)
  then have "unat (?G div 64 + r_gas r) \<le> unat ?G"
    using gas_back[OF _ r(2), of "?G div 64"] unat_bound[of ?G] by simp
  with r kept_frame[OF r(3,4) c] c show ?thesis
    unfolding gas
    by (auto simp: finish_create_def Let_def after_call_def with_evm_def push_def st_push_def on_gas_def same_frame_def gas)
      (auto simp: m1 contract_ok_def)
qed

text \<open>\<open>create_call\<close> is what both instructions do once the operands are off the stack.\<close>

definition create_call :: "(Contract \<Rightarrow> u64 \<Rightarrow> 's Evm \<Rightarrow> (CallResult \<times> 's Evm) option) \<Rightarrow> stack \<Rightarrow> 's exec" where
  "create_call call ys m =
    (let g = Gas (contract m) - Gas (contract m) div 64;
         m1 = (upd ys (state m) m)\<lparr>contract := snd (UseGas g (contract m))\<rparr>
     in case call (contract m1) g (evm_of m1) of None \<Rightarrow> None | Some (r, e) \<Rightarrow> finish_create E r e m1)"

lemma create_exec_ok:
  assumes ex: "\<And>m input. machine_ok m \<Longrightarrow> minStack n 1 \<le> length (stk m) \<Longrightarrow> length input < 2 ^ 61 \<Longrightarrow>
      mem_GetCopy (memory m) (to_i64 (U256 E) (stk m ! 1)) (to_i64 (U256 E) (stk m ! 2)) = Some input \<Longrightarrow>
      \<exists>call. ex m = create_call call (drop n (stk m)) m \<and>
        (\<forall>c g e. contract_ok c \<longrightarrow> good (e_state e) \<longrightarrow> low \<le> e_depth e \<longrightarrow> unat g < gas_cap \<longrightarrow> call_result_ok g e (call c g e))"
    and n: "2 < n"
  shows "exec_ok ex (minStack n 1) (maxStack n 1) (Some (mem_at (U256 E) 1 2)) jmp no_give"
  unfolding exec_ok_def
proof (intro allI impI, elim conjE)
  fix m assume m: "machine_ok m" "minStack n 1 \<le> length (stk m)" "fits (Some (mem_at (U256 E) 1 2)) m" "unat (pc m) < 2 ^ 62"
    "unat (Gas (contract m)) + no_give (stk m) (callGasTemp m) < gas_cap"
  then have "in_range (uUint64 (U256 E) (stk m ! 1)) (uUint64 (U256 E) (stk m ! 2)) (memory m)"
    using fits_mem_at[of 1 2 m] n by (simp add: minStack_def)
  from range_GetPtr(2)[OF this m(1)] obtain input where
    i: "mem_GetCopy (memory m) (to_i64 (U256 E) (stk m ! 1)) (to_i64 (U256 E) (stk m ! 2)) = Some input" "length input < 2 ^ 61"
    by (auto simp: mem_max_def)
  from ex[OF m(1,2) i(2,1)] obtain call where c: "ex m = create_call call (drop n (stk m)) m"
    "\<And>c g e. contract_ok c \<Longrightarrow> good (e_state e) \<Longrightarrow> low \<le> e_depth e \<Longrightarrow> unat g < gas_cap \<Longrightarrow> call_result_ok g e (call c g e)" by blast
  let ?g = "Gas (contract m) - Gas (contract m) div 64"
  let ?m = "(upd (drop n (stk m)) (state m) m)\<lparr>contract := snd (UseGas ?g (contract m))\<rparr>"
  have "contract_ok (contract ?m)" using m(1) by (simp add: machine_ok_def UseGas_def)
  moreover have "good (e_state (evm_of ?m))" "low \<le> e_depth (evm_of ?m)"
    using m(1) by (simp_all add: machine_ok_def evm_of_def)
  moreover have "unat ?g < gas_cap"
    using m(5) unat_sub[of "Gas (contract m) div 64" "Gas (contract m)"] by (simp add: no_give_def word_le_nat_alt unat_div)
  ultimately have "call_result_ok ?g (evm_of ?m) (call (contract ?m) ?g (evm_of ?m))" by (rule c(2))
  from create_part[OF m(1) _ i(2) this refl, of "contract m"] m(1)
  obtain ret m' where "create_call call (drop n (stk m)) m = Some ((ret, None), m')" "same_frame m m'"
    "length (stk m') = length (drop n (stk m)) + 1" "unat (Gas (contract m')) \<le> unat (Gas (contract m))" "pc m' = pc m"
    unfolding create_call_def Let_def by (auto simp: machine_ok_def)
  with c(1) m(2,4) show "\<exists>ret err m'. ex m = Some ((ret, err), m') \<and> same_frame m m'
        \<and> (err = None \<longrightarrow> length (stk m') + maxStack n 1 = length (stk m) + StackLimit)
        \<and> unat (Gas (contract m')) \<le> unat (Gas (contract m)) + no_give (stk m) (callGasTemp m)
        \<and> (jmp \<or> unat (pc m) \<le> unat (pc m'))
        \<and> (err = None \<longrightarrow> unat (pc m') \<le> unat (pc m) + 255 \<or> unat (pc m') < length (Code (contract m)))"
    by (auto simp: stack_limits no_give_def)
qed

lemma create_ops_ok:
  assumes "calls_ok C"
  shows "exec_ok (opCreate E C) (minStack 3 1) (maxStack 3 1) (Some (memoryCreate (U256 E))) jmp no_give"
    "exec_ok (opCreate2 E C) (minStack 4 1) (maxStack 4 1) (Some (memoryCreate2 (U256 E))) jmp no_give"
proof -
  show "exec_ok (opCreate E C) (minStack 3 1) (maxStack 3 1) (Some (memoryCreate (U256 E))) jmp no_give"
    unfolding memoryCreate_def
  proof (rule create_exec_ok)
    fix m input assume m: "machine_ok m" "minStack 3 1 \<le> length (stk m)" "length input < 2 ^ 61"
      "mem_GetCopy (memory m) (to_i64 (U256 E) (stk m ! 1)) (to_i64 (U256 E) (stk m ! 2)) = Some input"
    from three_operands[OF m(2)] obtain v x y ys where s: "stk m = v # x # y # ys" by blast
    let ?call = "\<lambda>c g e. do_Create C c input g (if v \<noteq> 0 then uToBig (U256 E) v else 0) e"
    have "opCreate E C m = create_call ?call (drop 3 (stk m)) m"
      using s m(4) by (simp add: opCreate_def create_call_def pop_Cons IsZero_law Let_def split: option.splits)
    with assms m(3) show "\<exists>call. opCreate E C m = create_call call (drop 3 (stk m)) m
        \<and> (\<forall>c g e. contract_ok c \<longrightarrow> good (e_state e) \<longrightarrow> low \<le> e_depth e \<longrightarrow> unat g < gas_cap \<longrightarrow> call_result_ok g e (call c g e))"
      by (intro exI[of _ ?call]) (simp add: calls_ok_def)
  qed simp
  show "exec_ok (opCreate2 E C) (minStack 4 1) (maxStack 4 1) (Some (memoryCreate2 (U256 E))) jmp no_give"
    unfolding memoryCreate2_def
  proof (rule create_exec_ok)
    fix m input assume m: "machine_ok m" "minStack 4 1 \<le> length (stk m)" "length input < 2 ^ 61"
      "mem_GetCopy (memory m) (to_i64 (U256 E) (stk m ! 1)) (to_i64 (U256 E) (stk m ! 2)) = Some input"
    from four_operands[OF m(2)] obtain v x y z ys where s: "stk m = v # x # y # z # ys" by blast
    let ?call = "\<lambda>c g e. do_Create2 C c input g (if v \<noteq> 0 then uToBig (U256 E) v else 0) z e"
    have "opCreate2 E C m = create_call ?call (drop 4 (stk m)) m"
      using s m(4) by (simp add: opCreate2_def create_call_def pop_Cons IsZero_law Let_def split: option.splits)
    with assms m(3) show "\<exists>call. opCreate2 E C m = create_call call (drop 4 (stk m)) m
        \<and> (\<forall>c g e. contract_ok c \<longrightarrow> good (e_state e) \<longrightarrow> low \<le> e_depth e \<longrightarrow> unat g < gas_cap \<longrightarrow> call_result_ok g e (call c g e))"
      by (intro exI[of _ ?call]) (simp add: calls_ok_def)
  qed simp
qed

end

declare length_ge [simp del]

end
