(* ===== verification/Vm_Gas_Safe.thy ===== *)
theory Vm_Gas_Safe
  imports Vm_Call_Safe
begin

text \<open>
  The gas functions keep their contract: with the operands the table asks for they return,
  they refuse a memory of more than \<open>0x1FFFFFFFE0\<close> bytes, and the price of a call covers
  the gas it hands to the callee.
\<close>

lemma SafeAdd_ok: "\<not> snd (SafeAdd x y) \<Longrightarrow> unat (fst (SafeAdd x y)) = unat x + unat y"
  using unat_add_lem[of x y] by (simp add: SafeAdd_def not_le)

context vm_world
begin

section \<open>Frames\<close>

definition gas_frame :: "'s Machine \<Rightarrow> 's Machine \<Rightarrow> bool" where
  "gas_frame m m' = (stk m' = stk m \<and> store (memory m') = store (memory m) \<and> contract m' = contract m \<and> pc m' = pc m
     \<and> depth m' = depth m \<and> readOnly m' = readOnly m \<and> ext (state m) (state m'))"

definition gas_post :: "(stack \<Rightarrow> u64 \<Rightarrow> nat) \<Rightarrow> 's Machine \<Rightarrow> ((vm_error + u64) \<times> 's Machine) option \<Rightarrow> bool" where
  "gas_post give m res = (\<exists>r m'. res = Some (r, m') \<and> gas_frame m m' \<and> (\<forall>cost. r = Inr cost \<longrightarrow> give (stk m') (callGasTemp m') \<le> unat cost))"

lemma gas_okI: "(\<And>sz m. machine_ok m \<Longrightarrow> lo \<le> length (stk m) \<Longrightarrow> gas_post give m (f sz m)) \<Longrightarrow> gas_ok f lo give"
  unfolding gas_ok_def gas_post_def gas_frame_def by blast

lemma gas_post_Inl [simp, intro]: "gas_frame m m' \<Longrightarrow> gas_post give m (Some (Inl e, m'))"
  by (simp add: gas_post_def)

lemma gas_post_Inr: "gas_frame m m' \<Longrightarrow> give (stk m') (callGasTemp m') \<le> unat cost \<Longrightarrow> gas_post give m (Some (Inr cost, m'))"
  by (simp add: gas_post_def)

lemma gas_post_free [simp, intro]: "gas_frame m m' \<Longrightarrow> gas_post no_give m (Some (Inr cost, m'))"
  by (simp add: gas_post_def no_give_def)

lemma gas_post_checked:
  "gas_frame m m' \<Longrightarrow> (\<not> snd r \<Longrightarrow> gas_post give m (k (fst r))) \<Longrightarrow> gas_post give m (gas_checked r m' k)"
  by (simp add: gas_checked_def)

lemma memoryGasCost_store: "memoryGasCost p mem sz = Inr (g, mem') \<Longrightarrow> store mem' = store mem \<and> unat sz \<le> mem_max"
  by (auto simp: memoryGasCost_def mem_max_def Let_def word_less_nat_alt not_less split: if_splits)

lemma gas_post_memory:
  assumes "gas_frame m m'" "\<And>g mem. store mem = store (memory m') \<Longrightarrow> gas_frame m (m'\<lparr>memory := mem\<rparr>) \<Longrightarrow> gas_post give m (k g (m'\<lparr>memory := mem\<rparr>))"
  shows "gas_post give m (gas_memory E sz m' k)"
proof (cases "memoryGasCost (p026 E) (memory m') sz")
  case (Inr r)
  then obtain g mem where r: "memoryGasCost (p026 E) (memory m') sz = Inr (g, mem)" by (cases r) auto
  from memoryGasCost_store[OF r] assms r show ?thesis by (auto simp: gas_memory_def gas_frame_def)
qed (use assms in \<open>simp add: gas_memory_def\<close>)

lemma gas_memory_bound:
  "gas_memory E sz m k = Some (Inr cost, m') \<Longrightarrow> unat sz \<le> mem_max"
  using memoryGasCost_store by (fastforce simp: gas_memory_def split: sum.splits)

lemma gas_frame_refl [simp, intro]: "machine_ok m \<Longrightarrow> gas_frame m m"
  by (simp add: gas_frame_def machine_good ext_refl)

lemma gas_frame_state: "gas_frame m m' \<Longrightarrow> ext (state m') s \<Longrightarrow> gas_frame m (m'\<lparr>state := s\<rparr>)"
  using ext_trans by (auto simp: gas_frame_def)

lemma Back_ok: "n < length (stk m) \<Longrightarrow> Back n m = Some (stk m ! n)"
  by (simp add: Back_def st_Back_def)

section \<open>Copies, hashes, logs\<close>

lemma memoryCopierGas_ok: "n < lo \<Longrightarrow> gas_ok (memoryCopierGas n E) lo no_give"
  by (rule gas_okI) (auto simp: memoryCopierGas_def Back_ok intro!: gas_post_memory gas_post_checked)

lemma gas_hash_words_ok: "n < lo \<Longrightarrow> gas_ok (gas_hash_words n E) lo no_give"
  by (rule gas_okI) (auto simp: gas_hash_words_def Back_ok intro!: gas_post_memory gas_post_checked)

lemma makeGasLog_ok: "1 < lo \<Longrightarrow> gas_ok (makeGasLog n E) lo no_give"
  by (rule gas_okI) (auto simp: makeGasLog_def Back_ok intro!: gas_post_memory gas_post_checked)

lemma pureMemoryGascost_ok: "gas_ok (pureMemoryGascost E) lo no_give"
  by (rule gas_okI) (auto simp: pureMemoryGascost_def intro!: gas_post_memory)

lemma gasExp_ok: "1 < lo \<Longrightarrow> gas_ok (gasExp n E) lo no_give"
  by (rule gas_okI) (auto simp: gasExp_def Back_ok Let_def intro!: gas_post_checked)

lemma gasSStore_ok: "gas_ok (gasSStore E) lo no_give" "gas_ok (gasSStoreEIP2200 E) lo no_give"
  by (rule gas_okI; auto simp: gasSStore_def gasSStoreEIP2200_def)+

lemma gas_bounds:
  "gas_bounds_memory (memoryCopierGas n E)" "gas_bounds_memory (gas_hash_words n E)" "gas_bounds_memory (pureMemoryGascost E)"
  unfolding gas_bounds_memory_def memoryCopierGas_def gas_hash_words_def pureMemoryGascost_def
  using gas_memory_bound by blast+

lemma makeGasLog_bounds: "gas_bounds_memory (makeGasLog n E)"
  unfolding gas_bounds_memory_def makeGasLog_def gas_checked_def
  by (auto split: option.splits if_splits dest: gas_memory_bound)

section \<open>Calls\<close>

lemma gas_frame_temp [simp]: "gas_frame m (m'\<lparr>callGasTemp := g\<rparr>) = gas_frame m m'"
  by (simp add: gas_frame_def)

text \<open>The base price is at least the stipend if there is one.\<close>

lemma gas_call_end_ok:
  assumes "gas_frame m m'" "\<And>g. give (stk m') g \<le> unat base + unat g"
  shows "gas_post give m (gas_call_end E base req m')"
proof (cases "callGas (U256 E) True (Gas (contract m')) base req")
  case (Inr g)
  with assms show ?thesis
    by (auto simp: gas_call_end_def Let_def SafeAdd_ok intro!: gas_post_checked gas_post_Inr)
qed (use assms in \<open>simp add: gas_call_end_def\<close>)

lemma plain_call_gas_ok:
  assumes "0 < lo"
  shows "gas_ok (gasDelegateCall E) lo call_give" "gas_ok (gasStaticCall E) lo call_give"
proof -
  have end_ok: "gas_post call_give m (case Back 0 m' of None \<Rightarrow> None | Some req \<Rightarrow> gas_call_end E g req m')"
    if "gas_frame m m'" "stk m' \<noteq> []" for m m' g
    using that by (auto simp: Back_ok call_give_def intro!: gas_call_end_ok)
  show "gas_ok (gasDelegateCall E) lo call_give" "gas_ok (gasStaticCall E) lo call_give"
    by (rule gas_okI; unfold gasDelegateCall_def gasStaticCall_def; rule gas_post_memory; use assms in \<open>auto intro!: end_ok\<close>)+
qed

lemma value_base:
  assumes "\<not> snd (SafeAdd a b)" "v \<noteq> 0 \<Longrightarrow> 2300 \<le> unat a" "stk m ! 2 = v"
  shows "value_give (stk m) g \<le> unat (fst (SafeAdd a b)) + unat g"
  using SafeAdd_ok[OF assms(1)] assms(2,3) by (auto simp: value_give_def)

lemma gasCallCode_ok: "2 < lo \<Longrightarrow> gas_ok (gasCallCode E) lo value_give"
proof (rule gas_okI)
  fix sz m assume m: "2 < lo" "machine_ok m" "lo \<le> length (stk m)"
  show "gas_post value_give m (gasCallCode E sz m)"
    unfolding gasCallCode_def
  proof (rule gas_post_memory)
    fix g mem assume f: "gas_frame m (m\<lparr>memory := mem\<rparr>)"
    let ?m = "m\<lparr>memory := mem\<rparr>"
    have "stk m \<noteq> []" using m by auto
    then have b: "Back 2 ?m = Some (stk m ! 2)" "Back 0 ?m = Some (stk m ! 0)"
      using m by (simp_all add: Back_ok)
    show "gas_post value_give m (do {
        v \<leftarrow> Back 2 ?m;
        let gas = (if uSign (U256 E) v \<noteq> 0 then CallValueTransferGas else 0);
        gas_checked (SafeAdd gas g) ?m (\<lambda>gas. case Back 0 ?m of None \<Rightarrow> None | Some req \<Rightarrow> gas_call_end E gas req ?m) })"
      using f by (auto simp: b Sign_law CallValueTransferGas_def
          intro!: gas_post_checked gas_call_end_ok value_base[where v = "stk m ! 2"])
  qed (use m in simp)
qed

lemma gasCall_ok: "2 < lo \<Longrightarrow> gas_ok (gasCall E) lo value_give"
proof (rule gas_okI)
  fix sz m assume m: "2 < lo" "machine_ok m" "lo \<le> length (stk m)"
  let ?v = "stk m ! 2" and ?a = "uBytes20 (U256 E) (stk m ! Suc 0)"
  obtain em st where e: "(if ?v \<noteq> 0 then sd_Empty (SDB E) ?a (state m) else (False, state m)) = (em, st)" by fastforce
  have x: "ext (state m) st"
    using e Empty_law[OF machine_good[OF m(2)], of ?a] ext_refl[OF machine_good[OF m(2)]] by (auto split: if_splits)
  let ?m = "m\<lparr>state := st\<rparr>"
  let ?g = "if ?v \<noteq> 0 then (if ?v \<noteq> 0 \<and> em then CallNewAccountGas else 0) + CallValueTransferGas
            else (if ?v \<noteq> 0 \<and> em then CallNewAccountGas else 0)"
  have f: "gas_frame m ?m" using x m(2) gas_frame_state by blast
  have b: "Back 2 m = Some ?v" "Back (Suc 0) m = Some (stk m ! Suc 0)" using m by (simp_all add: Back_ok)
  have "gasCall E sz m = gas_memory E sz ?m (\<lambda>memoryGas m.
       gas_checked (SafeAdd ?g memoryGas) m (\<lambda>gas. case Back 0 m of None \<Rightarrow> None | Some req \<Rightarrow> gas_call_end E gas req m))"
    using e by (simp add: gasCall_def b IsZero_law Let_def split del: if_split)
  moreover have "gas_post value_give m \<dots>"
  proof (rule gas_post_memory[OF f])
    fix g mem assume f: "gas_frame m (?m\<lparr>memory := mem\<rparr>)"
    have "stk m \<noteq> []" using m by auto
    then have "Back 0 (?m\<lparr>memory := mem\<rparr>) = Some (stk m ! 0)" by (simp add: Back_ok)
    then show "gas_post value_give m (gas_checked (SafeAdd ?g g) (?m\<lparr>memory := mem\<rparr>)
        (\<lambda>gas. case Back 0 (?m\<lparr>memory := mem\<rparr>) of None \<Rightarrow> None | Some req \<Rightarrow> gas_call_end E gas req (?m\<lparr>memory := mem\<rparr>)))"
      using f by (auto simp: CallValueTransferGas_def CallNewAccountGas_def
          intro!: gas_post_checked gas_call_end_ok value_base[where v = ?v])
  qed
  ultimately show "gas_post value_give m (gasCall E sz m)" by simp
qed

lemma call_gas_bounds:
  "gas_bounds_memory (gasCall E)" "gas_bounds_memory (gasCallCode E)" "gas_bounds_memory (gasDelegateCall E)"
  "gas_bounds_memory (gasStaticCall E)"
  unfolding gas_bounds_memory_def gasCall_def gasCallCode_def gasDelegateCall_def gasStaticCall_def
  by (auto simp: Let_def Option.bind_eq_Some_conv case_prod_unfold dest: gas_memory_bound split: if_splits)

lemma gasSelfdestruct_ok: "0 < lo \<Longrightarrow> gas_ok (gasSelfdestruct E) lo no_give"
proof (rule gas_okI)
  fix sz m assume m: "0 < lo" "machine_ok m" "lo \<le> length (stk m)"
  let ?a = "uBytes20 (U256 E) (stk m ! 0)"
  obtain em s1 where e: "sd_Empty (SDB E) ?a (state m) = (em, s1)" by fastforce
  then have x1: "ext (state m) s1" using Empty_law[OF machine_good[OF m(2)], of ?a] by simp
  have "\<exists>c s2. creates_account E ?a m = Some (c, m\<lparr>state := s2\<rparr>) \<and> ext (state m) s2"
  proof (cases em)
    case True
    obtain bal s2 where "sd_GetBalance (SDB E) (self (contract m)) s1 = Some (bal, s2)" "ext s1 s2"
      using GetBalance_law ext_good[OF x1] by blast
    with True e x1 ext_trans show ?thesis by (auto simp: creates_account_def Let_def)
  qed (use e x1 in \<open>auto simp: creates_account_def\<close>)
  then obtain c s2 where c: "creates_account E ?a m = Some (c, m\<lparr>state := s2\<rparr>)" "ext (state m) s2" by blast
  obtain su s3 where s3: "sd_HasSuicided (SDB E) (self (contract m)) s2 = (su, s3)" by fastforce
  then have x3: "ext s2 s3" using HasSuicided_law[OF ext_good[OF c(2)], of "self (contract m)"] by simp
  have "ext s3 (if su then s3 else sd_AddRefund (SDB E) SelfdestructRefundGas s3)"
    using AddRefund_law ext_refl ext_good[OF x3] by simp
  then have "ext (state m) (if su then s3 else sd_AddRefund (SDB E) SelfdestructRefundGas s3)"
    by (rule ext_trans[OF ext_trans[OF c(2) x3]])
  with s3 have "gas_frame m (add_refund_once E (m\<lparr>state := s2\<rparr>))"
    by (simp add: add_refund_once_def gas_frame_def del: if_split)
  moreover have "stk m \<noteq> []" using m by auto
  ultimately show "gas_post no_give m (gasSelfdestruct E sz m)"
    using c
    by (simp add: gasSelfdestruct_def Back_ok Let_def)
qed

end

end
