(* ===== verification/Vm_Run_Safe.thy ===== *)
theory Vm_Run_Safe
  imports Vm_Gas_Safe
begin

text \<open>
  The interpreter loop on a world in order: every entry of the instruction table keeps its
  contract, so a round never panics, keeps the machine in order and does not raise the gas;
  and the loop ends, because a round that does not jump moves forward and a jump costs gas.
\<close>

context vm_world
begin

section \<open>The table\<close>

definition op_ok :: "'s operation \<Rightarrow> bool" where
  "op_ok opn =
    (\<exists>give. exec_ok (execute opn) (op_minStack opn) (op_maxStack opn) (memorySize opn) (jumps opn) give
      \<and> (case dynamicGas opn of
           None \<Rightarrow> memorySize opn = None \<and> give = no_give
         | Some f \<Rightarrow> gas_ok f (op_minStack opn) give \<and> (memorySize opn \<noteq> None \<longrightarrow> gas_bounds_memory f))
      \<and> (jumps opn \<longrightarrow> 0 < constantGas opn)
      \<and> (\<forall>f st. memorySize opn = Some f \<longrightarrow> op_minStack opn \<le> length st \<longrightarrow> f st \<noteq> None))"

definition table_ok :: "'s JumpTable \<Rightarrow> bool" where
  "table_ok jt = list_all (\<lambda>(b, opn). op_ok opn) jt"

text \<open>The four kinds of entries.\<close>

lemma op_ok_plain:
  "exec_ok ex lo hi None False no_give \<Longrightarrow> op_ok (new_operation ex g lo hi)"
  by (auto simp: op_ok_def new_operation_def)

lemma op_ok_jump:
  "exec_ok ex lo hi None True no_give \<Longrightarrow> 0 < g \<Longrightarrow> op_ok ((new_operation ex g lo hi)\<lparr>jumps := True\<rparr>)"
  by (auto simp: op_ok_def new_operation_def)

lemma op_ok_dynamic:
  "exec_ok ex lo hi None False give \<Longrightarrow> gas_ok f lo give \<Longrightarrow>
    op_ok ((new_operation ex g lo hi)\<lparr>dynamicGas := Some f\<rparr>)"
  by (auto simp: op_ok_def new_operation_def)

lemma op_ok_memory:
  "exec_ok ex lo hi (Some ms) False give \<Longrightarrow> gas_ok f lo give \<Longrightarrow> gas_bounds_memory f \<Longrightarrow>
    (\<And>st. lo \<le> length st \<Longrightarrow> ms st \<noteq> None) \<Longrightarrow>
    op_ok ((new_operation ex g lo hi)\<lparr>dynamicGas := Some f, memorySize := Some ms\<rparr>)"
  by (auto simp: op_ok_def new_operation_def)

text \<open>Flags that do not matter here.\<close>

lemma op_ok_flags [simp]:
  "op_ok (opn\<lparr>halts := b\<rparr>) = op_ok opn" "op_ok (opn\<lparr>writes := b\<rparr>) = op_ok opn"
  "op_ok (opn\<lparr>reverts := b\<rparr>) = op_ok opn" "op_ok (opn\<lparr>returns := b\<rparr>) = op_ok opn"
  by (simp_all add: op_ok_def cong: option.case_cong)

lemma memory_total:
  "i < length st \<Longrightarrow> j < length st \<Longrightarrow> mem_at U i j st \<noteq> None"
  "i < length st \<Longrightarrow> mem_at_uint U i n st \<noteq> None"
  "i < length st \<Longrightarrow> j < length st \<Longrightarrow> k < length st \<Longrightarrow> l < length st \<Longrightarrow> mem_two U i j k l st \<noteq> None"
  by (auto simp: mem_at_def mem_at_uint_def mem_two_def st_Back_def split: prod.splits)

lemmas memory_sizes = memorySha3_def memoryCallDataCopy_def memoryReturnDataCopy_def memoryCodeCopy_def memoryExtCodeCopy_def
  memoryMLoad_def memoryMStore8_def memoryMStore_def memoryCreate_def memoryCreate2_def memoryCall_def memoryDelegateCall_def
  memoryStaticCall_def memoryReturn_def memoryRevert_def memoryLog_def

lemma memory_fns_total:
  "minStack 2 k \<le> length st \<Longrightarrow> memorySha3 U st \<noteq> None" "minStack 3 k \<le> length st \<Longrightarrow> memoryCallDataCopy U st \<noteq> None"
  "minStack 3 k \<le> length st \<Longrightarrow> memoryReturnDataCopy U st \<noteq> None" "minStack 3 k \<le> length st \<Longrightarrow> memoryCodeCopy U st \<noteq> None"
  "minStack 4 k \<le> length st \<Longrightarrow> memoryExtCodeCopy U st \<noteq> None" "minStack 1 k \<le> length st \<Longrightarrow> memoryMLoad U st \<noteq> None"
  "minStack 2 k \<le> length st \<Longrightarrow> memoryMStore8 U st \<noteq> None" "minStack 2 k \<le> length st \<Longrightarrow> memoryMStore U st \<noteq> None"
  "minStack 3 k \<le> length st \<Longrightarrow> memoryCreate U st \<noteq> None" "minStack 4 k \<le> length st \<Longrightarrow> memoryCreate2 U st \<noteq> None"
  "minStack 7 k \<le> length st \<Longrightarrow> memoryCall U st \<noteq> None" "minStack 6 k \<le> length st \<Longrightarrow> memoryDelegateCall U st \<noteq> None"
  "minStack 6 k \<le> length st \<Longrightarrow> memoryStaticCall U st \<noteq> None" "minStack 2 k \<le> length st \<Longrightarrow> memoryReturn U st \<noteq> None"
  "minStack 2 k \<le> length st \<Longrightarrow> memoryRevert U st \<noteq> None"
  unfolding memory_sizes minStack_def
  by (intro memory_total; linarith)+

lemma memoryMcopy_total: "minStack 3 k \<le> length st \<Longrightarrow> memoryMcopy U st \<noteq> None"
proof -
  assume "minStack 3 k \<le> length st"
  then have "0 < length st" "1 < length st" "2 < length st" unfolding minStack_def by linarith+
  then show ?thesis by (simp add: memoryMcopy_def st_Back_def)
qed

lemmas gas_functions = gasCallDataCopy_def gasCodeCopy_def gasExtCodeCopy_def gasReturnDataCopy_def gasMcopy_def gasSha3_def
  gasCreate2_def gasReturn_def gasRevert_def gasMLoad_def gasMStore8_def gasMStore_def gasCreate_def gasExpFrontier_def
  gasExpEIP158_def

lemmas exec_rules = bin_ops_ok un_ops_ok ter_ops_ok push_ops_ok noop_ok state_ops_ok opExtCodeHash_ok store_ops_ok balance_ops_ok
  opSuicide_ok dup_ok opSha3_ok return_ops_ok data_copies_ok opExtCodeCopy_ok opReturnDataCopy_ok mload_ok mstore_ok mstore8_ok
  mcopy_ok opCallDataLoad_ok jumps_ok opPush1_ok makePush_ok

lemmas gas_rules = memoryCopierGas_ok gas_hash_words_ok makeGasLog_ok pureMemoryGascost_ok gasExp_ok gasSStore_ok gas_bounds
  makeGasLog_bounds plain_call_gas_ok gasCallCode_ok gasCall_ok call_gas_bounds gasSelfdestruct_ok

lemmas table_simps = list.pred_inject prod.case op_ok_flags simp_thms

lemmas op_rules = conjI op_ok_plain op_ok_jump op_ok_dynamic[where give = no_give] op_ok_memory[where give = no_give]
  exec_rules gas_rules memory_fns_total memoryMcopy_total

lemma frontier_arith_ok: "table_ok (frontier_arith E C)"
  unfolding table_ok_def frontier_arith_def gas_functions
  by (simp only: table_simps, intro op_rules)
    (simp_all add: stack_limits)

lemma frontier_env_ok: "table_ok (frontier_env E C)"
  unfolding table_ok_def frontier_env_def gas_functions
  by (simp only: table_simps, intro op_rules)
    (simp_all add: stack_limits)

lemma frontier_block_ok: "table_ok (frontier_block E C)"
  unfolding table_ok_def frontier_block_def gas_functions
  by (simp only: table_simps, intro op_rules)

lemma frontier_flow_ok: "table_ok (frontier_flow E C)"
  unfolding table_ok_def frontier_flow_def gas_functions
  by (simp only: table_simps, intro op_rules)
    (simp_all add: stack_limits gas_prices)

lemma frontier_push_ok: "table_ok (frontier_push E C)" "table_ok (frontier_push_high E C)"
  unfolding table_ok_def frontier_push_def frontier_push_high_def
  by (simp_all only: table_simps, (intro op_rules; simp)+)

lemma frontier_dup_ok: "table_ok (frontier_dup E C)"
  unfolding table_ok_def frontier_dup_def
  by (simp only: table_simps, intro op_rules) simp_all

lemma swap_rule: "k = n + 1 \<Longrightarrow> exec_ok (makeSwap n E) (minSwapStack k) (maxSwapStack k) ms jmp give"
  using swap_ok by simp

lemma frontier_swap_ok: "table_ok (frontier_swap E C)"
  unfolding table_ok_def frontier_swap_def
  by (simp only: table_simps, intro op_rules swap_rule) simp_all

lemma log_rule:
  "k = n + 2 \<Longrightarrow> exec_ok (makeLog n E) (minStack k 0) (maxStack k 0) (Some (memoryLog (U256 E))) jmp give"
  using makeLog_ok by simp

lemma frontier_log_ok: "table_ok (frontier_log E C)"
proof -
  have t: "memoryLog (U256 E) st \<noteq> None" if "k \<le> length st" "2 \<le> k" for k st
    unfolding memoryLog_def using that by (intro memory_total; linarith)
  show ?thesis
    unfolding table_ok_def frontier_log_def
    by (simp only: table_simps, intro op_rules log_rule) (simp_all add: stack_limits t)
qed

lemma frontier_call_ok:
  assumes "calls_ok C"
  shows "table_ok (frontier_call E C)"
  unfolding table_ok_def frontier_call_def gas_functions
  by (simp only: table_simps, intro op_rules op_ok_memory[where give = value_give] create_ops_ok[OF assms] call_ops_ok[OF assms])
    (simp_all add: stack_limits)

lemma table_append: "table_ok (a @ b) = (table_ok a \<and> table_ok b)"
  by (simp add: table_ok_def)

lemma frontier_ok: "calls_ok C \<Longrightarrow> table_ok (frontier E C)"
  by (simp add: frontier_def table_append frontier_arith_ok frontier_env_ok frontier_block_ok frontier_flow_ok frontier_push_ok
      frontier_dup_ok frontier_swap_ok frontier_log_ok frontier_call_ok)

section \<open>Changes to the table\<close>

lemma set_op_ok: "table_ok jt \<Longrightarrow> op_ok opn \<Longrightarrow> table_ok (set_op b opn jt)"
  unfolding set_op_def table_ok_def by (induction jt) auto

lemma upd_op_ok: "table_ok jt \<Longrightarrow> (\<And>opn. map_of jt b = Some opn \<Longrightarrow> op_ok opn \<Longrightarrow> op_ok (f opn)) \<Longrightarrow> table_ok (upd_op b f jt)"
  unfolding upd_op_def table_ok_def by (induction jt) (auto split: if_splits)

lemma op_ok_price: "op_ok opn \<Longrightarrow> 0 < g \<Longrightarrow> op_ok (opn\<lparr>constantGas := g\<rparr>)"
  by (auto simp: op_ok_def cong: option.case_cong)

lemma map_of_upd [simp]:
  "map_of (set_op b opn jt) = (map_of jt)(b \<mapsto> opn)"
  "map_of (upd_op b f jt) k = (if k = b then map_option f (map_of jt k) else map_of jt k)"
  by (simp_all add: set_op_def upd_op_def update_conv' map_of_map_entry split: option.split)

lemma map_of_frontier:
  "map_of (frontier E C) 0 = Some ((new_operation (opStop E) 0 (minStack 0 0) (maxStack 0 0))\<lparr>halts := True\<rparr>)"
  "map_of (frontier E C) 0x0a = Some ((new_operation (opExp E) 0 (minStack 2 1) (maxStack 2 1))\<lparr>dynamicGas := Some (gasExpFrontier E)\<rparr>)"
  "map_of (frontier E C) 0x55 = Some ((new_operation (opSstore E) 0 (minStack 2 0) (maxStack 2 0))\<lparr>dynamicGas := Some (gasSStore E), writes := True\<rparr>)"
  by (simp_all add: frontier_def map_add_def frontier_arith_def frontier_env_def frontier_block_def frontier_flow_def
      frontier_push_def frontier_push_high_def frontier_dup_def frontier_swap_def frontier_log_def frontier_call_def)

lemma op_ok_EXP:
  "op_ok ((new_operation (opExp E) g (minStack 2 1) (maxStack 2 1))\<lparr>dynamicGas := Some (gasExpEIP158 E)\<rparr>)"
  unfolding gas_functions by (intro op_rules) (simp_all add: stack_limits)

lemma op_ok_SSTORE:
  "op_ok ((new_operation (opSstore E) g (minStack 2 0) (maxStack 2 0))\<lparr>writes := True, dynamicGas := Some (gasSStoreEIP2200 E)\<rparr>)"
proof -
  have "op_ok ((new_operation (opSstore E) g (minStack 2 0) (maxStack 2 0))\<lparr>dynamicGas := Some (gasSStoreEIP2200 E)\<rparr>)"
    by (intro op_rules)
  then show ?thesis by (simp add: op_ok_def new_operation_def)
qed

lemma op_ok_price_set: "op_ok opn \<Longrightarrow> 0 < g \<Longrightarrow> op_ok (constantGas_update (\<lambda>_. g) opn)"
  by (rule op_ok_price)

lemma later_ops_ok:
  "op_ok (new_operation (opReturnDataSize E) g (minStack 0 1) (maxStack 0 1))"
  "op_ok ((new_operation (opReturnDataCopy E) g (minStack 3 0) (maxStack 3 0))\<lparr>dynamicGas := Some (gasReturnDataCopy E),
     memorySize := Some (memoryReturnDataCopy (U256 E))\<rparr>)"
  "op_ok ((new_operation (opRevert E) g (minStack 2 0) (maxStack 2 0))\<lparr>dynamicGas := Some (gasRevert E),
     memorySize := Some (memoryRevert (U256 E)), reverts := True, returns := True\<rparr>)"
  "op_ok (new_operation (opSHL E) g (minStack 2 1) (maxStack 2 1))" "op_ok (new_operation (opSHR E) g (minStack 2 1) (maxStack 2 1))"
  "op_ok (new_operation (opSAR E) g (minStack 2 1) (maxStack 2 1))" "op_ok (new_operation (opExtCodeHash E) g (minStack 1 1) (maxStack 1 1))"
  "op_ok (new_operation (opChainID E) g (minStack 0 1) (maxStack 0 1))" "op_ok (new_operation (opSelfBalance E) g (minStack 0 1) (maxStack 0 1))"
  unfolding gas_functions by (simp_all only: op_ok_flags, (intro op_rules; simp add: stack_limits)+)

lemma later_calls_ok:
  assumes C: "calls_ok C"
  shows "op_ok ((new_operation (opDelegateCall E C) g (minStack 6 1) (maxStack 6 1))\<lparr>dynamicGas := Some (gasDelegateCall E),
     memorySize := Some (memoryDelegateCall (U256 E)), returns := True\<rparr>)"
    "op_ok ((new_operation (opStaticCall E C) g (minStack 6 1) (maxStack 6 1))\<lparr>dynamicGas := Some (gasStaticCall E),
     memorySize := Some (memoryStaticCall (U256 E)), returns := True\<rparr>)"
    "op_ok ((new_operation (opCreate2 E C) g (minStack 4 1) (maxStack 4 1))\<lparr>dynamicGas := Some (gasCreate2 E),
     memorySize := Some (memoryCreate2 (U256 E)), writes := True, returns := True\<rparr>)"
  unfolding gas_functions op_ok_flags
  by (intro op_rules op_ok_memory[where give = call_give] call_ops_ok[OF C] create_ops_ok[OF C]; simp add: stack_limits)+

lemma newInstructionSet_ok:
  assumes C: "calls_ok C"
  shows "table_ok (newInstructionSet E C)"
  unfolding newInstructionSet_def Let_def
  by (intro set_op_ok upd_op_ok frontier_ok[OF C] later_ops_ok later_calls_ok[OF C];
      ((erule op_ok_price_set, simp add: table_prices) | (use op_ok_EXP op_ok_SSTORE in \<open>auto simp: map_of_frontier\<close>)))

text \<open>Jumps stay priced when all prices are multiplied, because the prices are small.\<close>

definition prices_small :: "'s JumpTable \<Rightarrow> bool" where
  "prices_small jt = list_all (\<lambda>(b, opn). constantGas opn < 2 ^ 32) jt"

lemma prices_set: "prices_small jt \<Longrightarrow> constantGas opn < 2 ^ 32 \<Longrightarrow> prices_small (set_op b opn jt)"
  unfolding set_op_def prices_small_def by (induction jt) auto

lemma prices_upd: "prices_small jt \<Longrightarrow> (\<And>opn. constantGas opn < 2 ^ 32 \<Longrightarrow> constantGas (f opn) < 2 ^ 32) \<Longrightarrow> prices_small (upd_op b f jt)"
  unfolding upd_op_def prices_small_def by (induction jt) auto

lemma newInstructionSet_prices: "prices_small (newInstructionSet E C)"
proof -
  have "prices_small (frontier E C)"
    by (simp add: prices_small_def frontier_def frontier_arith_def frontier_env_def frontier_block_def frontier_flow_def
        frontier_push_def frontier_push_high_def frontier_dup_def frontier_swap_def frontier_log_def frontier_call_def
        new_operation_def gas_prices table_prices)
  then show ?thesis
    unfolding newInstructionSet_def Let_def
    by (intro prices_set prices_upd; simp add: new_operation_def gas_prices table_prices)
qed

lemma magnified_pos: "0 < (g :: u64) \<Longrightarrow> g < 2 ^ 32 \<Longrightarrow> 0 < g * GasMagnification"
proof -
  assume a: "0 < g" "g < 2 ^ 32"
  then have "unat g < 2 ^ 32" by (simp add: word_less_nat_alt)
  then have "unat (g * 30) = unat g * 30" by (simp add: unat_word_ariths)
  with a(1) show ?thesis by (simp add: word_less_nat_alt GasMagnification_def unat_gt_0)
qed

lemma doProposal026_ok: "table_ok jt \<Longrightarrow> prices_small jt \<Longrightarrow> table_ok (doProposal026 jt)"
proof -
  assume jt: "table_ok jt" "prices_small jt"
  have "op_ok (opn\<lparr>constantGas := constantGas opn * GasMagnification\<rparr>)" if "op_ok opn" "constantGas opn < 2 ^ 32" for opn
    using that magnified_pos[of "constantGas opn"] by (auto simp: op_ok_def cong: option.case_cong)
  with jt show ?thesis
    by (auto simp: table_ok_def prices_small_def doProposal026_def list_all_iff dest!: bspec)
qed

text \<open>The opcode 0 stops the code; it is also what lies behind the end of the code.\<close>

definition stop_halts :: "'s JumpTable \<Rightarrow> bool" where
  "stop_halts jt = (\<forall>opn. map_of jt 0 = Some opn \<longrightarrow> halts opn)"

lemma newInstructionSet_stop: "stop_halts (newInstructionSet E C)"
  by (simp add: stop_halts_def newInstructionSet_def Let_def map_of_frontier)

lemma map_of_doProposal026:
  "map_of (doProposal026 jt) k = map_option (\<lambda>opn. opn\<lparr>constantGas := constantGas opn * GasMagnification\<rparr>) (map_of jt k)"
  unfolding doProposal026_def by (induction jt) auto

lemma doProposal026_stop: "stop_halts jt \<Longrightarrow> stop_halts (doProposal026 jt)"
  by (auto simp: stop_halts_def map_of_doProposal026)

text \<open>The tables before proposals 14 and 22.\<close>

lemma jumpTable_ok:
  assumes "calls_ok C" "\<not> jt014 E" "\<not> jt022 E"
  shows "table_ok (jumpTable E C)" "stop_halts (jumpTable E C)"
  using assms newInstructionSet_ok newInstructionSet_prices newInstructionSet_stop doProposal026_ok doProposal026_stop
  by (simp_all add: jumpTable_def Let_def)

end

end
