(* ===== verification/Vm_Loop_Safe.thy ===== *)
theory Vm_Loop_Safe
  imports Vm_Run_Safe
begin

text \<open>
  A round of the interpreter and the loop, on tables whose entries keep their contracts.
\<close>

lemma words_cover:
  assumes "SafeMul (toWordSize sz) 32 = (n, False)"
  shows "unat sz \<le> unat n"
proof (cases "sz > MaxUint64 - 31")
  case True
  then show ?thesis using assms by (simp add: SafeMul_def toWordSize_def MaxUint64_def unat_div)
next
  case False
  then have "unat sz \<le> 2 ^ 64 - 32"
    by (simp add: MaxUint64_def not_less word_le_nat_alt)
  then have "unat (sz + 31) = unat sz + 31" using unat_add_lem[of sz 31] by simp
  then have w: "unat (toWordSize sz) = (unat sz + 31) div 32"
    using False by (simp add: toWordSize_def unat_div)
  have "unat n = (unat sz + 31) div 32 * 32"
    using assms unat_mult_lem[of "toWordSize sz" 32] by (auto simp: SafeMul_def w)
  then show ?thesis by simp
qed

lemma mem_Resize_length:
  assumes "length (store mem) < 2 ^ 64"
  shows "length (store (mem_Resize n mem)) = max (length (store mem)) (unat n)"
proof -
  have u: "unat (of_nat (length (store mem)) :: u64) = length (store mem)" using assms by (simp add: unat_of_nat_small)
  show ?thesis
  proof (cases "of_nat (length (store mem)) < n")
    case True
    then have "unat (n - of_nat (length (store mem))) = unat n - length (store mem)" "length (store mem) < unat n"
      using u by (simp_all add: unat_sub word_less_nat_alt less_imp_le)
    with True show ?thesis by (simp add: mem_Resize_def)
  next
    case False
    with u show ?thesis by (simp add: mem_Resize_def word_less_nat_alt)
  qed
qed

context vm_world
begin

section \<open>A round\<close>

definition kept :: "'s Machine \<Rightarrow> 's Machine \<Rightarrow> bool" where
  "kept m m' = (ext (state m) (state m') \<and> depth m' = depth m \<and> readOnly m' = readOnly m \<and> contract_ok (contract m')
     \<and> Code (contract m') = Code (contract m) \<and> Gas (contract m') \<le> Gas (contract m))"

text \<open>A round that goes on moves forward in the code or uses gas.\<close>

definition forward :: "'s Machine \<Rightarrow> 's Machine \<Rightarrow> bool" where
  "forward m m' = (Gas (contract m') < Gas (contract m) \<or> unat (pc m) < unat (pc m'))"

definition round_ok :: "'s Machine \<Rightarrow> 's round option \<Rightarrow> bool" where
  "round_ok m res =
    (case res of
       None \<Rightarrow> False
     | Some (Return ret lgs err m') \<Rightarrow> kept m m'
     | Some (Continue m') \<Rightarrow> kept m m' \<and> machine_ok m' \<and> forward m m'
         \<and> (unat (pc m') \<le> unat (pc m) + 256 \<or> unat (pc m') \<le> length (Code (contract m))))"

lemma returnData_simps [simp]:
  "kept m (m'\<lparr>returnData := r\<rparr>) = kept m m'" "machine_ok (m'\<lparr>returnData := r\<rparr>) = machine_ok m'"
  "forward m (m'\<lparr>returnData := r\<rparr>) = forward m m'" "kept m (m'\<lparr>pc := p\<rparr>) = kept m m'"
  "machine_ok (m'\<lparr>pc := p\<rparr>) = machine_ok m'"
  by (simp_all add: kept_def machine_ok_def forward_def)

lemma kept_refl: "machine_ok m \<Longrightarrow> kept m m"
  by (simp add: kept_def machine_ok_def ext_refl)

lemma UseGas_ok:
  "UseGas g c = (paid, c') \<Longrightarrow> c' = (if paid then c\<lparr>Gas := Gas c - g\<rparr> else c) \<and> (paid \<longrightarrow> unat (Gas c') = unat (Gas c) - unat g \<and> g \<le> Gas c)"
  by (auto simp: UseGas_def unat_sub not_less split: if_splits)

text \<open>From the machine that executes back to the one before gas was taken and memory granted.\<close>

lemma after_execute_ok:
  assumes m: "machine_ok m" "unat (pc m) < 2 ^ 62"
    and m3: "contract m3 = (contract m)\<lparr>Gas := g\<rparr>" "stk m3 = stk m" "pc m3 = pc m" "depth m3 = depth m" "readOnly m3 = readOnly m"
      "ext (state m) (state m3)" "length (store (memory m3)) \<le> mem_max"
    and ex: "same_frame m3 m'" "err = None \<Longrightarrow> length (stk m') + hi = length (stk m3) + StackLimit" "length (stk m) \<le> hi"
      "unat (Gas (contract m')) + cg \<le> unat (Gas (contract m))"
      "jumps opn \<or> unat (pc m3) \<le> unat (pc m')" "jumps opn \<Longrightarrow> 0 < cg"
      "err = None \<longrightarrow> unat (pc m') \<le> unat (pc m3) + 255 \<or> unat (pc m') < length (Code (contract m3))"
  shows "round_ok m (Some (after_execute opn res err m'))"
proof -
  have x: "ext (state m) (state m')" using m3(6) ex(1) ext_trans by (auto simp: same_frame_def)
  have k: "kept m m'"
    using x ex(1,4) m3 by (auto simp: kept_def same_frame_def word_le_nat_alt)
  have "machine_ok m'" if "err = None"
    using that ex(1-3) m3(2,4,7) x m(1) by (auto simp: machine_ok_def same_frame_def dest: ext_good)
  moreover have fw: "forward m m1 \<and> (unat (pc m1) \<le> unat (pc m) + 256 \<or> unat (pc m1) \<le> length (Code (contract m)))"
    if e: "err = None" and m1: "contract m1 = contract m'" "pc m1 = (if jumps opn then pc m' else pc m' + 1)" for m1
  proof (cases "jumps opn")
    case True
    with ex(4,6,7) m3(1,3) e m1 show ?thesis by (auto simp: forward_def word_less_nat_alt)
  next
    case False
    have "length (Code (contract m)) < 2 ^ 61" using m(1) by (simp add: machine_ok_def contract_ok_def)
    then have "unat (pc m') < 2 ^ 63" using ex(7) e m(2) m3(1,3) by auto
    then have u: "unat (pc m' + 1) = unat (pc m') + 1" using unat_add_lem[of "pc m'" 1] by simp
    with False ex(5,7) m3 e m1 show ?thesis by (auto simp: forward_def)
  qed
  ultimately show ?thesis
  proof (cases err)
    case None
    let ?m1 = "if returns opn then m'\<lparr>returnData := res\<rparr> else m'"
    let ?m2 = "if jumps opn then ?m1 else ?m1\<lparr>pc := pc ?m1 + 1\<rparr>"
    have "kept m ?m1" "kept m ?m2" using k by auto
    moreover have "machine_ok ?m2" using \<open>err = None \<Longrightarrow> machine_ok m'\<close> None by auto
    moreover have "forward m ?m2 \<and> (unat (pc ?m2) \<le> unat (pc m) + 256 \<or> unat (pc ?m2) \<le> length (Code (contract m)))"
      using None by (rule fw) auto
    ultimately show ?thesis by (simp only: None after_execute_def Let_def round_ok_def option.case if_split round.case) simp
  qed (use k in \<open>auto simp: after_execute_def Let_def round_ok_def\<close>)
qed

lemma charge_ok:
  assumes "machine_ok m" "op_minStack opn \<le> length (stk m)" "gas_ok f (op_minStack opn) give" "dynamicGas opn = Some f"
  shows "\<exists>paid m'. charge_dynamic opn sz m = Some (paid, m') \<and> stk m' = stk m \<and> store (memory m') = store (memory m)
    \<and> pc m' = pc m \<and> depth m' = depth m \<and> readOnly m' = readOnly m \<and> ext (state m) (state m')
    \<and> (\<exists>g. contract m' = (contract m)\<lparr>Gas := g\<rparr> \<and> unat g \<le> unat (Gas (contract m))
         \<and> (paid \<longrightarrow> unat g + give (stk m') (callGasTemp m') \<le> unat (Gas (contract m))))
    \<and> (paid \<longrightarrow> gas_bounds_memory f \<longrightarrow> unat sz \<le> mem_max)"
proof -
  from assms(3) assms(1,2) obtain r m1 where f: "f sz m = Some (r, m1)" "stk m1 = stk m" "store (memory m1) = store (memory m)"
    "contract m1 = contract m" "pc m1 = pc m" "depth m1 = depth m" "readOnly m1 = readOnly m" "ext (state m) (state m1)"
    "\<And>cost. r = Inr cost \<Longrightarrow> give (stk m1) (callGasTemp m1) \<le> unat cost"
    unfolding gas_ok_def by blast
  show ?thesis
  proof (cases r)
    case (Inl e)
    have "charge_dynamic opn sz m = Some (False, m1)" using f(1) Inl assms(4) by (simp add: charge_dynamic_def)
    moreover have "contract m1 = (contract m)\<lparr>Gas := Gas (contract m)\<rparr>" using f(4) by simp
    ultimately show ?thesis using f(2-8) by (intro exI[of _ False] exI[of _ m1]) blast
  next
    case (Inr cost)
    obtain paid c where u: "UseGas cost (contract m) = (paid, c)" by fastforce
    have "charge_dynamic opn sz m = Some (paid, set_gas c m1)"
      using f(1,4) Inr assms(4) u by (simp add: charge_dynamic_def)
    moreover have "c = (contract m)\<lparr>Gas := Gas c\<rparr>" "unat (Gas c) \<le> unat (Gas (contract m))"
      "paid \<Longrightarrow> unat (Gas c) + unat cost \<le> unat (Gas (contract m))"
      using UseGas_ok[OF u] by (auto simp: word_le_nat_alt split: if_splits)
    moreover have "unat sz \<le> mem_max" if "gas_bounds_memory f" using that f(1) Inr by (auto simp: gas_bounds_memory_def)
    ultimately show ?thesis
      using f(2-8) f(9)[OF Inr] by (intro exI[of _ paid] exI[of _ "set_gas c m1"]) (auto simp: set_gas_def intro!: exI[of _ "Gas c"])
  qed
qed

lemma exec_okD:
  assumes "exec_ok ex lo hi ms jmp give" "machine_ok m" "lo \<le> length (stk m)" "length (stk m) \<le> hi" "fits ms m"
    "unat (pc m) < 2 ^ 62" "unat (Gas (contract m)) + give (stk m) (callGasTemp m) < gas_cap"
  shows "\<exists>ret err m'. ex m = Some ((ret, err), m') \<and> same_frame m m'
        \<and> (err = None \<longrightarrow> length (stk m') + hi = length (stk m) + StackLimit)
        \<and> unat (Gas (contract m')) \<le> unat (Gas (contract m)) + give (stk m) (callGasTemp m)
        \<and> (jmp \<or> unat (pc m) \<le> unat (pc m'))
        \<and> (err = None \<longrightarrow> unat (pc m') \<le> unat (pc m) + 255 \<or> unat (pc m') < length (Code (contract m)))"
  using assms unfolding exec_ok_def by blast

lemma step_op_ok:
  assumes m: "machine_ok m" "unat (pc m) < 2 ^ 62" "op_minStack opn \<le> length (stk m)" "length (stk m) \<le> op_maxStack opn"
    and cap: "unat (Gas (contract m)) < gas_cap" and ok: "op_ok opn"
  shows "round_ok m (step_op opn m)"
proof -
  obtain paid c where u: "UseGas (constantGas opn) (contract m) = (paid, c)" by fastforce
  note U = UseGas_ok[OF u]
  let ?m1 = "set_gas c m"
  have stop: "round_ok m (Some (Return r l e ?m1))" for r l e
    using kept_refl[OF m(1)] U by (auto simp: round_ok_def kept_def set_gas_def word_le_nat_alt split: if_splits)
  have ok1: "machine_ok ?m1" using m(1) U by (auto simp: machine_ok_def set_gas_def split: if_splits)
  from ok obtain give where ex: "exec_ok (execute opn) (op_minStack opn) (op_maxStack opn) (memorySize opn) (jumps opn) give"
    and dyn: "case dynamicGas opn of None \<Rightarrow> memorySize opn = None \<and> give = no_give
         | Some f \<Rightarrow> gas_ok f (op_minStack opn) give \<and> (memorySize opn \<noteq> None \<longrightarrow> gas_bounds_memory f)"
    and jmp: "jumps opn \<longrightarrow> 0 < constantGas opn"
    and tot: "\<forall>f st. memorySize opn = Some f \<longrightarrow> op_minStack opn \<le> length st \<longrightarrow> f st \<noteq> None"
    unfolding op_ok_def by blast
  show ?thesis
  proof (cases paid)
    case False
    with u stop show ?thesis by (simp add: step_op_def)
  next
    case True
    have "\<exists>memSize ov. required_memory opn (stk m) = Some (memSize, ov)
        \<and> (\<not> ov \<longrightarrow> (case memorySize opn of None \<Rightarrow> memSize = 0 | Some f \<Rightarrow> \<exists>sz. f (stk m) = Some (sz, False) \<and> unat sz \<le> unat memSize))"
    proof (cases "memorySize opn")
      case (Some f)
      with tot m(3) obtain sz ov where "f (stk m) = Some (sz, ov)" by (metis not_None_eq surj_pair)
      then show ?thesis using Some words_cover
        by (cases "SafeMul (toWordSize sz) 32") (auto simp: required_memory_def)
    qed (auto simp: required_memory_def)
    then obtain memSize ov where rm: "required_memory opn (stk m) = Some (memSize, ov)"
      "\<not> ov \<longrightarrow> (case memorySize opn of None \<Rightarrow> memSize = 0 | Some f \<Rightarrow> \<exists>sz. f (stk m) = Some (sz, False) \<and> unat sz \<le> unat memSize)"
      by blast
    show ?thesis
    proof (cases ov)
      case True
      with u rm(1) \<open>paid\<close> stop show ?thesis by (simp add: step_op_def set_gas_def)
    next
      case False
      obtain paid2 m2 g where c: "charge_dynamic opn memSize ?m1 = Some (paid2, m2)" "stk m2 = stk m"
          "store (memory m2) = store (memory m)" "pc m2 = pc m" "depth m2 = depth m" "readOnly m2 = readOnly m"
          "ext (state m) (state m2)" "contract m2 = (contract m)\<lparr>Gas := g\<rparr>" "unat g \<le> unat (Gas (contract m))"
          "paid2 \<Longrightarrow> unat g + give (stk m2) (callGasTemp m2) + unat (constantGas opn) \<le> unat (Gas (contract m))"
          "paid2 \<Longrightarrow> unat memSize \<le> mem_max"
      proof (cases "dynamicGas opn")
        case None
        then have d: "charge_dynamic opn memSize ?m1 = Some (True, ?m1)" "memSize = 0" "give = no_give"
          using dyn rm(2) False by (auto simp: charge_dynamic_def)
        show thesis
          by (rule that[of True ?m1 "Gas c"])
            (use d U True kept_refl[OF m(1)] in \<open>auto simp: set_gas_def no_give_def kept_def word_le_nat_alt\<close>)
      next
        case (Some f)
        with dyn have f: "gas_ok f (op_minStack opn) give" "memorySize opn \<noteq> None \<Longrightarrow> gas_bounds_memory f" by auto
        have "op_minStack opn \<le> length (stk ?m1)" using m(3) by (simp add: set_gas_def)
        have s: "stk ?m1 = stk m" "memory ?m1 = memory m" "pc ?m1 = pc m" "depth ?m1 = depth m" "readOnly ?m1 = readOnly m"
          "state ?m1 = state m" by (simp_all add: set_gas_def)
        from charge_ok[OF ok1 \<open>op_minStack opn \<le> length (stk ?m1)\<close> f(1) Some, of memSize, unfolded s] obtain paid2 m2 g where
          c: "charge_dynamic opn memSize ?m1 = Some (paid2, m2)" "stk m2 = stk m" "store (memory m2) = store (memory m)"
          "pc m2 = pc m" "depth m2 = depth m" "readOnly m2 = readOnly m" "ext (state m) (state m2)"
          "contract m2 = (contract ?m1)\<lparr>Gas := g\<rparr>" "unat g \<le> unat (Gas (contract ?m1))"
          "paid2 \<Longrightarrow> unat g + give (stk m2) (callGasTemp m2) \<le> unat (Gas (contract ?m1))"
          "paid2 \<Longrightarrow> gas_bounds_memory f \<Longrightarrow> unat memSize \<le> mem_max"
          by blast
        have g: "contract m2 = (contract m)\<lparr>Gas := g\<rparr>" "unat (Gas (contract ?m1)) + unat (constantGas opn) = unat (Gas (contract m))"
          using c(8) U True by (auto simp: set_gas_def word_le_nat_alt)
        have mm: "unat memSize \<le> mem_max" if "paid2"
          using c(11)[OF that] f(2) rm(2) False by (cases "memorySize opn") auto
        show thesis
          by (rule that[OF c(1-7) g(1) _ _ mm]) (use c(9,10) g(2) in linarith)+
      qed
      show ?thesis
      proof (cases paid2)
        case False
        have "kept m m2" using c(5-9) m(1) by (auto simp: kept_def machine_ok_def word_le_nat_alt)
        with False c(1) rm(1) u \<open>paid\<close> \<open>\<not> ov\<close> show ?thesis by (simp add: step_op_def set_gas_def round_ok_def)
      next
        case paid2: True
        let ?m3 = "if memSize > 0 then m2\<lparr>memory := mem_Resize memSize (memory m2)\<rparr> else m2"
        have len: "length (store (memory m)) \<le> mem_max" using m(1) by (simp add: machine_ok_def)
        then have "length (store (memory m2)) < 2 ^ 64" using c(3) by (simp add: mem_max_def)
        then have len3: "length (store (memory ?m3)) = max (length (store (memory m))) (unat memSize)"
          using c(3) by (auto simp: mem_Resize_length word_gt_0)
        have m3: "contract ?m3 = (contract m)\<lparr>Gas := g\<rparr>" "stk ?m3 = stk m" "pc ?m3 = pc m" "depth ?m3 = depth m"
          "readOnly ?m3 = readOnly m" "ext (state m) (state ?m3)" "callGasTemp ?m3 = callGasTemp m2" "length (store (memory ?m3)) \<le> mem_max"
          using c len len3 paid2 by auto
        have ok3: "machine_ok ?m3" using m(1) m3 ext_good by (auto simp: machine_ok_def)
        have fit: "fits (memorySize opn) ?m3"
          using rm(2) False len3 m3(2) by (cases "memorySize opn") (auto simp: fits_def simp del: if_split)
        have gas: "unat (Gas (contract ?m3)) + give (stk ?m3) (callGasTemp ?m3) + unat (constantGas opn) \<le> unat (Gas (contract m))"
          using c(10)[OF paid2] c(2) m3 by (simp del: if_split)
        from gas cap have lim: "unat (Gas (contract ?m3)) + give (stk ?m3) (callGasTemp ?m3) < gas_cap" by linarith
        from exec_okD[OF ex ok3 _ _ fit _ lim] m3(2,3) m(2-4)
        obtain ret err m' where e: "execute opn ?m3 = Some ((ret, err), m')" "same_frame ?m3 m'"
            "err = None \<longrightarrow> length (stk m') + op_maxStack opn = length (stk ?m3) + StackLimit"
            "unat (Gas (contract m')) \<le> unat (Gas (contract ?m3)) + give (stk ?m3) (callGasTemp ?m3)"
            "jumps opn \<or> unat (pc ?m3) \<le> unat (pc m')"
            "err = None \<longrightarrow> unat (pc m') \<le> unat (pc ?m3) + 255 \<or> unat (pc m') < length (Code (contract ?m3))"
          by (metis (no_types))
        from e(4) gas have e7: "unat (Gas (contract m')) + unat (constantGas opn) \<le> unat (Gas (contract m))" by linarith
        have "round_ok m (Some (after_execute opn ret err m'))"
          by (rule after_execute_ok[OF m(1,2) m3(1-6,8) e(2) _ m(4) e7 e(5) _ e(6)])
            (use e(3) jmp in \<open>auto simp: word_less_nat_alt simp del: if_split\<close>)
        moreover have "step_op opn m = Some (after_execute opn ret err m')"
          using u \<open>paid\<close> rm(1) \<open>\<not> ov\<close> c(1) paid2 e(1) by (simp add: step_op_def set_gas_def Let_def del: if_split)
        ultimately show ?thesis by simp
      qed
    qed
  qed
qed

section \<open>The loop\<close>

definition table_fit :: "'s JumpTable \<Rightarrow> bool" where
  "table_fit jt = (table_ok jt \<and> stop_halts jt \<and> (\<forall>opn. map_of jt CALL = Some opn \<longrightarrow> 3 \<le> op_minStack opn))"

lemma step_op_halts:
  "halts opn \<Longrightarrow> step_op opn m \<noteq> Some (Continue m')"
  by (auto simp: step_op_def after_execute_def Let_def split: prod.splits if_splits option.splits Option.bind_splits)

lemma table_okD: "table_ok jt \<Longrightarrow> map_of jt b = Some opn \<Longrightarrow> op_ok opn"
  by (auto simp: table_ok_def list_all_iff dest!: map_of_SomeD)

lemma GetOp_end: "length (Code c) < 2 ^ 61 \<Longrightarrow> length (Code c) \<le> unat n \<Longrightarrow> GetOp c n = 0"
  by (simp add: GetOp_def word_less_nat_alt unat_of_nat_small)

lemma step_ok:
  assumes m: "machine_ok m" "unat (pc m) < 2 ^ 62" and cap: "unat (Gas (contract m)) < gas_cap" and jt: "table_fit jt"
  shows "round_ok m (step E jt m)" "step E jt m = Some (Continue m') \<Longrightarrow> unat (pc m) < length (Code (contract m))"
proof -
  let ?b = "GetOp (contract m) (pc m)"
  have stop: "round_ok m (Some (Return r l e m))" for r l e using kept_refl[OF m(1)] by (simp add: round_ok_def)
  show "round_ok m (step E jt m)"
  proof (cases "map_of jt ?b")
    case None
    then show ?thesis using stop by (simp add: step_def)
  next
    case (Some opn)
    have ok: "op_ok opn" using jt Some table_okD by (auto simp: table_fit_def)
    show ?thesis
    proof (cases "op_minStack opn \<le> length (stk m) \<and> length (stk m) \<le> op_maxStack opn")
      case True
      have "\<exists>p. write_protected E ?b opn m = Some p"
      proof (cases "?b = CALL")
        case True
        with jt Some have "3 \<le> op_minStack opn" by (simp add: table_fit_def)
        with \<open>op_minStack opn \<le> length (stk m) \<and> _\<close> show ?thesis
          by (auto simp: write_protected_def Back_def st_Back_def go_index_def)
      qed (auto simp: write_protected_def)
      then obtain p where "write_protected E ?b opn m = Some p" ..
      then show ?thesis using True Some stop step_op_ok[OF m _ _ cap ok] by (simp add: step_def Let_def)
    qed (use Some stop in \<open>auto simp: step_def Let_def\<close>)
  qed
  show "unat (pc m) < length (Code (contract m))" if s: "step E jt m = Some (Continue m')"
  proof (rule ccontr)
    assume "\<not> unat (pc m) < length (Code (contract m))"
    moreover have "length (Code (contract m)) < 2 ^ 61" using m(1) by (simp add: machine_ok_def contract_ok_def)
    ultimately have "?b = 0" by (simp add: GetOp_end)
    then have "\<forall>opn. map_of jt ?b = Some opn \<longrightarrow> halts opn" using jt by (simp add: table_fit_def stop_halts_def)
    then show False using s step_op_halts[of _ m m']
      by (auto simp: step_def Let_def split: option.splits if_splits Option.bind_splits)
  qed
qed

lemma kept_trans: "kept m1 m2 \<Longrightarrow> kept m2 m3 \<Longrightarrow> kept m1 m3"
  using ext_trans by (auto simp: kept_def)

text \<open>What is left to do: gas first, then code.\<close>

definition left :: "'s Machine \<Rightarrow> nat" where
  "left m = unat (Gas (contract m)) * (length (Code (contract m)) + 1) + (length (Code (contract m)) - unat (pc m))"

lemma left_decreases:
  assumes "kept m m'" "forward m m'" "unat (pc m) < length (Code (contract m))"
  shows "left m' < left m"
proof -
  let ?L = "length (Code (contract m))"
  have L: "length (Code (contract m')) = ?L" and g: "unat (Gas (contract m')) \<le> unat (Gas (contract m))"
    using assms(1) by (auto simp: kept_def word_le_nat_alt)
  show ?thesis
  proof (cases "unat (Gas (contract m')) < unat (Gas (contract m))")
    case True
    then have "Suc (unat (Gas (contract m'))) * (?L + 1) \<le> unat (Gas (contract m)) * (?L + 1)"
      using mult_le_mono1 Suc_leI by blast
    then show ?thesis by (simp add: left_def L)
  next
    case False
    then have e: "unat (Gas (contract m')) = unat (Gas (contract m))" using g by simp
    with assms(2) have "unat (pc m) < unat (pc m')" by (simp add: forward_def word_less_nat_alt)
    with assms(3) e show ?thesis by (simp add: left_def L)
  qed
qed

lemma run_loop_ok:
  assumes "machine_ok m" "unat (pc m) < 2 ^ 62" "table_fit jt" "left m < fuel" "unat (Gas (contract m)) < gas_cap"
  shows "\<exists>r m'. run_loop E jt fuel steps m = Some (r, m') \<and> kept m m'"
  using assms(1,2,4,5)
proof (induction fuel arbitrary: m steps)
  case (Suc fuel)
  show ?case
  proof (cases "Suc steps mod 1000 = 0 \<and> f_abort E (Suc steps) (state m)")
    case True
    with kept_refl[OF Suc.prems(1)] show ?thesis by auto
  next
    case False
    note ok = step_ok[OF Suc.prems(1,2,4) assms(3)]
    consider (ret) ret l e m1 where "step E jt m = Some (Return ret l e m1)" "kept m m1"
      | (cont) m1 where "step E jt m = Some (Continue m1)" "kept m m1" "machine_ok m1" "forward m m1"
          "unat (pc m1) \<le> unat (pc m) + 256 \<or> unat (pc m1) \<le> length (Code (contract m))"
      using ok(1) unfolding round_ok_def by (auto split: option.splits round.splits)
    then show ?thesis
    proof cases
      case ret
      with False show ?thesis by auto
    next
      case cont
      have pc: "unat (pc m) < length (Code (contract m))" using ok(2) cont(1) .
      have "length (Code (contract m)) < 2 ^ 61" using Suc.prems(1) by (simp add: machine_ok_def contract_ok_def)
      then have "unat (pc m1) < 2 ^ 62" using pc cont(5) by auto
      moreover have "left m1 < fuel" using left_decreases[OF cont(2,4) pc] Suc.prems(3) by simp
      moreover have "unat (Gas (contract m1)) < gas_cap" using cont(2) Suc.prems(4) by (simp add: kept_def word_le_nat_alt)
      ultimately obtain r m' where "run_loop E jt fuel (Suc steps) m1 = Some (r, m')" "kept m1 m'"
        using Suc.IH cont(3) by blast
      with cont(1) False have "run_loop E jt (Suc fuel) steps m = Some (r, m')" by auto
      with kept_trans[OF cont(2) \<open>kept m1 m'\<close>] show ?thesis by blast
    qed
  qed
qed simp

lemma frontier_CALL: "map_of (frontier E C) CALL = Some opn \<Longrightarrow> op_minStack opn = 7"
  by (auto simp: frontier_def map_add_def frontier_arith_def frontier_env_def frontier_block_def frontier_flow_def
      frontier_push_def frontier_push_high_def frontier_dup_def frontier_swap_def frontier_log_def frontier_call_def
      JUMPDEST_def PUSH1_def PUSH32_def new_operation_def minStack_def)

lemma CALL_needs_seven:
  "\<not> jt014 E \<Longrightarrow> \<not> jt022 E \<Longrightarrow> map_of (jumpTable E C) CALL = Some opn \<Longrightarrow> 3 \<le> op_minStack opn"
  by (auto simp: jumpTable_def Let_def newInstructionSet_def map_of_doProposal026 map_of_frontier
      dest!: frontier_CALL split: if_splits)

lemma jumpTable_fit: "calls_ok C \<Longrightarrow> \<not> jt014 E \<Longrightarrow> \<not> jt022 E \<Longrightarrow> table_fit (jumpTable E C)"
  using jumpTable_ok CALL_needs_seven by (simp add: table_fit_def)

section \<open>The interpreter\<close>

text \<open>\<^verbatim>\<open>Run\<close> returns: it does not panic and its loop ends. It leaves no more gas than it had,
  and depth and read-only mode as they were.\<close>

lemma Run_ok:
  assumes C: "calls_ok C" and jt: "\<not> jt014 E" "\<not> jt022 E"
    and c: "contract_ok c" "length input < 2 ^ 62" and e: "good (e_state e)" "low \<le> Suc (e_depth e)"
    and cap: "unat (Gas c) < gas_cap"
  shows "\<exists>r c' e'. Run E C c input ro e = Some (r, c', e') \<and> Gas c' \<le> Gas c \<and> evm_kept e e' \<and> contract_ok c'"
proof (cases "Code c = []")
  case True
  with c e show ?thesis by (auto simp: Run_def Let_def evm_kept_def ext_refl)
next
  case False
  let ?e = "e\<lparr>e_depth := e_depth e + 1, e_readOnly := e_readOnly e \<or> ro, e_returnData := []\<rparr>"
  let ?m = "init_machine (c\<lparr>Input := input\<rparr>) ?e"
  have "machine_ok ?m" using c e
    by (simp add: machine_ok_def init_machine_def contract_ok_def NewMemory_def StackLimit_def mem_max_def)
  moreover have "unat (pc ?m) < 2 ^ 62" by (simp add: init_machine_def)
  moreover have "unat (Gas (contract ?m)) < gas_cap" using cap by (simp add: init_machine_def)
  moreover have "left ?m < loop_fuel c" by (simp add: left_def loop_fuel_def init_machine_def)
  ultimately obtain r m' where "run_loop E (jumpTable E C) (loop_fuel c) 0 ?m = Some (r, m')" "kept ?m m'"
    using run_loop_ok[OF _ _ jumpTable_fit[OF C jt]] by blast
  moreover obtain ret lgs err where "r = (ret, lgs, err)" by (cases r)
  ultimately show ?thesis using False
    by (auto simp: Run_def Let_def kept_def init_machine_def evm_kept_def evm_of_def)
qed

end

end
