(* ===== verification/Vm_EVM_Safe.thy ===== *)
theory Vm_EVM_Safe
  imports Vm_Loop_Safe
begin

text \<open>
  Message calls return. If the interpreter keeps its contract on nested frames, so do the
  calls that use it; the depth limit closes the recursion.
\<close>

context vm_world
begin

section \<open>Parts of a call\<close>

definition runner_ok :: "'s runner \<Rightarrow> bool" where
  "runner_ok rn = (\<forall>c input ro e. contract_ok c \<and> length input < 2 ^ 62 \<and> good (e_state e)
     \<and> low \<le> e_depth e \<and> e_depth e \<le> CallCreateDepth \<and> unat (Gas c) < gas_cap \<longrightarrow>
     (\<exists>r c' e'. rn c input ro e = Some (r, c', e') \<and> Gas c' \<le> Gas c \<and> evm_kept e e' \<and> contract_ok c'))"

lemma evm_kept_refl: "good (e_state e) \<Longrightarrow> evm_kept e e"
  by (simp add: evm_kept_def ext_refl)

lemma evm_kept_trans: "evm_kept e1 e2 \<Longrightarrow> evm_kept e2 e3 \<Longrightarrow> evm_kept e1 e3"
  using ext_trans by (auto simp: evm_kept_def)

lemma evm_kept_put: "ext (e_state e) st \<Longrightarrow> evm_kept e (put_state st e)"
  by (simp add: evm_kept_def put_state_def)

lemma put_state_simps [simp]:
  "e_state (put_state st e) = st" "e_depth (put_state st e) = e_depth e" "e_readOnly (put_state st e) = e_readOnly e"
  "put_state st (put_state st' e) = put_state st e"
  by (simp_all add: put_state_def)

lemma result_simps [simp]:
  "r_gas (result ret g l err a jd) = g" "r_jumpdests (result ret g l err a jd) = jd"
  "r_err (result ret g l err a jd) = err" "r_ret (result ret g l err a jd) = ret" "r_logs (result ret g l err a jd) = l"
  by (simp_all add: result_def)

lemma no_call_ok:
  "g \<le> gas \<Longrightarrow> evm_kept e e' \<Longrightarrow> jumpmap_ok (jumpmap_of (snd caller)) \<Longrightarrow> call_result_ok gas e (no_call caller g err e')"
  by (simp add: call_result_ok_def no_call_def)

lemma run_precompile_ok:
  assumes "f_precompile E a = Some p" "good (e_state e)" "jumpmap_ok (jumpmap_of parent)" "length input < 2 ^ 62" "unat gas < gas_cap"
  shows "call_result_ok gas e (run_precompile p parent input gas e)"
proof -
  obtain ret left err where r: "RunPrecompiledContract p input gas = Some (ret, left, err)"
    using Precompile_law[OF assms(1,4,5)] by auto
  then have "left \<le> gas"
    by (auto simp: RunPrecompiledContract_def word_le_nat_alt not_less unat_sub split: if_splits bind_splits)
  with r show ?thesis using assms(2,3) by (auto simp: call_result_ok_def run_precompile_def evm_kept_refl)
qed

lemma run_code_ok:
  assumes "runner_ok rn" "contract_ok c" "length input < 2 ^ 62" "good (e_state e)" "low \<le> e_depth e" "e_depth e \<le> CallCreateDepth"
    "unat (Gas c) < gas_cap"
  shows "call_result_ok (Gas c) e (run_code rn c input ro e)"
proof -
  obtain r c' e' where "rn c input ro e = Some (r, c', e')" "Gas c' \<le> Gas c" "evm_kept e e'" "contract_ok c'"
    using assms unfolding runner_ok_def by blast
  then show ?thesis by (cases r) (auto simp: call_result_ok_def run_code_def contract_ok_def)
qed

lemma new_contract_ok:
  assumes "jumpmap_ok (jumpmap_of parent)" "length code < 2 ^ 61" "h \<noteq> zero_hash \<Longrightarrow> code_of h = code"
  shows "contract_ok (SetCallCode addr h code (NewContract a parent b v g))"
    "contract_ok (SetCallCode addr h code (AsDelegate p (NewContract a parent b v g)))"
  using assms
  by (auto simp: contract_ok_def SetCallCode_def NewContract_def AsDelegate_def jumpmap_of_def split: option.splits)

lemma SetCallCode_Gas [simp]: "Gas (SetCallCode addr h code c) = Gas c"
  by (simp add: SetCallCode_def)

lemma NewContract_Gas [simp]: "Gas (NewContract a parent b v g) = g"
  by (simp add: NewContract_def)

lemma AsDelegate_Gas [simp]: "Gas (AsDelegate p c) = Gas c"
  by (simp add: AsDelegate_def)

lemma load_code_ok:
  assumes "good (e_state e)" "load_code E addr c e = (c', e')"
  obtains h code where "c' = SetCallCode addr h code c" "evm_kept e e'" "length code < 2 ^ 61" "h \<noteq> zero_hash \<Longrightarrow> code_of h = code"
proof -
  obtain h s1 where h: "sd_GetCodeHash (SDB E) addr (e_state e) = (h, s1)" by fastforce
  obtain code s2 where c: "sd_GetCode (SDB E) addr s1 = (code, s2)" by fastforce
  have 1: "ext (e_state e) s1" using GetCodeHash_law[OF assms(1), of addr] h by simp
  then have g: "good s1" by (rule ext_good)
  have 2: "ext s1 s2" using GetCode_law[OF g, of addr] c by simp
  show thesis
  proof (rule that)
    show "c' = SetCallCode addr h code c" using assms(2) h c by (simp add: load_code_def)
    show "evm_kept e e'" using assms(2) h c ext_trans[OF 1 2] by (auto simp: load_code_def intro: evm_kept_put)
    show "length code < 2 ^ 61" using Code_size[OF g, of addr] c by simp
    show "code_of h = code" if "h \<noteq> zero_hash" using Hash_then_code[OF assms(1) h c that] .
  qed
qed

text \<open>A call that ends on \<^verbatim>\<open>settle\<close>: whatever happened after the snapshot, it can be undone.\<close>

lemma settle_ok:
  assumes res: "call_result_ok gas e1 res" and e: "good (e_state e)" "sd_Snapshot (SDB E) (e_state e) = (snapshot, s1)"
    and k: "ext s1 (e_state e1)" "e_depth e1 = e_depth e" "e_readOnly e1 = e_readOnly e"
  shows "call_result_ok gas e (Option.bind res (\<lambda>(r, e'). settle E snapshot r e'))"
proof -
  obtain r e' where r: "res = Some (r, e')" "r_gas r \<le> gas" "evm_kept e1 e'" "jumpmap_ok (r_jumpdests r)"
    using res by (auto simp: call_result_ok_def)
  have x: "ext s1 (e_state e')" using k(1) r(3) ext_trans by (auto simp: evm_kept_def)
  obtain s2 where s2: "sd_RevertToSnapshot (SDB E) snapshot (e_state e') = Some s2" "ext (e_state e) s2"
    using Revert_law[OF e(1), of "e_state e'"] x e(2) by auto
  have "ext (e_state e) s1" using Snapshot_law[OF e(1)] e(2) by simp
  then have "ext (e_state e) (e_state e')" using x ext_trans by blast
  then show ?thesis using r s2 k by (auto simp: call_result_ok_def settle_def evm_kept_def)
qed

section \<open>The calls\<close>

text \<open>Running code loaded from an account, after a snapshot.\<close>

lemma code_or_precompile_ok:
  assumes rn: "runner_ok rn" and pa: "jumpmap_ok (jumpmap_of parent)" and input: "length input < 2 ^ 62" "unat gas < gas_cap"
    and e: "good (e_state e)" "low \<le> e_depth e" "e_depth e \<le> CallCreateDepth"
    and c: "c = NewContract a parent b v gas \<or> c = AsDelegate p0 (NewContract a parent b v gas)"
  shows "call_result_ok gas e
    (case f_precompile E addr of
       Some p \<Rightarrow> run_precompile p parent input gas e
     | None \<Rightarrow> (let (c, e) = load_code E addr c e in run_code rn c input ro e))"
proof (cases "f_precompile E addr")
  case (Some p)
  with run_precompile_ok[OF Some e(1) pa input] show ?thesis by simp
next
  case None
  obtain c' e' where l: "load_code E addr c e = (c', e')" by fastforce
  from load_code_ok[OF e(1) l] obtain h code where
    h: "c' = SetCallCode addr h code c" "evm_kept e e'" "length code < 2 ^ 61" "h \<noteq> zero_hash \<Longrightarrow> code_of h = code" by blast
  have "contract_ok c'" "Gas c' = gas" using new_contract_ok[OF pa h(3,4)] c h(1) by auto
  moreover have "good (e_state e')" "e_depth e' = e_depth e" using h(2) ext_good by (auto simp: evm_kept_def)
  ultimately have "call_result_ok gas e' (run_code rn c' input ro e')"
    using run_code_ok[OF rn _ input(1), of c' e' ro] e input(2) by auto
  with h(2) evm_kept_trans None l show ?thesis unfolding call_result_ok_def by fastforce
qed

lemma too_poor_ok:
  assumes "good (e_state e)"
  obtains poor e1 where "too_poor E payer v e = Some (poor, e1)" "evm_kept e e1"
proof (cases "v = 0")
  case True
  then show thesis using that[of False e] evm_kept_refl[OF assms] by (simp add: too_poor_def)
next
  case False
  obtain can st where "f_CanTransfer E payer v (e_state e) = Some (can, st)" "ext (e_state e) st"
    using CanTransfer_law[OF assms] by blast
  then show thesis using that evm_kept_put False by (simp add: too_poor_def)
qed

lemma call_result_trans:
  "evm_kept e e1 \<Longrightarrow> call_result_ok gas e1 res \<Longrightarrow> call_result_ok gas e res"
  using evm_kept_trans by (auto simp: call_result_ok_def)

lemma evm_keptD:
  "evm_kept e e1 \<Longrightarrow> good (e_state e1)" "evm_kept e e1 \<Longrightarrow> e_depth e1 = e_depth e" "evm_kept e e1 \<Longrightarrow> e_readOnly e1 = e_readOnly e"
  using ext_good by (auto simp: evm_kept_def)

text \<open>Past the balance check a call does nothing, or it ends on \<^verbatim>\<open>settle\<close>.\<close>

lemma call_body_cases:
  assumes rn: "runner_ok rn" and pa: "jumpmap_ok (jumpmap_of (snd caller))" and input: "length input < 2 ^ 62" "unat gas < gas_cap"
    and e: "good (e_state e)" "low \<le> e_depth e" "e_depth e \<le> CallCreateDepth"
  shows "(\<exists>r e'. call_body E rn payer caller addr input gas v e = Some (r, e') \<and> r_err r = None
      \<and> call_result_ok gas e (Some (r, e')))
    \<or> (\<exists>snapshot s1 s2 res. sd_Snapshot (SDB E) (e_state e) = (snapshot, s1) \<and> ext s1 s2
      \<and> call_result_ok gas (put_state s2 e) res
      \<and> call_body E rn payer caller addr input gas v e = Option.bind res (\<lambda>(r, e'). settle E snapshot r e'))"
proof -
  obtain snapshot s1 where sn: "sd_Snapshot (SDB E) (e_state e) = (snapshot, s1)" by fastforce
  have x1: "ext (e_state e) s1" using Snapshot_law[OF e(1)] sn by simp
  obtain exist s2 where ex: "sd_Exist (SDB E) addr s1 = (exist, s2)" by fastforce
  have x2: "ext s1 s2" using Exist_law[OF ext_good[OF x1], of addr] ex by simp
  show ?thesis
  proof (cases "\<not> exist \<and> f_precompile E addr = None \<and> v = 0")
    case True
    let ?r = "result [] gas [] None zero_address (jumpmap_of (snd caller))"
    have "call_body E rn payer caller addr input gas v e = Some (?r, put_state s2 e)"
      using True sn ex by (simp add: call_body_def)
    moreover have "call_result_ok gas e (Some (?r, put_state s2 e))"
      using pa evm_kept_put[OF ext_trans[OF x1 x2]] by (simp add: call_result_ok_def)
    ultimately show ?thesis by (metis result_simps(3))
  next
    case False
    let ?s3 = "if \<not> exist then sd_CreateAccount (SDB E) addr s2 else s2"
    have x3: "ext s1 ?s3" using CreateAccount_law[OF ext_good[OF x2]] x2 ext_trans by auto
    obtain s4 where s4: "f_Transfer E payer addr v ?s3 = Some s4" "ext ?s3 s4" using Transfer_law[OF ext_good[OF x3]] by blast
    have x4: "ext s1 s4" using ext_trans[OF x3 s4(2)] .
    let ?res = "case f_precompile E addr of
            Some p \<Rightarrow> run_precompile p (snd caller) input gas (put_state s4 e)
          | None \<Rightarrow>
              (let (code, st) = sd_GetCode (SDB E) addr s4
               in if code = [] then Some (result [] gas [] None zero_address (jumpmap_of (snd caller)), put_state st e)
                  else
                    (let (h, st) = sd_GetCodeHash (SDB E) addr st;
                         c = SetCallCode addr h code (NewContract (fst caller) (snd caller) addr v gas)
                     in run_code rn c input False (put_state st e)))"
    have "call_result_ok gas (put_state s4 e) ?res"
    proof (cases "f_precompile E addr")
      case (Some p)
      with run_precompile_ok[OF Some _ pa input] ext_good[OF x4] show ?thesis by simp
    next
      case None
      obtain code s5 where s5: "sd_GetCode (SDB E) addr s4 = (code, s5)" by fastforce
      obtain h s6 where s6: "sd_GetCodeHash (SDB E) addr s5 = (h, s6)" by fastforce
      have x5: "ext s4 s5" using GetCode_law[OF ext_good[OF x4], of addr] s5 by simp
      have x6: "ext s4 s6" using GetCodeHash_law[OF ext_good[OF x5], of addr] s6 x5 ext_trans by fastforce
      let ?c = "SetCallCode addr h code (NewContract (fst caller) (snd caller) addr v gas)"
      have "contract_ok ?c"
        using new_contract_ok(1)[OF pa] Code_size[OF ext_good[OF x4], of addr] Code_then_hash[OF ext_good[OF x4] s5 s6] s5 by simp
      then have "call_result_ok gas (put_state s6 e) (run_code rn ?c input False (put_state s6 e))"
        using run_code_ok[OF rn _ input(1), of ?c "put_state s6 e" False] ext_good[OF x6] e input(2) by simp
      then have "call_result_ok gas (put_state s4 e) (run_code rn ?c input False (put_state s6 e))"
        by (rule call_result_trans[rotated]) (use x6 in \<open>simp add: evm_kept_def\<close>)
      then show ?thesis using None s5 s6 x5 pa by (auto simp: call_result_ok_def evm_kept_def)
    qed
    moreover have "call_body E rn payer caller addr input gas v e = Option.bind ?res (\<lambda>(r, e'). settle E snapshot r e')"
      unfolding call_body_def Let_def sn ex prod.case by (simp only: False if_False s4(1) bind.bind_lunit Let_def)
    ultimately show ?thesis using sn x4 by blast
  qed
qed

lemma call_body_ok:
  assumes "runner_ok rn" "jumpmap_ok (jumpmap_of (snd caller))" "length input < 2 ^ 62" "unat gas < gas_cap"
    and "good (e_state e)" "low \<le> e_depth e" "e_depth e \<le> CallCreateDepth"
  shows "call_result_ok gas e (call_body E rn payer caller addr input gas v e)"
  using call_body_cases[OF assms, where payer = payer and addr = addr and v = v]
proof (elim disjE exE conjE)
  fix snapshot s1 s2 res
  assume "sd_Snapshot (SDB E) (e_state e) = (snapshot, s1)" "ext s1 s2" "call_result_ok gas (put_state s2 e) res"
    "call_body E rn payer caller addr input gas v e = Option.bind res (\<lambda>(r, e'). settle E snapshot r e')"
  with settle_ok[of gas "put_state s2 e" res e snapshot s1] assms(5) show ?thesis by simp
qed auto

text \<open>A call that failed has gone back to its snapshot.\<close>

lemma call_body_failed:
  assumes "runner_ok rn" "jumpmap_ok (jumpmap_of (snd caller))" "length input < 2 ^ 62" "unat gas < gas_cap"
    and "good (e_state e)" "low \<le> e_depth e" "e_depth e \<le> CallCreateDepth"
    and "call_body E rn payer caller addr input gas v e = Some (r, e')" "r_err r \<noteq> None"
  shows "\<exists>snapshot s1 s2. sd_Snapshot (SDB E) (e_state e) = (snapshot, s1) \<and> ext s1 s2
    \<and> sd_RevertToSnapshot (SDB E) snapshot s2 = Some (e_state e')
    \<and> (r_err r \<noteq> Some ErrExecutionReverted \<longrightarrow> r_gas r = 0)"
  using call_body_cases[OF assms(1-7), where payer = payer and addr = addr and v = v]
proof (elim disjE exE conjE)
  fix snapshot s1 s2 res
  assume sn: "sd_Snapshot (SDB E) (e_state e) = (snapshot, s1)" "ext s1 s2" and res: "call_result_ok gas (put_state s2 e) res"
    and b: "call_body E rn payer caller addr input gas v e = Option.bind res (\<lambda>(r, e'). settle E snapshot r e')"
  from res obtain r2 e2 where r2: "res = Some (r2, e2)" "evm_kept (put_state s2 e) e2" by (auto simp: call_result_ok_def)
  have x: "ext s1 (e_state e2)" using sn(2) r2(2) ext_trans by (auto simp: evm_kept_def)
  from b r2(1) assms(8) have "settle E snapshot r2 e2 = Some (r, e')" by simp
  then have "sd_RevertToSnapshot (SDB E) snapshot (e_state e2) = Some (e_state e')"
    "r_err r \<noteq> Some ErrExecutionReverted \<longrightarrow> r_gas r = 0"
    using assms(9) by (auto simp: settle_def split: if_splits Option.bind_splits)
  with sn(1) x show ?thesis by blast
qed (use assms(8,9) in auto)

lemma Call_ok:
  assumes "runner_ok rn" "jumpmap_ok (jumpmap_of (snd caller))" "length input < 2 ^ 62" "good (e_state e)" "low \<le> e_depth e"
    "unat gas < gas_cap"
  shows "call_result_ok gas e (Call E rn caller addr input gas v e)"
proof (cases "e_depth e > CallCreateDepth")
  case True
  with assms show ?thesis by (simp add: Call_def no_call_ok evm_kept_refl)
next
  case False
  from too_poor_ok[OF assms(4)] obtain poor e1 where p: "too_poor E (fst caller) v e = Some (poor, e1)" "evm_kept e e1" .
  note e1 = evm_keptD[OF p(2)]
  show ?thesis
  proof (cases poor)
    case True
    with False p assms(2) show ?thesis by (simp add: Call_def no_call_ok)
  next
    case no: False
    have "call_result_ok gas e1 (call_body E rn (fst caller) caller addr input gas v e1)"
      using assms e1 False by (intro call_body_ok) auto
    with call_result_trans[OF p(2)] False no p(1) show ?thesis by (simp add: Call_def)
  qed
qed

lemma snapshot_then_ok:
  assumes rn: "runner_ok rn" and pa: "jumpmap_ok (jumpmap_of parent)" and input: "length input < 2 ^ 62" "unat gas < gas_cap"
    and e: "good (e_state e)" "low \<le> e_depth e" "e_depth e \<le> CallCreateDepth"
    and sn: "sd_Snapshot (SDB E) (e_state e) = (snapshot, s1)" and s2: "ext s1 s2"
    and c: "c = NewContract a parent b v gas \<or> c = AsDelegate p0 (NewContract a parent b v gas)"
  shows "call_result_ok gas e
    (Option.bind (case f_precompile E addr of
       Some p \<Rightarrow> run_precompile p parent input gas (put_state s2 e)
     | None \<Rightarrow> (let (c, e) = load_code E addr c (put_state s2 e) in run_code rn c input ro e))
     (\<lambda>(r, e'). settle E snapshot r e'))"
  by (rule settle_ok[OF code_or_precompile_ok[OF rn pa input _ _ _ c] e(1) sn]) (use s2 ext_good e in auto)

lemma drop_logs_ok:
  "call_result_ok gas e res \<Longrightarrow> call_result_ok gas e (Option.bind res (\<lambda>(r, e). Some (r\<lparr>r_logs := []\<rparr>, e)))"
  by (auto simp: call_result_ok_def)

lemma CallCode_ok:
  assumes "runner_ok rn" "jumpmap_ok (jumpmap_of (snd caller))" "length input < 2 ^ 62" "good (e_state e)" "low \<le> e_depth e"
    "unat gas < gas_cap"
  shows "call_result_ok gas e (CallCode E rn caller addr input gas v e)"
proof (cases "e_depth e > CallCreateDepth")
  case True
  with assms show ?thesis by (simp add: CallCode_def no_call_ok evm_kept_refl)
next
  case False
  obtain can st where c: "f_CanTransfer E (fst caller) v (e_state e) = Some (can, st)" "ext (e_state e) st"
    using CanTransfer_law[OF assms(4)] by blast
  let ?e = "put_state st e"
  have k: "evm_kept e ?e" using c(2) by (rule evm_kept_put)
  show ?thesis
  proof (cases can)
    case False
    with c k assms(2) \<open>\<not> e_depth e > CallCreateDepth\<close> show ?thesis by (simp add: CallCode_def no_call_ok)
  next
    case True
    obtain snapshot s1 where sn: "sd_Snapshot (SDB E) (e_state ?e) = (snapshot, s1)" by fastforce
    have "ext s1 s1" using Snapshot_law[of st] ext_good[OF c(2)] sn ext_refl ext_good by fastforce
    from drop_logs_ok[OF snapshot_then_ok[where a = "fst caller" and b = "fst caller" and v = v and gas = gas and addr = addr and ro = False,
        OF assms(1-3,6) _ _ _ sn this disjI1[OF refl]]]
    show ?thesis using k assms(5) ext_good[OF c(2)] False c(1) True sn call_result_trans[OF k]
      by (simp add: CallCode_def Let_def split_def cong: option.case_cong)
  qed
qed

lemma DelegateCall_ok:
  assumes "runner_ok rn" "jumpmap_ok (jumpdests parent)" "length input < 2 ^ 62" "good (e_state e)" "low \<le> e_depth e"
    "unat gas < gas_cap"
  shows "call_result_ok gas e (DelegateCall E rn parent addr input gas e)"
proof (cases "e_depth e > CallCreateDepth")
  case True
  with assms show ?thesis by (simp add: DelegateCall_def no_call_ok evm_kept_refl jumpmap_of_def)
next
  case False
  obtain snapshot s1 where sn: "sd_Snapshot (SDB E) (e_state e) = (snapshot, s1)" by fastforce
  have "ext s1 s1" using Snapshot_law[OF assms(4)] sn ext_refl ext_good by fastforce
  moreover have "jumpmap_ok (jumpmap_of (Some (jumpdests parent)))" using assms(2) by (simp add: jumpmap_of_def)
  ultimately show ?thesis
    using snapshot_then_ok[where a = "self parent" and b = "self parent" and v = 0 and gas = gas and addr = addr and ro = False
        and parent = "Some (jumpdests parent)" and ?p0.0 = parent and ?s2.0 = s1,
        OF assms(1) _ assms(3,6,4,5) _ sn _ disjI2[OF refl]] False sn
    by (simp add: DelegateCall_def Let_def cong: option.case_cong)
qed

lemma StaticCall_ok:
  assumes "runner_ok rn" "jumpmap_ok (jumpmap_of (snd caller))" "length input < 2 ^ 62" "good (e_state e)" "low \<le> e_depth e"
    "unat gas < gas_cap"
  shows "call_result_ok gas e (StaticCall E rn caller addr input gas e)"
proof (cases "e_depth e > CallCreateDepth")
  case True
  with assms show ?thesis by (simp add: StaticCall_def no_call_ok evm_kept_refl)
next
  case False
  obtain snapshot s1 where sn: "sd_Snapshot (SDB E) (e_state e) = (snapshot, s1)" by fastforce
  have "good s1" using Snapshot_law[OF assms(4)] sn ext_good by fastforce
  then obtain s2 where s2: "sd_AddBalance (SDB E) addr 0 s1 = Some s2" "ext s1 s2" using AddBalance_law by blast
  show ?thesis
    using snapshot_then_ok[where a = "fst caller" and b = addr and v = 0 and gas = gas and addr = addr and ro = True,
        OF assms(1-3,6,4,5) _ sn s2(2) disjI1[OF refl]] False sn s2(1)
    by (simp add: StaticCall_def Let_def)
qed

section \<open>Creation\<close>

lemma may_create_ok: "good (e_state e) \<Longrightarrow> may_create E a e = (allowed, e1) \<Longrightarrow> evm_kept e e1"
  using evm_kept_put[OF GetData_law, of e "CreateWhiteListAddr E" "whitelist_key E a"]
  by (auto simp: may_create_def Let_def evm_kept_refl split_def split: if_splits)

lemma store_code_ok:
  assumes r: "r_gas r \<le> gas" "jumpmap_ok (r_jumpdests r)" and e: "good s0" "sd_Snapshot (SDB E) s0 = (snapshot, s1)"
    "ext s1 (e_state e)"
  shows "\<exists>r' e'. store_code E snapshot a r e = Some (r', e') \<and> r_gas r' \<le> gas \<and> jumpmap_ok (r_jumpdests r')
    \<and> ext s0 (e_state e') \<and> e_depth e' = e_depth e \<and> e_readOnly e' = e_readOnly e"
proof -
  have x0: "ext s0 s1" using Snapshot_law[OF e(1)] e(2) by simp
  have rev: "\<exists>s2. sd_RevertToSnapshot (SDB E) snapshot s = Some s2 \<and> ext s0 s2" if "ext s1 s" for s
    using Revert_law[OF e(1)] e(2) that by simp
  have set: "ext s1 (sd_SetCode (SDB E) a (r_ret r) (e_state e))" if "\<not> length (r_ret r) > MaxCodeSize"
    using SetCode_law[OF ext_good[OF e(3)], of "r_ret r" a] that e(3) ext_trans by (fastforce simp: MaxCodeSize_def)
  have sub: "r_gas r - g \<le> gas" if "\<not> r_gas r < g" for g
    using that r(1) by (simp add: word_le_nat_alt unat_sub not_less)
  obtain s2 where s2: "sd_RevertToSnapshot (SDB E) snapshot (e_state e) = Some s2" "ext s0 s2" using rev[OF e(3)] by blast
  show ?thesis
  proof (cases "r_err r = None \<and> \<not> length (r_ret r) > MaxCodeSize")
    case True
    then show ?thesis using r sub set ext_trans[OF x0 e(3)] ext_trans[OF x0 set]
      by (auto simp: store_code_def Let_def)
  next
    case False
    then show ?thesis using r s2 ext_trans[OF x0 e(3)] by (auto simp: store_code_def Let_def)
  qed
qed

lemma create_ok:
  assumes rn: "runner_ok rn" and pa: "jumpmap_ok (jumpmap_of (snd caller))" and code: "length code < 2 ^ 61"
    and e: "good (e_state e)" "low \<le> e_depth e" and h: "h \<noteq> zero_hash \<Longrightarrow> code_of h = code"
    and cap: "unat gas < gas_cap"
  shows "call_result_ok gas e (create E rn caller code h gas v a e)"
proof -
  obtain allowed e1 where m: "may_create E (fst caller) e = (allowed, e1)" by fastforce
  have k: "evm_kept e e1" using may_create_ok[OF e(1) m] .
  note e1 = evm_keptD[OF k]
  consider "\<not> allowed" | "allowed" "e_depth e1 > CallCreateDepth" | "allowed" "e_depth e1 \<le> CallCreateDepth" by linarith
  then show ?thesis
  proof cases
    case 3
    obtain can s1 where c: "f_CanTransfer E (fst caller) v (e_state e1) = Some (can, s1)" "ext (e_state e1) s1"
      using CanTransfer_law[OF e1(1)] by blast
    show ?thesis
    proof (cases can)
      case False
      have "evm_kept e (put_state s1 e1)" using k evm_kept_put[OF c(2)] evm_kept_trans by blast
      with 3 m c(1) False pa show ?thesis by (simp add: create_def no_call_ok)
    next
      case True
      obtain nonce s2 where s2: "sd_GetNonce (SDB E) (fst caller) s1 = (nonce, s2)" by fastforce
      let ?s3 = "if \<not> p006 E \<or> p007 E then sd_SetNonce (SDB E) (fst caller) (nonce + 1) s2 else s2"
      let ?s4 = "sd_AddAddressToAccessList (SDB E) a ?s3"
      obtain ch s5 where s5: "sd_GetCodeHash (SDB E) a ?s4 = (ch, s5)" by fastforce
      obtain n s6 where s6: "sd_GetNonce (SDB E) a s5 = (n, s6)" by fastforce
      have x2: "ext s1 s2" using GetNonce_law[OF ext_good[OF c(2)], of "fst caller"] s2 by simp
      have x3: "ext s1 ?s3" using SetNonce_law[OF ext_good[OF x2], of "fst caller" "nonce + 1"] ext_trans[OF x2] x2 by simp
      have x4: "ext s1 ?s4" using AddAddressToAccessList_law[OF ext_good[OF x3], of a] ext_trans[OF x3] by blast
      have x5: "ext s1 s5" using GetCodeHash_law[OF ext_good[OF x4], of a] ext_trans[OF x4] s5 by simp
      have x6: "ext s1 s6" using GetNonce_law[OF ext_good[OF x5], of a] ext_trans[OF x5] s6 by simp
      have k6: "evm_kept e (put_state s6 e1)" using k evm_kept_put ext_trans[OF c(2) x6] evm_kept_trans by blast
      show ?thesis
      proof (cases "n \<noteq> 0 \<or> (ch \<noteq> zero_hash \<and> ch \<noteq> f_Keccak256 E [])")
        case collision: True
        have "create E rn caller code h gas v a e = no_call caller 0 ErrContractAddressCollision (put_state s6 e1)"
          unfolding create_def Let_def m prod.case
          using 3 by (simp only: c(1) bind.bind_lunit prod.case True s2 s5 s6 collision if_True if_False not_True_eq_False not_less[symmetric])
        with k6 pa show ?thesis by (simp add: no_call_ok)
      next
        case fresh: False
        obtain snapshot s7 where sn: "sd_Snapshot (SDB E) s6 = (snapshot, s7)" by fastforce
        have g6: "good s6" using ext_good[OF x6] .
        let ?s9 = "sd_SetNonce (SDB E) a 1 (sd_CreateAccount (SDB E) a s7)"
        have x7: "ext s6 s7" using Snapshot_law[OF g6] sn by simp
        have x8: "ext s7 (sd_CreateAccount (SDB E) a s7)" using CreateAccount_law[OF ext_good[OF x7]] .
        have x9: "ext s7 ?s9" using SetNonce_law[OF ext_good[OF x8]] ext_trans[OF x8] by blast
        obtain s10 where s10: "f_Transfer E (fst caller) a v ?s9 = Some s10" "ext ?s9 s10"
          using Transfer_law[OF ext_good[OF x9]] by blast
        have x10: "ext s7 s10" using ext_trans[OF x9 s10(2)] .
        let ?c = "SetCallCode a h code (NewContract (fst caller) (snd caller) a v gas)"
        have "contract_ok ?c" using new_contract_ok(1)[OF pa code h] .
        then have "call_result_ok gas (put_state s10 e1) (run_code rn ?c [] False (put_state s10 e1))"
          using run_code_ok[OF rn, of ?c "[]" "put_state s10 e1" False] ext_good[OF x10] e(2) e1(2) 3(2) cap by simp
        then obtain r e2 where r: "run_code rn ?c [] False (put_state s10 e1) = Some (r, e2)" "r_gas r \<le> gas"
          "evm_kept (put_state s10 e1) e2" "jumpmap_ok (r_jumpdests r)" by (auto simp: call_result_ok_def)
        have x11: "ext s7 (e_state e2)" using r(3) ext_trans[OF x10] by (simp add: evm_kept_def)
        obtain r' e' where st: "store_code E snapshot a (r\<lparr>r_addr := a\<rparr>) e2 = Some (r', e')" "r_gas r' \<le> gas"
          "jumpmap_ok (r_jumpdests r')" "ext s6 (e_state e')" "e_depth e' = e_depth e2" "e_readOnly e' = e_readOnly e2"
          using store_code_ok[OF _ _ g6 sn x11, of "r\<lparr>r_addr := a\<rparr>" gas a] r(2,4) by auto
        have "create E rn caller code h gas v a e = Some (r', e')"
          unfolding create_def Let_def m prod.case
          using 3 by (simp only: c(1) bind.bind_lunit prod.case True s2 s5 s6 fresh if_True if_False not_True_eq_False
              not_less[symmetric] sn s10(1) r(1) st(1))
        moreover have "ext (e_state e) (e_state e')"
          using k6 st(4) ext_trans by (auto simp: evm_kept_def)
        moreover have "e_depth e' = e_depth e" "e_readOnly e' = e_readOnly e"
          using st(5,6) r(3) e1 by (simp_all add: evm_kept_def)
        ultimately show ?thesis using st(2,3) by (simp add: call_result_ok_def evm_kept_def)
      qed
    qed
  qed (use m k pa in \<open>simp_all add: create_def no_call_ok\<close>)
qed

section \<open>Calls that use a good interpreter\<close>

lemma calls_with_ok:
  assumes "runner_ok rn"
  shows "calls_ok (calls_with E rn)"
proof -
  have "call_result_ok gas e (Create E rn (caller_of c) input gas v e)"
    if c: "contract_ok c" "length input < 2 ^ 61" "good (e_state e)" "low \<le> e_depth e" "unat gas < gas_cap" for c input gas v e
  proof -
    obtain nonce st where n: "sd_GetNonce (SDB E) (self c) (e_state e) = (nonce, st)" by fastforce
    have x: "ext (e_state e) st" using GetNonce_law[OF c(3), of "self c"] n by simp
    have "call_result_ok gas (put_state st e)
        (create E rn (caller_of c) input zero_hash gas v (CreateAddress (f_Keccak256 E) (self c) nonce) (put_state st e))"
      using c ext_good[OF x] by (intro create_ok[OF assms]) (auto simp: caller_of_def jumpmap_of_def contract_ok_def)
    from call_result_trans[OF evm_kept_put[OF x] this] show ?thesis using n by (simp add: Create_def caller_of_def)
  qed
  moreover have "call_result_ok gas e (Create2 E rn (caller_of c) input gas v salt e)"
    if c: "contract_ok c" "length input < 2 ^ 61" "good (e_state e)" "low \<le> e_depth e" "unat gas < gas_cap" for c input gas v salt e
    unfolding Create2_def Let_def
    using c by (intro create_ok[OF assms]) (auto simp: caller_of_def jumpmap_of_def contract_ok_def Keccak_code)
  ultimately show ?thesis
    unfolding calls_ok_def calls_with_def
    by (auto simp: contract_ok_def caller_of_def jumpmap_of_def intro!: Call_ok[OF assms] CallCode_ok[OF assms]
        DelegateCall_ok[OF assms] StaticCall_ok[OF assms])
qed

end

section \<open>Closing the recursion\<close>

text \<open>\<open>n\<close> nested frames are enough from depth \<open>CallCreateDepth + 1 - n\<close> on.\<close>

lemma evm_run_ok:
  assumes w: "vm_world E ext good code_of" and jt: "\<not> jt014 E" "\<not> jt022 E"
  shows "vm_world.runner_ok ext good code_of (CallCreateDepth + 1 - n) (evm_run E n)"
proof (induction n)
  case 0
  show ?case unfolding vm_world.runner_ok_def[OF w] by simp
next
  case (Suc n)
  note C = vm_world.calls_with_ok[OF w Suc.IH]
  show ?case unfolding vm_world.runner_ok_def[OF w]
  proof (intro allI impI, elim conjE)
    fix c ro and input :: bytes and e :: "'a Evm"
    assume "vm_world.contract_ok code_of c" "length input < 2 ^ 62" "good (e_state e)" "CallCreateDepth + 1 - Suc n \<le> e_depth e"
      "unat (Gas c) < gas_cap"
    then show "\<exists>r c' e'. evm_run E (Suc n) c input ro e = Some (r, c', e') \<and> Gas c' \<le> Gas c
      \<and> vm_world.evm_kept ext e e' \<and> vm_world.contract_ok code_of c'"
      using vm_world.Run_ok[OF w C jt] by simp
  qed
qed

lemma run_ok:
  assumes "vm_world E ext good code_of" "\<not> jt014 E" "\<not> jt022 E"
  shows "vm_world.runner_ok ext good code_of 0 (run E)"
  using evm_run_ok[OF assms, of "CallCreateDepth + 2"] by (simp add: run_def)

end
