(* ===== verification/Vm_Ledger.thy ===== *)
theory Vm_Ledger
  imports Vm_EVM_Safe Vm_Precompiles_Safe
begin

text \<open>
  The abstract specification of the state interface (\<^verbatim>\<open>StateDB\<close> in
  \<^verbatim>\<open>src/vm/interface.go\<close>): a ledger of accounts with saved copies for the snapshots. It
  keeps the contract \<open>vm_world\<close>, with the hash function read as injective. On it the calls
  of the EVM return.
\<close>

section \<open>The ledger\<close>

record lacct =
  la_nonce :: u64
  la_balance :: int
  la_code :: bytes
  la_storage :: "hash \<Rightarrow> hash"
  la_suicided :: bool

record ldata =
  l_accts :: "address \<rightharpoonup> lacct"
  l_refund :: u64
  l_addresses :: "address set"
  l_slots :: "(address \<times> hash) set"
  l_transient :: "address \<Rightarrow> hash \<Rightarrow> hash"
  l_logs :: "Log list"

record ledger =
  now :: ldata
  saved :: "(int \<times> ldata) list"
  next_id :: int

definition fresh_acct :: lacct where
  "fresh_acct = \<lparr>la_nonce = 0, la_balance = 0, la_code = [], la_storage = (\<lambda>_. zero_hash), la_suicided = False\<rparr>"

definition acct_at :: "address \<Rightarrow> ledger \<Rightarrow> lacct" where
  "acct_at a s = (case l_accts (now s) a of None \<Rightarrow> fresh_acct | Some x \<Rightarrow> x)"

definition on_now :: "(ldata \<Rightarrow> ldata) \<Rightarrow> ledger \<Rightarrow> ledger" where
  "on_now f s = s\<lparr>now := f (now s)\<rparr>"

definition on_acct :: "address \<Rightarrow> (lacct \<Rightarrow> lacct) \<Rightarrow> ledger \<Rightarrow> ledger" where
  "on_acct a f s = on_now (\<lambda>d. d\<lparr>l_accts := (l_accts d)(a \<mapsto> f (acct_at a s))\<rparr>) s"

definition ledger_revert :: "int \<Rightarrow> ledger \<Rightarrow> ledger option" where
  "ledger_revert i s =
    (case map_of (saved s) i of
       None \<Rightarrow> None
     | Some d \<Rightarrow> Some (s\<lparr>now := d, saved := filter (\<lambda>(j, _). j < i) (saved s)\<rparr>))"

text \<open>\<open>hash\<close> is the hash of code.\<close>

definition ledger_db :: "(bytes \<Rightarrow> hash) \<Rightarrow> ledger StateDB" where
  "ledger_db hash =
    \<lparr>sd_CreateAccount = (\<lambda>a. on_acct a id),
     sd_AddBalance = (\<lambda>a v s. Some (on_acct a (\<lambda>x. x\<lparr>la_balance := la_balance x + v\<rparr>) s)),
     sd_GetBalance = (\<lambda>a s. Some (la_balance (acct_at a s), s)),
     sd_GetNonce = (\<lambda>a s. (la_nonce (acct_at a s), s)),
     sd_SetNonce = (\<lambda>a n. on_acct a (\<lambda>x. x\<lparr>la_nonce := n\<rparr>)),
     sd_GetCodeHash = (\<lambda>a s. (if l_accts (now s) a = None then zero_hash else hash (la_code (acct_at a s)), s)),
     sd_GetCode = (\<lambda>a s. (la_code (acct_at a s), s)),
     sd_SetCode = (\<lambda>a c. on_acct a (\<lambda>x. x\<lparr>la_code := c\<rparr>)),
     sd_GetCodeSize = (\<lambda>a s. (length (la_code (acct_at a s)), s)),
     sd_AddRefund = (\<lambda>g. on_now (\<lambda>d. d\<lparr>l_refund := l_refund d + g\<rparr>)),
     sd_SubRefund = (\<lambda>g s. if l_refund (now s) < g then None else Some (on_now (\<lambda>d. d\<lparr>l_refund := l_refund d - g\<rparr>) s)),
     sd_GetCommittedState = (\<lambda>a k s. (la_storage (acct_at a s) k, s)),
     sd_GetState = (\<lambda>a k s. (la_storage (acct_at a s) k, s)),
     sd_SetState = (\<lambda>a k v. on_acct a (\<lambda>x. x\<lparr>la_storage := (la_storage x)(k := v)\<rparr>)),
     sd_GetTransientState = (\<lambda>a k s. l_transient (now s) a k),
     sd_SetTransientState = (\<lambda>a k v. on_now (\<lambda>d. d\<lparr>l_transient := (l_transient d)(a := (l_transient d a)(k := v))\<rparr>)),
     sd_Suicide = (\<lambda>a s. Some (if l_accts (now s) a = None then (False, s)
        else (True, on_acct a (\<lambda>x. x\<lparr>la_suicided := True, la_balance := 0\<rparr>) s))),
     sd_HasSuicided = (\<lambda>a s. (la_suicided (acct_at a s), s)),
     sd_Exist = (\<lambda>a s. (l_accts (now s) a \<noteq> None, s)),
     sd_Empty = (\<lambda>a s. (la_nonce (acct_at a s) = 0 \<and> la_balance (acct_at a s) = 0 \<and> la_code (acct_at a s) = [], s)),
     sd_AddressInAccessList = (\<lambda>a s. a \<in> l_addresses (now s)),
     sd_SlotInAccessList = (\<lambda>a k s. Some (a \<in> l_addresses (now s), (a, k) \<in> l_slots (now s))),
     sd_AddAddressToAccessList = (\<lambda>a. on_now (\<lambda>d. d\<lparr>l_addresses := insert a (l_addresses d)\<rparr>)),
     sd_AddSlotToAccessList = (\<lambda>a k s. Some (on_now (\<lambda>d. d\<lparr>l_addresses := insert a (l_addresses d),
        l_slots := insert (a, k) (l_slots d)\<rparr>) s)),
     sd_RevertToSnapshot = ledger_revert,
     sd_Snapshot = (\<lambda>s. (next_id s, s\<lparr>saved := saved s @ [(next_id s, now s)], next_id := next_id s + 1\<rparr>)),
     sd_AddLog = (\<lambda>l. on_now (\<lambda>d. d\<lparr>l_logs := l_logs d @ [l]\<rparr>))\<rparr>"

text \<open>A context \<open>X\<close> put on the ledger, with the precompiled contracts on the libraries \<open>L\<close>. The hash
  of code is the code itself: the injective hash.\<close>

definition ledger_env :: "ledger VmEnv \<Rightarrow> ('p, 'q, 'r, 't) PreLib \<Rightarrow> ledger VmEnv" where
  "ledger_env X L = X\<lparr>
     U256 := word_uint256, SDB := ledger_db id,
     f_CanTransfer := (\<lambda>a v s. Some (0 \<le> v \<and> v \<le> la_balance (acct_at a s), s)),
     f_Transfer := (\<lambda>a b v s. Some (if v \<le> 0 then s
        else on_acct b (\<lambda>x. x\<lparr>la_balance := la_balance x + v\<rparr>) (on_acct a (\<lambda>x. x\<lparr>la_balance := la_balance x - v\<rparr>) s))),
     f_GetData := (\<lambda>a k s. (la_storage (acct_at a s) k, s)),
     f_Keccak256 := id,
     f_precompile := PrecompiledContracts L\<rparr>"

section \<open>It keeps the contract\<close>

definition codes_ok :: "ldata \<Rightarrow> bool" where
  "codes_ok d = (\<forall>a x. l_accts d a = Some x \<longrightarrow> length (la_code x) < 2 ^ 61)"

definition ledger_good :: "ledger \<Rightarrow> bool" where
  "ledger_good s = (codes_ok (now s) \<and> (\<forall>(i, d) \<in> set (saved s). i < next_id s \<and> codes_ok d))"

text \<open>Later states keep the snapshots of earlier ones.\<close>

definition later :: "ledger \<Rightarrow> ledger \<Rightarrow> bool" where
  "later s s' = (ledger_good s' \<and> next_id s \<le> next_id s' \<and> (\<forall>i < next_id s. map_of (saved s') i = map_of (saved s) i))"

lemma acct_at_code: "codes_ok (now s) \<Longrightarrow> length (la_code (acct_at a s)) < 2 ^ 61"
  by (auto simp: codes_ok_def acct_at_def fresh_acct_def split: option.split)

lemma on_now_ext: "ledger_good s \<Longrightarrow> codes_ok (f (now s)) \<Longrightarrow> later s (on_now f s)"
  by (auto simp: later_def ledger_good_def on_now_def)

lemma on_acct_ext:
  assumes "ledger_good s" "length (la_code (f (acct_at a s))) < 2 ^ 61"
  shows "later s (on_acct a f s)"
  unfolding on_acct_def using assms by (intro on_now_ext) (auto simp: ledger_good_def codes_ok_def)

lemma on_acct_same_code:
  "ledger_good s \<Longrightarrow> (\<And>x. la_code (f x) = la_code x) \<Longrightarrow> later s (on_acct a f s)"
  using acct_at_code[of s a] by (intro on_acct_ext) (auto simp: ledger_good_def)

lemma later_refl: "ledger_good s \<Longrightarrow> later s s"
  by (simp add: later_def)

lemma later_trans: "later s1 s2 \<Longrightarrow> later s2 s3 \<Longrightarrow> later s1 s3"
  by (auto simp: later_def)

lemma fresh_id: "ledger_good s \<Longrightarrow> next_id s \<le> i \<Longrightarrow> map_of (saved s) i = None"
  by (auto simp: ledger_good_def map_of_eq_None_iff)

lemma ledger_snapshot_ext:
  "ledger_good s \<Longrightarrow> later s (s\<lparr>saved := saved s @ [(next_id s, now s)], next_id := next_id s + 1\<rparr>)"
  by (auto simp: later_def ledger_good_def map_add_def split: option.split)

lemma map_of_filter_less: "map_of (filter (\<lambda>(j, _). j < i) xs) k = (if k < (i :: int) then map_of xs k else None)"
  by (induction xs) auto

lemma ledger_revert_ext:
  assumes "ledger_good s" "later (s\<lparr>saved := saved s @ [(next_id s, now s)], next_id := next_id s + 1\<rparr>) s1"
  shows "\<exists>s2. ledger_revert (next_id s) s1 = Some s2 \<and> now s2 = now s \<and> later s s2"
proof -
  have "map_of (saved s1) (next_id s) = Some (now s)"
    using assms fresh_id[OF assms(1), of "next_id s"] by (simp add: later_def map_add_def)
  moreover have "map_of (saved s1) i = map_of (saved s) i" if "i < next_id s" for i
    using assms(2) that by (simp add: later_def map_add_def split: option.split)
  ultimately show ?thesis using assms
    by (auto simp: ledger_revert_def later_def ledger_good_def map_of_filter_less)
qed

lemma plain_now: "ledger_good s \<Longrightarrow> l_accts (f (now s)) = l_accts (now s) \<Longrightarrow> later s (on_now f s)"
  by (rule on_now_ext) (auto simp: ledger_good_def codes_ok_def)

lemma ledger_world:
  assumes "lib_ok L"
  shows "vm_world (ledger_env X L) later ledger_good id"
proof -
  have U: "U256 (ledger_env X L) = word_uint256" by (simp add: ledger_env_def)
  note defs = ledger_env_def ledger_db_def
  show ?thesis
    unfolding vm_world_def U
  proof (intro conjI wu.uint256_laws_axioms vm_world_axioms.intro, goal_cases)
    case 1 then show ?case by (rule later_refl)
  next
    case 2 then show ?case by (rule later_trans)
  next
    case 3 then show ?case by (simp add: later_def)
  next
    case (11 s a)
    then show ?case using acct_at_code[of s a] by (auto simp: defs ledger_good_def)
  next
    case (15 s c a) then show ?case by (auto simp: defs intro: on_acct_ext)
  next
    case (27 s) then show ?case by (auto simp: defs intro: ledger_snapshot_ext)
  next
    case (28 s s1) then show ?case using ledger_revert_ext[of s s1] by (auto simp: defs)
  next
    case (30 s a b v)
    have "later s (on_acct a (\<lambda>x. x\<lparr>la_balance := la_balance x - v\<rparr>) s)" using 30 by (intro on_acct_same_code) simp_all
    moreover from this have "later (on_acct a (\<lambda>x. x\<lparr>la_balance := la_balance x - v\<rparr>) s)
      (on_acct b (\<lambda>x. x\<lparr>la_balance := la_balance x + v\<rparr>) (on_acct a (\<lambda>x. x\<lparr>la_balance := la_balance x - v\<rparr>) s))"
      by (intro on_acct_same_code) (simp_all add: later_def)
    ultimately show ?case using 30 later_trans by (auto simp: defs later_refl)
  next
    case (32 a p input gas)
    then show ?case using precompiles_run[OF assms, of a p input gas] by (auto simp: defs returns_def gas_cap_def)
  qed (auto simp: defs split: if_splits intro: on_acct_same_code plain_now later_refl)
qed

text \<open>A context with all switches off.\<close>

definition plain_context :: "ledger VmEnv" where
  "plain_context =
    \<lparr>U256 = word_uint256, SDB = ledger_db id,
     SVC = \<lparr>sv_GetMinerIdByAccount = (\<lambda>_ s. (None, s)), sv_GetMinerStake = (\<lambda>_ s. (None, s)), sv_AddStake = (\<lambda>_ _ _ s. (False, s)),
            sv_GetRefundStake = (\<lambda>_ _ _ _ s. (None, s)), sv_AddRefunds = (\<lambda>_ _ s. s)\<rparr>,
     f_CanTransfer = (\<lambda>_ _ s. Some (False, s)), f_Transfer = (\<lambda>_ _ _ s. Some s), f_GetHash = (\<lambda>_. zero_hash),
     f_GetData = (\<lambda>_ _ s. ([], s)), Origin = zero_address, GasPrice = 1, Coinbase = zero_address, GasLimit = 10000000,
     ctx_BlockNumber = 1, Time = 1, Difficulty = 1, chainID = 1, f_Keccak256 = id,
     f_Ecrecover = (\<lambda>_ _. None),
     f_precompile = (\<lambda>_. None),
     f_abort = (\<lambda>_ _. False), CreateWhiteListAddr = zero_address, CreateWhiteListPostion = [], subChain = False,
     p006 = False, p007 = False, p015 = False, p026 = False, jt014 = False, jt022 = False, jt026 = False\<rparr>"

text \<open>Libraries that hash everything to zero, recover no key and know no point.\<close>

definition plain_lib :: "(unit, unit, unit, unit) PreLib" where
  "plain_lib =
    \<lparr>l_Keccak256 = (\<lambda>_. replicate 32 0), l_Ecrecover = (\<lambda>_ _. None), l_sha256 = (\<lambda>_. replicate 32 0), l_ripemd160 = (\<lambda>_. replicate 20 0),
     bn_G1_Unmarshal = (\<lambda>_. None), bn_G1_Marshal = (\<lambda>_. []), bn_G1_Add = (\<lambda>_ _. ()), bn_G1_ScalarMult = (\<lambda>_ _. ()),
     bn_G2_Unmarshal = (\<lambda>_. None), bn_PairingCheck = (\<lambda>_ _. False),
     bls_G1_DecodePoint = (\<lambda>_. None), bls_G1_EncodePoint = (\<lambda>_. []), bls_G1_Add = (\<lambda>_ _. ()), bls_G1_MulScalar = (\<lambda>_ _. ()),
     bls_G1_MultiExp = (\<lambda>_ _. ()), bls_G1_InCorrectSubgroup = (\<lambda>_. False), bls_G1_MapToCurve = (\<lambda>_. None),
     bls_G2_DecodePoint = (\<lambda>_. None), bls_G2_EncodePoint = (\<lambda>_. []), bls_G2_Add = (\<lambda>_ _. ()), bls_G2_MulScalar = (\<lambda>_ _. ()),
     bls_G2_MultiExp = (\<lambda>_ _. ()), bls_G2_InCorrectSubgroup = (\<lambda>_. False), bls_G2_MapToCurve = (\<lambda>_. None), bls_Check = (\<lambda>_. False)\<rparr>"

lemma plain_lib_ok: "lib_ok plain_lib"
  by (simp add: lib_ok_def plain_lib_def)

interpretation ledger: vm_world "ledger_env plain_context plain_lib" later ledger_good id 0
  by (rule ledger_world[OF plain_lib_ok])

lemma no_contract_at_zero: "PrecompiledContracts L zero_address = None"
proof -
  have "zero_address \<noteq> BytesToAddress (replicate 19 0 @ [of_nat i])" if "1 \<le> i" "i < 19" for i
  proof
    assume "zero_address = BytesToAddress (replicate 19 0 @ [of_nat i])"
    then have "replicate 20 0 = replicate 19 (0 :: byte) @ [of_nat i]"
      by (simp add: BytesToAddress_def Address_SetBytes_def zero_address_def AddressLength_def go_copy_same_length)
    from arg_cong[OF this, of last] have "(of_nat i :: byte) = 0" by simp
    then have "unat (of_nat i :: byte) = 0" by simp
    then show False using that by (simp add: unat_of_nat_small)
  qed
  then have "zero_address \<notin> set PrecompiledAddresses" by (auto simp: PrecompiledAddresses_def)
  then have "zero_address \<notin> fst ` set (zip PrecompiledAddresses (precompile_table L))" by (auto dest: set_zip_leftD)
  then show ?thesis by (simp add: PrecompiledContracts_def map_of_eq_None_iff)
qed

definition empty_ledger :: ledger where
  "empty_ledger =
    \<lparr>now = \<lparr>l_accts = Map.empty, l_refund = 0, l_addresses = {}, l_slots = {}, l_transient = (\<lambda>_ _. zero_hash), l_logs = []\<rparr>,
     saved = [], next_id = 0\<rparr>"

lemma empty_ledger_good: "ledger_good empty_ledger"
  by (simp add: ledger_good_def empty_ledger_def codes_ok_def)

end
