(* ===== verification/Vm_Properties.thy ===== *)
theory Vm_Properties
  imports Vm_Ledger
begin

text \<open>
  What the safety proofs say of the EVM as a whole, and where the code falls short.
\<close>

section \<open>Calls return\<close>

definition call_ends :: "('s \<Rightarrow> 's \<Rightarrow> bool) \<Rightarrow> u64 \<Rightarrow> 's Evm \<Rightarrow> (CallResult \<times> 's Evm) option \<Rightarrow> bool" where
  "call_ends ext gas e res =
    (\<exists>r e'. res = Some (r, e') \<and> r_gas r \<le> gas \<and> ext (e_state e) (e_state e')
       \<and> e_depth e' = e_depth e \<and> e_readOnly e' = e_readOnly e)"

lemma call_ends_of_ok:
  assumes "vm_world E ext good code_of" "vm_world.call_result_ok ext code_of gas e res"
  shows "call_ends ext gas e res"
  using assms(2)
  unfolding vm_world.call_result_ok_def[OF assms(1)] vm_world.evm_kept_def[OF assms(1)] call_ends_def by blast



section \<open>Every reachable machine\<close>

inductive reaches :: "'s VmEnv \<Rightarrow> 's JumpTable \<Rightarrow> 's Machine \<Rightarrow> 's Machine \<Rightarrow> bool" for E jt m where
  reaches_refl: "reaches E jt m m"
| reaches_step: "reaches E jt m m1 \<Longrightarrow> step E jt m1 = Some (Continue m2) \<Longrightarrow> reaches E jt m m2"

lemma reaches_ok:
  assumes w: "vm_world E ext good code_of" and jt: "vm_world.table_fit ext good code_of 0 jt"
    and m: "vm_world.machine_ok good code_of 0 m" "unat (pc m) < 2 ^ 62" and cap: "unat (Gas (contract m)) < gas_cap" and r: "reaches E jt m m'"
  shows "vm_world.machine_ok good code_of 0 m' \<and> unat (pc m') < 2 ^ 62 \<and> vm_world.kept ext code_of m m'"
  using r
proof induction
  case reaches_refl
  show ?case using m vm_world.kept_refl[OF w] by blast
next
  case (reaches_step m1 m2)
  have "unat (Gas (contract m1)) < gas_cap" using cap reaches_step.IH by (simp add: vm_world.kept_def[OF w] word_le_nat_alt)
  note ok = vm_world.step_ok[OF w _ _ this jt]
  from reaches_step ok(1) have s: "vm_world.kept ext code_of m1 m2" "vm_world.machine_ok good code_of 0 m2"
    "unat (pc m2) \<le> unat (pc m1) + 256 \<or> unat (pc m2) \<le> length (Code (contract m1))"
    by (auto simp: vm_world.round_ok_def[OF w])
  have "unat (pc m1) < length (Code (contract m1))" using reaches_step ok(2) by blast
  moreover have "length (Code (contract m1)) < 2 ^ 61"
    using reaches_step.IH by (simp add: vm_world.machine_ok_def[OF w] vm_world.contract_ok_def[OF w])
  ultimately show ?case using s reaches_step.IH vm_world.kept_trans[OF w] by fastforce
qed



section \<open>Failed calls\<close>


text \<open>A ledger with an account whose code is the invalid instruction.\<close>

definition failing_ledger :: ledger where
  "failing_ledger = on_acct zero_address (\<lambda>x. x\<lparr>la_code := [0xfe]\<rparr>) empty_ledger"

lemma failing_ledger_good: "ledger_good failing_ledger"
  using on_acct_ext[OF empty_ledger_good, of "\<lambda>x. x\<lparr>la_code := [0xfe]\<rparr>" zero_address]
  by (simp add: failing_ledger_def later_def)


end
