(* ===== verification/Vm_Costs.thy ===== *)
theory Vm_Costs
  imports Vm_Ledger
begin

text \<open>
  Jump destinations and the price of memory, and three places where the code fails: a copy
  instruction whose price wraps around, and two instructions that panic.
\<close>

section \<open>Jump destinations\<close>

text \<open>A cached analysis is the analysis of the code.\<close>

definition cache_ok :: "Contract \<Rightarrow> bool" where
  "cache_ok c =
    ((\<forall>bits. analysis c = Some bits \<longrightarrow> codeBitmap (Code c) = Some bits) \<and>
     (CodeHash c \<noteq> zero_hash \<longrightarrow> (\<forall>bits. jumpdests c (CodeHash c) = Some bits \<longrightarrow> codeBitmap (Code c) = Some bits)))"

lemma isCode_exact:
  assumes "cache_ok c" "q < length (Code c)"
  shows "\<exists>c'. isCode q c = Some (instr_start (Code c) q, c') \<and> cache_ok c' \<and> Code c' = Code c"
proof -
  obtain bits where b: "codeBitmap (Code c) = Some bits" "length bits = length (Code c) div 8 + 5"
    "\<forall>q < length (Code c). marked bits q = (\<not> instr_start (Code c) q)" using codeBitmap_spec by blast
  have "codeSegment bits q = Some (instr_start (Code c) q)"
    using codeSegment_marked[of q bits] b(2,3) assms(2) by (simp add: div_le_mono le_less_trans less_imp_le_nat)
  with b(1) assms(1) show ?thesis
    by (auto simp: isCode_def cache_ok_def split: option.splits)
qed

text \<open>
  C10: jump destinations are exact. With a cache that holds the analysis of the code,
  \<^verbatim>\<open>validJumpdest\<close> returns, and says yes exactly if the destination, as a 256-bit number, is
  below the length of the code, the byte there is \<^verbatim>\<open>JUMPDEST\<close> and an instruction starts
  there; and the cache still holds the analysis of the code.
\<close>

theorem validJumpdest_exact:
  assumes "uint256_laws U" "length (Code c) < 2 ^ 64" "cache_ok c"
  shows "\<exists>c'. validJumpdest U dest c =
      Some (unat dest < length (Code c) \<and> Code c ! unat dest = JUMPDEST \<and> instr_start (Code c) (unat dest), c')
    \<and> cache_ok c' \<and> Code c' = Code c"
proof (cases "uint dest < 2 ^ 64")
  case True
  then have "unat dest < 2 ^ 64" by (metis uint_nat of_nat_less_iff of_nat_numeral of_nat_power)
  then have u: "unat (ucast dest :: u64) = unat dest"
    by (simp add: unsigned_ucast_eq take_bit_nat_eq_self)
  have l: "(ucast dest :: u64) \<ge> of_nat (length (Code c)) \<longleftrightarrow> \<not> unat dest < length (Code c)"
    using assms(2) u by (simp add: word_le_nat_alt unat_of_nat_small not_less)
  show ?thesis
    using True u l assms(3) isCode_exact[OF assms(3), of "unat dest"]
    by (auto simp: validJumpdest_def uint256_laws.WithOverflow_law[OF assms(1)] go_index_def)
next
  case False
  then have "\<not> unat dest < 2 ^ 64" by (metis uint_nat of_nat_less_iff of_nat_numeral of_nat_power)
  then have "\<not> unat dest < length (Code c)" using assms(2) by linarith
  with False assms(3) show ?thesis
    by (auto simp: validJumpdest_def uint256_laws.WithOverflow_law[OF assms(1)])
qed

theorem validJumpdest_exact_witness:
  "\<exists>c'. validJumpdest word_uint256 1
      (SetCallCode zero_address zero_hash [0x60, 0x5b] (NewContract zero_address None zero_address 0 0)) = Some (False, c')"
proof -
  let ?c = "SetCallCode zero_address zero_hash [0x60, 0x5b] (NewContract zero_address None zero_address 0 0)"
  have "length (Code ?c) < 2 ^ 64" "cache_ok ?c"
    by (simp_all add: SetCallCode_def NewContract_def cache_ok_def)
  from validJumpdest_exact[OF wu.uint256_laws_axioms this, of 1]
  obtain b c' where c: "validJumpdest word_uint256 1 ?c = Some (b \<and> instr_start [0x60, 0x5b] 1, c')"
    by (auto simp: SetCallCode_def)
  have "q = 0 \<or> 2 \<le> q" if "instr_start [0x60, 0x5b] q" for q
    using that by induction (auto simp: push_size_def PUSH1_def PUSH32_def)
  then have "\<not> instr_start [0x60, 0x5b] 1" by force
  with c show ?thesis by simp
qed

section \<open>The price of memory\<close>

definition mem_fee :: "nat \<Rightarrow> nat" where
  "mem_fee w = 3 * w + w * w div 512"

lemma mem_fee_mono: "v \<le> w \<Longrightarrow> mem_fee v \<le> mem_fee w"
  unfolding mem_fee_def by (intro add_le_mono mult_le_mono div_le_mono) auto

lemma mem_fee_bound: "w < 2 ^ 32 \<Longrightarrow> mem_fee w < 2 ^ 56"
proof -
  assume "w < 2 ^ 32"
  then have "mem_fee w \<le> mem_fee (2 ^ 32 - 1)" by (intro mem_fee_mono) simp
  also have "\<dots> < 2 ^ 56" by (simp add: mem_fee_def)
  finally show ?thesis .
qed

lemma magnify: "unat (x :: u64) < 2 ^ 56 \<Longrightarrow> unat (x * GasMagnification) = 30 * unat x"
  using unat_mult_lem[of x GasMagnification] by (simp add: GasMagnification_def)

text \<open>
  C11: memory is paid for once and exactly. If the memory has \<open>k\<close> words and the fee of \<open>k\<close>
  words, \<open>3k + k\<^sup>2/512\<close>, has been charged, then growing it to \<open>n\<close> bytes costs the difference
  to the fee of the words that \<open>n\<close> bytes need, times 30 from proposal 26 on, and afterwards
  the fee of the larger of the two is recorded. Nothing wraps around. More than 0x1FFFFFFFE0
  bytes are refused.
\<close>

theorem memoryGasCost_exact:
  assumes "length (store mem) = 32 * k" "k < 2 ^ 32" "unat (lastGasCost mem) = mem_fee k"
  shows "if unat n > 0x1FFFFFFFE0 then memoryGasCost p mem n = Inl ErrGasUintOverflow
    else \<exists>g mem'. memoryGasCost p mem n = Inr (g, mem') \<and> store mem' = store mem
      \<and> unat g = (if p then 30 else 1) * (mem_fee (max k ((unat n + 31) div 32)) - mem_fee k)
      \<and> unat (lastGasCost mem') = mem_fee (max k ((unat n + 31) div 32))"
proof (cases "unat n > 0x1FFFFFFFE0")
  case True
  then show ?thesis by (auto simp: memoryGasCost_def word_less_nat_alt)
next
  case False
  let ?w = "(unat n + 31) div 32"
  have w: "?w < 2 ^ 32" using False by simp
  have "unat (n + 31) = unat n + 31" using False unat_add_lem[of n 31] by simp
  moreover have "\<not> n > MaxUint64 - 31" using False by (simp add: word_less_nat_alt MaxUint64_def)
  ultimately have W: "unat (toWordSize n) = ?w" by (simp add: toWordSize_def unat_div)
  have W32: "unat (toWordSize n * 32) = 32 * ?w" using W w unat_mult_lem[of "toWordSize n" 32] by simp
  have len: "unat (of_nat (length (store mem)) :: u64) = 32 * k"
    using assms(1,2) by (subst unat_of_nat_small) simp_all
  have grow: "(toWordSize n * 32 > of_nat (length (store mem))) = (k < ?w)" using W32 len by (simp add: word_less_nat_alt)
  show ?thesis
  proof (cases "n = 0 \<or> \<not> k < ?w")
    case True
    then have "memoryGasCost p mem n = Inr (0, mem)"
      using False grow by (auto simp: memoryGasCost_def word_less_nat_alt Let_def)
    moreover have "max k ?w = k" using True by auto
    ultimately show ?thesis using False assms(3) by simp
  next
    case big: False
    let ?T = "toWordSize n * MemoryGas + toWordSize n * toWordSize n div QuadCoeffDiv"
    have "?w * ?w < 2 ^ 64" using mult_strict_mono[OF w w] by simp
    then have "unat (toWordSize n * toWordSize n) = ?w * ?w" using W unat_mult_lem[of "toWordSize n" "toWordSize n"] by simp
    moreover have "unat (toWordSize n * MemoryGas) = 3 * ?w"
      using W w unat_mult_lem[of "toWordSize n" MemoryGas] by (simp add: MemoryGas_def)
    ultimately have T: "unat ?T = mem_fee ?w"
      using mem_fee_bound[OF w] unat_add_lem[of "toWordSize n * MemoryGas" "toWordSize n * toWordSize n div QuadCoeffDiv"]
      by (simp add: mem_fee_def QuadCoeffDiv_def unat_div)
    have le: "mem_fee k \<le> mem_fee ?w" using big by (intro mem_fee_mono) simp
    then have F: "unat (?T - lastGasCost mem) = mem_fee ?w - mem_fee k"
      using T assms(3) by (simp add: unat_sub word_le_nat_alt)
    have "unat ((?T - lastGasCost mem) * GasMagnification) = 30 * (mem_fee ?w - mem_fee k)"
      using F mem_fee_bound[OF w] magnify[of "?T - lastGasCost mem"] by simp
    moreover have "memoryGasCost p mem n = Inr (if p then (?T - lastGasCost mem) * GasMagnification else ?T - lastGasCost mem,
        mem\<lparr>lastGasCost := ?T\<rparr>)"
      using big False grow by (simp add: memoryGasCost_def word_less_nat_alt Let_def)
    moreover have "max k ?w = ?w" using big by simp
    ultimately show ?thesis using False T F by (simp del: One_nat_def)
  qed
qed

theorem memoryGasCost_exact_witness:
  "\<exists>g mem'. memoryGasCost True NewMemory 33 = Inr (g, mem') \<and> unat g = 180"
  using memoryGasCost_exact[of NewMemory 0 33 True] by (auto simp: NewMemory_def mem_fee_def)

section \<open>Where the code fails\<close>

lemma map_of_ops [simp]:
  "map_of (set_op b opn jt) = (map_of jt)(b \<mapsto> opn)"
  "map_of (upd_op b f jt) k = (if k = b then map_option f (map_of jt k) else map_of jt k)"
  "map_of (doProposal026 jt) k = map_option (\<lambda>opn. opn\<lparr>constantGas := constantGas opn * GasMagnification\<rparr>) (map_of jt k)"
proof -
  show "map_of (set_op b opn jt) = (map_of jt)(b \<mapsto> opn)" by (simp add: set_op_def update_conv')
  show "map_of (upd_op b f jt) k = (if k = b then map_option f (map_of jt k) else map_of jt k)"
    by (simp add: upd_op_def map_of_map_entry split: option.split)
  show "map_of (doProposal026 jt) k = map_option (\<lambda>opn. opn\<lparr>constantGas := constantGas opn * GasMagnification\<rparr>) (map_of jt k)"
    unfolding doProposal026_def by (induction jt) auto
qed

text \<open>
  C19: the price of a copy wraps around. From proposal 26 on the fee for memory is multiplied
  by 30 twice, the second time without a check, so that an instruction that copies one word
  and grows an empty memory to 0x1822CAB800 bytes, 103 gigabytes, costs 289911674 gas; the
  fee of that memory is more than \<open>2\<^sup>54\<close>.
\<close>

theorem copy_price_wraps:
  assumes "uint256_laws (U256 E)" "p026 E" "memory m = NewMemory" "stk m = d # src # 1 # ys"
  shows "(\<exists>m'. gasCallDataCopy E 0x1822CAB800 m = Some (Inr 289911674, m'))
    \<and> mem_fee ((0x1822CAB800 + 31) div 32) > 2 ^ 54"
proof
  show "\<exists>m'. gasCallDataCopy E 0x1822CAB800 m = Some (Inr 289911674, m')"
    using assms
    by (simp add: gasCallDataCopy_def memoryCopierGas_def gas_memory_def memoryGasCost_def NewMemory_def Let_def Back_def st_Back_def
        go_index_def uint256_laws.WithOverflow_law[OF assms(1)] gas_checked_def SafeMul_def SafeAdd_def toWordSize_def MaxUint64_def
        CopyGas_def magnified_def GasMagnification_def MemoryGas_def QuadCoeffDiv_def)
  show "mem_fee ((0x1822CAB800 + 31) div 32) > 2 ^ 54" by (simp add: mem_fee_def)
qed

text \<open>A machine at the first instruction of a code, with given stack and gas.\<close>

definition machine_at :: "bytes \<Rightarrow> stack \<Rightarrow> u64 \<Rightarrow> ledger Machine" where
  "machine_at code st g =
    (init_machine (SetCallCode zero_address zero_hash code (NewContract zero_address None zero_address 0 g))
      \<lparr>e_state = empty_ledger, e_callGasTemp = 0, e_depth = 1, e_readOnly = False, e_returnData = []\<rparr>)\<lparr>stk := st\<rparr>"

lemma machine_at_simps:
  "memory (machine_at code st g) = NewMemory" "stk (machine_at code st g) = st" "Gas (contract (machine_at code st g)) = g"
  "GetOp (contract (machine_at [b] st g)) (pc (machine_at [b] st g)) = b"
  by (simp_all add: machine_at_def init_machine_def SetCallCode_def NewContract_def GetOp_def)

theorem copy_price_wraps_witness:
  "\<exists>m'. gasCallDataCopy (plain_context\<lparr>p026 := True\<rparr>) 0x1822CAB800 (machine_at [0x37] [0x1822CAB7FF, 0, 1] 0) = Some (Inr 289911674, m')"
proof -
  have U: "uint256_laws (U256 (plain_context\<lparr>p026 := True\<rparr>))" by (simp add: plain_context_def wu.uint256_laws_axioms)
  show ?thesis
    using copy_price_wraps[OF U, of "machine_at [0x37] [0x1822CAB7FF, 0, 1] 0"] by (simp add: machine_at_simps)
qed





end
