(* ===== verification/Spec2Isabelle.thy ===== *)
theory Spec2Isabelle
  imports Rlp_Encode_Correct Rlp_Raw Trie_Correct Utility_Convert Account_Revert Blake2b_Correct Eth_Crypto Tx_Pool_Safe Miner_Store
    Vm_Opcodes Vm_Precompiles_Safe Vm_Properties Vm_Costs
begin

text \<open>
  \<^bold>\<open>Verification of the core of go-rangers\<close>, the node of the Rangers Protocol chain. The
  program keeps the state of its accounts in Merkle Patricia tries over a node database,
  changes it through a journalled account database, and runs contracts on it with an
  Ethereum virtual machine. The theories follow that order; paths are below
  \<^verbatim>\<open>src/src/\<close>.

  \<^bold>\<open>Shared.\<close> \<^verbatim>\<open>Prelude\<close>: bytes, Go slices and their panics, sorting helpers.
  \<^verbatim>\<open>Go_Big\<close>: \<^verbatim>\<open>math/big\<close> integers as bytes. \<^verbatim>\<open>Common_Types\<close>
  (\<^verbatim>\<open>common/types.go, bytes.go\<close>): addresses, hashes and their texts. \<^verbatim>\<open>Utility_Convert\<close>
  (\<^verbatim>\<open>utility/data_convert.go, math.go\<close>): decimal conversion between token units.

  \<^bold>\<open>Encoding.\<close> \<^verbatim>\<open>Rlp_Encode\<close> is the buffered RLP encoder with its deferred list heads
  (\<^verbatim>\<open>storage/rlp/encode.go\<close>), \<^verbatim>\<open>Rlp_Encode_Correct\<close> shows that it writes the RLP of every
  value. \<^verbatim>\<open>Rlp_Raw\<close> is \<^verbatim>\<open>storage/rlp/raw.go\<close>; splitting accepts exactly the canonical
  items and never panics.

  \<^bold>\<open>Tries.\<close> \<^verbatim>\<open>Trie_Encoding\<close> has the key encodings, \<^verbatim>\<open>Trie_Node\<close> the nodes and their
  decoder, \<^verbatim>\<open>Trie_Database\<close> the node database, \<^verbatim>\<open>Trie_Ops\<close> the operations of
  \<^verbatim>\<open>storage/trie/trie.go\<close>. Insertion, lookup and deletion are \<open>partial_function\<close>s into
  option, where \<open>None\<close> is not returning. \<^verbatim>\<open>Trie_Map\<close> and \<^verbatim>\<open>Trie_Correct\<close> show that on a
  trie that represents a map they return and act as on the map, resolving nodes through the
  database.

  \<^bold>\<open>Accounts.\<close> \<^verbatim>\<open>Access_List\<close>, \<^verbatim>\<open>Account_State\<close>, \<^verbatim>\<open>Account_DB\<close> and \<^verbatim>\<open>Account_Journal\<close> are
  \<^verbatim>\<open>storage/account/\<close>: account objects with their caches, the database as a record, its
  operations as state-passing functions, the journal entries and how each is undone.
  \<^verbatim>\<open>Account_View\<close> abstracts a database to what its users see and shows in the locale
  \<open>account_env\<close> that every operation can be undone at that level; \<^verbatim>\<open>Account_Revert\<close>
  interprets the locale on the tries and shows that reverting to a snapshot restores the
  view after any history of calls, nested snapshots and reverts.

  \<^bold>\<open>Transactions.\<close> \<^verbatim>\<open>Chain_Config\<close> (\<^verbatim>\<open>common/version.go, constant_economy.go\<close>) has the
  configurations of the networks with the heights of their forks. \<^verbatim>\<open>Tx_Order\<close>
  (\<^verbatim>\<open>middleware/types/transaction.go\<close>) has transactions, their hash and the order of a block,
  for any sorting routine with the law of the locale \<open>go_sort\<close>. \<^verbatim>\<open>Tx_Pool\<close>
  (\<^verbatim>\<open>service/simple_container.go, transaction_pool.go, middleware/db/\<close>) is the pool with its
  container, its database and its batch, over the laws of the list map in the locale
  \<open>list_map\<close>; \<^verbatim>\<open>Tx_Pool_Safe\<close> shows the invariant of its reachable states, expiry, reading
  back executed transactions, and that a packed block has no gap between nonces.

  \<^bold>\<open>Miners and refunds.\<close> \<^verbatim>\<open>Account_Store\<close> states the account database as a store (locale
  \<open>account_store\<close>, interpreted on the tries): what is read after a write. \<^verbatim>\<open>Utility_Float\<close> has
  money computed through floating-point numbers. \<^verbatim>\<open>Miner_Manager\<close>
  (\<^verbatim>\<open>service/miner_manager.go\<close>) and \<^verbatim>\<open>Refund_Manager\<close> (\<^verbatim>\<open>service/refund_manager.go\<close>) keep miners,
  stakes and refunds in it; \<^verbatim>\<open>Miner_Store\<close> shows that a miner is read back, that a refund takes
  from the stake what it gives, and that recorded refunds add up.

  \<^bold>\<open>Cryptographic parts.\<close> \<^verbatim>\<open>Blake2b\<close> is \<^verbatim>\<open>eth_crypto/blake2b/\<close> with the portable compression
  function; \<^verbatim>\<open>Blake2b_Correct\<close> shows that streaming and one-shot hashing agree with the hash
  of the whole message and that a saved digest can be resumed. \<^verbatim>\<open>Eth_Crypto\<close>
  (\<^verbatim>\<open>eth_crypto/crypto.go\<close>) has the check of signature values and the addresses of new
  contracts.

  \<^bold>\<open>The virtual machine.\<close> \<^verbatim>\<open>Vm_Uint256\<close> is the interface to the 256-bit integers, with
  the laws the code relies on as the locale \<open>uint256_laws\<close>, interpreted on 256-bit words.
  \<^verbatim>\<open>Vm_Base\<close> has stack, memory, memory sizes and call gas, \<^verbatim>\<open>Vm_Analysis\<close> the jump
  analysis, \<^verbatim>\<open>Vm_State\<close> the state interface as a record of functions, contracts and the
  machine, \<^verbatim>\<open>Vm_Gas\<close> the gas functions, \<^verbatim>\<open>Vm_Instr\<close> the instructions, \<^verbatim>\<open>Vm_Opcodes\<close> and
  \<^verbatim>\<open>Vm_Table\<close> the opcodes, their names and the instruction table with its changes by the
  proposals, \<^verbatim>\<open>Vm_Interp\<close> the loop of the interpreter and \<^verbatim>\<open>Vm_EVM\<close> the message calls
  (all \<^verbatim>\<open>vm/\<close>). \<^verbatim>\<open>Vm_Precompiles\<close> has the precompiled contracts with their prices over a
  record of the curve and hash libraries; \<^verbatim>\<open>Vm_Precompiles_Safe\<close> shows that they return, that
  \<^verbatim>\<open>bigModExp\<close> is exact, and with which gas it panics. \<open>None\<close> is a panic throughout. The loop has fuel \<open>loop_fuel\<close>, gas times code
  length, and calls nest to \<open>CallCreateDepth + 2\<close>; both are shown to be enough.

  \<^verbatim>\<open>Vm_World\<close> states in the locale \<open>vm_world\<close> what the machine expects of the state:
  operations return, snapshots stay revertible, code belongs to its hash, which is read as
  injective, and precompiled contracts called with less than \<open>2 ^ 58\<close> gas return. Inside it \<^verbatim>\<open>Vm_Exec_Safe\<close>, \<^verbatim>\<open>Vm_Call_Safe\<close> and \<^verbatim>\<open>Vm_Gas_Safe\<close> give every
  instruction and gas function a contract (operands present, memory granted, gas paid for
  what is handed back), \<^verbatim>\<open>Vm_Run_Safe\<close> checks the table against them, \<^verbatim>\<open>Vm_Loop_Safe\<close>
  proves the loop total and \<^verbatim>\<open>Vm_EVM_Safe\<close> the calls. \<^verbatim>\<open>Vm_Ledger\<close> is the abstract
  specification of the state interface, a ledger with saved copies, and interprets the
  locale with the precompiled contracts of the model. \<^verbatim>\<open>Vm_Properties\<close> and \<^verbatim>\<open>Vm_Costs\<close> state the results: calls return within their
  gas, the machine keeps its bounds, failed calls leave no trace, jump destinations and
  memory prices are exact, and three ways in which instructions introduced by later proposals
  fail.

  \<^bold>\<open>Parameters.\<close> Hash functions, signature recovery, 256-bit arithmetic, the disk and the
  elliptic curve packages are arguments of the definitions, with the behaviour relied on as
  hypotheses.

  \<^bold>\<open>Not modelled.\<close> The trie hasher and its iterators, garbage collection of trie nodes, the
  RLP stream decoder, consensus, networking, the block and group chains,
  transaction execution, the computation of rewards and JSON-RPC. Locks are left out: the modelled components are used by one
  goroutine at a time.
\<close>

end
